(* ===== verification/Prelude.thy ===== *)
theory Prelude imports Main "HOL-Library.AList" begin

text \<open>
  Shared vocabulary of the development: effectful programs as functions of an explicit
  world that end in an error or a value, the combinators that \<open>await\<close>, \<open>try/catch\<close> and
  \<open>for ... of\<close> translate to, and the \<open>frame\<close> interface, which lets a component prove
  once, for a reflexive and transitive relation between worlds, that a program built from
  those combinators stays inside that relation.  Generic facts on lists and maps follow.
\<close>

section \<open>Effectful programs\<close>

text \<open>
  An \<open>async\<close> function of the source is a function of the world it runs in.  It ends with an
  exception (\<open>Inl\<close>) or a value (\<open>Inr\<close>) and leaves a new world; effects performed before an
  exception stay performed.
\<close>

type_synonym ('e, 'w, 'a) io = "'w \<Rightarrow> ('e + 'a) \<times> 'w"

named_theorems io_simps "unfolding rules of the effect combinators"

definition ret :: "'a \<Rightarrow> ('e, 'w, 'a) io" where
  "ret a = (\<lambda>w. (Inr a, w))"

definition throw :: "'e \<Rightarrow> ('e, 'w, 'a) io" where
  "throw e = (\<lambda>w. (Inl e, w))"

definition bindM :: "('e, 'w, 'a) io \<Rightarrow> ('a \<Rightarrow> ('e, 'w, 'b) io) \<Rightarrow> ('e, 'w, 'b) io" where
  "bindM m f = (\<lambda>w. case m w of (Inl e, w') \<Rightarrow> (Inl e, w') | (Inr a, w') \<Rightarrow> f a w')"

definition thenM :: "('e, 'w, 'a) io \<Rightarrow> ('e, 'w, 'b) io \<Rightarrow> ('e, 'w, 'b) io" where
  "thenM m k = bindM m (\<lambda>_. k)"

definition catchM :: "('e, 'w, 'a) io \<Rightarrow> ('e \<Rightarrow> ('e, 'w, 'a) io) \<Rightarrow> ('e, 'w, 'a) io" where
  "catchM m h = (\<lambda>w. case m w of (Inl e, w') \<Rightarrow> h e w' | (Inr a, w') \<Rightarrow> (Inr a, w'))"

definition liftE :: "'e + 'a \<Rightarrow> ('e, 'w, 'a) io" where
  "liftE r = (\<lambda>w. (r, w))"

definition getsM :: "('w \<Rightarrow> 'a) \<Rightarrow> ('e, 'w, 'a) io" where
  "getsM f = (\<lambda>w. (Inr (f w), w))"

definition modifyM :: "('w \<Rightarrow> 'w) \<Rightarrow> ('e, 'w, unit) io" where
  "modifyM f = (\<lambda>w. (Inr (), f w))"

definition whenM :: "bool \<Rightarrow> ('e, 'w, unit) io \<Rightarrow> ('e, 'w, unit) io" where
  "whenM b m = (if b then m else ret ())"

primrec forM :: "'a list \<Rightarrow> ('a \<Rightarrow> ('e, 'w, unit) io) \<Rightarrow> ('e, 'w, unit) io" where
  "forM [] f = ret ()"
| "forM (x # xs) f = thenM (f x) (forM xs f)"

primrec mapM :: "('a \<Rightarrow> ('e, 'w, 'b) io) \<Rightarrow> 'a list \<Rightarrow> ('e, 'w, 'b list) io" where
  "mapM f [] = ret []"
| "mapM f (x # xs) = bindM (f x) (\<lambda>y. bindM (mapM f xs) (\<lambda>ys. ret (y # ys)))"

lemmas io_defs = ret_def throw_def bindM_def thenM_def catchM_def liftE_def getsM_def
  modifyM_def whenM_def

lemma ret_app [io_simps]: "ret a w = (Inr a, w)"
  by (simp add: ret_def)

lemma throw_app [io_simps]: "throw e w = (Inl e, w)"
  by (simp add: throw_def)

lemma liftE_app [io_simps]: "liftE r w = (r, w)"
  by (simp add: liftE_def)

lemma getsM_app [io_simps]: "getsM f w = (Inr (f w), w)"
  by (simp add: getsM_def)

lemma modifyM_app [io_simps]: "modifyM f w = (Inr (), f w)"
  by (simp add: modifyM_def)

lemma bindM_app [io_simps]:
  "bindM m f w = (case m w of (Inl e, w') \<Rightarrow> (Inl e, w') | (Inr a, w') \<Rightarrow> f a w')"
  by (simp add: bindM_def)

lemma thenM_app [io_simps]:
  "thenM m k w = (case m w of (Inl e, w') \<Rightarrow> (Inl e, w') | (Inr a, w') \<Rightarrow> k w')"
  by (simp add: thenM_def bindM_def)

lemma catchM_app [io_simps]:
  "catchM m h w = (case m w of (Inl e, w') \<Rightarrow> h e w' | (Inr a, w') \<Rightarrow> (Inr a, w'))"
  by (simp add: catchM_def)

lemma whenM_app [io_simps]: "whenM b m w = (if b then m w else (Inr (), w))"
  by (simp add: whenM_def ret_def)

lemma bindM_eq_Inr:
  "bindM m f w = (Inr b, w'') \<longleftrightarrow> (\<exists>a w'. m w = (Inr a, w') \<and> f a w' = (Inr b, w''))"
  by (auto simp: bindM_def split: prod.splits sum.splits)

lemma thenM_eq_Inr:
  "thenM m k w = (Inr b, w'') \<longleftrightarrow> (\<exists>a w'. m w = (Inr a, w') \<and> k w' = (Inr b, w''))"
  by (auto simp: thenM_def bindM_eq_Inr)

lemmas io_eq_Inr = bindM_eq_Inr thenM_eq_Inr

lemma bindM_assoc: "bindM (bindM m f) g = bindM m (\<lambda>x. bindM (f x) g)"
  by (auto simp: bindM_def fun_eq_iff split: prod.splits sum.splits)

lemma bindM_ret [simp]: "bindM (ret a) f = f a" "bindM m ret = m"
  by (auto simp: bindM_def ret_def fun_eq_iff split: prod.splits sum.splits)

section \<open>Frames\<close>

text \<open>
  \<open>evolves R m\<close>: every run of \<open>m\<close>, failed or not, leaves a world that \<open>R\<close> relates to
  the world it started in.
\<close>

definition evolves :: "('w \<Rightarrow> 'w \<Rightarrow> bool) \<Rightarrow> ('e, 'w, 'a) io \<Rightarrow> bool" where
  "evolves R m \<longleftrightarrow> (\<forall>w. R w (snd (m w)))"

lemma evolvesI: "(\<And>w. R w (snd (m w))) \<Longrightarrow> evolves R m"
  by (simp add: evolves_def)

lemma evolvesD: "evolves R m \<Longrightarrow> R w (snd (m w))"
  by (simp add: evolves_def)

lemma evolves_result: "evolves R m \<Longrightarrow> m w = (r, w') \<Longrightarrow> R w w'"
  by (metis evolvesD snd_conv)

locale frame =
  fixes R :: "'w \<Rightarrow> 'w \<Rightarrow> bool"
  assumes R_refl: "R w w"
    and R_trans: "R w w' \<Longrightarrow> R w' w'' \<Longrightarrow> R w w''"
begin

lemma ret_evolves: "evolves R (ret a)"
  by (simp add: evolves_def ret_def R_refl)

lemma throw_evolves: "evolves R (throw e)"
  by (simp add: evolves_def throw_def R_refl)

lemma liftE_evolves: "evolves R (liftE r)"
  by (simp add: evolves_def liftE_def R_refl)

lemma getsM_evolves: "evolves R (getsM f)"
  by (simp add: evolves_def getsM_def R_refl)

lemma modifyM_evolves: "(\<And>w. R w (f w)) \<Longrightarrow> evolves R (modifyM f)"
  by (simp add: evolves_def modifyM_def)

lemma bindM_evolves: "evolves R m \<Longrightarrow> (\<And>a. evolves R (f a)) \<Longrightarrow> evolves R (bindM m f)"
  unfolding evolves_def bindM_def
  by (auto split: prod.splits sum.splits) (metis snd_conv R_trans)+

lemma thenM_evolves: "evolves R m \<Longrightarrow> evolves R k \<Longrightarrow> evolves R (thenM m k)"
  by (simp add: thenM_def bindM_evolves)

lemma catchM_evolves: "evolves R m \<Longrightarrow> (\<And>e. evolves R (h e)) \<Longrightarrow> evolves R (catchM m h)"
  unfolding evolves_def catchM_def
  by (auto split: prod.splits sum.splits) (metis snd_conv R_trans)+

lemma whenM_evolves: "evolves R m \<Longrightarrow> evolves R (whenM b m)"
  by (simp add: whenM_def ret_evolves)

lemma forM_evolves: "(\<And>x. x \<in> set xs \<Longrightarrow> evolves R (f x)) \<Longrightarrow> evolves R (forM xs f)"
  by (induction xs) (auto simp: ret_evolves thenM_evolves)

lemma mapM_evolves: "(\<And>x. x \<in> set xs \<Longrightarrow> evolves R (f x)) \<Longrightarrow> evolves R (mapM f xs)"
  by (induction xs) (auto simp: ret_evolves bindM_evolves)

lemma if_evolves: "(b \<Longrightarrow> evolves R m) \<Longrightarrow> (\<not> b \<Longrightarrow> evolves R k) \<Longrightarrow> evolves R (if b then m else k)"
  by simp

lemma option_evolves:
  "evolves R m \<Longrightarrow> (\<And>x. evolves R (k x)) \<Longrightarrow> evolves R (case v of None \<Rightarrow> m | Some x \<Rightarrow> k x)"
  by (simp split: option.split)

lemma Let_evolves: "(\<And>x. evolves R (f x)) \<Longrightarrow> evolves R (let x = v in f x)"
  by simp

lemmas evolves_rules = ret_evolves throw_evolves liftE_evolves getsM_evolves bindM_evolves
  thenM_evolves catchM_evolves whenM_evolves forM_evolves mapM_evolves if_evolves
  option_evolves Let_evolves

end

text \<open>An invariant is the frame "if it held, it still holds".\<close>

definition kept :: "('w \<Rightarrow> bool) \<Rightarrow> 'w \<Rightarrow> 'w \<Rightarrow> bool" where
  "kept I w w' \<longleftrightarrow> (I w \<longrightarrow> I w')"

interpretation kept: frame "kept I"
  by unfold_locales (auto simp: kept_def)

text \<open>A projection of the world that a program leaves alone.\<close>

definition same :: "('w \<Rightarrow> 'p) \<Rightarrow> 'w \<Rightarrow> 'w \<Rightarrow> bool" where
  "same p w w' \<longleftrightarrow> p w' = p w"

interpretation same: frame "same p"
  by unfold_locales (auto simp: same_def)

lemma evolves_kept: "evolves (kept I) m \<Longrightarrow> I w \<Longrightarrow> I (snd (m w))"
  by (auto simp: evolves_def kept_def)

lemma evolves_same: "evolves (same p) m \<Longrightarrow> p (snd (m w)) = p w"
  by (auto simp: evolves_def same_def)

lemma bindM_after:
  "p (snd (m w)) = x \<Longrightarrow> (\<And>a. evolves (same p) (k a)) \<Longrightarrow> p (snd (bindM m k w)) = x"
  by (auto simp: bindM_def evolves_same split: prod.splits sum.splits)

section \<open>Histories\<close>

text \<open>Some event of a run from \<open>s\<close> satisfied \<open>P\<close> in the state it met.\<close>

definition happened :: "('e \<Rightarrow> 's \<Rightarrow> 's) \<Rightarrow> ('e \<Rightarrow> 's \<Rightarrow> bool) \<Rightarrow> 's \<Rightarrow> 'e list \<Rightarrow> bool" where
  "happened step P s evs \<longleftrightarrow> (\<exists>pre ev post. evs = pre @ ev # post \<and> P ev (fold step pre s))"

lemma happened_old: "happened step P s evs \<Longrightarrow> happened step P s (evs @ [ev])"
  unfolding happened_def by (metis append.assoc append_Cons)

lemma happened_now: "P ev (fold step evs s) \<Longrightarrow> happened step P s (evs @ [ev])"
  unfolding happened_def by blast

section \<open>Optional values\<close>

text \<open>\<open>v ?? d\<close> on a value that is either present or absent.\<close>

definition or_else :: "'a option \<Rightarrow> 'a \<Rightarrow> 'a" where
  "or_else v d = (case v of None \<Rightarrow> d | Some x \<Rightarrow> x)"

lemma or_else_simps [simp]: "or_else None d = d" "or_else (Some x) d = x"
  by (simp_all add: or_else_def)

section \<open>Association lists read as objects\<close>

text \<open>\<open>Object.entries\<close> order is the list's order; a later duplicate never occurs because every
  object literal of the source names its keys once or overrides in place.\<close>

definition set_key :: "'k \<Rightarrow> 'v \<Rightarrow> ('k \<times> 'v) list \<Rightarrow> ('k \<times> 'v) list" where
  "set_key k v kvs = AList.update k v kvs"

lemma map_of_set_key [simp]: "map_of (set_key k v kvs) = (map_of kvs)(k \<mapsto> v)"
  by (simp add: set_key_def update_conv')

lemma distinct_set_key: "distinct (map fst kvs) \<Longrightarrow> distinct (map fst (set_key k v kvs))"
  by (simp add: set_key_def distinct_update)

lemma keys_set_key: "fst ` set (set_key k v kvs) = insert k (fst ` set kvs)"
  by (simp add: set_key_def dom_update)

definition spread :: "('k \<times> 'v) list \<Rightarrow> ('k \<times> 'v) list \<Rightarrow> ('k \<times> 'v) list" where
  "spread base over = fold (\<lambda>(k, v). set_key k v) over base"

lemma map_of_spread: "map_of (spread base over) = map_of base ++ map_of (rev over)"
proof (induction over arbitrary: base)
  case Nil
  then show ?case by (simp add: spread_def)
next
  case (Cons kv over)
  obtain k v where kv: "kv = (k, v)" by fastforce
  have "map_of (spread base (kv # over)) = map_of (spread (set_key k v base) over)"
    by (simp add: spread_def kv)
  also have "\<dots> = (map_of base)(k \<mapsto> v) ++ map_of (rev over)"
    by (simp add: Cons.IH fun_upd_def)
  finally show ?case
    by (simp add: kv map_add_def fun_eq_iff split: option.split)
qed

lemma keys_spread: "fst ` set (spread base over) = fst ` set base \<union> fst ` set over"
proof (induction over arbitrary: base)
  case Nil
  then show ?case by (simp add: spread_def)
next
  case (Cons kv over)
  have "spread base (kv # over) = spread (set_key (fst kv) (snd kv) base) over"
    by (simp add: spread_def split_beta)
  then show ?case by (simp add: Cons.IH keys_set_key)
qed

section \<open>Lists read as sets\<close>

text \<open>\<open>[...new Set(xs)]\<close>: each element once, in the order of first occurrence.\<close>

definition js_set :: "'a list \<Rightarrow> 'a list" where
  "js_set xs = rev (remdups (rev xs))"

lemma set_js_set [simp]: "set (js_set xs) = set xs"
  by (simp add: js_set_def)

lemma distinct_js_set [simp]: "distinct (js_set xs)"
  by (simp add: js_set_def)

end
