(* ===== verification/JS_Numbers.thy ===== *)
theory JS_Numbers imports Prelude Complex_Main "HOL-Library.Log_Nat" begin

text \<open>
  The numbers of the source language: decimal text, \<open>BigInt(text)\<close>, IEEE-754 doubles
  (\<open>number\<close>) with round-to-nearest-even, \<open>Number(text)\<close> and \<open>String(number)\<close>.
  A finite double is the rational it denotes; the two zeros are one value, which no code of
  the program tells apart.  Text is a list of characters below code point 128.
\<close>

section \<open>Decimal text\<close>

definition digit_char :: "nat \<Rightarrow> char" where
  "digit_char d = char_of (48 + d)"

definition is_digit :: "char \<Rightarrow> bool" where
  "is_digit c \<longleftrightarrow> 48 \<le> (of_char c :: nat) \<and> (of_char c :: nat) \<le> 57"

definition digit_val :: "char \<Rightarrow> nat" where
  "digit_val c = of_char c - 48"

fun nat_str :: "nat \<Rightarrow> string" where
  "nat_str n = (if n < 10 then [digit_char n] else nat_str (n div 10) @ [digit_char (n mod 10)])"

declare nat_str.simps [simp del]

definition int_str :: "int \<Rightarrow> string" where
  "int_str i = (if i < 0 then CHR ''-'' # nat_str (nat (- i)) else nat_str (nat i))"

definition digits_val :: "string \<Rightarrow> nat" where
  "digits_val cs = foldl (\<lambda>acc c. 10 * acc + digit_val c) 0 cs"

definition all_digits :: "string \<Rightarrow> bool" where
  "all_digits cs \<longleftrightarrow> cs \<noteq> [] \<and> list_all is_digit cs"

lemma is_digit_digit_char [simp]: "d < 10 \<Longrightarrow> is_digit (digit_char d)"
  by (simp add: is_digit_def digit_char_def)

lemma digit_val_digit_char [simp]: "d < 10 \<Longrightarrow> digit_val (digit_char d) = d"
  by (simp add: digit_val_def digit_char_def)

lemma digits_val_snoc [simp]: "digits_val (cs @ [c]) = 10 * digits_val cs + digit_val c"
  by (simp add: digits_val_def)

lemma digits_val_Nil [simp]: "digits_val [] = 0"
  by (simp add: digits_val_def)

lemma digits_val_nat_str [simp]: "digits_val (nat_str n) = n"
proof (induction n rule: nat_str.induct)
  case (1 n)
  then show ?case
    by (subst nat_str.simps) (auto simp: digits_val_def)
qed

lemma nat_str_digits: "list_all is_digit (nat_str n)"
proof (induction n rule: nat_str.induct)
  case (1 n)
  then show ?case by (subst nat_str.simps) auto
qed

lemma nat_str_nonempty [simp]: "nat_str n \<noteq> []"
  by (subst nat_str.simps) simp

lemma all_digits_nat_str [simp]: "all_digits (nat_str n)"
  by (simp add: all_digits_def nat_str_digits)

lemma nat_str_inject [simp]: "nat_str m = nat_str n \<longleftrightarrow> m = n"
  by (metis digits_val_nat_str)

lemma length_nat_str: "n < 10 ^ Suc k \<Longrightarrow> length (nat_str n) \<le> Suc k"
proof (induction k arbitrary: n)
  case 0
  then show ?case by (subst nat_str.simps) simp
next
  case (Suc k)
  then have "n div 10 < 10 ^ Suc k" by auto
  then show ?case using Suc.IH [of "n div 10"] by (subst nat_str.simps) auto
qed

lemma digits_val_foldl:
  "foldl (\<lambda>acc c. 10 * acc + digit_val c) a cs = a * 10 ^ length cs + digits_val cs"
proof (induction cs rule: rev_induct)
  case Nil
  then show ?case by simp
next
  case (snoc c cs)
  then show ?case by (simp add: algebra_simps)
qed

lemma digits_val_append: "digits_val (xs @ ys) = digits_val xs * 10 ^ length ys + digits_val ys"
proof (induction ys rule: rev_induct)
  case Nil
  then show ?case by simp
next
  case (snoc y ys)
  then show ?case by (simp add: algebra_simps flip: append_assoc)
qed

lemma digits_val_zeros [simp]: "digits_val (replicate n (CHR ''0'')) = 0"
proof (induction n)
  case 0
  then show ?case by simp
next
  case (Suc n)
  have "replicate (Suc n) (CHR ''0'') = replicate n (CHR ''0'') @ [CHR ''0'']"
    by (simp add: replicate_append_same)
  with Suc show ?case by (simp only: digits_val_snoc) (simp add: digit_val_def)
qed

lemma digits_val_less: "list_all is_digit cs \<Longrightarrow> digits_val cs < 10 ^ length cs"
proof (induction cs rule: rev_induct)
  case Nil
  then show ?case by simp
next
  case (snoc c cs)
  then have "digits_val cs < 10 ^ length cs" "digit_val c \<le> 9"
    by (auto simp: is_digit_def digit_val_def)
  then show ?case by simp
qed

section \<open>BigInt(text)\<close>

definition is_space :: "char \<Rightarrow> bool" where
  "is_space c \<longleftrightarrow> (of_char c :: nat) \<in> {9, 10, 11, 12, 13, 32}"

definition js_trim :: "string \<Rightarrow> string" where
  "js_trim s = rev (dropWhile is_space (rev (dropWhile is_space s)))"

definition radix_val :: "nat \<Rightarrow> char \<Rightarrow> nat option" where
  "radix_val r c = (let n = of_char c;
      v = (if 48 \<le> n \<and> n \<le> 57 then n - 48 else if 97 \<le> n \<and> n \<le> 122 then n - 87
           else if 65 \<le> n \<and> n \<le> 90 then n - 55 else r)
    in if v < r then Some v else None)"

definition parse_radix :: "nat \<Rightarrow> string \<Rightarrow> nat option" where
  "parse_radix r cs = (if cs = [] then None else
     foldl (\<lambda>acc c. case (acc, radix_val r c) of (Some a, Some v) \<Rightarrow> Some (r * a + v) | _ \<Rightarrow> None)
       (Some 0) cs)"

definition prefixed :: "string \<Rightarrow> nat option" where
  "prefixed s = (case s of
     c0 # c1 # cs \<Rightarrow>
       (if c0 \<noteq> CHR ''0'' then None
        else if c1 = CHR ''x'' \<or> c1 = CHR ''X'' then parse_radix 16 cs
        else if c1 = CHR ''o'' \<or> c1 = CHR ''O'' then parse_radix 8 cs
        else if c1 = CHR ''b'' \<or> c1 = CHR ''B'' then parse_radix 2 cs
        else None)
   | _ \<Rightarrow> None)"

text \<open>\<open>None\<close> stands for the \<open>SyntaxError\<close> that \<open>BigInt\<close> throws on any other text.\<close>

definition js_BigInt_of_string :: "string \<Rightarrow> int option" where
  "js_BigInt_of_string s = (let t = js_trim s in
     if t = [] then Some 0
     else if all_digits t then Some (int (digits_val t))
     else if hd t = CHR ''-'' \<and> all_digits (tl t) then Some (- int (digits_val (tl t)))
     else if hd t = CHR ''+'' \<and> all_digits (tl t) then Some (int (digits_val (tl t)))
     else map_option int (prefixed t))"

lemma is_digit_not_space: "is_digit c \<Longrightarrow> \<not> is_space c"
  by (auto simp: is_digit_def is_space_def)

lemma dropWhile_no_space: "list_all (\<lambda>c. \<not> is_space c) s \<Longrightarrow> dropWhile is_space s = s"
  by (cases s) auto

lemma js_trim_no_space: "list_all (\<lambda>c. \<not> is_space c) s \<Longrightarrow> js_trim s = s"
  by (simp add: js_trim_def dropWhile_no_space)

lemma js_trim_digits: "list_all is_digit s \<Longrightarrow> js_trim s = s"
  by (rule js_trim_no_space) (auto simp: list_all_iff is_digit_not_space)

lemma nat_str_is_digit: "c \<in> set (nat_str n) \<Longrightarrow> is_digit c"
  using nat_str_digits by (auto simp: list_all_iff)

lemma int_str_no_space: "c \<in> set (int_str i) \<Longrightarrow> \<not> is_space c"
  by (auto simp: int_str_def is_space_def is_digit_def split: if_splits dest!: nat_str_is_digit)

lemma js_trim_int_str [simp]: "js_trim (int_str i) = int_str i"
  by (rule js_trim_no_space) (auto simp: list_all_iff int_str_no_space)

lemma all_digits_minus [simp]: "\<not> all_digits (CHR ''-'' # cs)"
  by (simp add: all_digits_def is_digit_def)

lemma BigInt_int_str [simp]: "js_BigInt_of_string (int_str i) = Some i"
  unfolding js_BigInt_of_string_def Let_def js_trim_int_str
  by (auto simp: int_str_def)

lemma BigInt_digits: "all_digits s \<Longrightarrow> js_BigInt_of_string s = Some (int (digits_val s))"
  by (auto simp: js_BigInt_of_string_def Let_def js_trim_digits all_digits_def)

lemma int_str_nonempty [simp]: "int_str i \<noteq> []"
  by (simp add: int_str_def)

lemma int_str_inject [simp]: "int_str i = int_str j \<longleftrightarrow> i = j"
  by (metis BigInt_int_str option.inject)

text \<open>Division of BigInts truncates towards zero; the remainder has the dividend's sign.\<close>

definition big_div :: "int \<Rightarrow> int \<Rightarrow> int" where
  "big_div a b = sgn a * sgn b * (\<bar>a\<bar> div \<bar>b\<bar>)"

definition big_mod :: "int \<Rightarrow> int \<Rightarrow> int" where
  "big_mod a b = a - b * big_div a b"

lemma big_div_nonneg: "0 \<le> a \<Longrightarrow> 0 < b \<Longrightarrow> big_div a b = a div b"
  by (auto simp: big_div_def sgn_if)

lemma big_mod_nonneg: "0 \<le> a \<Longrightarrow> 0 < b \<Longrightarrow> big_mod a b = a mod b"
  by (simp add: big_mod_def big_div_nonneg minus_mult_div_eq_mod)

section \<open>Doubles\<close>

datatype js_num = NaN | Infty bool | Fin rat

text \<open>\<open>Infty True\<close> is the positive infinity.  Rounding to the nearest integer, ties to even:\<close>

definition rne :: "rat \<Rightarrow> int" where
  "rne q = (let f = \<lfloor>q\<rfloor>; d = q - of_int f in
     if d < 1 / 2 then f else if 1 / 2 < d then f + 1 else if even f then f else f + 1)"

definition pow2 :: "int \<Rightarrow> rat" where
  "pow2 e = (if 0 \<le> e then 2 ^ nat e else 1 / 2 ^ nat (- e))"

text \<open>The exponent of a positive rational: \<open>pow2 (ilog2 q) \<le> q < pow2 (ilog2 q + 1)\<close>.\<close>

definition ilog2 :: "rat \<Rightarrow> int" where
  "ilog2 q = (if 1 \<le> q then bitlen \<lfloor>q\<rfloor> - 1 else - bitlen (\<lceil>1 / q\<rceil> - 1))"

text \<open>Round to binary64: 53 significant bits, least exponent \<open>-1074\<close>, overflow at \<open>2^1024\<close>.\<close>

definition fround :: "rat \<Rightarrow> js_num" where
  "fround q = (if q = 0 then Fin 0 else
     let e = max (ilog2 \<bar>q\<bar> - 52) (- 1074);
         v = of_int (rne (\<bar>q\<bar> / pow2 e)) * pow2 e
     in if 2 ^ 1024 \<le> v then Infty (0 < q) else Fin (if 0 < q then v else - v))"

definition num_of_int :: "int \<Rightarrow> js_num" where
  "num_of_int i = fround (of_int i)"

definition js_is_integer :: "js_num \<Rightarrow> bool" where
  "js_is_integer n = (case n of Fin q \<Rightarrow> of_int \<lfloor>q\<rfloor> = q | _ \<Rightarrow> False)"

definition max_safe :: int where
  "max_safe = 9007199254740991"

definition js_isSafeInteger :: "js_num \<Rightarrow> bool" where
  "js_isSafeInteger n = (case n of Fin q \<Rightarrow> of_int \<lfloor>q\<rfloor> = q \<and> \<bar>\<lfloor>q\<rfloor>\<bar> \<le> max_safe | _ \<Rightarrow> False)"

definition num_truthy :: "js_num \<Rightarrow> bool" where
  "num_truthy n = (case n of NaN \<Rightarrow> False | Infty _ \<Rightarrow> True | Fin q \<Rightarrow> q \<noteq> 0)"

fun js_neg :: "js_num \<Rightarrow> js_num" where
  "js_neg NaN = NaN"
| "js_neg (Infty s) = Infty (\<not> s)"
| "js_neg (Fin q) = Fin (- q)"

fun js_add :: "js_num \<Rightarrow> js_num \<Rightarrow> js_num" where
  "js_add (Fin a) (Fin b) = fround (a + b)"
| "js_add NaN _ = NaN"
| "js_add _ NaN = NaN"
| "js_add (Infty s) (Infty t) = (if s = t then Infty s else NaN)"
| "js_add (Infty s) (Fin _) = Infty s"
| "js_add (Fin _) (Infty s) = Infty s"

fun js_mul :: "js_num \<Rightarrow> js_num \<Rightarrow> js_num" where
  "js_mul (Fin a) (Fin b) = fround (a * b)"
| "js_mul NaN _ = NaN"
| "js_mul _ NaN = NaN"
| "js_mul (Infty s) (Infty t) = Infty (s = t)"
| "js_mul (Infty s) (Fin b) = (if b = 0 then NaN else Infty (s = (0 < b)))"
| "js_mul (Fin b) (Infty s) = (if b = 0 then NaN else Infty (s = (0 < b)))"

text \<open>Division by zero takes the zero to be positive.\<close>

fun js_div :: "js_num \<Rightarrow> js_num \<Rightarrow> js_num" where
  "js_div (Fin a) (Fin b) = (if b \<noteq> 0 then fround (a / b) else if a = 0 then NaN else Infty (0 < a))"
| "js_div NaN _ = NaN"
| "js_div _ NaN = NaN"
| "js_div (Infty _) (Infty _) = NaN"
| "js_div (Infty s) (Fin b) = Infty (s = (0 \<le> b))"
| "js_div (Fin _) (Infty _) = Fin 0"

fun js_lt :: "js_num \<Rightarrow> js_num \<Rightarrow> bool" where
  "js_lt (Fin a) (Fin b) = (a < b)"
| "js_lt NaN _ = False"
| "js_lt _ NaN = False"
| "js_lt (Infty s) (Infty t) = (\<not> s \<and> t)"
| "js_lt (Infty s) (Fin _) = (\<not> s)"
| "js_lt (Fin _) (Infty s) = s"

definition js_num_eq :: "js_num \<Rightarrow> js_num \<Rightarrow> bool" where
  "js_num_eq a b \<longleftrightarrow> a \<noteq> NaN \<and> a = b"

definition js_le :: "js_num \<Rightarrow> js_num \<Rightarrow> bool" where
  "js_le a b \<longleftrightarrow> js_lt a b \<or> js_num_eq a b"

lemma rne_of_int [simp]: "rne (of_int n) = n"
  by (simp add: rne_def)

lemma pow2_pos [simp]: "0 < pow2 e"
  by (simp add: pow2_def)

lemma ilog2_of_int: "0 < n \<Longrightarrow> ilog2 (of_int n) = bitlen n - 1"
  by (simp add: ilog2_def)

lemma bitlen_le: "0 < n \<Longrightarrow> n < 2 ^ k \<Longrightarrow> bitlen n \<le> int k"
  by (simp add: bitlen_le_iff_power)

lemma fround_scaled:
  fixes n :: int
  assumes "0 < n" "n \<le> 2 ^ 53"
  shows "of_int (rne (of_int n / pow2 (max (ilog2 (of_int n) - 52) (- 1074)))) *
    pow2 (max (ilog2 (of_int n) - 52) (- 1074)) = (of_int n :: rat)"
proof (cases "n = 2 ^ 53")
  case True
  have "bitlen (2 ^ 53) = (54 :: int)"
    using bitlen_pow2 [of 1 53] by (simp add: compute_bitlen)
  then have "ilog2 (of_int n) = 53"
    using ilog2_of_int [OF assms(1)] True by simp
  then show ?thesis using True by (simp add: pow2_def rne_def)
next
  case False
  with assms have "bitlen n \<le> 53" using bitlen_le [of n 53] by simp
  moreover have "1 \<le> bitlen n" using assms(1) bitlen_nonneg [of n] bitlen_eq_zero_iff [of n] by linarith
  ultimately have "max (ilog2 (of_int n) - 52) (- 1074) = - int (nat (53 - bitlen n))"
    unfolding ilog2_of_int [OF assms(1)] by simp
  then obtain k where k: "max (ilog2 (of_int n) - 52) (- 1074) = - int k" by blast
  have "of_int n / pow2 (- int k) = (of_int (n * 2 ^ k) :: rat)"
    by (cases "k = 0") (simp_all add: pow2_def)
  then have "of_int (rne (of_int n / pow2 (- int k))) = (of_int n * 2 ^ k :: rat)"
    by (simp only: rne_of_int) simp
  then show ?thesis unfolding k by (cases "k = 0") (simp_all add: pow2_def)
qed

text \<open>Integers up to \<open>2 ^ 53\<close> are doubles.\<close>

lemma fround_of_int: "\<bar>n\<bar> \<le> 2 ^ 53 \<Longrightarrow> fround (of_int n) = Fin (of_int n)"
proof -
  assume n: "\<bar>n\<bar> \<le> 2 ^ 53"
  have "(2 :: rat) ^ 53 < 2 ^ 1024" by (rule power_strict_increasing) simp_all
  moreover have "of_int \<bar>n\<bar> \<le> (2 :: rat) ^ 53" using n by (metis of_int_le_iff of_int_numeral of_int_power)
  ultimately have "of_int \<bar>n\<bar> < (2 :: rat) ^ 1024" by simp
  then show ?thesis
    using fround_scaled [of "\<bar>n\<bar>"] n
    by (cases "n = 0") (auto simp: fround_def Let_def of_int_abs [symmetric] simp del: of_int_abs)
qed

lemma num_of_int_exact: "\<bar>n\<bar> \<le> 2 ^ 53 \<Longrightarrow> num_of_int n = Fin (of_int n)"
  by (simp add: num_of_int_def fround_of_int)

lemma num_of_int_safe: "\<bar>n\<bar> \<le> max_safe \<Longrightarrow> num_of_int n = Fin (of_int n)"
  by (rule num_of_int_exact) (simp add: max_safe_def)

lemma isSafeInteger_of_int [simp]: "js_isSafeInteger (Fin (of_int n)) \<longleftrightarrow> \<bar>n\<bar> \<le> max_safe"
  by (simp add: js_isSafeInteger_def)

lemma rne_mono_int: "q \<le> of_int N \<Longrightarrow> rne q \<le> N"
proof -
  assume q: "q \<le> of_int N"
  then have f: "\<lfloor>q\<rfloor> \<le> N" using floor_mono [OF q] by simp
  show "rne q \<le> N"
  proof (cases "\<lfloor>q\<rfloor> = N")
    case True
    with q have "q = of_int N" by (metis antisym of_int_floor_le)
    then show ?thesis by simp
  next
    case False
    with f show ?thesis by (simp add: rne_def Let_def)
  qed
qed

lemma rne_nonneg: "0 \<le> q \<Longrightarrow> 0 \<le> rne q"
  by (auto simp: rne_def Let_def)

lemma ilog2_nonpos: "0 < q \<Longrightarrow> q \<le> 1 \<Longrightarrow> ilog2 q \<le> 0"
  using bitlen_nonneg compute_bitlen [of 1] compute_bitlen [of 0] by (cases "q = 1") (simp_all add: ilog2_def)

lemma pow2_nonpos: "e \<le> 0 \<Longrightarrow> \<exists>k :: nat. pow2 e = 1 / of_int (2 ^ k) \<and> (0 :: int) < 2 ^ k"
  by (rule exI [of _ "nat (- e)"]) (auto simp: pow2_def)

lemma fround_nonneg: "fround q = Fin r \<Longrightarrow> 0 \<le> q \<Longrightarrow> 0 \<le> r"
proof -
  assume r: "fround q = Fin r" and q: "0 \<le> q"
  let ?p = "pow2 (max (ilog2 \<bar>q\<bar> - 52) (- 1074))"
  have "0 \<le> \<bar>q\<bar> / ?p" by (rule divide_nonneg_pos) simp_all
  then have "0 \<le> of_int (rne (\<bar>q\<bar> / ?p)) * ?p"
    by (intro mult_nonneg_nonneg) (simp_all add: rne_nonneg less_imp_le)
  with r q show "0 \<le> r"
    by (auto simp: fround_def Let_def split: if_splits)
qed

text \<open>Rounding stays in the unit interval.\<close>

lemma fround_unit:
  assumes "0 \<le> q" "q \<le> 1"
  shows "\<exists>r. fround q = Fin r \<and> 0 \<le> r \<and> r \<le> 1"
proof (cases "q = 0")
  case True
  then show ?thesis by (simp add: fround_def)
next
  case False
  with assms have q: "0 < q" by simp
  define e where "e = max (ilog2 q - 52) (- 1074)"
  have "e \<le> 0" using ilog2_nonpos [OF q assms(2)] by (simp add: e_def)
  then obtain k where k: "pow2 e = 1 / of_int (2 ^ k)" using pow2_nonpos by blast
  let ?v = "of_int (rne (q / pow2 e)) * pow2 e :: rat"
  have "q / pow2 e \<le> of_int (2 ^ k)" using assms(2) by (simp add: k)
  then have "rne (q / pow2 e) \<le> 2 ^ k" by (rule rne_mono_int)
  then have "of_int (rne (q / pow2 e)) \<le> (of_int (2 ^ k) :: rat)" by (simp only: of_int_le_iff)
  then have le: "?v \<le> 1" by (simp add: k)
  have ge: "0 \<le> ?v" using q by (intro mult_nonneg_nonneg) (simp_all add: rne_nonneg less_imp_le)
  have "?v < 2 ^ 1024" using le by (rule le_less_trans) simp
  then have "fround q = Fin ?v"
    using q by (simp add: fround_def Let_def e_def not_le)
  with le ge show ?thesis by blast
qed
lemma rne_ge_int: "of_int N \<le> q \<Longrightarrow> N \<le> rne q"
  using le_floor_iff [of N q] by (auto simp: rne_def Let_def)

lemma num_of_int_large:
  assumes "2 ^ 53 \<le> n"
  shows "num_of_int n = Infty True \<or> (\<exists>r. num_of_int n = Fin r \<and> 2 ^ 53 \<le> r)"
proof -
  have n0: "0 < n" using assms by (rule less_le_trans [rotated]) simp
  define k where "k = nat (bitlen n - 53)"
  have "54 \<le> bitlen n" using assms by (simp add: bitlen_ge_iff_power)
  then have e: "max (ilog2 (of_int n) - 52) (- 1074) = int k" and k: "1 \<le> k"
    using ilog2_of_int [OF n0] by (auto simp: k_def)
  have "2 ^ nat (bitlen n - 1) \<le> n" using bitlen_bounds [OF n0] by simp
  moreover have "nat (bitlen n - 1) = 52 + k" using \<open>54 \<le> bitlen n\<close> by (simp add: k_def)
  ultimately have "2 ^ 52 * 2 ^ k \<le> n" by (metis power_add)
  then have "of_int (2 ^ 52 * 2 ^ k) \<le> (of_int n :: rat)" by (simp only: of_int_le_iff)
  then have "of_int (2 ^ 52) \<le> (of_int n / 2 ^ k :: rat)" by (simp add: le_divide_eq)
  then have "2 ^ 52 \<le> rne (of_int n / 2 ^ k)" by (rule rne_ge_int)
  then have "of_int (2 ^ 52) \<le> (of_int (rne (of_int n / 2 ^ k)) :: rat)" by (simp only: of_int_le_iff)
  moreover have "(2 :: rat) ^ 1 \<le> 2 ^ k" using k by (rule power_increasing) simp
  ultimately have "of_int (2 ^ 52) * 2 \<le> (of_int (rne (of_int n / 2 ^ k)) * 2 ^ k :: rat)"
    by (intro mult_mono) simp_all
  then have v: "2 ^ 53 \<le> (of_int (rne (of_int n / 2 ^ k)) * 2 ^ k :: rat)" by simp
  show ?thesis
  proof (cases "num_of_int n")
    case (Fin r)
    then have "r = of_int (rne (of_int n / 2 ^ k)) * 2 ^ k"
      using n0 e by (auto simp: num_of_int_def fround_def Let_def pow2_def split: if_splits)
    with v show ?thesis by (simp add: Fin)
  qed (use n0 in \<open>auto simp: num_of_int_def fround_def Let_def split: if_splits\<close>)
qed

lemma fround_large:
  assumes "2 ^ 53 \<le> n"
  shows "\<not> js_isSafeInteger (num_of_int n)"
proof -
  have "\<not> \<bar>\<lfloor>r\<rfloor>\<bar> \<le> max_safe" if "2 ^ 53 \<le> r" for r :: rat
  proof -
    from that have "2 ^ 53 \<le> \<lfloor>r\<rfloor>" by (simp add: le_floor_iff)
    then show ?thesis by (simp add: max_safe_def)
  qed
  with num_of_int_large [OF assms] show ?thesis by (auto simp: js_isSafeInteger_def)
qed

text \<open>A comparison with a safe integer is exact however large the other side is.\<close>

lemma num_of_int_gt_safe:
  assumes "\<bar>n\<bar> \<le> max_safe" "n < c"
  shows "js_lt (Fin (of_int n)) (num_of_int c)"
proof (cases "c \<le> max_safe")
  case True
  with assms have "num_of_int c = Fin (of_int c)" by (intro num_of_int_safe) linarith
  with assms show ?thesis by simp
next
  case False
  then have "2 ^ 53 \<le> c" by (simp add: max_safe_def)
  moreover have "of_int n < (2 ^ 53 :: rat)"
    using of_int_less_iff [of n "2 ^ 53", where ?'a = rat] assms by (simp add: max_safe_def)
  ultimately show ?thesis using num_of_int_large [of c] by fastforce
qed

lemma safe_num_of_int: "0 \<le> n \<Longrightarrow> js_isSafeInteger (num_of_int n) \<longleftrightarrow> n \<le> max_safe"
  using fround_large [of n] num_of_int_safe [of n] by (cases "n \<le> max_safe") (auto simp: max_safe_def)


section \<open>Number(text)\<close>

definition pow10 :: "int \<Rightarrow> rat" where
  "pow10 e = (if 0 \<le> e then 10 ^ nat e else 1 / 10 ^ nat (- e))"

text \<open>The exponent part: nothing, or \<open>e\<close>, an optional sign and digits.\<close>

definition exponent_part :: "string \<Rightarrow> int option" where
  "exponent_part r = (case r of [] \<Rightarrow> Some 0
   | c # cs \<Rightarrow> if c \<noteq> CHR ''e'' \<and> c \<noteq> CHR ''E'' then None
       else if all_digits cs then Some (int (digits_val cs))
       else if cs \<noteq> [] \<and> hd cs = CHR ''+'' \<and> all_digits (tl cs) then Some (int (digits_val (tl cs)))
       else if cs \<noteq> [] \<and> hd cs = CHR ''-'' \<and> all_digits (tl cs) then Some (- int (digits_val (tl cs)))
       else None)"

definition unsigned_decimal :: "string \<Rightarrow> js_num" where
  "unsigned_decimal t = (if t = ''Infinity'' then Infty True else
     let ip = takeWhile is_digit t;
         rest = dropWhile is_digit t;
         dotted = (rest \<noteq> [] \<and> hd rest = CHR ''.'');
         fp = (if dotted then takeWhile is_digit (tl rest) else []);
         ep = (if dotted then dropWhile is_digit (tl rest) else rest)
     in if ip = [] \<and> fp = [] then NaN
        else case exponent_part ep of None \<Rightarrow> NaN
          | Some e \<Rightarrow> fround (of_nat (digits_val (ip @ fp)) * pow10 (e - int (length fp))))"

definition js_Number_of_string :: "string \<Rightarrow> js_num" where
  "js_Number_of_string s = (let t = js_trim s in
     if t = [] then Fin 0
     else case prefixed t of Some n \<Rightarrow> num_of_int (int n)
     | None \<Rightarrow> if hd t = CHR ''-'' then js_neg (unsigned_decimal (tl t))
         else if hd t = CHR ''+'' then unsigned_decimal (tl t)
         else unsigned_decimal t)"

lemma js_neg_fround: "js_neg (fround q) = fround (- q)"
  by (auto simp: fround_def Let_def)

lemma takeWhile_all_digit: "list_all is_digit s \<Longrightarrow> takeWhile is_digit s = s"
  by (simp add: list_all_iff)

lemma dropWhile_all_digit: "list_all is_digit s \<Longrightarrow> dropWhile is_digit s = []"
  by (simp add: list_all_iff)

lemma all_digits_not_Infinity: "all_digits s \<Longrightarrow> s \<noteq> ''Infinity''"
  by (auto simp: all_digits_def is_digit_def)

lemma unsigned_decimal_digits: "all_digits s \<Longrightarrow> unsigned_decimal s = num_of_int (int (digits_val s))"
  using all_digits_not_Infinity [of s]
  by (simp add: unsigned_decimal_def Let_def all_digits_def takeWhile_all_digit dropWhile_all_digit
      exponent_part_def pow10_def num_of_int_def)

lemma is_digit_not_radix:
  "is_digit c \<Longrightarrow> c \<notin> {CHR ''x'', CHR ''X'', CHR ''o'', CHR ''O'', CHR ''b'', CHR ''B''}"
  by (auto simp: is_digit_def)

lemma prefixed_digits:
  assumes "all_digits s"
  shows "prefixed s = None"
proof (cases s)
  case (Cons c cs)
  then show ?thesis
    using assms is_digit_not_radix [of "hd cs"] by (cases cs) (auto simp: prefixed_def all_digits_def)
qed (simp add: prefixed_def)

lemma prefixed_minus [simp]: "prefixed (CHR ''-'' # s) = None"
  by (simp add: prefixed_def split: list.split)

lemma Number_digits: "all_digits s \<Longrightarrow> js_Number_of_string s = num_of_int (int (digits_val s))"
  by (cases s) (auto simp: js_Number_of_string_def Let_def js_trim_digits prefixed_digits
      unsigned_decimal_digits all_digits_def is_digit_def)

lemma Number_int_str: "js_Number_of_string (int_str i) = num_of_int i"
proof (cases "i < 0")
  case True
  then show ?thesis
    using js_trim_int_str [of i]
    by (simp add: js_Number_of_string_def int_str_def unsigned_decimal_digits num_of_int_def js_neg_fround)
next
  case False
  then show ?thesis by (simp add: int_str_def Number_digits)
qed

section \<open>String(number)\<close>

primrec leading_zeros :: "nat \<Rightarrow> rat \<Rightarrow> int" where
  "leading_zeros 0 v = 0"
| "leading_zeros (Suc k) v = (if 1 / 10 \<le> v then 0 else 1 + leading_zeros k (10 * v))"

text \<open>The decimal exponent of a positive double: \<open>10 ^ (n - 1) \<le> v < 10 ^ n\<close>.  The least double
  has 323 leading zeros, so the fuel of 330 suffices.\<close>

definition decimal_exponent :: "rat \<Rightarrow> int" where
  "decimal_exponent v = (if 1 \<le> v then int (length (nat_str (nat \<lfloor>v\<rfloor>))) else - leading_zeros 330 v)"

definition reads_back :: "rat \<Rightarrow> int \<Rightarrow> int \<Rightarrow> nat \<Rightarrow> bool" where
  "reads_back v s n k \<longleftrightarrow> fround (of_int s * pow10 (n - int k)) = Fin v"

text \<open>The shortest digit string that reads back as \<open>v\<close>, closest to \<open>v\<close>; 17 digits always do.\<close>

primrec shortest :: "nat \<Rightarrow> nat \<Rightarrow> rat \<Rightarrow> int \<Rightarrow> int \<times> nat" where
  "shortest 0 k v n = (rne (v / pow10 (n - int k)), k)"
| "shortest (Suc fuel) k v n = (let q = v / pow10 (n - int k); s = rne q in
     if reads_back v s n k then (s, k)
     else if reads_back v \<lfloor>q\<rfloor> n k then (\<lfloor>q\<rfloor>, k)
     else if reads_back v \<lceil>q\<rceil> n k then (\<lceil>q\<rceil>, k)
     else shortest fuel (Suc k) v n)"

definition decimal_form :: "int \<Rightarrow> nat \<Rightarrow> int \<Rightarrow> string" where
  "decimal_form s k n = (let ds = int_str s; e = n - 1; es = (if e < 0 then ''-'' else ''+'') @ int_str \<bar>e\<bar> in
     if int k \<le> n \<and> n \<le> 21 then ds @ replicate (nat (n - int k)) (CHR ''0'')
     else if 0 < n \<and> n \<le> 21 then take (nat n) ds @ ''.'' @ drop (nat n) ds
     else if - 6 < n \<and> n \<le> 0 then ''0.'' @ replicate (nat (- n)) (CHR ''0'') @ ds
     else if k = 1 then ds @ ''e'' @ es
     else take 1 ds @ ''.'' @ drop 1 ds @ ''e'' @ es)"

definition positive_to_string :: "rat \<Rightarrow> string" where
  "positive_to_string v = (let n = decimal_exponent v; (s, k) = shortest 16 1 v n in
     if s = 10 ^ k then decimal_form (10 ^ (k - 1)) k (n + 1) else decimal_form s k n)"

text \<open>An integer of at most 53 bits prints as its digits, which is what the shortest form amounts
  to there.\<close>

definition num_to_string :: "js_num \<Rightarrow> string" where
  "num_to_string n = (case n of NaN \<Rightarrow> ''NaN'' | Infty s \<Rightarrow> (if s then ''Infinity'' else ''-Infinity'')
   | Fin q \<Rightarrow> if of_int \<lfloor>q\<rfloor> = q \<and> \<bar>\<lfloor>q\<rfloor>\<bar> \<le> max_safe then int_str \<lfloor>q\<rfloor>
       else if 0 < q then positive_to_string q else ''-'' @ positive_to_string (- q))"

lemma num_to_string_of_int [simp]: "\<bar>i\<bar> \<le> max_safe \<Longrightarrow> num_to_string (Fin (of_int i)) = int_str i"
  by (simp add: num_to_string_def)

lemma Number_num_to_string:
  "\<bar>i\<bar> \<le> max_safe \<Longrightarrow> js_Number_of_string (num_to_string (Fin (of_int i))) = Fin (of_int i)"
  by (simp add: Number_int_str num_of_int_safe)

end
