(* ===== verification/JS_Values.thy ===== *)
theory JS_Values imports JS_Numbers begin

text \<open>
  The dynamic values of the source language as far as the program inspects them, with the
  conversions and operators it applies: truthiness, \<open>String\<close>, \<open>Number\<close>, property access,
  \<open>??\<close>, \<open>toISOString\<close> and \<open>JSON.stringify\<close>.  An object is the list of its own enumerable
  properties in insertion order (the property names of this program are identifiers, so the
  reordering of integer-like keys does not arise).  A \<open>Buffer\<close> is its bytes, a \<open>Date\<close> its
  time value in milliseconds.
\<close>

section \<open>Values and exceptions\<close>

datatype exn = Error string | TypeError string | RangeError string | SyntaxError string
  | RequestValidationError string | NetworkMismatchError string

datatype jsval = JUndefined | JNull | JBool bool | JNum js_num | JBigInt int | JStr string
  | JArr "jsval list" | JObj "(string \<times> jsval) list" | JBuffer "nat list" | JDate int

definition jint :: "int \<Rightarrow> jsval" where
  "jint n = JNum (Fin (of_int n))"

definition js_nullish :: "jsval \<Rightarrow> bool" where
  "js_nullish v \<longleftrightarrow> v = JUndefined \<or> v = JNull"

text \<open>\<open>v ?? d\<close>\<close>

definition js_coalesce :: "jsval \<Rightarrow> jsval \<Rightarrow> jsval" where
  "js_coalesce v d = (if js_nullish v then d else v)"

fun js_truthy :: "jsval \<Rightarrow> bool" where
  "js_truthy JUndefined = False"
| "js_truthy JNull = False"
| "js_truthy (JBool b) = b"
| "js_truthy (JNum n) = num_truthy n"
| "js_truthy (JBigInt i) = (i \<noteq> 0)"
| "js_truthy (JStr s) = (s \<noteq> [])"
| "js_truthy (JArr _) = True"
| "js_truthy (JObj _) = True"
| "js_truthy (JBuffer _) = True"
| "js_truthy (JDate _) = True"

fun js_typeof :: "jsval \<Rightarrow> string" where
  "js_typeof JUndefined = ''undefined''"
| "js_typeof (JBool _) = ''boolean''"
| "js_typeof (JNum _) = ''number''"
| "js_typeof (JBigInt _) = ''bigint''"
| "js_typeof (JStr _) = ''string''"
| "js_typeof _ = ''object''"

definition is_JStr :: "jsval \<Rightarrow> bool" where
  "is_JStr v = (case v of JStr _ \<Rightarrow> True | _ \<Rightarrow> False)"

definition is_JArr :: "jsval \<Rightarrow> bool" where
  "is_JArr v = (case v of JArr _ \<Rightarrow> True | _ \<Rightarrow> False)"

section \<open>Conversions\<close>

primrec js_join :: "string \<Rightarrow> string list \<Rightarrow> string" where
  "js_join sep [] = []"
| "js_join sep (s # ss) = (if ss = [] then s else s @ sep @ js_join sep ss)"

text \<open>\<open>String(v)\<close>.  Bytes read as ASCII text; the program never converts a date this way, its
  clause is the ISO text.\<close>

definition pad_left :: "nat \<Rightarrow> string \<Rightarrow> string" where
  "pad_left n s = replicate (n - length s) (CHR ''0'') @ s"

definition civil :: "int \<Rightarrow> int \<times> int \<times> int" where
  "civil days = (let z = days + 719468; era = z div 146097; doe = z mod 146097;
     yoe = (doe - doe div 1460 + doe div 36524 - doe div 146096) div 365;
     doy = doe - (365 * yoe + yoe div 4 - yoe div 100);
     mp = (5 * doy + 2) div 153;
     d = doy - (153 * mp + 2) div 5 + 1;
     m = (if mp < 10 then mp + 3 else mp - 9);
     y = yoe + era * 400 + (if m \<le> 2 then 1 else 0)
   in (y, m, d))"

definition iso_year :: "int \<Rightarrow> string" where
  "iso_year y = (if 0 \<le> y \<and> y \<le> 9999 then pad_left 4 (int_str y)
     else (if y < 0 then ''-'' else ''+'') @ pad_left 6 (int_str \<bar>y\<bar>))"

definition toISOString :: "int \<Rightarrow> string" where
  "toISOString t = (let (y, m, d) = civil (t div 86400000); ms = t mod 86400000 in
     iso_year y @ ''-'' @ pad_left 2 (int_str m) @ ''-'' @ pad_left 2 (int_str d) @ ''T'' @
     pad_left 2 (int_str (ms div 3600000)) @ '':'' @ pad_left 2 (int_str (ms div 60000 mod 60)) @ '':'' @
     pad_left 2 (int_str (ms div 1000 mod 60)) @ ''.'' @ pad_left 3 (int_str (ms mod 1000)) @ ''Z'')"

fun js_String :: "jsval \<Rightarrow> string" where
  "js_String JUndefined = ''undefined''"
| "js_String JNull = ''null''"
| "js_String (JBool b) = (if b then ''true'' else ''false'')"
| "js_String (JNum n) = num_to_string n"
| "js_String (JBigInt i) = int_str i"
| "js_String (JStr s) = s"
| "js_String (JArr vs) = js_join '','' (map (\<lambda>v. if js_nullish v then [] else js_String v) vs)"
| "js_String (JObj _) = ''[object Object]''"
| "js_String (JBuffer bs) = map char_of bs"
| "js_String (JDate t) = toISOString t"

fun js_Number :: "jsval \<Rightarrow> js_num" where
  "js_Number JUndefined = NaN"
| "js_Number JNull = Fin 0"
| "js_Number (JBool b) = Fin (if b then 1 else 0)"
| "js_Number (JNum n) = n"
| "js_Number (JBigInt i) = num_of_int i"
| "js_Number (JStr s) = js_Number_of_string s"
| "js_Number (JArr vs) = js_Number_of_string (js_String (JArr vs))"
| "js_Number (JObj _) = NaN"
| "js_Number (JBuffer bs) = js_Number_of_string (js_String (JBuffer bs))"
| "js_Number (JDate t) = num_of_int t"

text \<open>\<open>v.key\<close>: reading a property of \<open>undefined\<close> or \<open>null\<close> throws.\<close>

definition js_field :: "jsval \<Rightarrow> string \<Rightarrow> jsval" where
  "js_field v k = (case v of JObj kvs \<Rightarrow> (case map_of kvs k of None \<Rightarrow> JUndefined | Some x \<Rightarrow> x)
     | JArr vs \<Rightarrow> if k = ''length'' then jint (int (length vs)) else JUndefined
     | _ \<Rightarrow> JUndefined)"

definition js_prop :: "jsval \<Rightarrow> string \<Rightarrow> exn + jsval" where
  "js_prop v k = (if js_nullish v
     then Inl (TypeError (''Cannot read properties of '' @ js_String v @ '' (reading '' @ k @ '')''))
     else Inr (js_field v k))"

definition js_at :: "jsval list \<Rightarrow> nat \<Rightarrow> jsval" where
  "js_at vs i = (if i < length vs then vs ! i else JUndefined)"

lemma js_coalesce_simps [simp]:
  "js_coalesce JUndefined d = d" "js_coalesce JNull d = d" "js_coalesce (JStr s) d = JStr s"
  "js_coalesce (JNum n) d = JNum n" "js_coalesce (JBool b) d = JBool b"
  "js_coalesce (JBigInt i) d = JBigInt i" "js_coalesce (JObj kvs) d = JObj kvs"
  by (simp_all add: js_coalesce_def js_nullish_def)

lemma js_coalesce_not_nullish: "\<not> js_nullish d \<Longrightarrow> \<not> js_nullish (js_coalesce v d)"
  by (simp add: js_coalesce_def)

lemma js_field_obj [simp]:
  "js_field (JObj kvs) k = (case map_of kvs k of None \<Rightarrow> JUndefined | Some x \<Rightarrow> x)"
  by (simp add: js_field_def)

lemma js_prop_obj [simp]: "js_prop (JObj kvs) k = Inr (js_field (JObj kvs) k)"
  by (simp add: js_prop_def js_nullish_def)

section \<open>JSON.stringify\<close>

definition hex_digit :: "nat \<Rightarrow> char" where
  "hex_digit n = (if n < 10 then char_of (48 + n) else char_of (87 + n))"

definition hex_of_bytes :: "nat list \<Rightarrow> string" where
  "hex_of_bytes bs = concat (map (\<lambda>b. [hex_digit (b div 16 mod 16), hex_digit (b mod 16)]) bs)"

text \<open>\<open>toJSON\<close> runs before the replacer sees a value.\<close>

definition to_json_method :: "jsval \<Rightarrow> jsval" where
  "to_json_method v = (case v of
     JBuffer bs \<Rightarrow> JObj [(''type'', JStr ''Buffer''), (''data'', JArr (map (\<lambda>b. jint (int b)) bs))]
   | JDate t \<Rightarrow> JStr (toISOString t)
   | _ \<Rightarrow> v)"

definition escape_char :: "char \<Rightarrow> string" where
  "escape_char c = (let n = of_char c :: nat; bs = char_of (92 :: nat) in
     if n = 34 then [bs, char_of (34 :: nat)] else if n = 92 then [bs, bs]
     else if n = 8 then [bs, CHR ''b''] else if n = 9 then [bs, CHR ''t'']
     else if n = 10 then [bs, CHR ''n''] else if n = 12 then [bs, CHR ''f'']
     else if n = 13 then [bs, CHR ''r'']
     else if n < 32 then [bs, CHR ''u'', CHR ''0'', CHR ''0'', hex_digit (n div 16), hex_digit (n mod 16)]
     else [c])"

definition quote :: "string \<Rightarrow> string" where
  "quote s = char_of (34 :: nat) # concat (map escape_char s) @ [char_of (34 :: nat)]"

text \<open>The text of a value that holds only null, booleans, numbers, strings, arrays and objects.\<close>

fun json_text :: "jsval \<Rightarrow> string" where
  "json_text (JBool b) = (if b then ''true'' else ''false'')"
| "json_text (JNum n) = (case n of Fin _ \<Rightarrow> num_to_string n | _ \<Rightarrow> ''null'')"
| "json_text (JStr s) = quote s"
| "json_text (JArr vs) = ''['' @ js_join '','' (map json_text vs) @ '']''"
| "json_text (JObj kvs) = ''{'' @ js_join '','' (map (\<lambda>(k, v). quote k @ '':'' @ json_text v) kvs) @ ''}''"
| "json_text _ = ''null''"

text \<open>What \<open>JSON.stringify\<close> writes for a value, as the JSON value the text denotes: \<open>undefined\<close>
  is nothing (\<open>null\<close> inside an array), a bigint is the decimal text a replacer gave for it.
  Without such a replacer a bigint anywhere is a \<open>TypeError\<close>.\<close>

fun json_plain :: "jsval \<Rightarrow> jsval option" where
  "json_plain JUndefined = None"
| "json_plain (JBigInt i) = Some (JStr (int_str i))"
| "json_plain (JNum n) = Some (case n of Fin _ \<Rightarrow> JNum n | _ \<Rightarrow> JNull)"
| "json_plain (JBuffer bs) = Some (to_json_method (JBuffer bs))"
| "json_plain (JDate t) = Some (to_json_method (JDate t))"
| "json_plain (JArr vs) = Some (JArr (map (\<lambda>v. case json_plain v of None \<Rightarrow> JNull | Some x \<Rightarrow> x) vs))"
| "json_plain (JObj kvs) = Some (JObj (concat (map (\<lambda>(k, v).
     case json_plain v of None \<Rightarrow> [] | Some x \<Rightarrow> [(k, x)]) kvs)))"
| "json_plain v = Some v"

fun has_bigint :: "jsval \<Rightarrow> bool" where
  "has_bigint (JBigInt _) = True"
| "has_bigint (JArr vs) = list_ex has_bigint vs"
| "has_bigint (JObj kvs) = list_ex (\<lambda>(k, v). has_bigint v) kvs"
| "has_bigint _ = False"

definition js_stringify :: "jsval \<Rightarrow> exn + jsval" where
  "js_stringify v = (if has_bigint v then Inl (TypeError ''Do not know how to serialize a BigInt'')
     else Inr (case json_plain v of None \<Rightarrow> JUndefined | Some j \<Rightarrow> JStr (json_text j)))"

section \<open>BigInt(number)\<close>

definition js_BigInt_of_num :: "js_num \<Rightarrow> exn + int" where
  "js_BigInt_of_num n = (case n of
     Fin q \<Rightarrow> if of_int \<lfloor>q\<rfloor> = q then Inr \<lfloor>q\<rfloor>
       else Inl (RangeError (''The number '' @ num_to_string n @
         '' cannot be converted to a BigInt because it is not an integer''))
   | _ \<Rightarrow> Inl (RangeError (''The number '' @ num_to_string n @
         '' cannot be converted to a BigInt because it is not an integer'')))"

lemma BigInt_of_int [simp]: "js_BigInt_of_num (Fin (of_int n)) = Inr n"
  by (simp add: js_BigInt_of_num_def)

end
