(* ===== verification/Request_Validation.thy ===== *)
theory Request_Validation imports JS_Values begin

text \<open>
  \<open>api/request-validation.ts\<close>: the readers of path and query parameters.  Their input is
  whatever the HTTP framework parsed, a \<open>jsval\<close>; they return a value or the
  \<open>RequestValidationError\<close> the server answers with status 400.
\<close>

definition COUNCIL_CASE_STATUSES :: "string list" where
  "COUNCIL_CASE_STATUSES = [''Opened'', ''CommitPhase'', ''RevealPhase'', ''ReadyToFinalize'',
     ''Finalized'', ''Cancelled'']"

definition queryScalar :: "jsval \<Rightarrow> string \<Rightarrow> exn + jsval option" where
  "queryScalar v field = (
     if v = JUndefined \<or> v = JNull \<or> v = JStr [] then Inr None
     else case v of
       JArr _ \<Rightarrow> Inl (RequestValidationError (field @ '' must be provided once''))
     | JStr _ \<Rightarrow> Inr (Some v)
     | JNum _ \<Rightarrow> Inr (Some v)
     | JBool _ \<Rightarrow> Inr (Some v)
     | _ \<Rightarrow> Inl (RequestValidationError (field @ '' must be a scalar value'')))"

definition queryString :: "jsval \<Rightarrow> string \<Rightarrow> exn + string option" where
  "queryString v field = (case queryScalar v field of Inl e \<Rightarrow> Inl e
     | Inr s \<Rightarrow> Inr (map_option js_String s))"

definition integerValue :: "jsval \<Rightarrow> string \<Rightarrow> int \<Rightarrow> int option \<Rightarrow> int option \<Rightarrow> exn + js_num option" where
  "integerValue v field mn mx dflt = (case queryScalar v field of Inl e \<Rightarrow> Inl e
     | Inr None \<Rightarrow> Inr (map_option num_of_int dflt)
     | Inr (Some scalar) \<Rightarrow>
         (let text = js_String scalar in
          if \<not> all_digits text then Inl (RequestValidationError (field @ '' must be an integer''))
          else let parsed = js_Number_of_string text in
            if \<not> js_isSafeInteger parsed \<or> js_lt parsed (num_of_int mn)
              then Inl (RequestValidationError (field @ '' must be at least '' @ int_str mn))
            else if (case mx of None \<Rightarrow> False | Some m \<Rightarrow> js_lt (num_of_int m) parsed)
              then Inl (RequestValidationError (field @ '' must be at most '' @ int_str (the mx)))
            else Inr (Some parsed)))"

definition parseMarketId :: "jsval \<Rightarrow> exn + js_num" where
  "parseMarketId v = (case integerValue v ''id'' 0 None None of Inl e \<Rightarrow> Inl e
     | Inr None \<Rightarrow> Inl (RequestValidationError ''id is required'')
     | Inr (Some n) \<Rightarrow> Inr n)"

definition js_toUpper :: "char \<Rightarrow> char" where
  "js_toUpper c = (let n = of_char c :: nat in if 97 \<le> n \<and> n \<le> 122 then char_of (n - 32) else c)"

definition is_address_char :: "char \<Rightarrow> bool" where
  "is_address_char c \<longleftrightarrow> (let n = of_char c :: nat in (65 \<le> n \<and> n \<le> 90) \<or> (50 \<le> n \<and> n \<le> 55))"

definition stellar_address :: "string \<Rightarrow> bool" where
  "stellar_address s \<longleftrightarrow> length s = 56 \<and> list_all is_address_char s"

definition parseAddress :: "jsval \<Rightarrow> string \<Rightarrow> exn + string" where
  "parseAddress v field = (case v of
     JStr s \<Rightarrow> (let normalized = map js_toUpper (js_trim s) in
       if stellar_address normalized then Inr normalized
       else Inl (RequestValidationError (field @ '' must be a valid Stellar address'')))
   | _ \<Rightarrow> Inl (RequestValidationError (field @ '' must be a string'')))"

definition parseCouncilCaseStatus :: "jsval \<Rightarrow> exn + string option" where
  "parseCouncilCaseStatus v = (case queryString v ''status'' of Inl e \<Rightarrow> Inl e
     | Inr None \<Rightarrow> Inr None
     | Inr (Some s) \<Rightarrow> if s \<in> set COUNCIL_CASE_STATUSES then Inr (Some s)
         else Inl (RequestValidationError ''status must be a valid council case status''))"

record market_list_query =
  q_status :: "string option"
  q_creator :: "string option"
  q_collateral :: "string option"
  q_limit :: js_num
  q_cursor :: "js_num option"

definition parseMarketListQuery :: "jsval \<Rightarrow> exn + market_list_query" where
  "parseMarketListQuery query = (let rec = (case query of JObj _ \<Rightarrow> query | _ \<Rightarrow> JObj []) in
     case integerValue (js_field rec ''limit'') ''limit'' 1 (Some 100) (Some 20) of Inl e \<Rightarrow> Inl e
     | Inr limit \<Rightarrow>
     case integerValue (js_field rec ''cursor'') ''cursor'' 0 None None of Inl e \<Rightarrow> Inl e
     | Inr cursor \<Rightarrow>
     case queryString (js_field rec ''status'') ''status'' of Inl e \<Rightarrow> Inl e
     | Inr st \<Rightarrow>
     case queryString (js_field rec ''creator'') ''creator'' of Inl e \<Rightarrow> Inl e
     | Inr cr \<Rightarrow>
     case queryString (js_field rec ''collateral'') ''collateral'' of Inl e \<Rightarrow> Inl e
     | Inr co \<Rightarrow> Inr \<lparr>q_status = st, q_creator = cr, q_collateral = co,
         q_limit = or_else limit (Fin 20), q_cursor = cursor\<rparr>)"

section \<open>Lemmas\<close>

lemma digits_number:
  assumes "all_digits t" "js_isSafeInteger (js_Number_of_string t)"
  shows "\<exists>k :: int. 0 \<le> k \<and> k \<le> max_safe \<and> js_Number_of_string t = Fin (of_int k)"
proof -
  obtain q where q: "js_Number_of_string t = Fin q" "of_int \<lfloor>q\<rfloor> = q" "\<bar>\<lfloor>q\<rfloor>\<bar> \<le> max_safe"
    using assms(2) by (auto simp: js_isSafeInteger_def split: js_num.splits)
  have "0 \<le> q"
  proof -
    have "fround (of_int (int (digits_val t))) = Fin q"
      using q(1) by (simp add: Number_digits [OF assms(1)] num_of_int_def)
    then show ?thesis
      by (rule fround_nonneg) simp
  qed
  then show ?thesis using q by (intro exI [of _ "\<lfloor>q\<rfloor>"]) (auto simp: abs_le_iff)
qed

lemma integerValue_range:
  assumes "integerValue v field mn mx dflt = Inr (Some n)" "\<bar>mn\<bar> \<le> max_safe"
    "\<And>m. mx = Some m \<Longrightarrow> \<bar>m\<bar> \<le> max_safe" "\<And>d. dflt = Some d \<Longrightarrow>
      mn \<le> d \<and> (case mx of None \<Rightarrow> True | Some m \<Rightarrow> d \<le> m) \<and> 0 \<le> d \<and> d \<le> max_safe"
  shows "\<exists>k. n = Fin (of_int k) \<and> mn \<le> k \<and> 0 \<le> k \<and> k \<le> max_safe \<and>
    (case mx of None \<Rightarrow> True | Some m \<Rightarrow> k \<le> m)"
proof (cases "queryScalar v field")
  case (Inl e)
  with assms(1) show ?thesis by (simp add: integerValue_def)
next
  case (Inr s)
  show ?thesis
  proof (cases s)
    case None
    with Inr assms(1) obtain d where d: "dflt = Some d" "n = num_of_int d"
      by (auto simp: integerValue_def)
    with assms(4) [OF d(1)] show ?thesis by (auto simp: num_of_int_safe)
  next
    case (Some sc)
    then have *: "all_digits (js_String sc)" "js_isSafeInteger n" "n = js_Number_of_string (js_String sc)"
      "\<not> js_lt n (num_of_int mn)" "\<not> (case mx of None \<Rightarrow> False | Some m \<Rightarrow> js_lt (num_of_int m) n)"
      using assms(1) Inr by (auto simp: integerValue_def Let_def split: if_splits)
    then obtain k where k: "0 \<le> k" "k \<le> max_safe" "n = Fin (of_int k)"
      using digits_number [of "js_String sc"] by auto
    then show ?thesis
      using * assms(2,3) by (auto simp: num_of_int_safe not_less split: option.splits)
  qed
qed

lemma num_of_int_less_safe:
  "\<bar>a\<bar> \<le> max_safe \<Longrightarrow> \<bar>b\<bar> \<le> max_safe \<Longrightarrow> js_lt (num_of_int a) (num_of_int b) \<longleftrightarrow> a < b"
  by (simp add: num_of_int_safe)

lemma stellar_address_upper:
  "stellar_address s \<Longrightarrow> map js_toUpper (js_trim s) = s"
proof -
  assume s: "stellar_address s"
  have "js_trim s = s"
    using s by (intro js_trim_no_space)
      (auto simp: stellar_address_def list_all_iff is_address_char_def is_space_def Let_def)
  moreover have "map js_toUpper s = s"
    using s by (intro map_idI) (auto simp: stellar_address_def list_all_iff is_address_char_def
        js_toUpper_def Let_def)
  ultimately show ?thesis by simp
qed

section \<open>Properties\<close>

text \<open>C30: an integer parameter given as decimal digits is accepted exactly when its value is a
  safe integer within the bounds, and then it is that value; beyond \<open>2 ^ 53 - 1\<close>, where the
  conversion to a double rounds, it is always rejected.\<close>

lemma integerValue_digits:
  assumes "all_digits s" "\<bar>mn\<bar> \<le> max_safe" "\<And>m. mx = Some m \<Longrightarrow> \<bar>m\<bar> \<le> max_safe"
  shows "integerValue (JStr s) field mn mx dflt = (let k = int (digits_val s) in
    if max_safe < k \<or> k < mn
      then Inl (RequestValidationError (field @ '' must be at least '' @ int_str mn))
    else if (case mx of None \<Rightarrow> False | Some m \<Rightarrow> m < k)
      then Inl (RequestValidationError (field @ '' must be at most '' @ int_str (the mx)))
    else Inr (Some (Fin (of_int k))))"
proof (cases "int (digits_val s) \<le> max_safe")
  case True
  then have "num_of_int (int (digits_val s)) = Fin (of_nat (digits_val s))"
    by (simp add: num_of_int_safe)
  then show ?thesis
    using assms True safe_num_of_int [of "int (digits_val s)"]
      num_of_int_less_safe [of "int (digits_val s)" mn] num_of_int_less_safe [of _ "int (digits_val s)"]
    by (auto simp: integerValue_def queryScalar_def Let_def all_digits_def Number_digits
        split: option.splits)
next
  case False
  then show ?thesis
    using assms(1) safe_num_of_int [of "int (digits_val s)"]
    by (auto simp: integerValue_def queryScalar_def Let_def Number_digits all_digits_def)
qed

lemma integerValue_digits_witness:
  "integerValue (JStr ''101'') ''limit'' 1 (Some 100) (Some 20) =
     Inl (RequestValidationError (''limit'' @ '' must be at most '' @ int_str 100))"
  using integerValue_digits [of "''101''" 1 "Some 100" "''limit''" "Some 20"]
  by (simp add: all_digits_def is_digit_def digits_val_def digit_val_def max_safe_def)

text \<open>An accepted market-list query has a limit between 1 and 100 and a cursor that is a
  non-negative safe integer, whatever the parameters were.\<close>

lemma parseMarketListQuery_bounds:
  assumes "parseMarketListQuery query = Inr q"
  shows "(\<exists>k. q_limit q = Fin (of_int k) \<and> 1 \<le> k \<and> k \<le> 100) \<and>
    (\<forall>c. q_cursor q = Some c \<longrightarrow> (\<exists>k. c = Fin (of_int k) \<and> 0 \<le> k \<and> k \<le> max_safe))"
proof -
  let ?rec = "case query of JObj _ \<Rightarrow> query | _ \<Rightarrow> JObj []"
  obtain limit where l: "integerValue (js_field ?rec ''limit'') ''limit'' 1 (Some 100) (Some 20) = Inr limit"
    and ql: "q_limit q = or_else limit (Fin 20)"
    and c: "integerValue (js_field ?rec ''cursor'') ''cursor'' 0 None None = Inr (q_cursor q)"
    using assms by (auto simp: parseMarketListQuery_def Let_def split: sum.splits)
  have "\<exists>k. or_else limit (Fin 20) = Fin (of_int k) \<and> 1 \<le> k \<and> k \<le> 100"
  proof (cases limit)
    case None
    then show ?thesis by (intro exI [of _ 20]) simp
  next
    case (Some n)
    then show ?thesis
      using integerValue_range [OF l [unfolded Some]] by (auto simp: max_safe_def)
  qed
  moreover have "\<exists>k. d = Fin (of_int k) \<and> 0 \<le> k \<and> k \<le> max_safe" if "q_cursor q = Some d" for d
    using integerValue_range [OF c [unfolded that]] by (auto simp: max_safe_def)
  ultimately show ?thesis by (simp add: ql)
qed

lemma parseMarketListQuery_bounds_witness:
  "parseMarketListQuery (JObj [(''cursor'', JNum (Fin 7))]) = Inr \<lparr>q_status = None, q_creator = None,
      q_collateral = None, q_limit = Fin 20, q_cursor = Some (Fin 7)\<rparr> \<and>
   (\<exists>k. Fin 20 = Fin (of_int k) \<and> 1 \<le> k \<and> k \<le> 100)"
proof -
  have seven: "int_str 7 = ''7''"
    by code_simp
  have "num_to_string (Fin 7) = ''7''"
    using num_to_string_of_int [of 7] by (simp add: max_safe_def seven)
  then have "integerValue (JNum (Fin 7)) ''cursor'' 0 None None =
      integerValue (JStr ''7'') ''cursor'' 0 None None"
    by (simp add: integerValue_def queryScalar_def)
  also have "\<dots> = Inr (Some (Fin 7))"
    using num_of_int_safe [of 7] num_of_int_safe [of 0] isSafeInteger_of_int [of 7]
    by (simp add: integerValue_def queryScalar_def all_digits_def is_digit_def Number_digits
        digits_val_def digit_val_def max_safe_def)
  finally have *: "parseMarketListQuery (JObj [(''cursor'', JNum (Fin 7))]) = Inr \<lparr>q_status = None,
      q_creator = None, q_collateral = None, q_limit = Fin 20, q_cursor = Some (Fin 7)\<rparr>"
    using num_of_int_safe [of 20]
    by (simp add: parseMarketListQuery_def integerValue_def queryString_def queryScalar_def max_safe_def)
  from parseMarketListQuery_bounds [OF *] * show ?thesis by simp
qed

text \<open>An accepted address is 56 characters of the base-32 alphabet and is accepted again
  unchanged; anything else is an error.\<close>

lemma parseAddress_normal_form:
  "(case parseAddress v field of
     Inr a \<Rightarrow> stellar_address a \<and> parseAddress (JStr a) field = Inr a
   | Inl e \<Rightarrow> \<exists>m. e = RequestValidationError m)"
  by (cases v) (auto simp: parseAddress_def Let_def stellar_address_upper)

end
