(* ===== verification/Codecs.thy ===== *)
theory Codecs imports JS_Values begin

text \<open>
  \<open>contracts/codecs.ts\<close>: the normalisation of decoded contract values to what a JSON column
  holds, the JSON replacer built on it, and the decoding of a raw event.  The XDR decoder
  \<open>StellarSdk.scValToNative\<close> is a parameter: \<open>None\<close> where it throws.
\<close>

fun normalizeContractValue :: "jsval \<Rightarrow> jsval" where
  "normalizeContractValue (JBigInt i) = JStr (int_str i)"
| "normalizeContractValue (JBuffer bs) = JStr (hex_of_bytes bs)"
| "normalizeContractValue (JDate t) = JStr (toISOString t)"
| "normalizeContractValue (JArr vs) = JArr (map normalizeContractValue vs)"
| "normalizeContractValue (JObj kvs) = JObj (map (\<lambda>(k, v). (k, normalizeContractValue v)) kvs)"
| "normalizeContractValue v = v"

text \<open>\<open>JSON.stringify(v, jsonReplacer)\<close> read back by the \<open>::jsonb\<close> cast; \<open>None\<close> is \<open>undefined\<close>,
  which the driver sends as SQL \<open>NULL\<close>.\<close>

definition jsonReplacer :: "jsval \<Rightarrow> jsval" where
  "jsonReplacer v = normalizeContractValue v"

definition stringify_normalized :: "jsval \<Rightarrow> jsval option" where
  "stringify_normalized v = json_plain (jsonReplacer (to_json_method v))"

record decoded_event =
  topicValues :: "jsval list"
  payload :: jsval
  topic :: string

definition scValToNativeSafe :: "(string \<Rightarrow> jsval option) \<Rightarrow> string \<Rightarrow> jsval" where
  "scValToNativeSafe dec xdr = (case dec xdr of None \<Rightarrow> JUndefined | Some v \<Rightarrow> v)"

definition decodeRawEvent :: "(string \<Rightarrow> jsval option) \<Rightarrow> string list option \<Rightarrow> string \<Rightarrow> decoded_event" where
  "decodeRawEvent dec topics val = (let tvs = map (scValToNativeSafe dec) (or_else topics []) in
     \<lparr>topicValues = tvs, payload = scValToNativeSafe dec val,
      topic = js_String (js_coalesce (js_at tvs 0) (JStr ''unknown''))\<rparr>)"

section \<open>What normalisation guarantees\<close>

text \<open>The values a JSON text denotes: null, booleans, finite numbers, strings, and arrays and objects of them.\<close>

fun json_value :: "jsval \<Rightarrow> bool" where
  "json_value JNull = True"
| "json_value (JBool _) = True"
| "json_value (JNum n) = (case n of Fin _ \<Rightarrow> True | _ \<Rightarrow> False)"
| "json_value (JStr _) = True"
| "json_value (JArr vs) = list_all json_value vs"
| "json_value (JObj kvs) = list_all (\<lambda>(k, v). json_value v) kvs"
| "json_value _ = False"

text \<open>What normalisation has to start from: no \<open>undefined\<close> and no infinite number or NaN at any depth.\<close>

fun jsonable :: "jsval \<Rightarrow> bool" where
  "jsonable JUndefined = False"
| "jsonable (JNum n) = (case n of Fin _ \<Rightarrow> True | _ \<Rightarrow> False)"
| "jsonable (JArr vs) = list_all jsonable vs"
| "jsonable (JObj kvs) = list_all (\<lambda>(k, v). jsonable v) kvs"
| "jsonable _ = True"

lemma normalize_json_value: "json_value (normalizeContractValue v) = jsonable v"
  by (induction v rule: normalizeContractValue.induct) (auto simp: list_all_iff)

lemma normalize_idem: "normalizeContractValue (normalizeContractValue v) = normalizeContractValue v"
  by (induction v rule: normalizeContractValue.induct) auto

lemma normalize_no_bigint: "\<not> has_bigint (normalizeContractValue v)"
  by (induction v rule: normalizeContractValue.induct) (auto simp: list_ex_iff)

lemma json_plain_value: "json_value v \<Longrightarrow> json_plain v = Some v"
proof (induction v rule: json_value.induct)
  case (3 n)
  then show ?case by (cases n) simp_all
next
  case (5 vs)
  then show ?case by (auto simp: list_all_iff intro: map_idI)
next
  case (6 kvs)
  have "json_plain (snd kv) = Some (snd kv)" if "kv \<in> set kvs" for kv
    using 6 that by (cases kv) (auto simp: list_all_iff)
  then have "map (\<lambda>(k, v). case json_plain v of None \<Rightarrow> [] | Some x \<Rightarrow> [(k, x)]) kvs = map (\<lambda>kv. [kv]) kvs"
    by (intro map_cong refl) (simp add: split_beta)
  then have "concat (map (\<lambda>(k, v). case json_plain v of None \<Rightarrow> [] | Some x \<Rightarrow> [(k, x)]) kvs) = kvs"
    by (simp only: concat_map_singleton list.map_ident)
  then show ?case by simp
qed simp_all

lemma normalize_plain_None: "json_plain (normalizeContractValue v) = None \<longleftrightarrow> v = JUndefined"
  by (cases v) simp_all

text \<open>C29: normalisation is idempotent, and its result always stringifies without a throw.  The text is missing
  (\<open>undefined\<close>) exactly for \<open>undefined\<close>.  The result is a JSON value exactly when the argument holds no \<open>undefined\<close>
  and no infinite number or NaN at any depth; then the text stands for that very value.\<close>

lemma normalizeContractValue_json:
  "normalizeContractValue (normalizeContractValue v) = normalizeContractValue v \<and>
   (\<exists>t. js_stringify (normalizeContractValue v) = Inr t \<and> (t = JUndefined \<longleftrightarrow> v = JUndefined)) \<and>
   (json_value (normalizeContractValue v) \<longleftrightarrow> jsonable v) \<and>
   (jsonable v \<longrightarrow> js_stringify (normalizeContractValue v) = Inr (JStr (json_text (normalizeContractValue v))) \<and>
      json_plain (normalizeContractValue v) = Some (normalizeContractValue v))"
proof -
  have "jsonable v \<Longrightarrow> json_plain (normalizeContractValue v) = Some (normalizeContractValue v)"
    by (rule json_plain_value) (simp add: normalize_json_value)
  then show ?thesis
    using normalize_plain_None [of v]
    by (auto simp: normalize_idem normalize_json_value normalize_no_bigint js_stringify_def split: option.split)
qed

lemma normalizeContractValue_json_witness:
  "js_stringify (normalizeContractValue (JObj [(''amount'', JBigInt 5), (''tags'', JArr [JBuffer [255]])])) =
     Inr (JStr (json_text (JObj [(''amount'', JStr (int_str 5)), (''tags'', JArr [JStr (hex_of_bytes [255])])])))"
  using normalizeContractValue_json [of "JObj [(''amount'', JBigInt 5), (''tags'', JArr [JBuffer [255]])]"]
  by simp

text \<open>An event value the decoder rejects is \<open>undefined\<close>: its normal form has no JSON text, and stands as \<open>null\<close>
  in an array and not at all in an object.\<close>

lemma undecoded_payload:
  assumes "dec xdr = None"
  shows "stringify_normalized (scValToNativeSafe dec xdr) = None"
    and "stringify_normalized (JArr [scValToNativeSafe dec xdr]) = Some (JArr [JNull])"
    and "stringify_normalized (JObj [(k, scValToNativeSafe dec xdr)]) = Some (JObj [])"
  using assms by (simp_all add: scValToNativeSafe_def stringify_normalized_def jsonReplacer_def to_json_method_def)

text \<open>Bytes nested in an array or object reach the replacer as bytes and are stored as
  hexadecimal text; bytes at the root were already rewritten by \<open>Buffer.toJSON\<close>.\<close>

lemma stringify_root_buffer:
  "stringify_normalized (JBuffer bs) =
     Some (JObj [(''type'', JStr ''Buffer''), (''data'', JArr (map (\<lambda>b. JNum (Fin (of_int (int b)))) bs))])"
  by (simp add: stringify_normalized_def jsonReplacer_def to_json_method_def jint_def comp_def)

lemma stringify_nested_buffer:
  "stringify_normalized (JArr [JBuffer bs]) = Some (JArr [JStr (hex_of_bytes bs)])"
  by (simp add: stringify_normalized_def jsonReplacer_def to_json_method_def)

text \<open>The two storage forms of the same bytes.\<close>

lemma replacer_bytes_divergence:
  "stringify_normalized (JArr [JBuffer bs]) = Some (JArr [JStr (hex_of_bytes bs)]) \<and>
   stringify_normalized (JBuffer bs) \<noteq> Some (JStr (hex_of_bytes bs))"
  by (simp add: stringify_nested_buffer stringify_root_buffer)

lemma decodeRawEvent_unknown [simp]: "topic (decodeRawEvent dec None v) = ''unknown''"
  by (simp add: decodeRawEvent_def js_at_def)

end
