(* ===== verification/Config.thy ===== *)
theory Config imports JS_Values begin

text \<open>
  \<open>src/config\<close> of the services: the network table, the environment schema as the validator
  \<open>zod\<close> documents it (\<open>None\<close> where \<open>parse\<close> throws a \<open>ZodError\<close>), the checks \<open>loadEnv\<close>
  makes on a parsed environment, and the manifest with its module map.  \<open>z.url()\<close> and the
  process's working directory are parameters.
\<close>

section \<open>Networks\<close>

datatype network_name = mainnet | testnet | local_net

fun network_text :: "network_name \<Rightarrow> string" where
  "network_text mainnet = ''mainnet''"
| "network_text testnet = ''testnet''"
| "network_text local_net = ''local''"

fun NETWORK_PASSPHRASES :: "network_name \<Rightarrow> string" where
  "NETWORK_PASSPHRASES mainnet = ''Public Global Stellar Network ; September 2015''"
| "NETWORK_PASSPHRASES testnet = ''Test SDF Network ; September 2015''"
| "NETWORK_PASSPHRASES local_net = ''Standalone Network ; February 2017''"

lemma passphrases_distinct: "NETWORK_PASSPHRASES a = NETWORK_PASSPHRASES b \<longleftrightarrow> a = b"
  by (cases a; cases b) simp_all

section \<open>Fields of the environment\<close>

definition MAX_STROOPS :: int where
  "MAX_STROOPS = 9223372036854775807"

text \<open>A field validator takes the variable's text, absent as \<open>None\<close>.\<close>

definition stroops :: "string \<Rightarrow> string option \<Rightarrow> string option" where
  "stroops defaultValue v = (case v of None \<Rightarrow> Some defaultValue
     | Some s \<Rightarrow> if all_digits s \<and> int (digits_val s) \<le> MAX_STROOPS then Some s else None)"

definition envBoolean :: "string option \<Rightarrow> bool option" where
  "envBoolean v = (case v of None \<Rightarrow> Some False
     | Some s \<Rightarrow> if s = ''true'' \<or> s = ''1'' then Some True
         else if s = ''false'' \<or> s = ''0'' then Some False else None)"

text \<open>\<open>z.coerce.number().int()\<close> with a lower bound and a default.\<close>

definition coerced_int :: "int \<Rightarrow> int \<Rightarrow> string option \<Rightarrow> js_num option" where
  "coerced_int mn dflt v = (case v of None \<Rightarrow> Some (num_of_int dflt)
     | Some s \<Rightarrow> (let n = js_Number_of_string s in
         if js_isSafeInteger n \<and> \<not> js_lt n (num_of_int mn) then Some n else None))"

abbreviation positive_int :: "int \<Rightarrow> string option \<Rightarrow> js_num option" where
  "positive_int \<equiv> coerced_int 1"

definition nonempty :: "string option \<Rightarrow> string option" where
  "nonempty v = (case v of None \<Rightarrow> None | Some s \<Rightarrow> if s = [] then None else Some s)"

definition nonempty_default :: "string \<Rightarrow> string option \<Rightarrow> string option" where
  "nonempty_default d v = (case v of None \<Rightarrow> Some d | Some s \<Rightarrow> if s = [] then None else Some s)"

definition nonempty_optional :: "string option \<Rightarrow> string option option" where
  "nonempty_optional v = (case v of None \<Rightarrow> Some None | Some s \<Rightarrow> if s = [] then None else Some (Some s))"

definition network_field :: "string option \<Rightarrow> network_name option" where
  "network_field v = (case v of None \<Rightarrow> Some testnet
     | Some s \<Rightarrow> if s = ''mainnet'' then Some mainnet else if s = ''testnet'' then Some testnet
         else if s = ''local'' then Some local_net else None)"

definition node_env_field :: "string option \<Rightarrow> string option" where
  "node_env_field v = (case v of None \<Rightarrow> Some ''development''
     | Some s \<Rightarrow> if s \<in> {''development'', ''test'', ''production''} then Some s else None)"

text \<open>An unset or empty start ledger is absent; zero and non-numbers are rejected.\<close>

definition start_ledger_field :: "string option \<Rightarrow> js_num option option" where
  "start_ledger_field v = (case v of None \<Rightarrow> Some None
     | Some s \<Rightarrow> if s = [] then Some None
         else let n = js_Number_of_string s in
           if js_isSafeInteger n \<and> js_lt (Fin 0) n then Some (Some n) else None)"

record env =
  NODE_ENV :: string
  PORT :: js_num
  STELLAR_NETWORK :: network_name
  STELLAR_RPC_URL :: string
  STELLAR_HORIZON_URL :: string
  STELLAR_NETWORK_PASSPHRASE :: string
  DIKE_CONTRACTS_ROOT :: string
  DIKE_MANIFEST_PATH :: string
  DATABASE_URL :: string
  REDIS_URL :: string
  ADMIN_API_KEY :: "string option"
  INDEXER_START_LEDGER :: "js_num option"
  INDEXER_POLL_INTERVAL_MS :: js_num
  INDEXER_LEDGER_WINDOW :: js_num
  RECONCILIATION_INTERVAL_MS :: js_num
  INDEXER_LAG_ALERT_THRESHOLD :: js_num
  REORG_SAFETY_MARGIN_LEDGERS :: js_num
  FEE_SPONSOR_ENABLED :: bool
  FEE_SPONSOR_SEED :: "string option"
  FEE_SPONSOR_BASE_FEE_STROOPS :: string
  FEE_SPONSOR_MAX_TOTAL_FEE_STROOPS :: string
  FEE_SPONSOR_MAX_RESOURCE_FEE_STROOPS :: string
  FEE_SPONSOR_MAX_PER_MINUTE :: js_num
  FEE_SPONSOR_MAX_PER_IP_MINUTE :: js_num
  FEE_SPONSOR_DAILY_BUDGET_STROOPS :: string
  FEE_SPONSOR_REPLAY_TTL_SECONDS :: js_num
  FEE_SPONSOR_LOCK_TTL_SECONDS :: js_num
  FEE_SPONSOR_CONFIRMATION_TIMEOUT_SECONDS :: js_num

definition obind :: "'a option \<Rightarrow> ('a \<Rightarrow> 'b option) \<Rightarrow> 'b option" where
  "obind v f = (case v of None \<Rightarrow> None | Some x \<Rightarrow> f x)"

definition url_field :: "(string \<Rightarrow> bool) \<Rightarrow> string option \<Rightarrow> string option" where
  "url_field is_url v = (case v of None \<Rightarrow> None | Some s \<Rightarrow> if is_url s then Some s else None)"

definition envSchema :: "(string \<Rightarrow> bool) \<Rightarrow> string \<Rightarrow> (string \<Rightarrow> string option) \<Rightarrow> env option" where
  "envSchema is_url cwd p =
    obind (node_env_field (p ''NODE_ENV'')) (\<lambda>node.
    obind (positive_int 4000 (p ''PORT'')) (\<lambda>port.
    obind (network_field (p ''STELLAR_NETWORK'')) (\<lambda>net.
    obind (url_field is_url (p ''STELLAR_RPC_URL'')) (\<lambda>rpc.
    obind (url_field is_url (p ''STELLAR_HORIZON_URL'')) (\<lambda>hor.
    obind (nonempty (p ''STELLAR_NETWORK_PASSPHRASE'')) (\<lambda>pass.
    obind (nonempty_default cwd (p ''DIKE_CONTRACTS_ROOT'')) (\<lambda>root.
    obind (nonempty_default ''./deployments/testnet.json'' (p ''DIKE_MANIFEST_PATH'')) (\<lambda>mpath.
    obind (nonempty (p ''DATABASE_URL'')) (\<lambda>dburl.
    obind (nonempty (p ''REDIS_URL'')) (\<lambda>redis.
    obind (nonempty_optional (p ''ADMIN_API_KEY'')) (\<lambda>admin.
    obind (start_ledger_field (p ''INDEXER_START_LEDGER'')) (\<lambda>start.
    obind (positive_int 5000 (p ''INDEXER_POLL_INTERVAL_MS'')) (\<lambda>poll.
    obind (positive_int 250 (p ''INDEXER_LEDGER_WINDOW'')) (\<lambda>window.
    obind (positive_int 60000 (p ''RECONCILIATION_INTERVAL_MS'')) (\<lambda>recon.
    obind (positive_int 50 (p ''INDEXER_LAG_ALERT_THRESHOLD'')) (\<lambda>lag.
    obind (coerced_int 0 10 (p ''REORG_SAFETY_MARGIN_LEDGERS'')) (\<lambda>margin.
    obind (envBoolean (p ''FEE_SPONSOR_ENABLED'')) (\<lambda>enabled.
    obind (nonempty_optional (p ''FEE_SPONSOR_SEED'')) (\<lambda>seed.
    obind (stroops ''2000000'' (p ''FEE_SPONSOR_BASE_FEE_STROOPS'')) (\<lambda>base.
    obind (stroops ''10000000'' (p ''FEE_SPONSOR_MAX_TOTAL_FEE_STROOPS'')) (\<lambda>total.
    obind (stroops ''8000000'' (p ''FEE_SPONSOR_MAX_RESOURCE_FEE_STROOPS'')) (\<lambda>resource.
    obind (positive_int 10 (p ''FEE_SPONSOR_MAX_PER_MINUTE'')) (\<lambda>per_min.
    obind (positive_int 30 (p ''FEE_SPONSOR_MAX_PER_IP_MINUTE'')) (\<lambda>per_ip.
    obind (stroops ''100000000'' (p ''FEE_SPONSOR_DAILY_BUDGET_STROOPS'')) (\<lambda>budget.
    obind (positive_int 900 (p ''FEE_SPONSOR_REPLAY_TTL_SECONDS'')) (\<lambda>replay.
    obind (positive_int 180 (p ''FEE_SPONSOR_LOCK_TTL_SECONDS'')) (\<lambda>lock.
    obind (positive_int 120 (p ''FEE_SPONSOR_CONFIRMATION_TIMEOUT_SECONDS'')) (\<lambda>confirm.
    Some \<lparr>NODE_ENV = node, PORT = port, STELLAR_NETWORK = net, STELLAR_RPC_URL = rpc,
      STELLAR_HORIZON_URL = hor, STELLAR_NETWORK_PASSPHRASE = pass, DIKE_CONTRACTS_ROOT = root,
      DIKE_MANIFEST_PATH = mpath, DATABASE_URL = dburl, REDIS_URL = redis, ADMIN_API_KEY = admin,
      INDEXER_START_LEDGER = start, INDEXER_POLL_INTERVAL_MS = poll, INDEXER_LEDGER_WINDOW = window,
      RECONCILIATION_INTERVAL_MS = recon, INDEXER_LAG_ALERT_THRESHOLD = lag,
      REORG_SAFETY_MARGIN_LEDGERS = margin, FEE_SPONSOR_ENABLED = enabled, FEE_SPONSOR_SEED = seed,
      FEE_SPONSOR_BASE_FEE_STROOPS = base, FEE_SPONSOR_MAX_TOTAL_FEE_STROOPS = total,
      FEE_SPONSOR_MAX_RESOURCE_FEE_STROOPS = resource, FEE_SPONSOR_MAX_PER_MINUTE = per_min,
      FEE_SPONSOR_MAX_PER_IP_MINUTE = per_ip, FEE_SPONSOR_DAILY_BUDGET_STROOPS = budget,
      FEE_SPONSOR_REPLAY_TTL_SECONDS = replay, FEE_SPONSOR_LOCK_TTL_SECONDS = lock,
      FEE_SPONSOR_CONFIRMATION_TIMEOUT_SECONDS = confirm\<rparr>))))))))))))))))))))))))))))"

definition loadEnv :: "(string \<Rightarrow> bool) \<Rightarrow> string \<Rightarrow> (string \<Rightarrow> string option) \<Rightarrow> exn + env" where
  "loadEnv is_url cwd p = (case envSchema is_url cwd p of
     None \<Rightarrow> Inl (Error ''ZodError'')
   | Some env \<Rightarrow>
     if STELLAR_NETWORK_PASSPHRASE env \<noteq> NETWORK_PASSPHRASES (STELLAR_NETWORK env)
       then Inl (Error (''Passphrase mismatch for '' @ network_text (STELLAR_NETWORK env) @
         ''. Expected '' @ quote (NETWORK_PASSPHRASES (STELLAR_NETWORK env)) @ ''.''))
     else if FEE_SPONSOR_ENABLED env \<and> FEE_SPONSOR_SEED env = None
       then Inl (Error ''FEE_SPONSOR_SEED is required when fee sponsorship is enabled.'')
     else if FEE_SPONSOR_ENABLED env \<and>
         js_lt (FEE_SPONSOR_LOCK_TTL_SECONDS env) (FEE_SPONSOR_CONFIRMATION_TIMEOUT_SECONDS env)
       then Inl (Error ''FEE_SPONSOR_LOCK_TTL_SECONDS must cover the confirmation timeout.'')
     else Inr env)"

section \<open>Manifest\<close>

text \<open>Reading the file, parsing its JSON and hashing it are the platform's; what \<open>loadManifest\<close>
  returns is the schema's fields, the contract ids in the file's order of the schema, and the hash.\<close>

definition MANIFEST_MODULES :: "string list" where
  "MANIFEST_MODULES = [''market_factory'', ''market_registry'', ''conditional_tokens'',
     ''collateral_vault'', ''amm'', ''fee_manager'', ''cod_oracle'', ''council_of_dike'',
     ''dike_governance'', ''dike_timelock'', ''mock_usdc'']"

record manifest =
  m_network :: string
  m_contracts :: "(string \<times> string) list"
  m_hash :: string
  m_admin :: string
  m_governance_authority :: string

definition manifest_contract :: "manifest \<Rightarrow> string \<Rightarrow> string" where
  "manifest_contract m module_name = or_else (map_of (m_contracts m) module_name) []"

definition manifest_schema_keys :: "string list" where
  "manifest_schema_keys = [''mock_usdc'', ''dike_timelock'', ''dike_governance'', ''market_registry'',
     ''conditional_tokens'', ''collateral_vault'', ''amm'', ''fee_manager'', ''cod_oracle'',
     ''council_of_dike'', ''market_factory'']"

definition loadManifest :: "env \<Rightarrow> manifest \<Rightarrow> exn + manifest" where
  "loadManifest env m = (if map fst (m_contracts m) \<noteq> manifest_schema_keys then Inl (Error ''ZodError'')
     else if m_network m \<noteq> network_text (STELLAR_NETWORK env)
       then Inl (Error (''Manifest network '' @ quote (m_network m) @ '' does not match STELLAR_NETWORK='' @
         quote (network_text (STELLAR_NETWORK env)) @ ''.''))
     else Inr m)"

lemma manifest_modules_covered: "set MANIFEST_MODULES = set manifest_schema_keys"
  by (auto simp: MANIFEST_MODULES_def manifest_schema_keys_def)

section \<open>What a loaded environment guarantees\<close>

lemma obind_Some: "obind v f = Some r \<longleftrightarrow> (\<exists>x. v = Some x \<and> f x = Some r)"
  by (simp add: obind_def split: option.split)

definition int_at_least :: "int \<Rightarrow> js_num \<Rightarrow> bool" where
  "int_at_least mn n \<longleftrightarrow> (\<exists>k. n = Fin (of_int k) \<and> mn \<le> k \<and> \<bar>k\<bar> \<le> max_safe)"

definition stroop_text :: "string \<Rightarrow> bool" where
  "stroop_text s \<longleftrightarrow> all_digits s \<and> int (digits_val s) \<le> MAX_STROOPS"

lemma safe_integer_cases: "js_isSafeInteger n \<longleftrightarrow> (\<exists>k. n = Fin (of_int k) \<and> \<bar>k\<bar> \<le> max_safe)"
proof (cases n)
  case (Fin q)
  then show ?thesis
    by (simp add: js_isSafeInteger_def) (metis floor_of_int)
qed (simp_all add: js_isSafeInteger_def)

lemma coerced_int_at_least:
  "coerced_int mn d v = Some n \<Longrightarrow> mn \<le> d \<Longrightarrow> \<bar>d\<bar> \<le> max_safe \<Longrightarrow> \<bar>mn\<bar> \<le> max_safe \<Longrightarrow> int_at_least mn n"
  unfolding coerced_int_def int_at_least_def Let_def
  by (auto simp: num_of_int_safe safe_integer_cases not_less
      split: option.splits if_splits)
    (metis js_lt.simps(1) not_less of_int_less_iff)+

lemma stroops_text: "stroops d v = Some s \<Longrightarrow> stroop_text d \<Longrightarrow> stroop_text s"
  by (auto simp: stroops_def stroop_text_def split: option.splits if_splits)

lemma stroop_text_digits:
  "list_all is_digit s \<Longrightarrow> 0 < length s \<Longrightarrow> length s \<le> 18 \<Longrightarrow> stroop_text s"
proof -
  assume s: "list_all is_digit s" "0 < length s" "length s \<le> 18"
  have "digits_val s < 10 ^ length s" using s(1) by (rule digits_val_less)
  also have "\<dots> \<le> (10 :: nat) ^ 18" using s(3) by (intro power_increasing) simp_all
  finally show ?thesis using s by (auto simp: stroop_text_def all_digits_def MAX_STROOPS_def)
qed

text \<open>An environment that loads runs against the passphrase of its network, has a sponsor seed
  and a lock that outlives confirmation whenever sponsorship is enabled, and all its intervals,
  windows and stroop amounts are in range.\<close>

lemma loadEnv_sound:
  assumes "loadEnv is_url cwd p = Inr env"
  shows "STELLAR_NETWORK_PASSPHRASE env = NETWORK_PASSPHRASES (STELLAR_NETWORK env) \<and>
    (FEE_SPONSOR_ENABLED env \<longrightarrow> FEE_SPONSOR_SEED env \<noteq> None \<and>
      \<not> js_lt (FEE_SPONSOR_LOCK_TTL_SECONDS env) (FEE_SPONSOR_CONFIRMATION_TIMEOUT_SECONDS env)) \<and>
    int_at_least 1 (INDEXER_LEDGER_WINDOW env) \<and> int_at_least 0 (REORG_SAFETY_MARGIN_LEDGERS env) \<and>
    int_at_least 1 (FEE_SPONSOR_MAX_PER_MINUTE env) \<and> int_at_least 1 (FEE_SPONSOR_MAX_PER_IP_MINUTE env) \<and>
    stroop_text (FEE_SPONSOR_BASE_FEE_STROOPS env) \<and> stroop_text (FEE_SPONSOR_DAILY_BUDGET_STROOPS env)"
proof -
  have env: "envSchema is_url cwd p = Some env"
    and checks: "STELLAR_NETWORK_PASSPHRASE env = NETWORK_PASSPHRASES (STELLAR_NETWORK env)"
    "FEE_SPONSOR_ENABLED env \<Longrightarrow> FEE_SPONSOR_SEED env \<noteq> None"
    "FEE_SPONSOR_ENABLED env \<Longrightarrow>
      \<not> js_lt (FEE_SPONSOR_LOCK_TTL_SECONDS env) (FEE_SPONSOR_CONFIRMATION_TIMEOUT_SECONDS env)"
    using assms by (auto simp: loadEnv_def split: option.splits if_splits)
  have fields: "(\<exists>v. coerced_int 1 250 v = Some (INDEXER_LEDGER_WINDOW env)) \<and>
    (\<exists>v. coerced_int 0 10 v = Some (REORG_SAFETY_MARGIN_LEDGERS env)) \<and>
    (\<exists>v. coerced_int 1 10 v = Some (FEE_SPONSOR_MAX_PER_MINUTE env)) \<and>
    (\<exists>v. coerced_int 1 30 v = Some (FEE_SPONSOR_MAX_PER_IP_MINUTE env)) \<and>
    (\<exists>v. stroops ''2000000'' v = Some (FEE_SPONSOR_BASE_FEE_STROOPS env)) \<and>
    (\<exists>v. stroops ''100000000'' v = Some (FEE_SPONSOR_DAILY_BUDGET_STROOPS env))"
    using env unfolding envSchema_def obind_Some
    by (-, elim exE conjE, simp only: option.inject, hypsubst, simp only: env.select_convs)
      (intro conjI; (rule exI, assumption))
  have defaults: "stroop_text ''2000000''" "stroop_text ''100000000''"
    by (rule stroop_text_digits; simp add: is_digit_def)+
  have bound: "\<And>v n. coerced_int 1 250 v = Some n \<Longrightarrow> int_at_least 1 n"
    "\<And>v n. coerced_int 0 10 v = Some n \<Longrightarrow> int_at_least 0 n"
    "\<And>v n. coerced_int 1 10 v = Some n \<Longrightarrow> int_at_least 1 n"
    "\<And>v n. coerced_int 1 30 v = Some n \<Longrightarrow> int_at_least 1 n"
    by (erule coerced_int_at_least; simp add: max_safe_def)+
  from fields checks show ?thesis
    by (blast intro: bound stroops_text [OF _ defaults(1)] stroops_text [OF _ defaults(2)])
qed

definition sample_env :: "string \<Rightarrow> string option" where
  "sample_env = map_of [(''STELLAR_RPC_URL'', ''https://rpc''), (''STELLAR_HORIZON_URL'', ''https://horizon''),
     (''STELLAR_NETWORK_PASSPHRASE'', ''Test SDF Network ; September 2015''), (''DATABASE_URL'', ''pg''),
     (''REDIS_URL'', ''redis'')]"

lemma loadEnv_sound_witness:
  "\<exists>env. loadEnv (\<lambda>_. True) ''/'' sample_env = Inr env \<and> int_at_least 1 (INDEXER_LEDGER_WINDOW env)"
proof -
  have "\<exists>env. loadEnv (\<lambda>_. True) ''/'' sample_env = Inr env"
    by (simp add: loadEnv_def envSchema_def obind_def sample_env_def node_env_field_def coerced_int_def
        network_field_def url_field_def nonempty_def nonempty_default_def nonempty_optional_def
        start_ledger_field_def envBoolean_def stroops_def)
  then obtain env where "loadEnv (\<lambda>_. True) ''/'' sample_env = Inr env" ..
  with loadEnv_sound [OF this] show ?thesis by auto
qed

definition sample_config :: env where
  "sample_config = \<lparr>NODE_ENV = ''test'', PORT = Fin 4000, STELLAR_NETWORK = testnet,
     STELLAR_RPC_URL = ''https://rpc'', STELLAR_HORIZON_URL = ''https://horizon'',
     STELLAR_NETWORK_PASSPHRASE = ''Test SDF Network ; September 2015'', DIKE_CONTRACTS_ROOT = ''/'',
     DIKE_MANIFEST_PATH = ''testnet.json'', DATABASE_URL = ''pg'', REDIS_URL = ''redis'',
     ADMIN_API_KEY = None, INDEXER_START_LEDGER = Some (Fin 1), INDEXER_POLL_INTERVAL_MS = Fin 5000,
     INDEXER_LEDGER_WINDOW = Fin 250, RECONCILIATION_INTERVAL_MS = Fin 60000,
     INDEXER_LAG_ALERT_THRESHOLD = Fin 50, REORG_SAFETY_MARGIN_LEDGERS = Fin 10,
     FEE_SPONSOR_ENABLED = False, FEE_SPONSOR_SEED = None, FEE_SPONSOR_BASE_FEE_STROOPS = ''2000000'',
     FEE_SPONSOR_MAX_TOTAL_FEE_STROOPS = ''10000000'', FEE_SPONSOR_MAX_RESOURCE_FEE_STROOPS = ''8000000'',
     FEE_SPONSOR_MAX_PER_MINUTE = Fin 10, FEE_SPONSOR_MAX_PER_IP_MINUTE = Fin 30,
     FEE_SPONSOR_DAILY_BUDGET_STROOPS = ''100000000'', FEE_SPONSOR_REPLAY_TTL_SECONDS = Fin 900,
     FEE_SPONSOR_LOCK_TTL_SECONDS = Fin 180, FEE_SPONSOR_CONFIRMATION_TIMEOUT_SECONDS = Fin 120\<rparr>"

end
