(* ===== verification/Metrics.thy ===== *)
theory Metrics imports Config begin

text \<open>
  \<open>observability/metrics.ts\<close> and \<open>observability/event-bus.ts\<close>: the in-process counters and the
  per-contract lag table, and the updates published on the state bus.  Counters and ledger
  sequences are integers a double holds exactly.
\<close>

record contract_metric =
  cm_contractId :: string
  cm_module :: string
  cm_lastIndexedLedger :: int
  cm_latestLedger :: int
  cm_lagLedgers :: int

record metrics =
  mLatestLedger :: int
  rpcFailureCount :: int
  reconciliationMismatchCount :: int
  persistentReconciliationMismatchCount :: int
  processingFailures :: int
  lagAlertCount :: int
  checkpointRewindCount :: int
  sponsorshipRequested :: int
  sponsorshipAccepted :: int
  sponsorshipConfirmed :: int
  sponsorshipFailed :: int
  sponsorshipTimeout :: int
  sponsorshipRejected :: int
  sponsorshipDeclaredStroops :: int
  sponsorshipLatencyMs :: int
  sponsorshipRejectionReasons :: "(string \<times> int) list"
  contractMetrics :: "(string \<times> contract_metric) list"

definition initial_metrics :: metrics where
  "initial_metrics = \<lparr>mLatestLedger = 0, rpcFailureCount = 0, reconciliationMismatchCount = 0,
     persistentReconciliationMismatchCount = 0, processingFailures = 0, lagAlertCount = 0,
     checkpointRewindCount = 0, sponsorshipRequested = 0, sponsorshipAccepted = 0,
     sponsorshipConfirmed = 0, sponsorshipFailed = 0, sponsorshipTimeout = 0,
     sponsorshipRejected = 0, sponsorshipDeclaredStroops = 0, sponsorshipLatencyMs = 0,
     sponsorshipRejectionReasons = [], contractMetrics = []\<rparr>"

definition setLatestLedger :: "int \<Rightarrow> metrics \<Rightarrow> metrics" where
  "setLatestLedger s m = m\<lparr>mLatestLedger := s\<rparr>"

definition noteRpcFailure :: "metrics \<Rightarrow> metrics" where
  "noteRpcFailure m = m\<lparr>rpcFailureCount := rpcFailureCount m + 1\<rparr>"

definition noteProcessingFailure :: "metrics \<Rightarrow> metrics" where
  "noteProcessingFailure m = m\<lparr>processingFailures := processingFailures m + 1\<rparr>"

definition setReconciliationMismatchCount :: "int \<Rightarrow> metrics \<Rightarrow> metrics" where
  "setReconciliationMismatchCount c m = m\<lparr>reconciliationMismatchCount := c\<rparr>"

definition setPersistentReconciliationMismatchCount :: "int \<Rightarrow> metrics \<Rightarrow> metrics" where
  "setPersistentReconciliationMismatchCount c m = m\<lparr>persistentReconciliationMismatchCount := c\<rparr>"

definition setLagAlertCount :: "int \<Rightarrow> metrics \<Rightarrow> metrics" where
  "setLagAlertCount c m = m\<lparr>lagAlertCount := c\<rparr>"

definition noteCheckpointRewind :: "metrics \<Rightarrow> metrics" where
  "noteCheckpointRewind m = m\<lparr>checkpointRewindCount := checkpointRewindCount m + 1\<rparr>"

definition noteSponsorshipRequested :: "metrics \<Rightarrow> metrics" where
  "noteSponsorshipRequested m = m\<lparr>sponsorshipRequested := sponsorshipRequested m + 1\<rparr>"

definition noteSponsorshipAccepted :: "int \<Rightarrow> metrics \<Rightarrow> metrics" where
  "noteSponsorshipAccepted declaredStroops m =
     m\<lparr>sponsorshipAccepted := sponsorshipAccepted m + 1,
       sponsorshipDeclaredStroops := sponsorshipDeclaredStroops m + declaredStroops\<rparr>"

datatype completion = Confirmed | Failed | Timeout | Rejected

definition noteSponsorshipCompleted :: "completion \<Rightarrow> int \<Rightarrow> string option \<Rightarrow> metrics \<Rightarrow> metrics" where
  "noteSponsorshipCompleted status latencyMs reason m =
     (let m1 = m\<lparr>sponsorshipLatencyMs := sponsorshipLatencyMs m + max latencyMs 0\<rparr>;
          m2 = (case status of
             Confirmed \<Rightarrow> m1\<lparr>sponsorshipConfirmed := sponsorshipConfirmed m1 + 1\<rparr>
           | Failed \<Rightarrow> m1\<lparr>sponsorshipFailed := sponsorshipFailed m1 + 1\<rparr>
           | Timeout \<Rightarrow> m1\<lparr>sponsorshipTimeout := sponsorshipTimeout m1 + 1\<rparr>
           | Rejected \<Rightarrow> m1\<lparr>sponsorshipRejected := sponsorshipRejected m1 + 1\<rparr>)
      in case reason of None \<Rightarrow> m2
         | Some r \<Rightarrow> if r = [] then m2
             else m2\<lparr>sponsorshipRejectionReasons := set_key r
               (or_else (map_of (sponsorshipRejectionReasons m2) r) 0 + 1) (sponsorshipRejectionReasons m2)\<rparr>)"

definition setContractLag :: "string \<Rightarrow> string \<Rightarrow> int \<Rightarrow> int \<Rightarrow> metrics \<Rightarrow> metrics" where
  "setContractLag contractId module_name lastIndexedLedger latestLedger m =
     m\<lparr>contractMetrics := set_key contractId
       \<lparr>cm_contractId = contractId, cm_module = module_name, cm_lastIndexedLedger = lastIndexedLedger,
        cm_latestLedger = latestLedger, cm_lagLedgers = max (latestLedger - lastIndexedLedger) 0\<rparr>
       (contractMetrics m)\<rparr>"

text \<open>The table the lag alert and the metrics endpoint read: \<open>snapshot().contracts\<close>.\<close>

definition snapshot_contracts :: "metrics \<Rightarrow> contract_metric list" where
  "snapshot_contracts m = map snd (contractMetrics m)"

definition contract_metric_json :: "contract_metric \<Rightarrow> jsval" where
  "contract_metric_json cm = JObj [(''contractId'', JStr (cm_contractId cm)), (''module'', JStr (cm_module cm)),
     (''lastIndexedLedger'', jint (cm_lastIndexedLedger cm)), (''latestLedger'', jint (cm_latestLedger cm)),
     (''lagLedgers'', jint (cm_lagLedgers cm))]"

definition snapshot :: "metrics \<Rightarrow> jsval" where
  "snapshot m = JObj [(''latestLedger'', jint (mLatestLedger m)), (''rpcFailureCount'', jint (rpcFailureCount m)),
     (''reconciliationMismatchCount'', jint (reconciliationMismatchCount m)),
     (''persistentReconciliationMismatchCount'', jint (persistentReconciliationMismatchCount m)),
     (''processingFailures'', jint (processingFailures m)), (''lagAlertCount'', jint (lagAlertCount m)),
     (''checkpointRewindCount'', jint (checkpointRewindCount m)),
     (''sponsorship'', JObj [(''requested'', jint (sponsorshipRequested m)), (''accepted'', jint (sponsorshipAccepted m)),
       (''confirmed'', jint (sponsorshipConfirmed m)), (''failed'', jint (sponsorshipFailed m)),
       (''timeout'', jint (sponsorshipTimeout m)), (''rejected'', jint (sponsorshipRejected m)),
       (''declaredStroops'', JStr (int_str (sponsorshipDeclaredStroops m))),
       (''latencyMs'', jint (sponsorshipLatencyMs m)),
       (''rejectionReasons'', JObj (map (\<lambda>(r, n). (r, jint n)) (sponsorshipRejectionReasons m)))]),
     (''contracts'', JArr (map contract_metric_json (snapshot_contracts m)))]"

text \<open>The aggregates of \<open>snapshot()\<close> for completed sponsorships.\<close>

definition completed_total :: "metrics \<Rightarrow> int" where
  "completed_total m = sponsorshipConfirmed m + sponsorshipFailed m + sponsorshipTimeout m +
     sponsorshipRejected m"

section \<open>The state bus\<close>

datatype state_update =
    MarketUpdate string js_num
  | PortfolioUpdate string string
  | GovernanceUpdate string
  | CouncilCaseUpdate string js_num
  | TimelockActionUpdate string js_num

section \<open>Lemmas\<close>

text \<open>Each row is filed under its own contract, and its lag is the distance from the tip, never
  negative.\<close>

definition metrics_ok :: "metrics \<Rightarrow> bool" where
  "metrics_ok m \<longleftrightarrow> distinct (map fst (contractMetrics m)) \<and>
     (\<forall>(c, cm) \<in> set (contractMetrics m). cm_contractId cm = c \<and> 0 \<le> cm_lagLedgers cm \<and>
        cm_lagLedgers cm = max (cm_latestLedger cm - cm_lastIndexedLedger cm) 0)"

lemma set_set_key: "set (set_key k v kvs) \<subseteq> insert (k, v) (set kvs)"
  by (induction kvs) (auto simp: set_key_def)

lemma setContractLag_ok: "metrics_ok m \<Longrightarrow> metrics_ok (setContractLag c md l t m)"
  using set_set_key [of c _ "contractMetrics m"]
  by (fastforce simp: metrics_ok_def setContractLag_def distinct_set_key)

lemma metrics_setters_ok [simp]:
  "metrics_ok (setLatestLedger s m) = metrics_ok m"
  "metrics_ok (noteRpcFailure m) = metrics_ok m"
  "metrics_ok (noteProcessingFailure m) = metrics_ok m"
  "metrics_ok (setReconciliationMismatchCount c m) = metrics_ok m"
  "metrics_ok (setPersistentReconciliationMismatchCount c m) = metrics_ok m"
  "metrics_ok (setLagAlertCount c m) = metrics_ok m"
  "metrics_ok (noteCheckpointRewind m) = metrics_ok m"
  by (simp_all add: metrics_ok_def setLatestLedger_def noteRpcFailure_def noteProcessingFailure_def
      setReconciliationMismatchCount_def setPersistentReconciliationMismatchCount_def
      setLagAlertCount_def noteCheckpointRewind_def)

lemma metrics_ok_initial [simp]: "metrics_ok initial_metrics"
  by (simp add: metrics_ok_def initial_metrics_def)

lemma noteSponsorshipCompleted_counts:
  "completed_total (noteSponsorshipCompleted st l r m) = completed_total m + 1"
  "sponsorshipLatencyMs m \<le> sponsorshipLatencyMs (noteSponsorshipCompleted st l r m)"
  by (cases st; cases r; simp add: noteSponsorshipCompleted_def completed_total_def Let_def)+

end
