(* ===== verification/World.thy ===== *)
theory World imports Codecs Metrics begin

text \<open>
  The world the services run in: the PostgreSQL database as the repository's SQL sees it, the
  metrics store, the updates published on the bus, and the answers of everything outside the
  program.  Those answers are indexed by \<open>tick\<close>, the number of external operations performed so
  far, so that they may change from one call to the next in any way; no operation changes them.

  A database operation can fail without being applied or be applied without being acknowledged.
  A table holds rows by primary key; a row gives each column its text as the driver sends and the
  server stores it, absent for \<open>NULL\<close>.  Types, \<open>NOT NULL\<close> columns and defaults of the SQL
  migrations are parameters (\<open>schema_ok\<close>, \<open>col_default\<close>).
\<close>

section \<open>The database\<close>

type_synonym row = "string \<Rightarrow> string option"
type_synonym table = "(string option list \<times> row) list"

record checkpoint =
  lastProcessedLedger :: int
  lastProcessedCursor :: "string option"

record event_record =
  e_network :: string
  e_contractId :: string
  e_ledger :: int
  e_txHash :: string
  e_eventId :: string
  e_topic :: string
  e_topicValues :: "jsval list"
  e_payload :: jsval
  e_rawEvent :: jsval
  e_cursor :: "string option"

text \<open>A stored raw event: its identity, the columns queries read, and its JSON columns.\<close>

record stored_event =
  s_network :: string
  s_eventId :: string
  s_contractId :: string
  s_ledger :: int
  s_txHash :: string
  s_topic :: string
  s_topicValues :: jsval
  s_payload :: jsval

record deployment =
  d_network :: string
  d_module :: string
  d_contract_id :: string

record db =
  tables :: "string \<Rightarrow> table"
  deployments :: "deployment list"
  checkpoints :: "string \<times> string \<Rightarrow> checkpoint option"
  raw_events :: "stored_event list"
  trades :: "row list"
  liquidity_events :: "row list"
  fee_claims :: "row list"
  mismatches :: "((string \<times> string \<times> string \<times> string) \<times> int) list"
  advisory_locks :: "int \<Rightarrow> (nat \<times> nat) option"

text \<open>An advisory lock is held by a session, with the number of times it took it.\<close>

section \<open>The services' world\<close>

datatype db_fault = NoFault | Lost string | Unacknowledged string

datatype read_result = PlainResult jsval | OkResult jsval | ErrResult jsval

record contract_call =
  c_client :: string
  c_method :: string
  c_args :: "(string \<times> jsval) list"

record rpc_event =
  ev_ledger :: int
  ev_txHash :: string
  ev_id :: string
  ev_topic :: "string list option"
  ev_value :: string

record events_response =
  r_events :: "rpc_event list"
  r_cursor :: "string option"

datatype events_request = LedgerWindow string int int nat | FromCursor string string nat

record world =
  tick :: nat
  db :: db
  metrics :: metrics
  bus :: "state_update list"
  indexer_running :: bool
  indexer_timer :: bool
  jobs_running :: bool
  jobs_timer :: bool
  db_fault_at :: "nat \<Rightarrow> db_fault"
  session_at :: "nat \<Rightarrow> nat"
  clock :: "nat \<Rightarrow> int"
  schema_ok :: "string \<Rightarrow> row \<Rightarrow> bool"
  col_default :: "string \<Rightarrow> row"
  decoder :: "string \<Rightarrow> jsval option"
  rpc_ledger :: "nat \<Rightarrow> exn + int"
  rpc_health :: "nat \<Rightarrow> exn + string"
  rpc_events :: "nat \<Rightarrow> events_request \<Rightarrow> exn + events_response"
  rpc_read :: "nat \<Rightarrow> contract_call \<Rightarrow> exn + read_result"
  rpc_simulate :: "nat \<Rightarrow> string \<Rightarrow> string \<Rightarrow> exn + jsval option"

type_synonym 'a task = "(exn, world, 'a) io"

text \<open>The answers the indexer's reasoning depends on, which nothing changes.\<close>

definition oracles :: "world \<Rightarrow> (nat \<Rightarrow> exn + int) \<times> (nat \<Rightarrow> events_request \<Rightarrow> exn + events_response) \<times>
    (string \<Rightarrow> jsval option) \<times> (nat \<Rightarrow> db_fault)" where
  "oracles w = (rpc_ledger w, rpc_events w, decoder w, db_fault_at w)"

lemma oracles_update [simp]:
  "oracles (w\<lparr>tick := n\<rparr>) = oracles w" "oracles (w\<lparr>db := d\<rparr>) = oracles w"
  "oracles (w\<lparr>bus := b\<rparr>) = oracles w" "oracles (w\<lparr>metrics := ms\<rparr>) = oracles w"
  "oracles (w\<lparr>indexer_running := r\<rparr>) = oracles w"
  by (simp_all add: oracles_def)

text \<open>One statement on the pool: it fails before or after taking effect, or the statement itself
  is rejected, or it applies.\<close>

definition db_query :: "(world \<Rightarrow> db \<Rightarrow> exn + 'a \<times> db) \<Rightarrow> 'a task" where
  "db_query f = (\<lambda>w. let w' = w\<lparr>tick := Suc (tick w)\<rparr> in
     case db_fault_at w (tick w) of
       Lost m \<Rightarrow> (Inl (Error m), w')
     | Unacknowledged m \<Rightarrow> (case f w (db w) of Inl e \<Rightarrow> (Inl e, w')
         | Inr (a, d) \<Rightarrow> (Inl (Error m), w'\<lparr>db := d\<rparr>))
     | NoFault \<Rightarrow> (case f w (db w) of Inl e \<Rightarrow> (Inl e, w') | Inr (a, d) \<Rightarrow> (Inr a, w'\<lparr>db := d\<rparr>)))"

definition db_select :: "(db \<Rightarrow> 'a) \<Rightarrow> 'a task" where
  "db_select f = db_query (\<lambda>w d. Inr (f d, d))"

definition db_exec :: "(db \<Rightarrow> db) \<Rightarrow> unit task" where
  "db_exec f = db_query (\<lambda>w d. Inr ((), f d))"

definition ask :: "(world \<Rightarrow> nat \<Rightarrow> exn + 'a) \<Rightarrow> 'a task" where
  "ask f = (\<lambda>w. (f w (tick w), w\<lparr>tick := Suc (tick w)\<rparr>))"

definition publish :: "state_update \<Rightarrow> unit task" where
  "publish u = modifyM (\<lambda>w. w\<lparr>bus := bus w @ [u]\<rparr>)"

definition on_metrics :: "(metrics \<Rightarrow> metrics) \<Rightarrow> unit task" where
  "on_metrics f = modifyM (\<lambda>w. w\<lparr>metrics := f (metrics w)\<rparr>)"

text \<open>\<open>new Date().toISOString()\<close>\<close>

definition now_iso :: "string task" where
  "now_iso = ask (\<lambda>w t. Inr (toISOString (clock w t)))"

section \<open>Query parameters\<close>

text \<open>The text the PostgreSQL driver sends for a parameter; nothing for \<open>NULL\<close>.\<close>

fun pg_param :: "jsval \<Rightarrow> string option" where
  "pg_param JUndefined = None"
| "pg_param JNull = None"
| "pg_param (JBool b) = Some (if b then ''true'' else ''false'')"
| "pg_param (JNum n) = Some (num_to_string n)"
| "pg_param (JBigInt i) = Some (int_str i)"
| "pg_param (JStr s) = Some s"
| "pg_param (JBuffer bs) = Some (char_of (92 :: nat) # ''x'' @ hex_of_bytes bs)"
| "pg_param (JDate t) = Some (toISOString t)"
| "pg_param (JArr vs) = Some (''{'' @ js_join '','' (map (\<lambda>v. case pg_param v of None \<Rightarrow> ''NULL''
     | Some t \<Rightarrow> if is_JArr v then t else quote t) vs) @ ''}'')"
| "pg_param (JObj kvs) = (case js_stringify (JObj kvs) of Inr (JStr s) \<Rightarrow> Some s | _ \<Rightarrow> None)"

lemma pg_param_simps [simp]: "pg_param (jint n) = Some (num_to_string (Fin (of_int n)))"
  by (simp add: jint_def)

section \<open>Frames of the primitives\<close>

text \<open>A query keeps whatever its statement keeps of the database; the rest of the world is only
  touched by its own primitive.\<close>

lemma snd_db_query:
  "snd (db_query f w) = w\<lparr>tick := Suc (tick w)\<rparr> \<or>
   (\<exists>a d. f w (db w) = Inr (a, d) \<and> snd (db_query f w) = w\<lparr>tick := Suc (tick w), db := d\<rparr>)"
  by (auto simp: db_query_def Let_def split: db_fault.splits sum.splits)

lemma db_query_Inr:
  "db_query f w = (Inr a, w') \<Longrightarrow>
   \<exists>d. f w (db w) = Inr (a, d) \<and> w' = w\<lparr>tick := Suc (tick w), db := d\<rparr>"
  by (auto simp: db_query_def Let_def split: db_fault.splits sum.splits)

lemma db_query_same:
  assumes "\<And>w d. p (w\<lparr>tick := Suc (tick w)\<rparr>) = p w"
    and "\<And>w a d. f w (db w) = Inr (a, d) \<Longrightarrow> p (w\<lparr>tick := Suc (tick w), db := d\<rparr>) = p w"
  shows "evolves (same p) (db_query f)"
proof (rule evolvesI)
  fix w
  show "same p w (snd (db_query f w))"
    using snd_db_query [of f w] assms by (auto simp: same_def)
qed

lemma db_select_same:
  assumes "\<And>w n. p (w\<lparr>tick := n\<rparr>) = p w"
  shows "evolves (same p) (db_select f)"
  unfolding db_select_def
proof (rule db_query_same)
  fix w :: world and a d
  assume "Inr (f (db w), db w) = (Inr (a, d) :: exn + _)"
  then have "w\<lparr>tick := Suc (tick w), db := d\<rparr> = w\<lparr>tick := Suc (tick w)\<rparr>" by simp
  then show "p (w\<lparr>tick := Suc (tick w), db := d\<rparr>) = p w" by (simp add: assms)
qed (simp add: assms)

lemma ask_same: "(\<And>w n. p (w\<lparr>tick := n\<rparr>) = p w) \<Longrightarrow> evolves (same p) (ask f)"
  by (auto simp: ask_def same_def intro!: evolvesI)

lemma now_iso_same: "(\<And>w n. p (w\<lparr>tick := n\<rparr>) = p w) \<Longrightarrow> evolves (same p) now_iso"
  unfolding now_iso_def by (rule ask_same)

lemma publish_same: "(\<And>w b. p (w\<lparr>bus := b\<rparr>) = p w) \<Longrightarrow> evolves (same p) (publish u)"
  unfolding publish_def by (rule same.modifyM_evolves) (simp add: same_def)

lemma on_metrics_same: "(\<And>w m. p (w\<lparr>metrics := m\<rparr>) = p w) \<Longrightarrow> evolves (same p) (on_metrics f)"
  unfolding on_metrics_def by (rule same.modifyM_evolves) (simp add: same_def)

section \<open>A quiet world\<close>

text \<open>Nothing stored, no faults, an RPC node at ledger 100 without events: the starting point of the
  concrete runs in the witnesses.\<close>

definition empty_db :: db where
  "empty_db = \<lparr>tables = (\<lambda>_. []), deployments = [], checkpoints = (\<lambda>_. None), raw_events = [], trades = [],
     liquidity_events = [], fee_claims = [], mismatches = [], advisory_locks = (\<lambda>_. None)\<rparr>"

definition quiet_world :: world where
  "quiet_world = \<lparr>tick = 0, db = empty_db, metrics = initial_metrics, bus = [],
     indexer_running = False, indexer_timer = False, jobs_running = False, jobs_timer = False,
     db_fault_at = (\<lambda>_. NoFault), session_at = (\<lambda>_. 0), clock = (\<lambda>_. 0), schema_ok = (\<lambda>_ _. True),
     col_default = (\<lambda>_ _. None), decoder = (\<lambda>_. None), rpc_ledger = (\<lambda>_. Inr 100),
     rpc_health = (\<lambda>_. Inr ''healthy''),
     rpc_events = (\<lambda>_ _. Inr \<lparr>r_events = [], r_cursor = None\<rparr>),
     rpc_read = (\<lambda>_ _. Inl (Error ''no contract'')), rpc_simulate = (\<lambda>_ _ _. Inl (Error ''no contract''))\<rparr>"

lemmas quiet_defs = quiet_world_def empty_db_def

end
