(* ===== verification/Repository.thy ===== *)
theory Repository
  imports World "HOL-Library.Char_ord" "HOL-Library.List_Lexorder"
begin

text \<open>
  The writing half of \<open>db/repositories/state-repository.ts\<close> and the reads the indexer and the
  jobs use: upserts through a column whitelist, checkpoints, raw events, trades and liquidity
  with their conflict targets, fee claims, mismatches and the advisory lease.  Each method is a
  task over the services' world that runs the SQL statement of its source, given here as a
  function on the database.  The bookkeeping columns \<open>created_at\<close> and \<open>updated_at\<close> are left out; the
  order of \<open>created_at\<close> is the order of insertion.
\<close>

section \<open>Upserts\<close>

definition buildUpsertSpec ::
  "string \<Rightarrow> (string \<times> jsval) list \<Rightarrow> string list \<Rightarrow> exn + (string \<times> jsval) list" where
  "buildUpsertSpec table_name summary allowedColumns =
    (let entries = filter (\<lambda>(key, _). key \<in> set allowedColumns) summary;
         invalidKeys = filter (\<lambda>key. key \<notin> set allowedColumns) (remdups (map fst summary))
     in if invalidKeys \<noteq> []
        then Inl (Error (''Unexpected columns for '' @ table_name @ '': '' @ js_join '', '' invalidKeys))
        else if entries = [] then Inl (Error (''No allowed columns provided for '' @ table_name))
        else Inr entries)"

definition override :: "row \<Rightarrow> (string \<times> string option) list \<Rightarrow> row" where
  "override r cols = (\<lambda>c. case map_of cols c of None \<Rightarrow> r c | Some v \<Rightarrow> v)"

definition row_key :: "string list \<Rightarrow> row \<Rightarrow> string option list" where
  "row_key keys r = map r keys"

definition set_table :: "string \<Rightarrow> table \<Rightarrow> db \<Rightarrow> db" where
  "set_table t rows d = d\<lparr>tables := (tables d)(t := rows)\<rparr>"

definition sql_error :: "string \<Rightarrow> exn" where
  "sql_error t = Error (''constraint violated in '' @ t)"

text \<open>\<open>INSERT ... ON CONFLICT (keys) DO UPDATE SET c = EXCLUDED.c\<close>: the proposed row is checked
  before the conflict is resolved, the resulting row after it.\<close>

definition sql_upsert :: "string \<Rightarrow> string list \<Rightarrow> (string \<times> string option) list \<Rightarrow> world \<Rightarrow> db \<Rightarrow> exn + unit \<times> db" where
  "sql_upsert t keys cols w d =
    (let proposed = override (col_default w t) cols; key = row_key keys proposed;
         result = (case map_of (tables d t) key of None \<Rightarrow> proposed | Some old \<Rightarrow> override old cols)
     in if None \<in> set key \<or> \<not> schema_ok w t proposed \<or> \<not> schema_ok w t result then Inl (sql_error t)
        else Inr ((), set_table t (set_key key result (tables d t)) d))"

definition upsert_summary :: "string \<Rightarrow> string list \<Rightarrow> string list \<Rightarrow> (string \<times> jsval) list \<Rightarrow> unit task" where
  "upsert_summary t keys allowed summary =
     bindM (liftE (buildUpsertSpec t summary allowed)) (\<lambda>entries.
       db_query (sql_upsert t keys (map (\<lambda>(c, v). (c, pg_param v)) entries)))"

definition markets_columns :: "string list" where
  "markets_columns = [''network'', ''market_id'', ''question'', ''question_hash'', ''rules_uri'',
      ''rules_hash'', ''creator'', ''category'', ''collateral'', ''yes_token_id'',
      ''no_token_id'', ''expiry'', ''status'', ''has_final_outcome'', ''final_outcome'',
      ''pool_id'', ''bond_amount'', ''dispute_window'', ''has_request'', ''request_id'',
      ''created_at_unix'', ''fee_config_json'', ''last_reconciled_ledger'', ''reconciled_at'']"

definition upsertMarketSummary :: "(string \<times> jsval) list \<Rightarrow> unit task" where
  "upsertMarketSummary = upsert_summary ''markets'' [''network'', ''market_id''] markets_columns"

definition pools_columns :: "string list" where
  "pools_columns = [''network'', ''pool_id'', ''market_id'', ''yes_reserve'', ''no_reserve'',
      ''total_lp_shares'', ''accumulated_lp_fees'', ''accumulated_protocol_fees'',
      ''accumulated_cod_fees'', ''fee_per_share_scaled'', ''live'',
      ''last_reconciled_ledger'', ''reconciled_at'']"

definition upsertPool :: "(string \<times> jsval) list \<Rightarrow> unit task" where
  "upsertPool = upsert_summary ''pools'' [''network'', ''pool_id''] pools_columns"

definition resolution_requests_columns :: "string list" where
  "resolution_requests_columns = [''network'', ''request_id'', ''market_id'', ''status'', ''requested_at'',
      ''bond_amount'', ''dispute_window'', ''has_proposal'', ''proposer'',
      ''proposed_outcome'', ''proposal_evidence_uri'', ''proposed_at'', ''has_dispute'',
      ''disputer'', ''disputed_outcome'', ''dispute_evidence_uri'', ''disputed_at'',
      ''has_final_outcome'', ''final_outcome'', ''last_reconciled_ledger'', ''reconciled_at'']"

definition upsertResolutionRequest :: "(string \<times> jsval) list \<Rightarrow> unit task" where
  "upsertResolutionRequest = upsert_summary ''resolution_requests'' [''network'', ''request_id''] resolution_requests_columns"

definition council_cases_columns :: "string list" where
  "council_cases_columns = [''network'', ''case_id'', ''request_id'', ''market_id'', ''status'', ''proposer'',
      ''proposer_outcome'', ''disputer'', ''disputer_outcome'', ''voting_start'',
      ''commit_end'', ''reveal_end'', ''has_final_outcome'', ''final_outcome'',
      ''yes_votes'', ''no_votes'', ''invalid_votes'', ''total_valid_votes'', ''reward_pool'',
      ''last_reconciled_ledger'', ''reconciled_at'']"

definition upsertCouncilCase :: "(string \<times> jsval) list \<Rightarrow> unit task" where
  "upsertCouncilCase = upsert_summary ''council_cases'' [''network'', ''case_id''] council_cases_columns"

definition council_votes_columns :: "string list" where
  "council_votes_columns = [''network'', ''case_id'', ''voter'', ''has_commit'', ''has_reveal'',
      ''revealed_outcome'', ''claimed_reward'', ''correct'', ''reward_amount'']"

definition upsertCouncilVote :: "(string \<times> jsval) list \<Rightarrow> unit task" where
  "upsertCouncilVote = upsert_summary ''council_votes'' [''network'', ''case_id'', ''voter''] council_votes_columns"

definition timelock_actions_columns :: "string list" where
  "timelock_actions_columns = [''network'', ''action_id'', ''kind'', ''target'', ''payload_json'', ''execute_after'',
      ''expires_at'', ''executed'', ''cancelled'', ''payload_hash'',
      ''last_reconciled_ledger'', ''reconciled_at'']"

definition upsertTimelockAction :: "(string \<times> jsval) list \<Rightarrow> unit task" where
  "upsertTimelockAction = upsert_summary ''timelock_actions'' [''network'', ''action_id''] timelock_actions_columns"

definition vault_snapshots_columns :: "string list" where
  "vault_snapshots_columns = [''network'', ''market_id'', ''total_deposited'', ''collateral_backing'',
      ''amm_collateral'', ''child_collateral_issued'', ''child_collateral_repaid'',
      ''child_collateral_defaulted'', ''redeemed'', ''protocol_fees'', ''lp_fees'',
      ''cod_fees'', ''proposal_bonds'', ''dispute_bonds'', ''refundable'',
      ''last_reconciled_ledger'', ''reconciled_at'']"

definition upsertVaultSnapshot :: "(string \<times> jsval) list \<Rightarrow> unit task" where
  "upsertVaultSnapshot = upsert_summary ''vault_snapshots'' [''network'', ''market_id''] vault_snapshots_columns"

definition user_positions_columns :: "string list" where
  "user_positions_columns = [''network'', ''market_id'', ''owner'', ''outcome'', ''balance'',
      ''last_reconciled_ledger'', ''reconciled_at'']"

definition upsertUserPosition :: "(string \<times> jsval) list \<Rightarrow> unit task" where
  "upsertUserPosition = upsert_summary ''user_positions'' [''network'', ''market_id'', ''owner'', ''outcome''] user_positions_columns"

definition lp_positions_columns :: "string list" where
  "lp_positions_columns = [''network'', ''pool_id'', ''owner'', ''shares'', ''fee_checkpoint'',
      ''claimable_fees'', ''last_reconciled_ledger'', ''reconciled_at'']"

definition upsertLpPosition :: "(string \<times> jsval) list \<Rightarrow> unit task" where
  "upsertLpPosition = upsert_summary ''lp_positions'' [''network'', ''pool_id'', ''owner''] lp_positions_columns"

definition user_vault_state_columns :: "string list" where
  "user_vault_state_columns = [''network'', ''market_id'', ''owner'', ''user_deposit'', ''root_stake_yes'',
      ''root_stake_no'', ''child_used_total'', ''child_used_yes'', ''child_used_no'',
      ''child_debt'', ''parent_debt_yes'', ''parent_debt_no'', ''redeemed_yes'',
      ''redeemed_no'', ''redeemed_invalid'', ''last_reconciled_ledger'', ''reconciled_at'']"

definition upsertUserVaultState :: "(string \<times> jsval) list \<Rightarrow> unit task" where
  "upsertUserVaultState = upsert_summary ''user_vault_state'' [''network'', ''market_id'', ''owner''] user_vault_state_columns"

section \<open>Governance tables\<close>

definition upsertGovernanceConfig :: "string \<Rightarrow> (string \<times> jsval) list \<Rightarrow> unit task" where
  "upsertGovernanceConfig network values =
    bindM (liftE (js_stringify (js_coalesce (js_field (JObj values) ''fee_config_json'') (JObj []))))
      (\<lambda>fee. db_query (sql_upsert ''governance_config'' [''network'']
        [(''network'', Some network),
         (''treasury'', pg_param (js_field (JObj values) ''treasury'')),
         (''timelock'', pg_param (js_field (JObj values) ''timelock'')),
         (''fee_config_json'', pg_param fee),
         (''pause_authority'', pg_param (js_field (JObj values) ''pause_authority''))]))"

definition upsertGovernanceModule :: "string \<Rightarrow> string \<Rightarrow> string \<Rightarrow> unit task" where
  "upsertGovernanceModule network role moduleAddress =
    db_query (sql_upsert ''governance_modules'' [''network'', ''role'']
      [(''network'', Some network), (''role'', Some role), (''module_address'', Some moduleAddress)])"

definition upsertGovernanceList :: "string \<Rightarrow> string \<Rightarrow> string \<Rightarrow> bool \<Rightarrow> unit task" where
  "upsertGovernanceList network kind address approved =
    db_query (sql_upsert ''governance_lists'' [''network'', ''kind'', ''address'']
      [(''network'', Some network), (''kind'', Some kind), (''address'', Some address),
       (''approved'', pg_param (JBool approved))])"

section \<open>Deployments and checkpoints\<close>

definition put_deployment :: "deployment \<Rightarrow> db \<Rightarrow> db" where
  "put_deployment dep d = d\<lparr>deployments :=
     filter (\<lambda>x. \<not> (d_network x = d_network dep \<and> d_module x = d_module dep)) (deployments d) @ [dep]\<rparr>"

definition init_checkpoint :: "string \<Rightarrow> string \<Rightarrow> db \<Rightarrow> db" where
  "init_checkpoint network contractId d = (case checkpoints d (network, contractId) of
     Some _ \<Rightarrow> d
   | None \<Rightarrow> d\<lparr>checkpoints := (checkpoints d)((network, contractId) \<mapsto>
       \<lparr>lastProcessedLedger = 0, lastProcessedCursor = None\<rparr>)\<rparr>)"

definition bootstrapManifest :: "manifest \<Rightarrow> string \<Rightarrow> string \<Rightarrow> unit task" where
  "bootstrapManifest m rpcUrl passphrase =
    thenM (db_query (sql_upsert ''networks'' [''id'']
        [(''id'', Some (m_network m)), (''name'', Some (m_network m)), (''rpc_url'', Some rpcUrl),
         (''network_passphrase'', Some passphrase), (''manifest_hash'', Some (m_hash m))]))
      (forM (m_contracts m) (\<lambda>(mdl, contractId).
        if contractId = [] then ret ()
        else thenM (db_exec (put_deployment
               \<lparr>d_network = m_network m, d_module = mdl, d_contract_id = contractId\<rparr>))
          (db_exec (init_checkpoint (m_network m) contractId))))"

definition getDeployments :: "string \<Rightarrow> deployment list task" where
  "getDeployments network = db_select (\<lambda>d.
     sort_key d_module (filter (\<lambda>x. d_network x = network) (deployments d)))"

definition getCheckpoint :: "string \<Rightarrow> string \<Rightarrow> checkpoint task" where
  "getCheckpoint network contractId = db_select (\<lambda>d.
     or_else (checkpoints d (network, contractId)) \<lparr>lastProcessedLedger = 0, lastProcessedCursor = None\<rparr>)"

definition put_advance :: "string \<Rightarrow> string \<Rightarrow> int \<Rightarrow> string option \<Rightarrow> db \<Rightarrow> db" where
  "put_advance network contractId ledger cursor d = d\<lparr>checkpoints := (checkpoints d)((network, contractId) \<mapsto>
     \<lparr>lastProcessedLedger = (case checkpoints d (network, contractId) of None \<Rightarrow> ledger
         | Some c \<Rightarrow> max (lastProcessedLedger c) ledger),
      lastProcessedCursor = cursor\<rparr>)\<rparr>"

definition advanceCheckpoint :: "string \<Rightarrow> string \<Rightarrow> int \<Rightarrow> string option \<Rightarrow> unit task" where
  "advanceCheckpoint network contractId ledger cursor = db_exec (put_advance network contractId ledger cursor)"

definition put_reset :: "string \<Rightarrow> string \<Rightarrow> int \<Rightarrow> db \<Rightarrow> db" where
  "put_reset network contractId ledger d = d\<lparr>checkpoints := (checkpoints d)((network, contractId) \<mapsto>
     \<lparr>lastProcessedLedger = ledger, lastProcessedCursor = None\<rparr>)\<rparr>"

definition resetCheckpoint :: "string \<Rightarrow> string \<Rightarrow> int \<Rightarrow> unit task" where
  "resetCheckpoint network contractId ledger = db_exec (put_reset network contractId ledger)"

section \<open>Raw events\<close>

text \<open>\<open>raw_contract_events\<close> is keyed by network and event id; its JSON columns are \<open>NOT NULL\<close>, so a
  payload that stringifies to nothing is refused.\<close>

definition stored :: "event_record \<Rightarrow> jsval \<Rightarrow> jsval \<Rightarrow> stored_event" where
  "stored e tv pl = \<lparr>s_network = e_network e, s_eventId = e_eventId e, s_contractId = e_contractId e,
     s_ledger = e_ledger e, s_txHash = e_txHash e, s_topic = e_topic e, s_topicValues = tv, s_payload = pl\<rparr>"

definition has_event :: "string \<Rightarrow> string \<Rightarrow> db \<Rightarrow> bool" where
  "has_event network eventId d \<longleftrightarrow>
     (\<exists>s \<in> set (raw_events d). s_network s = network \<and> s_eventId s = eventId)"

definition put_raw_event :: "event_record \<Rightarrow> world \<Rightarrow> db \<Rightarrow> exn + unit \<times> db" where
  "put_raw_event e w d =
    (case (stringify_normalized (JArr (e_topicValues e)), stringify_normalized (e_payload e),
           stringify_normalized (e_rawEvent e)) of
       (Some tv, Some pl, Some _) \<Rightarrow>
         if has_event (e_network e) (e_eventId e) d then Inr ((), d)
         else Inr ((), d\<lparr>raw_events := raw_events d @ [stored e tv pl]\<rparr>)
     | _ \<Rightarrow> Inl (sql_error ''raw_contract_events''))"

definition recordRawEvent :: "event_record \<Rightarrow> unit task" where
  "recordRawEvent e = db_query (put_raw_event e)"

text \<open>\<open>ORDER BY ledger DESC, created_at DESC LIMIT 1\<close> over rows in insertion order.\<close>

definition latest_event :: "stored_event list \<Rightarrow> stored_event option" where
  "latest_event es = fold (\<lambda>e acc. case acc of None \<Rightarrow> Some e
     | Some b \<Rightarrow> if s_ledger b \<le> s_ledger e then Some e else acc) es None"

text \<open>The \<open>#>>\<close> operator: the text of a JSON value, nothing for \<open>null\<close> and absent elements.\<close>

definition jsonb_text :: "jsval \<Rightarrow> string option" where
  "jsonb_text v = (case v of JUndefined \<Rightarrow> None | JNull \<Rightarrow> None | JStr s \<Rightarrow> Some s | _ \<Rightarrow> Some (json_text v))"

definition topic_address :: "stored_event \<Rightarrow> string option" where
  "topic_address e = (case s_topicValues e of JArr vs \<Rightarrow> jsonb_text (js_at vs 1) | _ \<Rightarrow> None)"

definition contract_events :: "string \<Rightarrow> string \<Rightarrow> string \<Rightarrow> db \<Rightarrow> stored_event list" where
  "contract_events network contractId tp d = filter (\<lambda>e. s_network e = network \<and>
     s_contractId e = contractId \<and> s_topic e = tp) (raw_events d)"

definition getLatestGovernanceAddressEvent :: "string \<Rightarrow> string \<Rightarrow> string \<Rightarrow> string option task" where
  "getLatestGovernanceAddressEvent network contractId tp = db_select (\<lambda>d.
     case latest_event (contract_events network contractId tp d) of None \<Rightarrow> None
     | Some e \<Rightarrow> jsonb_text (s_payload e))"

record approval =
  a_address :: string
  a_approved :: bool

definition approvals_of :: "stored_event list \<Rightarrow> approval list" where
  "approvals_of es = map (\<lambda>a. \<lparr>a_address = a, a_approved =
      (case latest_event (filter (\<lambda>e. topic_address e = Some a) es) of None \<Rightarrow> False
       | Some e \<Rightarrow> s_payload e = JBool True)\<rparr>)
    (filter (\<lambda>a. a \<noteq> []) (sort (remdups (concat (map (\<lambda>e. case topic_address e of None \<Rightarrow> []
      | Some a \<Rightarrow> [a]) es)))))"

definition getLatestGovernanceApprovals :: "string \<Rightarrow> string \<Rightarrow> string \<Rightarrow> approval list task" where
  "getLatestGovernanceApprovals network contractId tp =
     db_select (\<lambda>d. approvals_of (contract_events network contractId tp d))"

section \<open>Trades, liquidity and fee claims\<close>

definition same_event :: "row \<Rightarrow> row \<Rightarrow> bool" where
  "same_event r r' \<longleftrightarrow> r ''event_id'' \<noteq> None \<and> r ''event_id'' = r' ''event_id'' \<and>
     r ''network'' = r' ''network''"

text \<open>\<open>INSERT ... ON CONFLICT (network, event_id) WHERE event_id IS NOT NULL DO NOTHING\<close>\<close>

definition insert_unique :: "row \<Rightarrow> row list \<Rightarrow> row list" where
  "insert_unique r rows = (if list_ex (same_event r) rows then rows else rows @ [r])"

definition summary_row :: "string \<Rightarrow> world \<Rightarrow> (string \<times> jsval) list \<Rightarrow> row" where
  "summary_row t w summary = override (col_default w t) (map (\<lambda>(c, v). (c, pg_param v)) summary)"

definition insertTrade :: "(string \<times> jsval) list \<Rightarrow> unit task" where
  "insertTrade summary = db_query (\<lambda>w d. let r = summary_row ''trades'' w summary in
     if schema_ok w ''trades'' r then Inr ((), d\<lparr>trades := insert_unique r (trades d)\<rparr>)
     else Inl (sql_error ''trades''))"

definition insertLiquidityEvent :: "(string \<times> jsval) list \<Rightarrow> unit task" where
  "insertLiquidityEvent summary = db_query (\<lambda>w d. let r = summary_row ''liquidity_events'' w summary in
     if schema_ok w ''liquidity_events'' r
     then Inr ((), d\<lparr>liquidity_events := insert_unique r (liquidity_events d)\<rparr>)
     else Inl (sql_error ''liquidity_events''))"

text \<open>\<open>::numeric\<close> on the integer texts amounts are stored as.\<close>

definition pg_numeric :: "string \<Rightarrow> int option" where
  "pg_numeric s = (if all_digits s then Some (int (digits_val s))
     else if s \<noteq> [] \<and> hd s = CHR ''-'' \<and> all_digits (tl s) then Some (- int (digits_val (tl s)))
     else None)"

definition claim_row :: "string \<Rightarrow> js_num \<Rightarrow> string \<Rightarrow> string \<Rightarrow> string \<Rightarrow> row" where
  "claim_row network poolId owner amount eventId = map_of [(''network'', network),
     (''event_id'', eventId), (''pool_id'', num_to_string poolId), (''owner'', owner), (''amount'', amount)]"

definition lp_key :: "string \<Rightarrow> js_num \<Rightarrow> string \<Rightarrow> string option list" where
  "lp_key network poolId owner = [Some network, Some (num_to_string poolId), Some owner]"

text \<open>The claim is inserted once per event id, and only an inserted claim adds to the position, in
  the same statement.\<close>

definition put_fee_claim :: "string \<Rightarrow> js_num \<Rightarrow> string \<Rightarrow> string \<Rightarrow> string \<Rightarrow> db \<Rightarrow> exn + unit \<times> db" where
  "put_fee_claim network poolId owner amount eventId d =
    (let claim = claim_row network poolId owner amount eventId; k = lp_key network poolId owner in
     if list_ex (same_event claim) (fee_claims d) then Inr ((), d)
     else let d' = d\<lparr>fee_claims := fee_claims d @ [claim]\<rparr> in
       case map_of (tables d ''lp_positions'') k of None \<Rightarrow> Inr ((), d')
       | Some r \<Rightarrow> (case (pg_numeric (or_else (r ''fees_claimed'') ''0''), pg_numeric amount) of
           (Some old, Some a) \<Rightarrow> Inr ((), set_table ''lp_positions''
             (set_key k (r(''fees_claimed'' := Some (int_str (old + a)))) (tables d ''lp_positions'')) d')
         | _ \<Rightarrow> Inl (Error ''invalid input syntax for type numeric'')))"

definition addLpFeesClaimed :: "string \<Rightarrow> js_num \<Rightarrow> string \<Rightarrow> string \<Rightarrow> string \<Rightarrow> unit task" where
  "addLpFeesClaimed network poolId owner amount eventId =
     db_query (\<lambda>w. put_fee_claim network poolId owner amount eventId)"

section \<open>Mismatches\<close>

definition put_mismatch :: "string \<times> string \<times> string \<times> string \<Rightarrow> db \<Rightarrow> db" where
  "put_mismatch k d = d\<lparr>mismatches :=
     set_key k (case map_of (mismatches d) k of None \<Rightarrow> 1 | Some n \<Rightarrow> n + 1) (mismatches d)\<rparr>"

definition noteMismatch :: "string \<Rightarrow> string \<Rightarrow> string \<Rightarrow> string \<Rightarrow> unit task" where
  "noteMismatch network mdl entityId message = db_exec (put_mismatch (network, mdl, entityId, message))"

definition getMismatchCount :: "int task" where
  "getMismatchCount = db_select (\<lambda>d. int (length (mismatches d)))"

definition getPersistentMismatchCount :: "int \<Rightarrow> int task" where
  "getPersistentMismatchCount minSeenCount =
     db_select (\<lambda>d. int (length (filter (\<lambda>(_, n). minSeenCount \<le> n) (mismatches d))))"

section \<open>The indexer lease\<close>

definition take_lock :: "int \<Rightarrow> nat \<Rightarrow> db \<Rightarrow> bool \<times> db" where
  "take_lock key session d = (case advisory_locks d key of
     None \<Rightarrow> (True, d\<lparr>advisory_locks := (advisory_locks d)(key \<mapsto> (session, 1))\<rparr>)
   | Some (s, n) \<Rightarrow> if s = session
       then (True, d\<lparr>advisory_locks := (advisory_locks d)(key \<mapsto> (s, Suc n))\<rparr>) else (False, d))"

definition drop_lock :: "int \<Rightarrow> nat \<Rightarrow> db \<Rightarrow> db" where
  "drop_lock key session d = (case advisory_locks d key of
     Some (s, n) \<Rightarrow> if s = session
       then d\<lparr>advisory_locks := (advisory_locks d)(key := (if n \<le> 1 then None else Some (s, n - 1)))\<rparr>
       else d
   | None \<Rightarrow> d)"

text \<open>The pool runs each statement on whichever connection is free: \<open>session_at\<close>.\<close>

definition tryAcquireIndexerLease :: "int \<Rightarrow> bool task" where
  "tryAcquireIndexerLease key = db_query (\<lambda>w d. Inr (take_lock key (session_at w (tick w)) d))"

definition releaseIndexerLease :: "int \<Rightarrow> unit task" where
  "releaseIndexerLease key = db_query (\<lambda>w d. Inr ((), drop_lock key (session_at w (tick w)) d))"

definition ping :: "unit task" where
  "ping = db_select (\<lambda>_. ())"

section \<open>Known entities\<close>

text \<open>\<open>Number(column::text)\<close>\<close>

definition col_number :: "row \<Rightarrow> string \<Rightarrow> js_num" where
  "col_number r c = js_Number_of_string (or_else (r c) [])"

definition table_rows :: "string \<Rightarrow> db \<Rightarrow> row list" where
  "table_rows t d = map snd (tables d t)"

definition rows_where :: "string \<Rightarrow> (string \<times> string) list \<Rightarrow> db \<Rightarrow> row list" where
  "rows_where t conds d = filter (\<lambda>r. list_all (\<lambda>(c, v). r c = Some v) conds) (table_rows t d)"

text \<open>\<open>ORDER BY c DESC\<close> on a \<open>BIGINT\<close> column, whose text is an integer's.\<close>

definition int_col :: "string \<Rightarrow> row \<Rightarrow> int" where
  "int_col c r = or_else (js_BigInt_of_string (or_else (r c) [])) 0"

definition order_desc :: "string \<Rightarrow> row list \<Rightarrow> row list" where
  "order_desc c rows = rev (sort_key (int_col c) rows)"

definition listKnownMarketIds :: "string \<Rightarrow> js_num list task" where
  "listKnownMarketIds network = db_select (\<lambda>d.
     map (\<lambda>r. col_number r ''market_id'')
       (order_desc ''market_id'' (rows_where ''markets'' [(''network'', network)] d)))"

definition distinct_owners :: "row list \<Rightarrow> string list" where
  "distinct_owners rows = remdups (map (\<lambda>r. or_else (r ''owner'') []) rows)"

definition listKnownPositionOwners :: "string \<Rightarrow> js_num \<Rightarrow> string list task" where
  "listKnownPositionOwners network marketId = db_select (\<lambda>d. distinct_owners
     (rows_where ''user_positions'' [(''network'', network), (''market_id'', num_to_string marketId)] d))"

definition listKnownLpOwners :: "string \<Rightarrow> js_num \<Rightarrow> string list task" where
  "listKnownLpOwners network poolId = db_select (\<lambda>d. distinct_owners
     (rows_where ''lp_positions'' [(''network'', network), (''pool_id'', num_to_string poolId)] d))"

definition listKnownMarketPools :: "string \<Rightarrow> (js_num \<times> js_num) list task" where
  "listKnownMarketPools network = db_select (\<lambda>d.
     map (\<lambda>r. (col_number r ''market_id'', col_number r ''pool_id''))
       (rows_where ''pools'' [(''network'', network)] d))"

definition listKnownTimelockActionIds :: "string \<Rightarrow> js_num list task" where
  "listKnownTimelockActionIds network = db_select (\<lambda>d.
     map (\<lambda>r. col_number r ''action_id'')
       (order_desc ''action_id'' (rows_where ''timelock_actions'' [(''network'', network)] d)))"

end
