(* ===== verification/Repository_Laws.thy ===== *)
theory Repository_Laws imports Repository begin

text \<open>
  What the repository promises its callers: upserts replace exactly one row and are idempotent,
  checkpoints only move back through a reset, inserting the same event twice changes nothing, a
  position's claimed fees are the sum of its distinct claim events, and the advisory lock admits
  one session.  The promises are stated as interfaces (locales) with the consequences the
  indexer uses, and discharged here for the SQL of the repository.
\<close>

section \<open>Upserts\<close>

lemma override_same: "override (override r cols) cols = override r cols"
  by (auto simp: override_def split: option.split)

lemma override_other: "c \<notin> fst ` set cols \<Longrightarrow> override r cols c = r c"
  by (metis domIff dom_map_of_conv_image_fst option.simps(4) override_def)

lemma override_in: "map_of cols c = Some v \<Longrightarrow> override r cols c = v"
  by (simp add: override_def)

lemma row_key_override:
  "set keys \<subseteq> fst ` set cols \<Longrightarrow> row_key keys (override r cols) = row_key keys (override r' cols)"
  by (auto simp: row_key_def override_def dom_map_of_conv_image_fst [symmetric] split: option.split)

lemma update_same: "map_of kvs k = Some v \<Longrightarrow> set_key k v kvs = kvs"
  by (induction kvs) (auto simp: set_key_def split: if_splits)

lemma tables_set_table [simp]: "tables (set_table t rows d) = (tables d)(t := rows)"
  by (simp add: set_table_def)

lemma set_table_same: "set_table t (tables d t) d = d"
  by (simp add: set_table_def)

lemma sql_upsert_Inr:
  "sql_upsert t keys cols w d = Inr (u, d') \<longleftrightarrow>
    (let proposed = override (col_default w t) cols; key = row_key keys proposed;
       result = (case map_of (tables d t) key of None \<Rightarrow> proposed | Some old \<Rightarrow> override old cols)
     in None \<notin> set key \<and> schema_ok w t proposed \<and> schema_ok w t result \<and>
        d' = set_table t (set_key key result (tables d t)) d)"
  by (auto simp: sql_upsert_def Let_def split: if_splits)

lemma sql_upsert_row:
  assumes "sql_upsert t keys cols w d = Inr (u, d')"
  shows "map_of (tables d' t) (row_key keys (override (col_default w t) cols)) =
    Some (case map_of (tables d t) (row_key keys (override (col_default w t) cols)) of
      None \<Rightarrow> override (col_default w t) cols | Some old \<Rightarrow> override old cols)"
  using assms by (auto simp: sql_upsert_Inr Let_def)

lemma sql_upsert_others:
  assumes "sql_upsert t keys cols w d = Inr (u, d')"
  shows "t' \<noteq> t \<Longrightarrow> tables d' t' = tables d t'"
    and "k \<noteq> row_key keys (override (col_default w t) cols) \<Longrightarrow>
      map_of (tables d' t) k = map_of (tables d t) k"
    and "d' = d\<lparr>tables := tables d'\<rparr>"
  using assms by (auto simp: sql_upsert_Inr Let_def set_table_def)

lemma sql_upsert_twice:
  assumes "sql_upsert t keys cols w d = Inr (u, d')"
  shows "sql_upsert t keys cols w d' = Inr (u, d')"
proof -
  let ?prp = "override (col_default w t) cols"
  let ?key = "row_key keys ?prp"
  let ?res = "case map_of (tables d t) ?key of None \<Rightarrow> ?prp | Some old \<Rightarrow> override old cols"
  have res: "override ?res cols = ?res" by (auto simp: override_same split: option.split)
  have d': "None \<notin> set ?key" "schema_ok w t ?prp" "schema_ok w t ?res"
    "d' = set_table t (set_key ?key ?res (tables d t)) d"
    using assms by (auto simp: sql_upsert_Inr Let_def)
  have look: "map_of (tables d' t) ?key = Some ?res"
    using sql_upsert_row [OF assms] .
  have "set_table t (set_key ?key ?res (tables d' t)) d' = d'"
    by (simp add: update_same [OF look] set_table_same)
  then show ?thesis
    using d'(1-3) by (simp add: sql_upsert_Inr Let_def look res)
qed

lemma buildUpsertSpec_Inr:
  "buildUpsertSpec t summary allowed = Inr entries \<longleftrightarrow>
    fst ` set summary \<subseteq> set allowed \<and> summary \<noteq> [] \<and> entries = summary"
proof -
  have "filter (\<lambda>key. key \<notin> set allowed) (remdups (map fst summary)) = [] \<longleftrightarrow>
      fst ` set summary \<subseteq> set allowed"
    by (auto simp: filter_empty_conv)
  moreover have "fst ` set summary \<subseteq> set allowed \<Longrightarrow>
      filter (\<lambda>(key, _). key \<in> set allowed) summary = summary"
    by (auto simp: filter_id_conv)
  ultimately show ?thesis by (auto simp: buildUpsertSpec_def Let_def)
qed

text \<open>C21: an upsert names only whitelisted columns or fails before reaching the database; when it
  succeeds the row of its key holds the given columns and keeps its others, no other row or table
  changes, and sending the same upsert again succeeds and changes nothing.\<close>

lemma upsert_summary_effect:
  assumes "upsert_summary t keys allowed summary w = (Inr u, w')"
  defines "cols \<equiv> map (\<lambda>(c, v). (c, pg_param v)) summary"
  defines "key \<equiv> row_key keys (override (col_default w t) cols)"
  shows "fst ` set summary \<subseteq> set allowed \<and>
    (\<exists>r. map_of (tables (db w') t) key = Some r \<and> (\<forall>c v. map_of cols c = Some v \<longrightarrow> r c = v) \<and>
      (\<forall>old. map_of (tables (db w) t) key = Some old \<longrightarrow> (\<forall>c. c \<notin> fst ` set cols \<longrightarrow> r c = old c))) \<and>
    (\<forall>k. k \<noteq> key \<longrightarrow> map_of (tables (db w') t) k = map_of (tables (db w) t) k) \<and>
    (\<forall>t'. t' \<noteq> t \<longrightarrow> tables (db w') t' = tables (db w) t') \<and>
    sql_upsert t keys cols w' (db w') = Inr ((), db w')"
proof -
  have allowed: "fst ` set summary \<subseteq> set allowed"
    and q: "db_query (sql_upsert t keys cols) w = (Inr u, w')"
    using assms(1) buildUpsertSpec_Inr [of t summary allowed]
    by (auto simp: upsert_summary_def bindM_eq_Inr liftE_def cols_def)
  obtain d where d: "sql_upsert t keys cols w (db w) = Inr (u, d)"
    and w': "w' = w\<lparr>tick := Suc (tick w), db := d\<rparr>"
    using db_query_Inr [OF q] by blast
  have same: "sql_upsert t keys cols w' = sql_upsert t keys cols w"
    by (simp add: w' sql_upsert_def fun_eq_iff)
  have row: "map_of (tables d t) key = Some (case map_of (tables (db w) t) key of
      None \<Rightarrow> override (col_default w t) cols | Some old \<Rightarrow> override old cols)"
    unfolding key_def by (rule sql_upsert_row [OF d])
  show ?thesis
    using allowed row sql_upsert_others [OF d] sql_upsert_twice [OF d]
    unfolding same
    by (auto simp: w' key_def override_in override_other split: option.splits)
qed

lemma upsert_summary_effect_witness:
  "map_of (tables (db (snd (upsert_summary ''pools'' [''network''] [''network'', ''live'']
     [(''network'', JStr ''testnet'')] quiet_world))) ''pools'') [Some ''testnet''] \<noteq> None"
proof -
  let ?m = "upsert_summary ''pools'' [''network''] [''network'', ''live''] [(''network'', JStr ''testnet'')]"
  have run: "?m quiet_world = (Inr (), snd (?m quiet_world))"
    by (simp add: upsert_summary_def io_simps buildUpsertSpec_def db_query_def sql_upsert_def
        row_key_def override_def quiet_defs)
  show ?thesis
    using upsert_summary_effect [OF run] by (auto simp: row_key_def override_def)
qed

section \<open>Checkpoints\<close>

text \<open>The interface of a checkpoint store: the reading, and what advancing and resetting do to it.\<close>

locale checkpoint_store =
  fixes ledger_of :: "'d \<Rightarrow> 'k \<Rightarrow> int"
    and advance :: "'k \<Rightarrow> int \<Rightarrow> 'c \<Rightarrow> 'd \<Rightarrow> 'd"
    and reset :: "'k \<Rightarrow> int \<Rightarrow> 'd \<Rightarrow> 'd"
  assumes advance_law: "0 \<le> n \<Longrightarrow>
      ledger_of (advance k n c d) k' = (if k' = k then max (ledger_of d k) n else ledger_of d k')"
    and reset_law: "ledger_of (reset k n d) k' = (if k' = k then n else ledger_of d k')"
begin

lemma advance_mono: "0 \<le> n \<Longrightarrow> ledger_of d k' \<le> ledger_of (advance k n c d) k'"
  by (simp add: advance_law)

lemma advances_mono:
  "\<forall>(k, n, c) \<in> set ops. 0 \<le> n \<Longrightarrow>
    ledger_of d k' \<le> ledger_of (fold (\<lambda>(k, n, c). advance k n c) ops d) k'"
proof (induction ops arbitrary: d)
  case Nil
  then show ?case by simp
next
  case (Cons op ops)
  obtain k n c where op: "op = (k, n, c)" by (metis prod_cases3)
  with Cons.prems have "ledger_of d k' \<le> ledger_of (advance k n c d) k'"
    by (intro advance_mono) simp
  also have "\<dots> \<le> ledger_of (fold (\<lambda>(k, n, c). advance k n c) ops (advance k n c d)) k'"
    by (rule Cons.IH) (use Cons.prems in simp)
  finally show ?case by (simp add: op)
qed

lemma reset_then_advance:
  "0 \<le> n \<Longrightarrow> ledger_of (advance k n c (reset k m d)) k = max m n"
  by (simp add: advance_law reset_law)

end

definition checkpoint_ledger :: "db \<Rightarrow> string \<times> string \<Rightarrow> int" where
  "checkpoint_ledger d k = (case checkpoints d k of None \<Rightarrow> 0 | Some c \<Rightarrow> lastProcessedLedger c)"

interpretation cps: checkpoint_store checkpoint_ledger "\<lambda>k. put_advance (fst k) (snd k)"
  "\<lambda>k. put_reset (fst k) (snd k)"
  by unfold_locales (auto simp: checkpoint_ledger_def put_advance_def put_reset_def split: option.split)

lemma init_checkpoint_ledger [simp]: "checkpoint_ledger (init_checkpoint n c d) k = checkpoint_ledger d k"
  by (auto simp: checkpoint_ledger_def init_checkpoint_def split: option.split)

section \<open>Event logs\<close>

text \<open>A log keyed by event: inserting what it already has changes nothing, and it never forgets.\<close>

locale event_log =
  fixes ins :: "'e \<Rightarrow> 'l \<Rightarrow> 'l" and has :: "'e \<Rightarrow> 'l \<Rightarrow> bool" and keyed :: "'e \<Rightarrow> bool"
  assumes ins_has: "has e l \<Longrightarrow> ins e l = l"
    and has_ins: "keyed e \<Longrightarrow> has e (ins e l)"
    and has_mono: "has x l \<Longrightarrow> has x (ins e l)"
begin

lemma ins_twice: "keyed e \<Longrightarrow> ins e (ins e l) = ins e l"
  by (rule ins_has) (rule has_ins)

lemma has_fold: "has x l \<Longrightarrow> has x (fold ins es l)"
  by (induction es arbitrary: l) (auto simp: has_mono)

lemma has_all: "\<forall>e \<in> set es. keyed e \<Longrightarrow> e \<in> set es \<Longrightarrow> has e (fold ins es l)"
proof (induction es arbitrary: l)
  case Nil
  then show ?case by simp
next
  case (Cons a es)
  then show ?case by (cases "e = a") (auto intro: has_fold has_ins)
qed

lemma fold_has: "\<forall>e \<in> set es. has e l \<Longrightarrow> fold ins es l = l"
  by (induction es) (auto simp: ins_has)

text \<open>Replaying a batch, or any part of it in any order, after the batch leaves the log as it is.\<close>

lemma replay: "\<forall>e \<in> set es. keyed e \<Longrightarrow> set es' \<subseteq> set es \<Longrightarrow> fold ins es' (fold ins es l) = fold ins es l"
  by (rule fold_has) (use has_all in blast)

end

definition has_row :: "row \<Rightarrow> row list \<Rightarrow> bool" where
  "has_row r rows \<longleftrightarrow> list_ex (same_event r) rows"

definition keyed_row :: "row \<Rightarrow> bool" where
  "keyed_row r \<longleftrightarrow> r ''event_id'' \<noteq> None"

interpretation rows_log: event_log insert_unique has_row keyed_row
  by unfold_locales (auto simp: insert_unique_def has_row_def keyed_row_def same_event_def list_ex_iff)

definition put_stored :: "stored_event \<Rightarrow> stored_event list \<Rightarrow> stored_event list" where
  "put_stored s evs = (if \<exists>x \<in> set evs. s_network x = s_network s \<and> s_eventId x = s_eventId s
     then evs else evs @ [s])"

definition has_stored :: "stored_event \<Rightarrow> stored_event list \<Rightarrow> bool" where
  "has_stored s evs \<longleftrightarrow> (\<exists>x \<in> set evs. s_network x = s_network s \<and> s_eventId x = s_eventId s)"

interpretation raw_log: event_log put_stored has_stored "\<lambda>_. True"
  by unfold_locales (auto simp: put_stored_def has_stored_def)

lemma put_raw_event_stored:
  "put_raw_event e w d = Inr (u, d') \<Longrightarrow>
    \<exists>tv pl. d' = d\<lparr>raw_events := put_stored (stored e tv pl) (raw_events d)\<rparr>"
  by (auto simp: put_raw_event_def put_stored_def has_event_def stored_def split: option.splits if_splits)

section \<open>Claimed fees\<close>

definition claims_for :: "string option list \<Rightarrow> db \<Rightarrow> row list" where
  "claims_for k d = filter (\<lambda>r. [r ''network'', r ''pool_id'', r ''owner''] = k) (fee_claims d)"

definition claim_amount :: "row \<Rightarrow> int" where
  "claim_amount r = or_else (pg_numeric (or_else (r ''amount'') [])) 0"

definition claimed_total :: "string option list \<Rightarrow> db \<Rightarrow> int" where
  "claimed_total k d = sum_list (map claim_amount (claims_for k d))"

definition fees_claimed :: "row \<Rightarrow> int option" where
  "fees_claimed r = pg_numeric (or_else (r ''fees_claimed'') ''0'')"

text \<open>Every position shows the sum of its claims, and there is no claim without its position.\<close>

definition fees_ok :: "db \<Rightarrow> bool" where
  "fees_ok d \<longleftrightarrow> (\<forall>k. case map_of (tables d ''lp_positions'') k of
     None \<Rightarrow> claims_for k d = [] | Some r \<Rightarrow> fees_claimed r = Some (claimed_total k d))"

lemma fees_okD:
  "fees_ok d \<Longrightarrow> map_of (tables d ''lp_positions'') k = Some r \<Longrightarrow> fees_claimed r = Some (claimed_total k d)"
  unfolding fees_ok_def by (drule spec [of _ k]) simp

lemma fees_ok_absent: "fees_ok d \<Longrightarrow> map_of (tables d ''lp_positions'') k = None \<Longrightarrow> claims_for k d = []"
  unfolding fees_ok_def by (drule spec [of _ k]) simp

lemma fees_okI:
  "(\<And>k. map_of (tables d ''lp_positions'') k = None \<Longrightarrow> claims_for k d = []) \<Longrightarrow>
   (\<And>k r. map_of (tables d ''lp_positions'') k = Some r \<Longrightarrow>
      fees_claimed r = Some (claimed_total k d)) \<Longrightarrow> fees_ok d"
  by (simp add: fees_ok_def split: option.split)

lemma pg_numeric_int_str [simp]: "pg_numeric (int_str i) = Some i"
  by (auto simp: pg_numeric_def int_str_def)

lemma pg_numeric_zero [simp]: "pg_numeric ''0'' = Some 0"
  by (simp add: pg_numeric_def all_digits_def is_digit_def digits_val_def digit_val_def)

lemma claims_for_set_table [simp]: "claims_for k (set_table t rows d) = claims_for k d"
  by (simp add: claims_for_def set_table_def)

lemma claims_for_add:
  "claims_for k (d\<lparr>fee_claims := fee_claims d @ [claim_row n p ow a e]\<rparr>) =
    claims_for k d @ (if lp_key n p ow = k then [claim_row n p ow a e] else [])"
  by (auto simp: claims_for_def claim_row_def lp_key_def)

lemma claim_amount_row: "pg_numeric a = Some v \<Longrightarrow> claim_amount (claim_row n p ow a e) = v"
  by (simp add: claim_amount_def claim_row_def)

definition claimed_before :: "string \<Rightarrow> string \<Rightarrow> db \<Rightarrow> bool" where
  "claimed_before network eventId d \<longleftrightarrow>
     (\<exists>r \<in> set (fee_claims d). r ''event_id'' = Some eventId \<and> r ''network'' = Some network)"

lemma claimed_before_iff:
  "list_ex (same_event (claim_row n p ow a e)) (fee_claims d) \<longleftrightarrow> claimed_before n e d"
  unfolding list_ex_iff same_event_def claimed_before_def claim_row_def by (simp, metis)

text \<open>C12: adding a claim to an existing position keeps the books: the event counts once, however
  often it is replayed, and then for exactly its amount; every other position is untouched.\<close>

lemma put_fee_claim_books:
  assumes "fees_ok d" "map_of (tables d ''lp_positions'') (lp_key n p ow) = Some r"
    "put_fee_claim n p ow amount e d = Inr (u, d')"
  shows "fees_ok d' \<and> claimed_before n e d' \<and>
    put_fee_claim n p ow amount e d' = Inr ((), d') \<and>
    (\<exists>r'. map_of (tables d' ''lp_positions'') (lp_key n p ow) = Some r' \<and>
      fees_claimed r' = Some (claimed_total (lp_key n p ow) d +
        (if claimed_before n e d then 0 else or_else (pg_numeric amount) 0))) \<and>
    (\<forall>k. k \<noteq> lp_key n p ow \<longrightarrow>
      map_of (tables d' ''lp_positions'') k = map_of (tables d ''lp_positions'') k)"
proof (cases "claimed_before n e d")
  case True
  then have "d' = d" using assms(3) by (simp add: put_fee_claim_def Let_def claimed_before_iff)
  moreover have "put_fee_claim n p ow amount e d = Inr ((), d)"
    using True by (simp add: put_fee_claim_def Let_def claimed_before_iff)
  ultimately show ?thesis using assms(1,2) True by (auto dest: fees_okD)
next
  case False
  let ?k = "lp_key n p ow"
  obtain a where a: "pg_numeric amount = Some a"
    and d': "d' = set_table ''lp_positions'' (set_key ?k
        (r(''fees_claimed'' := Some (int_str (claimed_total ?k d + a)))) (tables d ''lp_positions''))
        (d\<lparr>fee_claims := fee_claims d @ [claim_row n p ow amount e]\<rparr>)"
    using assms(3) False fees_okD [OF assms(1,2)]
    by (auto simp: put_fee_claim_def Let_def claimed_before_iff assms(2) fees_claimed_def
        split: option.splits)
  have total: "claimed_total k d' = claimed_total k d + (if ?k = k then a else 0)" for k
    using a by (simp add: claimed_total_def d' claims_for_add claim_amount_row)
  have claims: "k \<noteq> ?k \<Longrightarrow> claims_for k d' = claims_for k d" for k
    by (simp add: d' claims_for_add)
  have before: "claimed_before n e d'"
    by (auto simp: claimed_before_def d' set_table_def claim_row_def)
  have at: "map_of (tables d' ''lp_positions'') ?k =
      Some (r(''fees_claimed'' := Some (int_str (claimed_total ?k d + a))))"
    by (simp add: d')
  have away: "k \<noteq> ?k \<Longrightarrow> map_of (tables d' ''lp_positions'') k = map_of (tables d ''lp_positions'') k" for k
    by (simp add: d')
  have "fees_ok d'"
  proof (rule fees_okI)
    fix k
    assume "map_of (tables d' ''lp_positions'') k = None"
    then show "claims_for k d' = []"
      using at away claims fees_ok_absent [OF assms(1)] by (cases "k = ?k") auto
  next
    fix k r'
    assume r': "map_of (tables d' ''lp_positions'') k = Some r'"
    show "fees_claimed r' = Some (claimed_total k d')"
    proof (cases "k = ?k")
      case True
      then show ?thesis using r' at by (auto simp: total fees_claimed_def)
    next
      case False
      then show ?thesis using r' away [OF False] fees_okD [OF assms(1)] by (auto simp: total)
    qed
  qed
  moreover have "put_fee_claim n p ow amount e d' = Inr ((), d')"
    using before by (simp add: put_fee_claim_def Let_def claimed_before_iff)
  ultimately show ?thesis
    using before False a by (simp add: d' fees_claimed_def)
qed

lemma put_fee_claim_books_witness:
  "\<exists>d'. put_fee_claim ''n'' (Fin 1) ''o'' ''5'' ''e''
      (set_table ''lp_positions'' [(lp_key ''n'' (Fin 1) ''o'', \<lambda>_. None)] empty_db) = Inr ((), d') \<and>
    fees_ok d'"
proof -
  let ?d = "set_table ''lp_positions'' [(lp_key ''n'' (Fin 1) ''o'', \<lambda>_. None)] empty_db"
  have ok: "fees_ok ?d"
    by (simp add: fees_ok_def fees_claimed_def claimed_total_def) (simp add: claims_for_def empty_db_def)
  have row: "map_of (tables ?d ''lp_positions'') (lp_key ''n'' (Fin 1) ''o'') = Some (\<lambda>_. None)"
    by simp
  have five: "pg_numeric ''5'' = Some 5"
    by (simp add: pg_numeric_def all_digits_def is_digit_def digits_val_def digit_val_def)
  obtain d' where d': "put_fee_claim ''n'' (Fin 1) ''o'' ''5'' ''e'' ?d = Inr ((), d')"
    by (simp add: put_fee_claim_def Let_def row five, simp add: five set_table_def empty_db_def)
  with put_fee_claim_books [OF ok row d'] show ?thesis by blast
qed

text \<open>Reconciling a position never touches its claimed fees, which the column whitelist leaves out;
  a new position starts with none.\<close>

lemma upsert_keeps_fees:
  assumes "fees_ok d" "sql_upsert t keys cols w d = Inr (u, d')"
    "''fees_claimed'' \<notin> fst ` set cols" "col_default w t ''fees_claimed'' \<in> {None, Some ''0''}"
  shows "fees_ok d'"
proof -
  have claims: "claims_for k d' = claims_for k d" for k
    using assms(2) by (auto simp: sql_upsert_Inr Let_def)
  then have total: "claimed_total k d' = claimed_total k d" for k by (simp add: claimed_total_def)
  let ?k = "row_key keys (override (col_default w t) cols)"
  have away: "t \<noteq> ''lp_positions'' \<or> k \<noteq> ?k \<Longrightarrow>
      map_of (tables d' ''lp_positions'') k = map_of (tables d ''lp_positions'') k" for k
    using sql_upsert_others(1,2) [OF assms(2)] by metis
  show ?thesis
  proof (rule fees_okI)
    fix k
    assume "map_of (tables d' ''lp_positions'') k = None"
    then show "claims_for k d' = []"
      using away [of k] sql_upsert_row [OF assms(2)] fees_ok_absent [OF assms(1)] claims
      by (cases "t = ''lp_positions'' \<and> k = ?k") auto
  next
    fix k r'
    assume r': "map_of (tables d' ''lp_positions'') k = Some r'"
    show "fees_claimed r' = Some (claimed_total k d')"
    proof (cases "t = ''lp_positions'' \<and> k = ?k")
      case False
      then show ?thesis using r' away [of k] fees_okD [OF assms(1)] by (auto simp: total)
    next
      case True
      have r: "r' ''fees_claimed'' = (case map_of (tables d ''lp_positions'') ?k of
          None \<Rightarrow> col_default w ''lp_positions'' ''fees_claimed'' | Some old \<Rightarrow> old ''fees_claimed'')"
        using True r' sql_upsert_row [OF assms(2)] assms(3)
        by (auto simp: override_other split: option.splits)
      show ?thesis
      proof (cases "map_of (tables d ''lp_positions'') ?k")
        case None
        then show ?thesis
          using r True assms(4) fees_ok_absent [OF assms(1) None]
          by (auto simp: fees_claimed_def claims claimed_total_def)
      next
        case (Some old)
        then show ?thesis
          using r True fees_okD [OF assms(1) Some] by (simp add: fees_claimed_def total)
      qed
    qed
  qed
qed

end
