(* ===== verification/Contract_Client.thy ===== *)
theory Contract_Client imports World begin

text \<open>
  \<open>contracts/client.ts\<close>: the reads the services make.  The generated contract clients, the RPC
  server and the simulation are the world's oracles; what is modelled is which client and method
  each read calls with which arguments, how a \<open>Result\<close> is unwrapped, and when a read throws.
\<close>

section \<open>Unwrapping\<close>

definition unwrap :: "read_result \<Rightarrow> exn + jsval" where
  "unwrap r = (case r of
     PlainResult v \<Rightarrow> Inr v
   | OkResult v \<Rightarrow> Inr v
   | ErrResult e \<Rightarrow> (case js_stringify (js_coalesce e (JObj [])) of
       Inl x \<Rightarrow> Inl x
     | Inr t \<Rightarrow> Inl (Error (''Contract call failed: '' @ js_String t))))"

text \<open>\<open>tx.result\<close> as it is: the \<open>Ok\<close> and \<open>Err\<close> of the contract library are objects holding their
  value.\<close>

definition plain :: "read_result \<Rightarrow> jsval" where
  "plain r = (case r of PlainResult v \<Rightarrow> v | OkResult v \<Rightarrow> JObj [(''value'', v)]
     | ErrResult e \<Rightarrow> JObj [(''error'', e)])"

definition invoke :: "string \<Rightarrow> string \<Rightarrow> (string \<times> (exn + jsval)) list \<Rightarrow> read_result task" where
  "invoke client meth args =
     bindM (mapM (\<lambda>(k, a). bindM (liftE a) (\<lambda>v. ret (k, v))) args) (\<lambda>vs.
       ask (\<lambda>w t. rpc_read w t \<lparr>c_client = client, c_method = meth, c_args = vs\<rparr>))"

definition readPlain :: "string \<Rightarrow> string \<Rightarrow> (string \<times> (exn + jsval)) list \<Rightarrow> jsval task" where
  "readPlain client meth args = bindM (invoke client meth args) (\<lambda>r. ret (plain r))"

definition readOk :: "string \<Rightarrow> string \<Rightarrow> (string \<times> (exn + jsval)) list \<Rightarrow> jsval task" where
  "readOk client meth args = bindM (invoke client meth args) (\<lambda>r. liftE (unwrap r))"

text \<open>An argument \<open>BigInt(id)\<close>, and one passed as it is.\<close>

definition big :: "js_num \<Rightarrow> exn + jsval" where
  "big n = (case js_BigInt_of_num n of Inl e \<Rightarrow> Inl e | Inr i \<Rightarrow> Inr (JBigInt i))"

definition str_arg :: "string \<Rightarrow> exn + jsval" where
  "str_arg s = Inr (JStr s)"

definition outcome_arg :: "string \<Rightarrow> exn + jsval" where
  "outcome_arg t = Inr (JObj [(''tag'', JStr t), (''values'', JUndefined)])"

definition simulateContractRead :: "string \<Rightarrow> string \<Rightarrow> jsval task" where
  "simulateContractRead contractId meth =
     bindM (ask (\<lambda>w t. rpc_simulate w t contractId meth)) (\<lambda>retval. case retval of
       None \<Rightarrow> throw (Error (''No return value for '' @ meth))
     | Some v \<Rightarrow> ret v)"

section \<open>Reads\<close>

definition getLatestLedger :: "int task" where
  "getLatestLedger = ask rpc_ledger"

definition getHealth :: "string task" where
  "getHealth = ask rpc_health"

definition getEvents :: "events_request \<Rightarrow> events_response task" where
  "getEvents request = ask (\<lambda>w t. rpc_events w t request)"

definition getNextMarketId :: "manifest \<Rightarrow> jsval task" where
  "getNextMarketId m = simulateContractRead (manifest_contract m ''market_factory'') ''next_market_id''"

definition getMarket :: "js_num \<Rightarrow> jsval task" where
  "getMarket marketId = readOk ''marketRegistry'' ''get_market'' [(''market_id'', big marketId)]"

definition getMarketStatus :: "js_num \<Rightarrow> jsval task" where
  "getMarketStatus marketId = readOk ''marketRegistry'' ''get_status'' [(''market_id'', big marketId)]"

definition getFinalOutcome :: "js_num \<Rightarrow> jsval task" where
  "getFinalOutcome marketId =
     readOk ''marketRegistry'' ''get_final_outcome'' [(''market_id'', big marketId)]"

definition isTradeable :: "js_num \<Rightarrow> jsval task" where
  "isTradeable marketId = readOk ''marketRegistry'' ''is_tradeable'' [(''market_id'', big marketId)]"

definition getPool :: "js_num \<Rightarrow> jsval task" where
  "getPool poolId = readOk ''amm'' ''pool'' [(''pool_id'', big poolId)]"

definition getLpBalance :: "js_num \<Rightarrow> string \<Rightarrow> jsval task" where
  "getLpBalance poolId owner =
     readPlain ''amm'' ''lp_balance'' [(''pool_id'', big poolId), (''owner'', str_arg owner)]"

definition getClaimableLpFees :: "js_num \<Rightarrow> string \<Rightarrow> jsval task" where
  "getClaimableLpFees poolId owner =
     readOk ''amm'' ''claimable_lp_fees'' [(''pool_id'', big poolId), (''owner'', str_arg owner)]"

definition getLpFeeCheckpoint :: "js_num \<Rightarrow> string \<Rightarrow> jsval task" where
  "getLpFeeCheckpoint poolId owner =
     readPlain ''amm'' ''lp_fee_checkpoint'' [(''pool_id'', big poolId), (''owner'', str_arg owner)]"

definition getPositionBalance :: "string \<Rightarrow> js_num \<Rightarrow> string \<Rightarrow> jsval task" where
  "getPositionBalance owner marketId oc = readPlain ''conditionalTokens'' ''balance''
     [(''owner'', str_arg owner), (''market_id'', big marketId), (''outcome'', outcome_arg oc)]"

definition getBacking :: "js_num \<Rightarrow> jsval task" where
  "getBacking marketId = readPlain ''conditionalTokens'' ''backing'' [(''market_id'', big marketId)]"

definition getVaultAccounting :: "js_num \<Rightarrow> jsval task" where
  "getVaultAccounting marketId =
     readPlain ''collateralVault'' ''accounting'' [(''market_id'', big marketId)]"

definition getUserDeposit :: "js_num \<Rightarrow> string \<Rightarrow> jsval task" where
  "getUserDeposit marketId owner = readPlain ''collateralVault'' ''user_deposit''
     [(''market_id'', big marketId), (''user'', str_arg owner)]"

definition getRootStake :: "js_num \<Rightarrow> string \<Rightarrow> string \<Rightarrow> jsval task" where
  "getRootStake marketId owner oc = readPlain ''collateralVault'' ''root_stake''
     [(''market_id'', big marketId), (''user'', str_arg owner), (''outcome'', outcome_arg oc)]"

definition getChildAvailForOutcome :: "js_num \<Rightarrow> string \<Rightarrow> string \<Rightarrow> jsval task" where
  "getChildAvailForOutcome parentMarketId owner oc =
     readOk ''collateralVault'' ''child_avail_for_outcome''
       [(''parent_market_id'', big parentMarketId), (''user'', str_arg owner), (''outcome'', outcome_arg oc)]"

definition getChildDebt :: "js_num \<Rightarrow> string \<Rightarrow> jsval task" where
  "getChildDebt childMarketId owner = readPlain ''collateralVault'' ''child_debt''
     [(''child_market_id'', big childMarketId), (''user'', str_arg owner)]"

definition getChildCollateralUsed :: "js_num \<Rightarrow> string \<Rightarrow> jsval task" where
  "getChildCollateralUsed parentMarketId owner = readPlain ''collateralVault'' ''child_collateral_used''
     [(''parent_market_id'', big parentMarketId), (''user'', str_arg owner)]"

definition getChildUsedForOutcome :: "js_num \<Rightarrow> string \<Rightarrow> string \<Rightarrow> jsval task" where
  "getChildUsedForOutcome parentMarketId owner oc =
     readPlain ''collateralVault'' ''child_used_for_outcome''
       [(''parent_market_id'', big parentMarketId), (''user'', str_arg owner), (''outcome'', outcome_arg oc)]"

definition getParentDebt :: "js_num \<Rightarrow> string \<Rightarrow> string \<Rightarrow> jsval task" where
  "getParentDebt parentMarketId owner oc = readPlain ''collateralVault'' ''parent_debt''
     [(''parent_market_id'', big parentMarketId), (''user'', str_arg owner), (''outcome'', outcome_arg oc)]"

definition getRedeemed :: "js_num \<Rightarrow> string \<Rightarrow> string \<Rightarrow> jsval task" where
  "getRedeemed marketId owner oc = readPlain ''collateralVault'' ''redeemed''
     [(''market_id'', big marketId), (''user'', str_arg owner), (''outcome'', outcome_arg oc)]"

definition getRequest :: "js_num \<Rightarrow> jsval task" where
  "getRequest requestId = readOk ''codOracle'' ''request'' [(''request_id'', big requestId)]"

definition getMarketRequest :: "js_num \<Rightarrow> jsval task" where
  "getMarketRequest marketId = readOk ''codOracle'' ''market_request'' [(''market_id'', big marketId)]"

definition getCase :: "js_num \<Rightarrow> jsval task" where
  "getCase caseId = readOk ''councilOfDike'' ''case'' [(''case_id'', big caseId)]"

definition getCaseForRequest :: "js_num \<Rightarrow> jsval task" where
  "getCaseForRequest requestId =
     readOk ''councilOfDike'' ''case_for_request'' [(''request_id'', big requestId)]"

definition getCaseRewardPool :: "js_num \<Rightarrow> jsval task" where
  "getCaseRewardPool caseId = readPlain ''councilOfDike'' ''case_reward_pool'' [(''case_id'', big caseId)]"

definition getTreasury :: "jsval task" where
  "getTreasury = readOk ''dikeGovernance'' ''treasury'' []"

definition getTimelock :: "manifest \<Rightarrow> jsval task" where
  "getTimelock m = simulateContractRead (manifest_contract m ''dike_governance'') ''timelock''"

definition getPauseAuthority :: "manifest \<Rightarrow> jsval task" where
  "getPauseAuthority m = simulateContractRead (manifest_contract m ''dike_governance'') ''pause_authority''"

definition getFeeConfig :: "jsval task" where
  "getFeeConfig = readPlain ''dikeGovernance'' ''fee_config'' []"

definition getModule :: "string \<Rightarrow> jsval task" where
  "getModule role = readOk ''dikeGovernance'' ''module'' [(''role'', str_arg role)]"

definition getSupportedCollateral :: "string \<Rightarrow> jsval task" where
  "getSupportedCollateral collateral =
     readPlain ''dikeGovernance'' ''is_supported_collateral'' [(''collateral'', str_arg collateral)]"

definition getTimelockAction :: "js_num \<Rightarrow> jsval task" where
  "getTimelockAction actionId = readOk ''dikeTimelock'' ''action'' [(''action_id'', big actionId)]"

definition getFeeManagerConfig :: "jsval task" where
  "getFeeManagerConfig = catchM
     (bindM (readPlain ''feeManager'' ''config'' []) (\<lambda>c.
      bindM (readOk ''feeManager'' ''required_bond'' [(''market_liquidity'', Inr (JBigInt 0))]) (\<lambda>b.
        ret (JObj [(''feeConfig'', c), (''proposalBond'', b)]))))
     (\<lambda>_. ret JNull)"

section \<open>Reads change nothing but the tick\<close>

named_theorems read_frames "every read keeps what a tick keeps"

lemma invoke_same:
  assumes "\<And>w n. p (w\<lparr>tick := n\<rparr>) = p w"
  shows "evolves (same p) (invoke client meth args)"
  unfolding invoke_def
  by (intro same.bindM_evolves same.mapM_evolves ask_same assms)
    (auto intro!: same.bindM_evolves same.liftE_evolves same.ret_evolves split: prod.splits)

lemma readPlain_same [read_frames]:
  "(\<And>w n. p (w\<lparr>tick := n\<rparr>) = p w) \<Longrightarrow> evolves (same p) (readPlain client meth args)"
  unfolding readPlain_def by (intro same.bindM_evolves invoke_same same.ret_evolves)

lemma readOk_same [read_frames]:
  "(\<And>w n. p (w\<lparr>tick := n\<rparr>) = p w) \<Longrightarrow> evolves (same p) (readOk client meth args)"
  unfolding readOk_def by (intro same.bindM_evolves invoke_same same.liftE_evolves)

lemma simulate_same [read_frames]:
  "(\<And>w n. p (w\<lparr>tick := n\<rparr>) = p w) \<Longrightarrow> evolves (same p) (simulateContractRead c meth)"
  unfolding simulateContractRead_def
  by (intro same.bindM_evolves ask_same)
    (auto intro: same.throw_evolves same.ret_evolves split: option.split)

lemmas read_defs = getLatestLedger_def getHealth_def getEvents_def getNextMarketId_def getMarket_def
  isTradeable_def getPool_def getLpBalance_def getClaimableLpFees_def getLpFeeCheckpoint_def
  getPositionBalance_def getVaultAccounting_def getUserDeposit_def getRootStake_def
  getChildDebt_def getChildCollateralUsed_def getChildUsedForOutcome_def getParentDebt_def
  getRedeemed_def getRequest_def getCase_def getCaseForRequest_def getCaseRewardPool_def
  getTreasury_def getTimelock_def getPauseAuthority_def getFeeConfig_def getModule_def
  getTimelockAction_def

lemma readOk_value:
  "readOk client meth args w = (Inr v, w') \<Longrightarrow>
    \<exists>r. unwrap r = Inr v \<and> (\<forall>e. r \<noteq> ErrResult e)"
  by (auto simp: readOk_def bindM_eq_Inr liftE_def unwrap_def split: read_result.splits sum.splits)

end
