(* ===== verification/Event_Source.thy ===== *)
theory Event_Source imports Repository_Laws Contract_Client begin

text \<open>
  \<open>indexer/event-source.ts\<close>: one poll of one contract.  From the stored checkpoint it decides the
  ledger window, pages through the RPC node's events for it and reports whether the batch covers
  the window, so that the worker knows whether it may advance the checkpoint.
\<close>

record event_batch =
  b_events :: "event_record list"
  b_checkpointLedger :: int
  b_cursor :: "string option"
  b_complete :: bool
  b_reset :: bool

definition raw_event_value :: "rpc_event \<Rightarrow> jsval" where
  "raw_event_value ev = JObj [(''ledger'', jint (ev_ledger ev)), (''txHash'', JStr (ev_txHash ev)),
     (''id'', JStr (ev_id ev)),
     (''topic'', case ev_topic ev of None \<Rightarrow> JUndefined | Some ts \<Rightarrow> JArr (map JStr ts)),
     (''value'', JStr (ev_value ev))]"

definition to_record :: "manifest \<Rightarrow> string \<Rightarrow> (string \<Rightarrow> jsval option) \<Rightarrow> string option \<Rightarrow> rpc_event \<Rightarrow> event_record" where
  "to_record m contractId dec cursor ev = (let decoded = decodeRawEvent dec (ev_topic ev) (ev_value ev) in
     \<lparr>e_network = m_network m, e_contractId = contractId, e_ledger = ev_ledger ev,
      e_txHash = ev_txHash ev, e_eventId = ev_id ev, e_topic = topic decoded,
      e_topicValues = topicValues decoded, e_payload = payload decoded,
      e_rawEvent = raw_event_value ev, e_cursor = cursor\<rparr>)"

text \<open>The page loop, with the pages left.  Its result is the events kept, the last cursor, whether
  no page was found wanting, and whether the page limit was reached (on the last page, however the
  loop leaves it).\<close>

primrec fetch_pages :: "nat \<Rightarrow> manifest \<Rightarrow> string \<Rightarrow> int \<Rightarrow> events_request \<Rightarrow> event_record list \<Rightarrow>
    string option \<Rightarrow> bool \<Rightarrow> (event_record list \<times> string option \<times> bool \<times> bool) task" where
  "fetch_pages 0 m contractId endLedger request events cursor overflowed =
     ret (events, cursor, True, True)"
| "fetch_pages (Suc pages) m contractId endLedger request events cursor overflowed =
     bindM (getEvents request) (\<lambda>response.
     bindM (getsM decoder) (\<lambda>dec.
       let kept_events = filter (\<lambda>ev. ev_ledger ev \<le> endLedger) (r_events response);
           events' = events @ map (to_record m contractId dec (r_cursor response)) kept_events;
           overflowed' = (overflowed \<or> list_ex (\<lambda>ev. endLedger < ev_ledger ev) (r_events response));
           stop = (\<lambda>complete. ret (events', r_cursor response, complete, pages = 0))
       in if length (r_events response) < 100 then stop True
          else case r_cursor response of None \<Rightarrow> stop False
            | Some c \<Rightarrow> if c = [] then stop False
                else if overflowed' then stop False
                else fetch_pages pages m contractId endLedger (FromCursor contractId c 100)
                  events' (r_cursor response) overflowed'))"

definition missing_start :: "string \<Rightarrow> exn" where
  "missing_start mdl = Error (''Missing INDEXER_START_LEDGER for initial '' @ mdl @
     '' indexing. Set it to a retained deployment ledger before starting with an empty checkpoint.'')"

text \<open>What a poll does once it knows the checkpoint and the chain tip.\<close>

definition poll_from :: "manifest \<Rightarrow> int \<Rightarrow> int \<Rightarrow> string \<Rightarrow> string \<Rightarrow> int option \<Rightarrow> checkpoint \<Rightarrow> int \<Rightarrow>
    event_batch task" where
  "poll_from m ledgerWindow reorgSafetyMarginLedgers contractId mdl startLedger cp latest =
     (if lastProcessedLedger cp \<le> 0 \<and> startLedger = None then
        thenM (on_metrics (setContractLag contractId mdl 0 latest)) (throw (missing_start mdl))
      else
        let fromLedger = (if 0 < lastProcessedLedger cp then lastProcessedLedger cp + 1 else the startLedger) in
        if latest < fromLedger then
          thenM (on_metrics (setContractLag contractId mdl (lastProcessedLedger cp) latest))
          (thenM (on_metrics noteCheckpointRewind)
          (ret \<lparr>b_events = [], b_checkpointLedger = max 0 (latest - reorgSafetyMarginLedgers),
                b_cursor = lastProcessedCursor cp, b_complete = True, b_reset = True\<rparr>))
        else
          let endLedger = min (fromLedger + ledgerWindow - 1) latest in
          bindM (fetch_pages 100 m contractId endLedger
                   (LedgerWindow contractId fromLedger endLedger 100) [] None False)
            (\<lambda>(events, cursor, complete, exhausted).
          thenM (on_metrics (setContractLag contractId mdl endLedger latest))
          (ret \<lparr>b_events = events, b_checkpointLedger = endLedger, b_cursor = cursor,
                b_complete = (complete \<and> \<not> exhausted), b_reset = False\<rparr>)))"

definition pollContract ::
  "manifest \<Rightarrow> int \<Rightarrow> int \<Rightarrow> string \<Rightarrow> string \<Rightarrow> int option \<Rightarrow> event_batch task" where
  "pollContract m ledgerWindow reorgSafetyMarginLedgers contractId mdl startLedger =
     bindM (getCheckpoint (m_network m) contractId) (\<lambda>cp.
     bindM getLatestLedger (\<lambda>latest.
     thenM (on_metrics (setLatestLedger latest))
       (poll_from m ledgerWindow reorgSafetyMarginLedgers contractId mdl startLedger cp latest)))"

section \<open>A poll reads only\<close>

definition db_and_oracles where
  "db_and_oracles w = (db w, oracles w)"

lemma poll_blind [simp]:
  "db_and_oracles (w\<lparr>tick := n\<rparr>) = db_and_oracles w"
  "db_and_oracles (w\<lparr>metrics := ms\<rparr>) = db_and_oracles w"
  by (simp_all add: db_and_oracles_def)

lemma getEvents_same: "evolves (same db_and_oracles) (getEvents rq)"
  unfolding getEvents_def by (rule ask_same) simp

lemma fetch_pages_same: "evolves (same db_and_oracles) (fetch_pages n m c l rq es cu ov)"
proof (induction n arbitrary: rq es cu ov)
  case 0
  then show ?case by (simp add: same.ret_evolves)
next
  case (Suc n)
  then show ?case
    unfolding fetch_pages.simps Let_def by (intro same.evolves_rules getEvents_same)
qed

lemma pollContract_same: "evolves (same db_and_oracles) (pollContract m win mg c md st)"
  unfolding pollContract_def poll_from_def getCheckpoint_def getLatestLedger_def
  by (intro same.evolves_rules db_select_same ask_same on_metrics_same)
    (auto intro!: same.evolves_rules fetch_pages_same on_metrics_same)

section \<open>What the RPC node promises\<close>

text \<open>
  The documented behaviour of the event query, for one contract whose events, oldest first, are
  \<open>chain\<close>.  Once the node has reported a tip, a query for a window searches from its start ledger
  up to, and not including, its end ledger, at most \<open>scan\<close> ledgers at a time and as far as the
  node has got; a query from a cursor searches in the same way the events behind the cursor, from
  the cursor's ledger on; both return what they find up to the limit.  A full page comes with a
  cursor, which stands at the page's last event: \<open>after\<close> gives its ledger and the events behind it.
  An answer never comes from a state of the chain before a tip the node has reported.  Requests may
  fail in any way and at any time.
\<close>

definition serves :: "int \<Rightarrow> world \<Rightarrow> string \<Rightarrow> rpc_event list \<Rightarrow> (string \<Rightarrow> int \<times> rpc_event list) \<Rightarrow> bool" where
  "serves scan w c chain after \<longleftrightarrow> sorted (map ev_ledger chain) \<and>
    (\<forall>t tip t'. rpc_ledger w t = Inr tip \<longrightarrow> t < t' \<longrightarrow>
      (\<forall>s e r. rpc_events w t' (LedgerWindow c s e 100) = Inr r \<longrightarrow>
        (\<exists>v \<ge> tip. r_events r = take 100
           (filter (\<lambda>ev. ev_ledger ev < min e (min (s + scan) (v + 1))) (filter (\<lambda>ev. s \<le> ev_ledger ev) chain))) \<and>
        (length (r_events r) = 100 \<longrightarrow> (\<exists>cur. r_cursor r = Some cur \<and>
          after cur = (ev_ledger (last (r_events r)), drop 100 (filter (\<lambda>ev. s \<le> ev_ledger ev) chain))))) \<and>
      (\<forall>cur r. rpc_events w t' (FromCursor c cur 100) = Inr r \<longrightarrow>
        (\<exists>v \<ge> tip. r_events r = take 100
           (filter (\<lambda>ev. ev_ledger ev < min (fst (after cur) + scan) (v + 1)) (snd (after cur)))) \<and>
        (length (r_events r) = 100 \<longrightarrow> (\<exists>cur'. r_cursor r = Some cur' \<and>
          after cur' = (ev_ledger (last (r_events r)), drop 100 (snd (after cur)))))))"

lemma serves_oracles: "oracles w' = oracles w \<Longrightarrow> serves scan w' c chain after = serves scan w c chain after"
  by (simp add: serves_def oracles_def)

lemma serves_tick [simp]: "serves scan (w\<lparr>tick := k\<rparr>) c chain after = serves scan w c chain after"
  by (rule serves_oracles) (simp add: oracles_def)

lemma window_page:
  assumes "serves scan w c chain after" "rpc_ledger w t = Inr tip" "t < t'" "e \<le> tip" "e \<le> s + scan"
    "rpc_events w t' (LedgerWindow c s e 100) = Inr r"
  shows "r_events r = take 100 (filter (\<lambda>ev. ev_ledger ev < e) (filter (\<lambda>ev. s \<le> ev_ledger ev) chain))"
    and "length (r_events r) = 100 \<Longrightarrow> \<exists>cur. r_cursor r = Some cur \<and>
      after cur = (ev_ledger (last (r_events r)), drop 100 (filter (\<lambda>ev. s \<le> ev_ledger ev) chain))"
proof -
  obtain v where v: "tip \<le> v" "r_events r = take 100
      (filter (\<lambda>ev. ev_ledger ev < min e (min (s + scan) (v + 1))) (filter (\<lambda>ev. s \<le> ev_ledger ev) chain))"
    using assms unfolding serves_def by meson
  have "min e (min (s + scan) (v + 1)) = e" using v(1) assms(4,5) by linarith
  with v(2) show "r_events r = take 100 (filter (\<lambda>ev. ev_ledger ev < e) (filter (\<lambda>ev. s \<le> ev_ledger ev) chain))"
    by (simp only:)
  show "length (r_events r) = 100 \<Longrightarrow> \<exists>cur. r_cursor r = Some cur \<and>
      after cur = (ev_ledger (last (r_events r)), drop 100 (filter (\<lambda>ev. s \<le> ev_ledger ev) chain))"
    using assms unfolding serves_def by meson
qed

lemma cursor_page:
  assumes "serves scan w c chain after" "rpc_ledger w t = Inr tip" "t < t'" "e \<le> tip"
    "e < fst (after cur) + scan" "rpc_events w t' (FromCursor c cur 100) = Inr r"
  shows "\<exists>v > e. r_events r = take 100 (filter (\<lambda>ev. ev_ledger ev < v) (snd (after cur)))"
    and "length (r_events r) = 100 \<Longrightarrow> \<exists>cur'. r_cursor r = Some cur' \<and>
      after cur' = (ev_ledger (last (r_events r)), drop 100 (snd (after cur)))"
proof -
  obtain v where v: "tip \<le> v" "r_events r = take 100
      (filter (\<lambda>ev. ev_ledger ev < min (fst (after cur) + scan) (v + 1)) (snd (after cur)))"
    using assms unfolding serves_def by meson
  have "e < min (fst (after cur) + scan) (v + 1)" using v(1) assms(4,5) by linarith
  with v(2) show "\<exists>v > e. r_events r = take 100 (filter (\<lambda>ev. ev_ledger ev < v) (snd (after cur)))" by blast
  show "length (r_events r) = 100 \<Longrightarrow> \<exists>cur'. r_cursor r = Some cur' \<and>
      after cur' = (ev_ledger (last (r_events r)), drop 100 (snd (after cur)))"
    using assms unfolding serves_def by meson
qed

lemma sorted_filter_prefix:
  assumes "sorted (map ev_ledger L)"
  shows "\<exists>B. L = filter (\<lambda>ev. ev_ledger ev < v) L @ B"
  using assms
proof (induction L)
  case Nil
  then show ?case by simp
next
  case (Cons x L)
  show ?case
  proof (cases "ev_ledger x < v")
    case True
    then show ?thesis using Cons by auto
  next
    case False
    then have "filter (\<lambda>ev. ev_ledger ev < v) (x # L) = []"
      using Cons.prems by (auto simp: filter_empty_conv)
    then show ?thesis by (metis append_Nil)
  qed
qed

text \<open>A full page is the front of what was left; a short one is all of it below the bound.\<close>

lemma full_page_front:
  assumes "sorted (map ev_ledger L)" "page = take 100 (filter (\<lambda>ev. ev_ledger ev < v) L)" "length page = 100"
  shows "L = page @ drop 100 L"
proof -
  let ?V = "filter (\<lambda>ev. ev_ledger ev < v) L"
  obtain B where B: "L = ?V @ B" using sorted_filter_prefix [OF assms(1)] by blast
  have len: "100 \<le> length ?V" using assms(2,3) by simp
  have "take 100 L = take 100 (?V @ B)" by (subst B) (rule refl)
  also have "\<dots> = page" using len assms(2) by simp
  finally have "page = take 100 L" by simp
  then show ?thesis by simp
qed

lemma short_page_events:
  assumes "e < v" "page = take 100 (filter (\<lambda>ev. ev_ledger ev < v) L)" "length page < 100"
  shows "filter (\<lambda>ev. ev_ledger ev \<le> e) page = filter (\<lambda>ev. ev_ledger ev \<le> e) L"
proof -
  have "page = filter (\<lambda>ev. ev_ledger ev < v) L" using assms(2,3) by simp
  moreover have "filter (\<lambda>ev. ev_ledger ev \<le> e) (filter (\<lambda>ev. ev_ledger ev < v) L) = filter (\<lambda>ev. ev_ledger ev \<le> e) L"
    unfolding filter_filter by (rule filter_cong) (use assms(1) in auto)
  ultimately show ?thesis by simp
qed

text \<open>The identity of a batch's record and of the event it was made from.\<close>

definition record_id :: "event_record \<Rightarrow> string \<times> string \<times> string \<times> int" where
  "record_id x = (e_network x, e_contractId x, e_eventId x, e_ledger x)"

definition event_id :: "manifest \<Rightarrow> string \<Rightarrow> rpc_event \<Rightarrow> string \<times> string \<times> string \<times> int" where
  "event_id m c ev = (m_network m, c, ev_id ev, ev_ledger ev)"

lemma record_id_to_record [simp]: "record_id (to_record m c dec cur ev) = event_id m c ev"
  by (simp add: record_id_def event_id_def to_record_def Let_def)

text \<open>One page of a run that ends complete: it stops after a short page, or goes on from the cursor.\<close>

lemma fetch_step:
  assumes "fetch_pages (Suc n) m c e rq evs cur ov w = (Inr (evs', cur', True, False), w')"
  obtains r evs1 where "rpc_events w (tick w) rq = Inr r"
    "map record_id evs1 = map record_id evs @ map (event_id m c) (filter (\<lambda>ev. ev_ledger ev \<le> e) (r_events r))"
    "length (r_events r) < 100 \<Longrightarrow> evs' = evs1"
    "\<And>cur1. 100 \<le> length (r_events r) \<Longrightarrow> r_cursor r = Some cur1 \<Longrightarrow>
      \<exists>ov1. fetch_pages n m c e (FromCursor c cur1 100) evs1 (Some cur1) ov1 (w\<lparr>tick := Suc (tick w)\<rparr>) =
        (Inr (evs', cur', True, False), w')"
proof -
  obtain r where r: "rpc_events w (tick w) rq = Inr r"
    using assms by (auto simp: getEvents_def ask_def bindM_def split: sum.splits)
  show thesis
  proof (rule that [OF r])
    show "map record_id (evs @ map (to_record m c (decoder w) (r_cursor r))
        (filter (\<lambda>ev. ev_ledger ev \<le> e) (r_events r))) =
      map record_id evs @ map (event_id m c) (filter (\<lambda>ev. ev_ledger ev \<le> e) (r_events r))"
      by simp
  qed (use assms r in \<open>auto simp: getEvents_def ask_def bindM_def getsM_def ret_def Let_def split: if_splits\<close>)
qed

lemma fetch_from_cursor:
  assumes "fetch_pages n m c e (FromCursor c cur0 100) evs cur ov w = (Inr (evs', cur', True, False), w')"
    "serves scan w c chain after" "rpc_ledger w t = Inr tip" "t < tick w" "e \<le> tip"
    "e < fst (after cur0) + scan" "\<forall>ev \<in> set (snd (after cur0)). e < ev_ledger ev + scan"
    "sorted (map ev_ledger (snd (after cur0)))"
  shows "map record_id evs' = map record_id evs @
    map (event_id m c) (filter (\<lambda>ev. ev_ledger ev \<le> e) (snd (after cur0)))"
  using assms
proof (induction n arbitrary: cur0 evs cur ov w)
  case 0
  then show ?case by (simp add: ret_def)
next
  case (Suc n)
  let ?L = "snd (after cur0)"
  obtain r evs1 where r: "rpc_events w (tick w) (FromCursor c cur0 100) = Inr r"
    and ids: "map record_id evs1 =
      map record_id evs @ map (event_id m c) (filter (\<lambda>ev. ev_ledger ev \<le> e) (r_events r))"
    and short: "length (r_events r) < 100 \<Longrightarrow> evs' = evs1"
    and rec: "\<And>cur1. 100 \<le> length (r_events r) \<Longrightarrow> r_cursor r = Some cur1 \<Longrightarrow>
      \<exists>ov1. fetch_pages n m c e (FromCursor c cur1 100) evs1 (Some cur1) ov1 (w\<lparr>tick := Suc (tick w)\<rparr>) =
        (Inr (evs', cur', True, False), w')"
    using fetch_step [OF Suc.prems(1)] by metis
  obtain v where v: "e < v" "r_events r = take 100 (filter (\<lambda>ev. ev_ledger ev < v) ?L)"
    using cursor_page(1) [OF Suc.prems(2-6) r] by blast
  show ?case
  proof (cases "length (r_events r) < 100")
    case True
    then show ?thesis using ids short short_page_events [OF v True] by simp
  next
    case False
    then have full: "length (r_events r) = 100" using v(2) by simp
    obtain cur1 where cur1: "r_cursor r = Some cur1" "after cur1 = (ev_ledger (last (r_events r)), drop 100 ?L)"
      using cursor_page(2) [OF Suc.prems(2-6) r full] by blast
    obtain ov1 where run: "fetch_pages n m c e (FromCursor c cur1 100) evs1 (Some cur1) ov1 (w\<lparr>tick := Suc (tick w)\<rparr>) =
        (Inr (evs', cur', True, False), w')"
      using rec [OF _ cur1(1)] full by auto
    have L: "?L = r_events r @ drop 100 ?L" by (rule full_page_front [OF Suc.prems(8) v(2) full])
    have "last (r_events r) \<in> set (r_events r)" using full by (intro last_in_set) auto
    then have "last (r_events r) \<in> set ?L" by (subst L) simp
    then have reach: "e < fst (after cur1) + scan" using Suc.prems(7) cur1(2) by simp
    have rest: "\<forall>ev \<in> set (snd (after cur1)). e < ev_ledger ev + scan"
      using Suc.prems(7) cur1(2) by (auto dest: in_set_dropD)
    have sorted: "sorted (map ev_ledger (snd (after cur1)))"
      using Suc.prems(8) cur1(2) by (simp add: drop_map [symmetric] sorted_wrt_drop)
    have "map record_id evs' = map record_id evs1 @
        map (event_id m c) (filter (\<lambda>ev. ev_ledger ev \<le> e) (snd (after cur1)))"
      by (rule Suc.IH [OF run _ _ _ Suc.prems(5) reach rest sorted])
        (use Suc.prems(2-4) in simp_all)
    moreover have "filter (\<lambda>ev. ev_ledger ev \<le> e) ?L =
        filter (\<lambda>ev. ev_ledger ev \<le> e) (r_events r) @ filter (\<lambda>ev. ev_ledger ev \<le> e) (snd (after cur1))"
      by (subst L) (simp add: cur1(2))
    ultimately show ?thesis using ids by simp
  qed
qed

text \<open>
  The last ledger a complete window covers.  The code asks for the window up to \<open>e\<close> and means to
  include \<open>e\<close>; the node leaves \<open>e\<close> out, unless the first page is full and the rest is read from a cursor,
  whose search has no end.
\<close>

definition last_covered :: "rpc_event list \<Rightarrow> int \<Rightarrow> int \<Rightarrow> int" where
  "last_covered chain s e =
     (if 100 \<le> length (filter (\<lambda>ev. s \<le> ev_ledger ev \<and> ev_ledger ev < e) chain) then e else e - 1)"

lemma last_covered_bounds: "e - 1 \<le> last_covered chain s e" "last_covered chain s e \<le> e"
  by (simp_all add: last_covered_def)

lemma fetch_window:
  assumes "fetch_pages n m c e (LedgerWindow c s e 100) evs cur ov w = (Inr (evs', cur', True, False), w')"
    "serves scan w c chain after" "rpc_ledger w t = Inr tip" "t < tick w" "e \<le> tip" "e < s + scan"
  shows "map record_id evs' = map record_id evs @ map (event_id m c)
    (filter (\<lambda>ev. ev_ledger ev \<le> last_covered chain s e) (filter (\<lambda>ev. s \<le> ev_ledger ev) chain))"
proof (cases n)
  case 0
  then show ?thesis using assms(1) by (simp add: ret_def)
next
  case (Suc k)
  let ?L = "filter (\<lambda>ev. s \<le> ev_ledger ev) chain" and ?in = "\<lambda>ev. ev_ledger ev \<le> e"
  have sorted: "sorted (map ev_ledger ?L)" using assms(2) by (auto simp: serves_def intro: sorted_filter)
  obtain r evs1 where r: "rpc_events w (tick w) (LedgerWindow c s e 100) = Inr r"
    and ids: "map record_id evs1 = map record_id evs @ map (event_id m c) (filter ?in (r_events r))"
    and short: "length (r_events r) < 100 \<Longrightarrow> evs' = evs1"
    and rec: "\<And>cur1. 100 \<le> length (r_events r) \<Longrightarrow> r_cursor r = Some cur1 \<Longrightarrow>
      \<exists>ov1. fetch_pages k m c e (FromCursor c cur1 100) evs1 (Some cur1) ov1 (w\<lparr>tick := Suc (tick w)\<rparr>) =
        (Inr (evs', cur', True, False), w')"
    using fetch_step [OF assms(1) [unfolded Suc]] by metis
  have e: "e \<le> s + scan" using assms(6) by simp
  note page = window_page(1) [OF assms(2-5) e r]
  have kept: "filter ?in (r_events r) = r_events r" using page by (auto intro!: filter_True dest!: in_set_takeD)
  show ?thesis
  proof (cases "length (r_events r) < 100")
    case True
    then have eq: "r_events r = filter (\<lambda>ev. ev_ledger ev < e) ?L" and few: "length (filter (\<lambda>ev. ev_ledger ev < e) ?L) < 100"
      using page by simp_all
    have "last_covered chain s e = e - 1" using few by (simp add: last_covered_def conj_commute)
    then show ?thesis using ids short [OF True] kept eq by simp
  next
    case False
    then have full: "length (r_events r) = 100" using page by simp
    obtain cur1 where cur1: "r_cursor r = Some cur1" "after cur1 = (ev_ledger (last (r_events r)), drop 100 ?L)"
      using window_page(2) [OF assms(2-5) e r full] by blast
    obtain ov1 where run: "fetch_pages k m c e (FromCursor c cur1 100) evs1 (Some cur1) ov1 (w\<lparr>tick := Suc (tick w)\<rparr>) =
        (Inr (evs', cur', True, False), w')"
      using rec [OF _ cur1(1)] full by auto
    have L: "?L = r_events r @ drop 100 ?L" by (rule full_page_front [OF sorted page full])
    have "last (r_events r) \<in> set (r_events r)" using full by (intro last_in_set) auto
    then have "last (r_events r) \<in> set ?L" by (subst L) simp
    then have reach: "e < fst (after cur1) + scan" using assms(6) cur1(2) by simp
    have rest: "\<forall>ev \<in> set (snd (after cur1)). e < ev_ledger ev + scan"
      using assms(6) cur1(2) by (auto dest!: in_set_dropD)
    have sorted1: "sorted (map ev_ledger (snd (after cur1)))"
      using sorted cur1(2) by (simp add: drop_map [symmetric] sorted_wrt_drop)
    have "map record_id evs' = map record_id evs1 @ map (event_id m c) (filter ?in (snd (after cur1)))"
      by (rule fetch_from_cursor [where after = after and scan = scan and chain = chain and tip = tip and t = t, OF run _ _ _ assms(5) reach rest sorted1])
        (use assms(2-4) in simp_all)
    moreover have "filter ?in ?L = filter ?in (r_events r) @ filter ?in (snd (after cur1))"
      by (subst L) (simp add: cur1(2))
    moreover have "last_covered chain s e = e"
      using full page by (simp add: last_covered_def conj_commute)
    ultimately show ?thesis using ids by simp
  qed
qed

end
