(* ===== verification/Domain.thy ===== *)
theory Domain imports JS_Values begin

text \<open>
  \<open>src/domain\<close> of the services: the outcome and market-status tags with the functions that
  read them off a decoded contract value, and the derived state the API reports (tradeable,
  prices, next resolution actions, redeemable).
\<close>

section \<open>Tags\<close>

datatype outcome = Yes | No | Invalid

datatype market_status = Created | Live | Paused | TradingClosed | ResolutionRequested | Proposed
  | Disputed | CouncilVoting | Resolved | Cancelled

fun outcome_text :: "outcome \<Rightarrow> string" where
  "outcome_text Yes = ''Yes''"
| "outcome_text No = ''No''"
| "outcome_text Invalid = ''Invalid''"

definition outcome_of_text :: "string \<Rightarrow> outcome option" where
  "outcome_of_text s = (if s = ''Yes'' then Some Yes else if s = ''No'' then Some No
     else if s = ''Invalid'' then Some Invalid else None)"

definition all_statuses :: "market_status list" where
  "all_statuses = [Created, Live, Paused, TradingClosed, ResolutionRequested, Proposed, Disputed,
     CouncilVoting, Resolved, Cancelled]"

fun status_text :: "market_status \<Rightarrow> string" where
  "status_text Created = ''Created''"
| "status_text Live = ''Live''"
| "status_text Paused = ''Paused''"
| "status_text TradingClosed = ''TradingClosed''"
| "status_text ResolutionRequested = ''ResolutionRequested''"
| "status_text Proposed = ''Proposed''"
| "status_text Disputed = ''Disputed''"
| "status_text CouncilVoting = ''CouncilVoting''"
| "status_text Resolved = ''Resolved''"
| "status_text Cancelled = ''Cancelled''"

definition status_of_text :: "string \<Rightarrow> market_status option" where
  "status_of_text s = map_of (map (\<lambda>st. (status_text st, st)) all_statuses) s"

text \<open>Both readers accept the bare tag or an object (never an array) with a \<open>tag\<close> property.\<close>

definition tag_of :: "jsval \<Rightarrow> string option" where
  "tag_of v = (case v of JObj kvs \<Rightarrow> map_option js_String (map_of kvs ''tag'') | _ \<Rightarrow> None)"

definition outcomeTag :: "jsval \<Rightarrow> outcome option" where
  "outcomeTag v = (case v of JStr s \<Rightarrow> outcome_of_text s
     | _ \<Rightarrow> (case tag_of v of None \<Rightarrow> None | Some t \<Rightarrow> outcome_of_text t))"

definition marketStatusTag :: "jsval \<Rightarrow> market_status option" where
  "marketStatusTag v = (case v of JStr s \<Rightarrow> status_of_text s
     | _ \<Rightarrow> (case tag_of v of None \<Rightarrow> None | Some t \<Rightarrow> status_of_text t))"

lemma outcome_of_text_text [simp]: "outcome_of_text (outcome_text oc) = Some oc"
  by (cases oc) (simp_all add: outcome_of_text_def)

lemma outcome_of_text_Some: "outcome_of_text s = Some oc \<longleftrightarrow> s = outcome_text oc"
  by (cases oc) (auto simp: outcome_of_text_def)

lemma status_of_text_text [simp]: "status_of_text (status_text st) = Some st"
  by (cases st) (simp_all add: status_of_text_def all_statuses_def)

lemma status_of_text_Some: "status_of_text s = Some st \<longleftrightarrow> s = status_text st"
proof
  assume "status_of_text s = Some st"
  then have "(s, st) \<in> set (map (\<lambda>st. (status_text st, st)) all_statuses)"
    unfolding status_of_text_def by (rule map_of_SomeD)
  then show "s = status_text st" by auto
qed simp

section \<open>Derived state\<close>

text \<open>A missing field and a \<open>null\<close> one take the same branches everywhere here: both are \<open>None\<close>.\<close>

definition deriveTradeability ::
  "market_status option \<Rightarrow> js_num option \<Rightarrow> js_num \<Rightarrow> bool option \<Rightarrow> bool" where
  "deriveTradeability status expiry now registryTradeable = (case registryTradeable of
     Some b \<Rightarrow> b
   | None \<Rightarrow> status = Some Live \<and>
       (case expiry of None \<Rightarrow> False | Some e \<Rightarrow> num_truthy e \<and> js_lt now e))"

record prices =
  yesPrice :: "js_num option"
  noPrice :: "js_num option"

definition reserve_number :: "string option \<Rightarrow> js_num" where
  "reserve_number r = (case r of None \<Rightarrow> Fin 0 | Some s \<Rightarrow> js_Number_of_string s)"

definition derivePrices :: "string option \<Rightarrow> string option \<Rightarrow> prices" where
  "derivePrices yesReserve noReserve = (let yes = reserve_number yesReserve;
     no = reserve_number noReserve; total = js_add yes no in
     if \<not> num_truthy total then \<lparr>yesPrice = None, noPrice = None\<rparr>
     else \<lparr>yesPrice = Some (js_div yes total), noPrice = Some (js_div no total)\<rparr>)"

definition deriveResolutionNextActions :: "market_status option \<Rightarrow> js_num option \<Rightarrow> js_num \<Rightarrow>
    bool option \<Rightarrow> js_num option \<Rightarrow> js_num option \<Rightarrow> string list" where
  "deriveResolutionNextActions status expiry now hasDispute proposedAt disputeWindow =
    (case status of None \<Rightarrow> []
     | Some st \<Rightarrow>
       if (case expiry of None \<Rightarrow> False | Some e \<Rightarrow> num_truthy e \<and> js_lt now e) then []
       else case st of
         TradingClosed \<Rightarrow> [''request_resolution'']
       | ResolutionRequested \<Rightarrow> [''propose_outcome'']
       | Proposed \<Rightarrow>
           if hasDispute = Some True then [''await_dispute_settlement'']
           else if js_lt now (js_add (or_else proposedAt (Fin 0)) (or_else disputeWindow (Fin 0)))
             then [''dispute'']
           else [''finalize_undisputed'']
       | Disputed \<Rightarrow> [''escalate_to_council'']
       | CouncilVoting \<Rightarrow> [''monitor_commit_reveal'']
       | Resolved \<Rightarrow> [''redeem'']
       | Cancelled \<Rightarrow> [''redeem'']
       | _ \<Rightarrow> [])"

definition deriveRedeemability :: "market_status option \<Rightarrow> outcome option \<Rightarrow> bool" where
  "deriveRedeemability status oc \<longleftrightarrow>
     (status = Some Resolved \<or> status = Some Cancelled) \<and> oc \<noteq> None"

section \<open>Properties\<close>

lemma reserve_number_nat: "y \<le> 2 ^ 53 \<Longrightarrow> reserve_number (Some (nat_str y)) = Fin (of_nat y)"
  by (simp add: reserve_number_def Number_digits num_of_int_exact)

lemma derivePrices_values:
  assumes "y + n \<le> 2 ^ 53"
  shows "derivePrices (Some (nat_str y)) (Some (nat_str n)) =
      (if y + n = 0 then \<lparr>yesPrice = None, noPrice = None\<rparr>
       else \<lparr>yesPrice = Some (fround (of_nat y / of_nat (y + n))),
              noPrice = Some (fround (of_nat n / of_nat (y + n)))\<rparr>)"
proof -
  have yn: "reserve_number (Some (nat_str y)) = Fin (of_nat y)"
    "reserve_number (Some (nat_str n)) = Fin (of_nat n)"
    using assms by (auto intro!: reserve_number_nat)
  have "fround (of_int (int (y + n))) = Fin (of_int (int (y + n)))"
    using assms by (intro fround_of_int) simp
  then have total: "js_add (Fin (of_nat y)) (Fin (of_nat n)) = Fin (of_nat (y + n))"
    by simp
  show ?thesis
    by (simp add: derivePrices_def yn total num_truthy_def Let_def del: of_nat_add js_add.simps)
qed

text \<open>For reserves stored as the decimal text of naturals whose sum a double holds, the two
  prices are the reserves' shares rounded to a double, lie in the unit interval, and are absent
  exactly when the pool is empty.\<close>

lemma derivePrices_shares:
  assumes "y + n \<le> 2 ^ 53"
  shows "derivePrices (Some (nat_str y)) (Some (nat_str n)) =
      (if y + n = 0 then \<lparr>yesPrice = None, noPrice = None\<rparr>
       else \<lparr>yesPrice = Some (fround (of_nat y / of_nat (y + n))),
              noPrice = Some (fround (of_nat n / of_nat (y + n)))\<rparr>) \<and>
    (y + n \<noteq> 0 \<longrightarrow>
      (\<exists>p. fround (of_nat y / of_nat (y + n)) = Fin p \<and> 0 \<le> p \<and> p \<le> 1) \<and>
      (\<exists>p. fround (of_nat n / of_nat (y + n)) = Fin p \<and> 0 \<le> p \<and> p \<le> 1))"
proof -
  have unit: "a \<le> b \<Longrightarrow> b \<noteq> 0 \<Longrightarrow>
      \<exists>p. fround (of_nat a / of_nat b) = Fin p \<and> 0 \<le> p \<and> p \<le> 1" for a b :: nat
    by (rule fround_unit) (simp_all add: divide_le_eq_1)
  show ?thesis
    using unit [of y "y + n"] unit [of n "y + n"]
    by (simp add: derivePrices_values [OF assms] del: of_nat_add)
qed

lemma derivePrices_shares_witness:
  "derivePrices (Some (nat_str 40)) (Some (nat_str 60)) =
     \<lparr>yesPrice = Some (fround (2 / 5)), noPrice = Some (fround (3 / 5))\<rparr>"
  using derivePrices_shares [of 40 60] by simp

text \<open>Before a market expires there is nothing to do for its resolution; after that there is
  at most one next action, and it is \<open>redeem\<close> exactly for resolved and cancelled markets.  A
  market the services call tradeable from its own status has no next action.\<close>

lemma deriveResolutionNextActions_cases:
  "(deriveTradeability status expiry now None \<longrightarrow>
      deriveResolutionNextActions status expiry now hasDisp pa dw = []) \<and>
   length (deriveResolutionNextActions status expiry now hasDisp pa dw) \<le> 1 \<and>
   (''redeem'' \<in> set (deriveResolutionNextActions status expiry now hasDisp pa dw) \<longleftrightarrow>
      (\<exists>oc. deriveRedeemability status (Some oc)) \<and>
      \<not> (\<exists>e. expiry = Some e \<and> num_truthy e \<and> js_lt now e))"
proof (cases status)
  case None
  then show ?thesis by (simp add: deriveResolutionNextActions_def deriveRedeemability_def)
next
  case (Some st)
  then show ?thesis
    by (cases st) (auto simp: deriveResolutionNextActions_def deriveRedeemability_def
        deriveTradeability_def split: option.splits)
qed

lemma deriveResolutionNextActions_witness:
  "deriveResolutionNextActions (Some Live) (Some (Fin 200)) (Fin 100) None None None = []"
  using deriveResolutionNextActions_cases [of "Some Live" "Some (Fin 200)" "Fin 100" None None None]
  by (simp add: deriveTradeability_def num_truthy_def)

text \<open>The dispute window: a proposal is disputable exactly until \<open>proposedAt + disputeWindow\<close>
  and finalizable from then on, for times and windows a double holds exactly.\<close>

lemma dispute_window_boundary:
  assumes "0 \<le> pa" "0 \<le> dw" "pa + dw \<le> 2 ^ 53"
  shows "deriveResolutionNextActions (Some Proposed) None (Fin (of_int t)) (Some False)
      (Some (Fin (of_int pa))) (Some (Fin (of_int dw))) =
    (if t < pa + dw then [''dispute''] else [''finalize_undisputed''])"
proof -
  have "fround (of_int (pa + dw)) = Fin (of_int (pa + dw))"
    using assms by (intro fround_of_int) simp
  then have "js_add (Fin (of_int pa)) (Fin (of_int dw)) = Fin (of_int (pa + dw))" by simp
  then show ?thesis
    by (simp add: deriveResolutionNextActions_def del: js_add.simps of_int_add)
qed

lemma dispute_window_boundary_witness:
  "deriveResolutionNextActions (Some Proposed) None (Fin (of_int 110)) (Some False)
      (Some (Fin (of_int 100))) (Some (Fin (of_int 10))) = [''finalize_undisputed'']"
  using dispute_window_boundary [of 100 10 110] by simp

end
