(* ===== verification/Reconciliation.thy ===== *)
theory Reconciliation imports Repository_Laws Contract_Client Domain begin

text \<open>
  \<open>jobs/reconciliation.ts\<close>: each \<open>reconcile\<close> operation reads an entity from its contract,
  normalises it, upserts its row and publishes an update.  A read that throws is tolerated
  exactly where the source catches it.  The reads of a \<open>Promise.all\<close> run in the order listed;
  they have no effects of their own.
\<close>

section \<open>Helpers\<close>

definition OUTCOMES :: "outcome list" where
  "OUTCOMES = [Yes, No, Invalid]"

definition toAmount :: "jsval \<Rightarrow> jsval" where
  "toAmount v = (case v of
     JBigInt i \<Rightarrow> JStr (int_str i)
   | JNum (Fin q) \<Rightarrow> JStr (num_to_string (Fin q))
   | JStr s \<Rightarrow> if s \<noteq> [] then JStr s else JStr ''0''
   | _ \<Rightarrow> JStr ''0'')"

text \<open>\<open>read.catch(() => d)\<close>\<close>

definition with_default :: "jsval task \<Rightarrow> jsval \<Rightarrow> jsval task" where
  "with_default m d = catchM m (\<lambda>_. ret d)"

text \<open>The columns of an object literal whose values may throw while they are read.\<close>

fun collect :: "(string \<times> (exn + jsval)) list \<Rightarrow> exn + (string \<times> jsval) list" where
  "collect [] = Inr []"
| "collect ((c, v) # cvs) = (case v of Inl e \<Rightarrow> Inl e | Inr x \<Rightarrow>
     (case collect cvs of Inl e \<Rightarrow> Inl e | Inr xs \<Rightarrow> Inr ((c, x) # xs)))"

definition prop_or :: "jsval \<Rightarrow> string \<Rightarrow> jsval \<Rightarrow> exn + jsval" where
  "prop_or v k d = (case js_prop v k of Inl e \<Rightarrow> Inl e | Inr x \<Rightarrow> Inr (js_coalesce x d))"

definition or_null :: "jsval \<Rightarrow> string \<Rightarrow> string \<times> (exn + jsval)" where
  "or_null v k = (k, prop_or v k JNull)"

definition or_zero :: "jsval \<Rightarrow> string \<Rightarrow> string \<times> (exn + jsval)" where
  "or_zero v k = (k, prop_or v k (JStr ''0''))"

definition or_false :: "jsval \<Rightarrow> string \<Rightarrow> string \<times> (exn + jsval)" where
  "or_false v k = (k, prop_or v k (JBool False))"

definition tag_prop :: "jsval \<Rightarrow> string \<Rightarrow> exn + jsval" where
  "tag_prop v k = (case js_prop v k of Inl e \<Rightarrow> Inl e | Inr x \<Rightarrow> js_prop x ''tag'')"

definition tag_col :: "jsval \<Rightarrow> string \<Rightarrow> string \<times> (exn + jsval)" where
  "tag_col v k = (k, tag_prop v k)"

definition col :: "string \<Rightarrow> jsval \<Rightarrow> string \<times> (exn + jsval)" where
  "col k v = (k, Inr v)"

definition stamps :: "int \<Rightarrow> string \<Rightarrow> (string \<times> (exn + jsval)) list" where
  "stamps latestLedger now = [col ''last_reconciled_ledger'' (jint latestLedger),
     col ''reconciled_at'' (JStr now)]"

text \<open>\<open>JSON.stringify(v, (_, x) => typeof x === "bigint" ? x.toString() : x)\<close>\<close>

definition stringify_bigints :: "jsval \<Rightarrow> jsval" where
  "stringify_bigints v = (case json_plain v of None \<Rightarrow> JUndefined | Some j \<Rightarrow> JStr (json_text j))"

text \<open>The own enumerable properties a spread copies.\<close>

definition js_own_entries :: "jsval \<Rightarrow> (string \<times> jsval) list" where
  "js_own_entries v = (case v of JObj kvs \<Rightarrow> kvs
     | JArr vs \<Rightarrow> map (\<lambda>i. (int_str (int i), vs ! i)) [0..<length vs]
     | JStr s \<Rightarrow> map (\<lambda>i. (int_str (int i), JStr [s ! i])) [0..<length s]
     | _ \<Rightarrow> [])"

section \<open>Governance\<close>

definition put_approval :: "rpc_event \<Rightarrow> string \<Rightarrow> (string \<Rightarrow> jsval option) \<Rightarrow>
    (string \<times> approval) list \<Rightarrow> (string \<times> approval) list" where
  "put_approval ev tp dec approvals = (let decoded = decodeRawEvent dec (ev_topic ev) (ev_value ev) in
     if topic decoded \<noteq> tp then approvals
     else case js_at (topicValues decoded) 1 of
       JStr address \<Rightarrow> if address = [] then approvals
         else set_key address \<lparr>a_address = address, a_approved = (payload decoded = JBool True)\<rparr> approvals
     | _ \<Rightarrow> approvals)"

primrec approval_pages :: "nat \<Rightarrow> string \<Rightarrow> string \<Rightarrow> events_request \<Rightarrow>
    (string \<times> approval) list \<Rightarrow> (string \<times> approval) list task" where
  "approval_pages 0 contractId tp request approvals = ret approvals"
| "approval_pages (Suc pages) contractId tp request approvals =
     bindM (getEvents request) (\<lambda>response.
     bindM (getsM decoder) (\<lambda>dec.
       let approvals' = fold (\<lambda>ev. put_approval ev tp dec) (r_events response) approvals in
       case r_cursor response of
         None \<Rightarrow> ret approvals'
       | Some c \<Rightarrow> if c = [] \<or> length (r_events response) < 100 then ret approvals'
           else approval_pages pages contractId tp (FromCursor contractId c 100) approvals'))"

definition fetchRecentApprovalEvents :: "string \<Rightarrow> string \<Rightarrow> int \<Rightarrow> approval list task" where
  "fetchRecentApprovalEvents contractId tp latestLedger =
     bindM (approval_pages 10 contractId tp
         (LedgerWindow contractId (max 1 (latestLedger - 5000)) latestLedger 100) [])
       (\<lambda>approvals. ret (map snd approvals))"

definition governance_roles :: "string list" where
  "governance_roles = [''factory'', ''registry'', ''tokens'', ''vault'', ''amm'', ''oracle'',
     ''council'', ''gov'', ''timelock'']"

definition reconcile_module :: "manifest \<Rightarrow> string \<Rightarrow> unit task" where
  "reconcile_module m role = catchM
     (bindM (getModule role) (\<lambda>moduleAddress.
        upsertGovernanceModule (m_network m) role (js_String moduleAddress)))
     (\<lambda>_. ret ())"

definition upsert_approvals :: "manifest \<Rightarrow> string \<Rightarrow> approval list \<Rightarrow> unit task" where
  "upsert_approvals m kind approvals =
     forM approvals (\<lambda>a. upsertGovernanceList (m_network m) kind (a_address a) (a_approved a))"

definition approvals_or_fetch :: "string \<Rightarrow> string \<Rightarrow> int \<Rightarrow> approval list \<Rightarrow> approval list task" where
  "approvals_or_fetch contractId tp latestLedger known =
     (if known = [] then fetchRecentApprovalEvents contractId tp latestLedger else ret known)"

definition reconcileGovernance :: "manifest \<Rightarrow> int \<Rightarrow> unit task" where
  "reconcileGovernance m latestLedger =
     bindM (with_default getTreasury JNull) (\<lambda>treasury.
     bindM (with_default (getTimelock m) JNull) (\<lambda>timelock.
     bindM (with_default (getPauseAuthority m) JNull) (\<lambda>pauseAuthority.
     bindM (with_default getFeeConfig JNull) (\<lambda>feeConfig.
     thenM (upsertGovernanceConfig (m_network m)
       [(''treasury'', treasury),
        (''timelock'', js_coalesce timelock (JStr (manifest_contract m ''dike_timelock''))),
        (''fee_config_json'', normalizeContractValue (js_coalesce feeConfig (JObj []))),
        (''pause_authority'', pauseAuthority)])
     (bindM (getLatestGovernanceApprovals (m_network m) (manifest_contract m ''market_factory'') ''creator'')
      (\<lambda>creators0.
     bindM (getLatestGovernanceApprovals (m_network m) (manifest_contract m ''council_of_dike'') ''member'')
      (\<lambda>members0.
     bindM (approvals_or_fetch (manifest_contract m ''market_factory'') ''creator'' latestLedger creators0)
      (\<lambda>creators.
     bindM (approvals_or_fetch (manifest_contract m ''council_of_dike'') ''member'' latestLedger members0)
      (\<lambda>members.
     thenM (upsert_approvals m ''creator'' creators)
     (thenM (upsert_approvals m ''member'' members)
     (thenM (forM governance_roles (reconcile_module m))
     (bindM getMismatchCount (\<lambda>mismatchCount.
      bindM (getPersistentMismatchCount 2) (\<lambda>persistent.
      thenM (on_metrics (setReconciliationMismatchCount mismatchCount))
     (thenM (on_metrics (setPersistentReconciliationMismatchCount persistent))
     (publish (GovernanceUpdate (m_network m))))))))))))))))))"

section \<open>Cases, requests, pools and markets\<close>

definition case_columns :: "manifest \<Rightarrow> js_num \<Rightarrow> jsval \<Rightarrow> jsval \<Rightarrow> int \<Rightarrow> string \<Rightarrow> (string \<times> (exn + jsval)) list" where
  "case_columns m caseId councilCase rewardPool latestLedger now =
    (let n = normalizeContractValue councilCase; votes = (\<lambda>k. (k, prop_or n k (jint 0))) in
     [col ''network'' (JStr (m_network m)), col ''case_id'' (JNum caseId), or_null n ''request_id'',
      or_null n ''market_id'', tag_col councilCase ''status'', or_null n ''proposer'',
      tag_col councilCase ''proposer_outcome'', or_null n ''disputer'',
      tag_col councilCase ''disputer_outcome'', or_null n ''voting_start'', or_null n ''commit_end'',
      or_null n ''reveal_end'', or_false n ''has_final_outcome'', tag_col councilCase ''final_outcome'',
      votes ''yes_votes'', votes ''no_votes'', votes ''invalid_votes'', votes ''total_valid_votes'',
      col ''reward_pool'' (toAmount rewardPool)] @ stamps latestLedger now)"

definition reconcileCase :: "manifest \<Rightarrow> js_num \<Rightarrow> int \<Rightarrow> unit task" where
  "reconcileCase m caseId latestLedger =
     bindM (getCase caseId) (\<lambda>councilCase.
     bindM (with_default (getCaseRewardPool caseId) (JBigInt 0)) (\<lambda>rewardPool.
     bindM now_iso (\<lambda>now.
     bindM (liftE (collect (case_columns m caseId councilCase rewardPool latestLedger now))) (\<lambda>cols.
     thenM (upsertCouncilCase cols) (publish (CouncilCaseUpdate (m_network m) caseId))))))"

definition request_columns :: "manifest \<Rightarrow> js_num \<Rightarrow> jsval \<Rightarrow> int \<Rightarrow> string \<Rightarrow> (string \<times> (exn + jsval)) list" where
  "request_columns m requestId request latestLedger now = (let n = normalizeContractValue request in
     [col ''network'' (JStr (m_network m)), col ''request_id'' (JNum requestId), or_null n ''market_id'',
      tag_col request ''status'', or_null n ''requested_at'', or_zero n ''bond_amount'',
      or_null n ''dispute_window'', or_false n ''has_proposal'', or_null n ''proposer'',
      tag_col request ''proposed_outcome'', or_null n ''proposal_evidence_uri'', or_null n ''proposed_at'',
      or_false n ''has_dispute'', or_null n ''disputer'', tag_col request ''disputed_outcome'',
      or_null n ''dispute_evidence_uri'', or_null n ''disputed_at'', or_false n ''has_final_outcome'',
      tag_col request ''final_outcome''] @ stamps latestLedger now)"

text \<open>\<open>Number(market_id)\<close> of a normalised value that holds a string or a number.\<close>

definition market_number :: "jsval \<Rightarrow> js_num option" where
  "market_number v = (case v of JStr s \<Rightarrow> Some (js_Number_of_string s) | JNum n \<Rightarrow> Some n | _ \<Rightarrow> None)"

definition publish_market :: "manifest \<Rightarrow> js_num option \<Rightarrow> unit task" where
  "publish_market m marketId = (case marketId of None \<Rightarrow> ret ()
     | Some i \<Rightarrow> publish (MarketUpdate (m_network m) i))"

definition reconcileRequest :: "manifest \<Rightarrow> js_num \<Rightarrow> int \<Rightarrow> unit task" where
  "reconcileRequest m requestId latestLedger =
     bindM (getRequest requestId) (\<lambda>request.
     bindM now_iso (\<lambda>now.
     bindM (liftE (collect (request_columns m requestId request latestLedger now))) (\<lambda>cols.
     thenM (upsertResolutionRequest cols)
     (thenM (publish_market m (market_number (js_field (normalizeContractValue request) ''market_id'')))
     (catchM (bindM (getCaseForRequest requestId) (\<lambda>caseId. reconcileCase m (js_Number caseId) latestLedger))
       (\<lambda>_. ret ()))))))"

definition pool_columns :: "manifest \<Rightarrow> js_num \<Rightarrow> jsval \<Rightarrow> int \<Rightarrow> string \<Rightarrow> (string \<times> (exn + jsval)) list" where
  "pool_columns m poolId pool latestLedger now = (let n = normalizeContractValue pool in
     [col ''network'' (JStr (m_network m)), col ''pool_id'' (JNum poolId), or_null n ''market_id'',
      or_zero n ''yes_reserve'', or_zero n ''no_reserve'', or_zero n ''total_lp_shares'',
      or_zero n ''accumulated_lp_fees'', or_zero n ''accumulated_protocol_fees'',
      or_zero n ''accumulated_cod_fees'', or_zero n ''fee_per_share_scaled'', or_false n ''live'']
     @ stamps latestLedger now)"

text \<open>Returns the pool's market id, the part of its result the dispatcher reads.\<close>

definition reconcilePool :: "manifest \<Rightarrow> js_num \<Rightarrow> int \<Rightarrow> js_num option task" where
  "reconcilePool m poolId latestLedger =
     bindM (getPool poolId) (\<lambda>pool.
     bindM now_iso (\<lambda>now.
     bindM (liftE (collect (pool_columns m poolId pool latestLedger now))) (\<lambda>cols.
     thenM (upsertPool cols)
     (let marketId = market_number (js_field (normalizeContractValue pool) ''market_id'') in
      thenM (publish_market m marketId) (ret marketId)))))"

definition market_columns :: "manifest \<Rightarrow> js_num \<Rightarrow> jsval \<Rightarrow> int \<Rightarrow> string \<Rightarrow> (string \<times> (exn + jsval)) list" where
  "market_columns m marketId market latestLedger now = (let n = normalizeContractValue market in
     [col ''network'' (JStr (m_network m)), col ''market_id'' (JNum marketId), or_null n ''question'',
      or_null n ''question_hash'', or_null n ''rules_uri'', or_null n ''rules_hash'', or_null n ''creator'',
      or_null n ''category'', or_null n ''collateral'', or_null n ''yes_token_id'', or_null n ''no_token_id'',
      or_null n ''expiry'', tag_col market ''status'', or_false n ''has_final_outcome'',
      tag_col market ''final_outcome'', or_null n ''pool_id'', or_zero n ''bond_amount'',
      or_null n ''dispute_window'', or_false n ''has_request'', or_null n ''request_id'',
      (''created_at_unix'', prop_or n ''created_at'' JNull),
      (''fee_config_json'', case js_prop market ''fee_config'' of Inl e \<Rightarrow> Inl e
         | Inr fc \<Rightarrow> js_stringify (normalizeContractValue fc))]
     @ stamps latestLedger now)"

definition reconcileMarket :: "manifest \<Rightarrow> js_num \<Rightarrow> int \<Rightarrow> unit task" where
  "reconcileMarket m marketId latestLedger =
     bindM (getMarket marketId) (\<lambda>market.
     bindM (with_default (isTradeable marketId) JNull) (\<lambda>tradeable.
     bindM now_iso (\<lambda>now.
     bindM (liftE (collect (market_columns m marketId market latestLedger now))) (\<lambda>cols.
     thenM (upsertMarketSummary cols)
     (thenM (publish (MarketUpdate (m_network m) marketId))
     (thenM (case js_field market ''pool_id'' of
         JBigInt i \<Rightarrow> bindM (reconcilePool m (num_of_int i) latestLedger) (\<lambda>_. ret ())
       | JNum n \<Rightarrow> bindM (reconcilePool m n latestLedger) (\<lambda>_. ret ())
       | _ \<Rightarrow> ret ())
     (thenM (whenM (js_truthy (js_field market ''has_request''))
         (reconcileRequest m (js_Number (js_field market ''request_id'')) latestLedger))
     (whenM (tradeable = JBool False \<and> js_field (js_field market ''status'') ''tag'' = JStr ''Live'')
         (noteMismatch (m_network m) ''market_registry'' (num_to_string marketId)
           ''Registry reports non-tradeable while projection is live'')))))))))"

section \<open>Vaults, positions and timelock actions\<close>

definition reconcileVault :: "manifest \<Rightarrow> js_num \<Rightarrow> int \<Rightarrow> unit task" where
  "reconcileVault m marketId latestLedger =
     bindM (getVaultAccounting marketId) (\<lambda>vault.
     bindM now_iso (\<lambda>now.
     thenM (upsertVaultSnapshot (spread
         [(''network'', JStr (m_network m)), (''market_id'', JNum marketId)]
         (js_own_entries (normalizeContractValue vault) @
          [(''last_reconciled_ledger'', jint latestLedger), (''reconciled_at'', JStr now)])))
     (publish (MarketUpdate (m_network m) marketId))))"

definition reconcile_position :: "manifest \<Rightarrow> js_num \<Rightarrow> string \<Rightarrow> int \<Rightarrow> outcome \<Rightarrow> unit task" where
  "reconcile_position m marketId owner latestLedger oc =
     bindM (with_default (getPositionBalance owner marketId (outcome_text oc)) JNull) (\<lambda>balance.
     if balance = JNull then ret ()
     else bindM now_iso (\<lambda>now.
       thenM (upsertUserPosition [(''network'', JStr (m_network m)), (''market_id'', JNum marketId),
           (''owner'', JStr owner), (''outcome'', JStr (outcome_text oc)), (''balance'', toAmount balance),
           (''last_reconciled_ledger'', jint latestLedger), (''reconciled_at'', JStr now)])
       (publish (PortfolioUpdate (m_network m) owner))))"

definition reconcileUserPosition ::
  "manifest \<Rightarrow> js_num \<Rightarrow> string \<Rightarrow> int \<Rightarrow> outcome list option \<Rightarrow> unit task" where
  "reconcileUserPosition m marketId owner latestLedger outcomes =
     forM (or_else outcomes OUTCOMES) (reconcile_position m marketId owner latestLedger)"

definition reconcileLpPosition :: "manifest \<Rightarrow> js_num \<Rightarrow> string \<Rightarrow> int \<Rightarrow> unit task" where
  "reconcileLpPosition m poolId owner latestLedger =
     bindM (getLpBalance poolId owner) (\<lambda>shares.
     bindM (with_default (getLpFeeCheckpoint poolId owner) (JBigInt 0)) (\<lambda>cp.
     bindM (with_default (getClaimableLpFees poolId owner) (JBigInt 0)) (\<lambda>claimable.
     bindM now_iso (\<lambda>now.
     thenM (upsertLpPosition [(''network'', JStr (m_network m)), (''pool_id'', JNum poolId),
         (''owner'', JStr owner), (''shares'', toAmount shares), (''fee_checkpoint'', toAmount cp),
         (''claimable_fees'', toAmount claimable), (''last_reconciled_ledger'', jint latestLedger),
         (''reconciled_at'', JStr now)])
     (publish (PortfolioUpdate (m_network m) owner))))))"

definition recordLpFeesClaimed :: "manifest \<Rightarrow> js_num \<Rightarrow> string \<Rightarrow> string \<Rightarrow> int \<Rightarrow> string \<Rightarrow> unit task" where
  "recordLpFeesClaimed m poolId owner amount latestLedger eventId =
     thenM (reconcileLpPosition m poolId owner latestLedger)
       (addLpFeesClaimed (m_network m) poolId owner amount eventId)"

text \<open>The reads of a vault state, with the column each one fills.\<close>

definition vault_state_reads :: "js_num \<Rightarrow> string \<Rightarrow> (string \<times> jsval task) list" where
  "vault_state_reads marketId owner =
     [(''user_deposit'', getUserDeposit marketId owner),
      (''root_stake_yes'', getRootStake marketId owner ''Yes''),
      (''root_stake_no'', getRootStake marketId owner ''No''),
      (''child_used_total'', getChildCollateralUsed marketId owner),
      (''child_used_yes'', getChildUsedForOutcome marketId owner ''Yes''),
      (''child_used_no'', getChildUsedForOutcome marketId owner ''No''),
      (''child_debt'', getChildDebt marketId owner),
      (''parent_debt_yes'', getParentDebt marketId owner ''Yes''),
      (''parent_debt_no'', getParentDebt marketId owner ''No''),
      (''redeemed_yes'', getRedeemed marketId owner ''Yes''),
      (''redeemed_no'', getRedeemed marketId owner ''No''),
      (''redeemed_invalid'', getRedeemed marketId owner ''Invalid'')]"

definition reconcileUserVaultState :: "manifest \<Rightarrow> js_num \<Rightarrow> string \<Rightarrow> int \<Rightarrow> unit task" where
  "reconcileUserVaultState m marketId owner latestLedger =
     bindM (mapM (\<lambda>(c, read). bindM (with_default read (JBigInt 0)) (\<lambda>v. ret (c, toAmount v)))
       (vault_state_reads marketId owner)) (\<lambda>amounts.
     bindM now_iso (\<lambda>now.
     thenM (upsertUserVaultState ([(''network'', JStr (m_network m)), (''market_id'', JNum marketId),
         (''owner'', JStr owner)] @ amounts @
         [(''last_reconciled_ledger'', jint latestLedger), (''reconciled_at'', JStr now)]))
     (publish (PortfolioUpdate (m_network m) owner))))"

definition timelock_columns :: "manifest \<Rightarrow> js_num \<Rightarrow> jsval \<Rightarrow> int \<Rightarrow> string \<Rightarrow> (string \<times> (exn + jsval)) list" where
  "timelock_columns m actionId action latestLedger now = (let n = normalizeContractValue action in
     [col ''network'' (JStr (m_network m)), col ''action_id'' (JNum actionId), tag_col action ''kind'',
      or_null n ''target'',
      (''payload_json'', case js_prop action ''payload'' of Inl e \<Rightarrow> Inl e | Inr p \<Rightarrow> Inr (stringify_bigints p)),
      or_null n ''execute_after'', or_null n ''expires_at'', or_false n ''executed'', or_false n ''cancelled'',
      or_null n ''payload_hash''] @ stamps latestLedger now)"

definition reconcileTimelockAction :: "manifest \<Rightarrow> js_num \<Rightarrow> int \<Rightarrow> unit task" where
  "reconcileTimelockAction m actionId latestLedger =
     bindM (getTimelockAction actionId) (\<lambda>action.
     bindM now_iso (\<lambda>now.
     bindM (liftE (collect (timelock_columns m actionId action latestLedger now))) (\<lambda>cols.
     thenM (upsertTimelockAction cols) (publish (TimelockActionUpdate (m_network m) actionId)))))"

section \<open>What reconciliation leaves alone\<close>

text \<open>A projection of the world that ticks, publications, metrics, keyed tables and the mismatch log do
  not show through.  Everything reconciliation does is invisible to it.\<close>

locale table_blind =
  fixes p :: "world \<Rightarrow> 'p"
  assumes blind_tick: "p (w\<lparr>tick := n\<rparr>) = p w"
    and blind_bus: "p (w\<lparr>bus := b\<rparr>) = p w"
    and blind_metrics: "p (w\<lparr>metrics := ms\<rparr>) = p w"
    and blind_tables: "p (w\<lparr>db := set_table t rows (db w)\<rparr>) = p w"
    and blind_mismatch: "p (w\<lparr>db := put_mismatch k (db w)\<rparr>) = p w"
begin

abbreviation keeps :: "(exn, world, 'a) io \<Rightarrow> bool" where
  "keeps m \<equiv> evolves (same p) m"

lemma db_query_keeps:
  assumes "\<And>w a d. f w (db w) = Inr (a, d) \<Longrightarrow> p (w\<lparr>db := d\<rparr>) = p w"
  shows "keeps (db_query f)"
proof (rule db_query_same)
  fix w :: world and a d
  assume "f w (db w) = Inr (a, d)"
  then have "p (w\<lparr>db := d\<rparr>) = p w" by (rule assms)
  moreover have "w\<lparr>tick := Suc (tick w), db := d\<rparr> = w\<lparr>db := d\<rparr>\<lparr>tick := Suc (tick w)\<rparr>"
    by (cases w) simp
  ultimately show "p (w\<lparr>tick := Suc (tick w), db := d\<rparr>) = p w"
    by (simp only: blind_tick)
qed (rule blind_tick)

lemma sql_upsert_keeps: "keeps (db_query (sql_upsert t keys cols))"
  by (rule db_query_keeps) (auto simp: sql_upsert_Inr Let_def blind_tables)

lemma upsert_summary_keeps: "keeps (upsert_summary t keys allowed summary)"
  unfolding upsert_summary_def
  by (intro same.bindM_evolves same.liftE_evolves sql_upsert_keeps)

lemma noteMismatch_keeps: "keeps (noteMismatch n md e m)"
  unfolding noteMismatch_def db_exec_def by (rule db_query_keeps) (auto simp: blind_mismatch)

lemma select_keeps: "keeps (db_select f)"
  by (rule db_select_same) (rule blind_tick)

lemma publish_keeps: "keeps (publish u)"
  by (rule publish_same) (rule blind_bus)

lemma on_metrics_keeps: "keeps (on_metrics f)"
  by (rule on_metrics_same) (rule blind_metrics)

lemma ask_keeps: "keeps (ask f)"
  by (rule ask_same) (rule blind_tick)

lemma now_iso_keeps: "keeps now_iso"
  by (rule now_iso_same) (rule blind_tick)

lemma read_keeps:
  "keeps (readPlain client meth args)" "keeps (readOk client meth args)"
  "keeps (simulateContractRead c meth)"
  by (rule read_frames, rule blind_tick)+

lemma default_keeps: "keeps m \<Longrightarrow> keeps (with_default m d)"
  unfolding with_default_def by (intro same.catchM_evolves same.ret_evolves)

lemmas upsert_defs = upsertMarketSummary_def upsertPool_def upsertResolutionRequest_def
  upsertCouncilCase_def upsertCouncilVote_def upsertTimelockAction_def upsertVaultSnapshot_def
  upsertUserPosition_def upsertLpPosition_def upsertUserVaultState_def

lemma upserts_keep:
  "keeps (upsertMarketSummary s)" "keeps (upsertPool s)" "keeps (upsertResolutionRequest s)"
  "keeps (upsertCouncilCase s)" "keeps (upsertCouncilVote s)" "keeps (upsertTimelockAction s)"
  "keeps (upsertVaultSnapshot s)" "keeps (upsertUserPosition s)" "keeps (upsertLpPosition s)"
  "keeps (upsertUserVaultState s)"
  unfolding upsert_defs by (rule upsert_summary_keeps)+

lemma governance_upserts_keep:
  "keeps (upsertGovernanceConfig n vs)" "keeps (upsertGovernanceModule n r a)"
  "keeps (upsertGovernanceList n kd a ap)"
  unfolding upsertGovernanceConfig_def upsertGovernanceModule_def upsertGovernanceList_def
  by (intro same.bindM_evolves same.liftE_evolves sql_upsert_keeps)+

lemmas steps = same.evolves_rules upserts_keep governance_upserts_keep noteMismatch_keeps
  select_keeps publish_keeps on_metrics_keeps ask_keeps now_iso_keeps read_keeps default_keeps

lemma approval_pages_keeps: "keeps (approval_pages n c tp rq ap)"
proof (induction n arbitrary: rq ap)
  case 0
  then show ?case by (simp add: same.ret_evolves)
next
  case (Suc n)
  then show ?case unfolding approval_pages.simps getEvents_def by (intro steps)
qed

lemma approvals_or_fetch_keeps: "keeps (approvals_or_fetch c tp l known)"
  unfolding approvals_or_fetch_def fetchRecentApprovalEvents_def
  by (intro steps approval_pages_keeps)

lemma reconcileGovernance_keeps: "keeps (reconcileGovernance m l)"
  unfolding reconcileGovernance_def read_defs getLatestGovernanceApprovals_def upsert_approvals_def
    reconcile_module_def getMismatchCount_def getPersistentMismatchCount_def
  by (intro steps approvals_or_fetch_keeps)

lemma reconcileCase_keeps: "keeps (reconcileCase m c l)"
  unfolding reconcileCase_def read_defs by (intro steps)

lemma publish_market_keeps: "keeps (publish_market m v)"
  unfolding publish_market_def by (intro steps)

lemma reconcileRequest_keeps: "keeps (reconcileRequest m r l)"
  unfolding reconcileRequest_def read_defs by (intro steps publish_market_keeps reconcileCase_keeps)

lemma reconcilePool_keeps: "keeps (reconcilePool m i l)"
  unfolding reconcilePool_def read_defs by (intro steps publish_market_keeps)

lemma market_pool_keeps: "keeps (case v of
    JBigInt i \<Rightarrow> bindM (reconcilePool m (num_of_int i) l) (\<lambda>_. ret ())
  | JNum n \<Rightarrow> bindM (reconcilePool m n l) (\<lambda>_. ret ()) | _ \<Rightarrow> ret ())"
  by (cases v) (auto intro!: same.bindM_evolves same.ret_evolves reconcilePool_keeps)

lemma reconcileMarket_keeps: "keeps (reconcileMarket m i l)"
  unfolding reconcileMarket_def read_defs
  by (intro steps reconcileRequest_keeps market_pool_keeps)

lemma reconcileVault_keeps: "keeps (reconcileVault m i l)"
  unfolding reconcileVault_def read_defs by (intro steps)

lemma reconcileUserPosition_keeps: "keeps (reconcileUserPosition m i ow l ocs)"
  unfolding reconcileUserPosition_def reconcile_position_def read_defs by (intro steps)

lemma reconcileLpPosition_keeps: "keeps (reconcileLpPosition m i ow l)"
  unfolding reconcileLpPosition_def read_defs by (intro steps)

lemma vault_read_keeps: "(c, r) \<in> set (vault_state_reads i ow) \<Longrightarrow> keeps r"
  unfolding vault_state_reads_def read_defs by (auto intro: read_keeps)

lemma reconcileUserVaultState_keeps: "keeps (reconcileUserVaultState m i ow l)"
proof -
  have "keeps (mapM (\<lambda>(c, r). bindM (with_default r (JBigInt 0)) (\<lambda>v. ret (c, toAmount v)))
      (vault_state_reads i ow))"
    by (rule same.mapM_evolves)
      (auto intro!: same.bindM_evolves same.ret_evolves default_keeps dest: vault_read_keeps)
  then show ?thesis
    unfolding reconcileUserVaultState_def by (rule same.bindM_evolves) (intro steps)
qed

lemma reconcileTimelockAction_keeps: "keeps (reconcileTimelockAction m i l)"
  unfolding reconcileTimelockAction_def read_defs by (intro steps)

lemmas reconcile_keeps = reconcileGovernance_keeps reconcileMarket_keeps reconcilePool_keeps
  reconcileRequest_keeps reconcileCase_keeps reconcileVault_keeps reconcileUserPosition_keeps
  reconcileLpPosition_keeps reconcileUserVaultState_keeps reconcileTimelockAction_keeps

end

text \<open>The indexer's own state: checkpoints, raw events, deployments, locks, and the event-keyed logs;
  with the answers of the world, which never change.\<close>

definition indexer_state where
  "indexer_state w = (checkpoints (db w), raw_events (db w), deployments (db w), advisory_locks (db w),
     trades (db w), liquidity_events (db w), fee_claims (db w), oracles w)"

interpretation recon: table_blind indexer_state
  by unfold_locales (simp_all add: indexer_state_def set_table_def put_mismatch_def)

end
