(* ===== verification/Dispatcher.thy ===== *)
theory Dispatcher imports Reconciliation begin

text \<open>
  \<open>indexer/dispatcher.ts\<close>: how an indexed event is read (numbers, strings, outcomes and record
  fields out of decoded topics and payload) and which reconciliations and inserts each topic of
  each contract leads to.
\<close>

section \<open>Reading decoded values\<close>

definition numericValue :: "jsval \<Rightarrow> js_num option" where
  "numericValue v = (case v of
     JNum n \<Rightarrow> Some n
   | JBigInt i \<Rightarrow> Some (num_of_int i)
   | JStr s \<Rightarrow> if s = [] then None
       else (case js_Number_of_string s of Fin q \<Rightarrow> Some (Fin q) | _ \<Rightarrow> None)
   | _ \<Rightarrow> None)"

text \<open>The first value at the indexes that is neither \<open>undefined\<close> nor \<open>null\<close>.\<close>

definition first_present :: "jsval list \<Rightarrow> jsval" where
  "first_present vs = (case filter (\<lambda>v. \<not> js_nullish v) vs of [] \<Rightarrow> JUndefined | v # _ \<Rightarrow> v)"

definition indexedValue :: "jsval \<Rightarrow> nat list \<Rightarrow> jsval" where
  "indexedValue v indexes = (case v of JArr vs \<Rightarrow> first_present (map (js_at vs) indexes) | _ \<Rightarrow> JUndefined)"

definition recordValue :: "jsval \<Rightarrow> string list \<Rightarrow> nat list \<Rightarrow> jsval" where
  "recordValue v keys indexes = (let indexed = indexedValue v indexes in
     if indexed \<noteq> JUndefined then indexed
     else case v of JObj kvs \<Rightarrow> first_present (map (js_field v) keys) | _ \<Rightarrow> JUndefined)"

definition stringValue :: "jsval \<Rightarrow> string option" where
  "stringValue v = (case v of
     JStr s \<Rightarrow> if s = [] then None else Some s
   | JBigInt i \<Rightarrow> Some (int_str i)
   | JNum n \<Rightarrow> Some (num_to_string n)
   | JBool b \<Rightarrow> Some (js_String (JBool b))
   | _ \<Rightarrow> None)"

definition amountValue :: "jsval \<Rightarrow> string" where
  "amountValue v = or_else (stringValue v) ''0''"

definition outcomeValue :: "jsval \<Rightarrow> outcome option" where
  "outcomeValue v = (case outcomeTag v of Some oc \<Rightarrow> Some oc
     | None \<Rightarrow> (case v of JBool b \<Rightarrow> Some (if b then Yes else No) | _ \<Rightarrow> None))"

definition valueAt :: "jsval list \<Rightarrow> nat \<Rightarrow> jsval" where
  "valueAt values index = (let v = js_at values index in if js_nullish v then JUndefined else v)"

primrec firstString :: "jsval list \<Rightarrow> jsval \<Rightarrow> nat list \<Rightarrow> string list \<Rightarrow> nat list \<Rightarrow> string option" where
  "firstString values pl [] keys payloadIndexes = stringValue (recordValue pl keys payloadIndexes)"
| "firstString values pl (i # is) keys payloadIndexes = (case stringValue (valueAt values i) of
     Some s \<Rightarrow> if s = [] then firstString values pl is keys payloadIndexes else Some s
   | None \<Rightarrow> firstString values pl is keys payloadIndexes)"

primrec firstOutcome :: "jsval list \<Rightarrow> jsval \<Rightarrow> nat list \<Rightarrow> string list \<Rightarrow> nat list \<Rightarrow> outcome option" where
  "firstOutcome values pl [] keys payloadIndexes = outcomeValue (recordValue pl keys payloadIndexes)"
| "firstOutcome values pl (i # is) keys payloadIndexes = (case outcomeValue (valueAt values i) of
     Some oc \<Rightarrow> Some oc | None \<Rightarrow> firstOutcome values pl is keys payloadIndexes)"

definition contractModuleFor :: "manifest \<Rightarrow> string \<Rightarrow> string option" where
  "contractModuleFor m contractId =
     map_option fst (find (\<lambda>(_, deployedId). deployedId = contractId) (m_contracts m))"

section \<open>Effects on users\<close>

definition recordAmmUserEffects :: "manifest \<Rightarrow> event_record \<Rightarrow> js_num \<Rightarrow> js_num \<Rightarrow> unit task" where
  "recordAmmUserEffects m e poolId marketId =
    (let tv = e_topicValues e; pl = e_payload e; tp = e_topic e in
     if tp = ''buy'' \<or> tp = ''sell'' then
       (let oc = firstOutcome tv pl [2, 3] [''outcome'', ''side'', ''yes''] [0] in
        case firstString tv pl [2, 3] [''trader'', ''user'', ''buyer'', ''seller'', ''owner''] [] of
          None \<Rightarrow> ret ()
        | Some trader \<Rightarrow> if trader = [] then ret () else
            thenM (insertTrade
              [(''event_id'', JStr (e_eventId e)), (''network'', JStr (m_network m)),
               (''market_id'', JNum marketId), (''pool_id'', JNum poolId), (''trader'', JStr trader),
               (''side'', JStr (case oc of Some x \<Rightarrow> outcome_text x | None \<Rightarrow> ''Unknown'')),
               (''direction'', JStr tp),
               (''amount_in'', JStr (amountValue
                 (recordValue pl [''amount_in'', ''amountIn'', ''in'', ''tokens_sold''] [1]))),
               (''amount_out'', JStr (amountValue
                 (recordValue pl [''amount_out'', ''amountOut'', ''out'', ''tokens_bought'', ''payout''] [2]))),
               (''fee'', JStr (amountValue (recordValue pl [''fee'', ''trade_fee'', ''trading_fee''] []))),
               (''ledger'', jint (e_ledger e)), (''tx_hash'', JStr (e_txHash e))])
            (thenM (reconcileUserPosition m marketId trader (e_ledger e) (map_option (\<lambda>x. [x]) oc))
             (reconcileUserVaultState m marketId trader (e_ledger e))))
     else if tp = ''seed'' \<or> tp = ''lp_add'' \<or> tp = ''lp_rm'' then
       (case firstString tv pl [2, 3] [''lp'', ''provider'', ''user'', ''owner''] [] of
          None \<Rightarrow> ret ()
        | Some lp \<Rightarrow> if lp = [] then ret () else
            thenM (insertLiquidityEvent
              [(''event_id'', JStr (e_eventId e)), (''network'', JStr (m_network m)),
               (''market_id'', JNum marketId), (''pool_id'', JNum poolId), (''lp'', JStr lp),
               (''kind'', JStr tp),
               (''amount'', JStr (if tp = ''lp_rm'' then ''0'' else amountValue
                 (recordValue pl [''amount'', ''amount_in'', ''collateral'', ''collateral_in''] [0]))),
               (''shares'', JStr (amountValue (recordValue pl
                 [''shares'', ''lp_shares'', ''shares_out'', ''shares_burned'']
                 (if tp = ''lp_rm'' then [0] else [1])))),
               (''yes_out'', JStr (amountValue (recordValue pl [''yes_out'', ''yesOut''] [1]))),
               (''no_out'', JStr (amountValue (recordValue pl [''no_out'', ''noOut''] [2]))),
               (''ledger'', jint (e_ledger e)), (''tx_hash'', JStr (e_txHash e))])
            (thenM (reconcileLpPosition m poolId lp (e_ledger e))
            (thenM (reconcileUserPosition m marketId lp (e_ledger e) None)
             (reconcileUserVaultState m marketId lp (e_ledger e)))))
     else ret ())"

definition recordVaultUserEffects :: "manifest \<Rightarrow> event_record \<Rightarrow> js_num \<Rightarrow> unit task" where
  "recordVaultUserEffects m e marketId = (let tv = e_topicValues e; pl = e_payload e in
     case firstString tv pl [2, 3] [''user'', ''owner'', ''recipient'', ''trader''] [] of
       None \<Rightarrow> ret ()
     | Some owner \<Rightarrow> if owner = [] then ret () else
         (let oc = firstOutcome tv pl [2, 3, 4] [''outcome'', ''redeemed_outcome'', ''final_outcome''] [0] in
          thenM (reconcileUserVaultState m marketId owner (e_ledger e))
           (reconcileUserPosition m marketId owner (e_ledger e) (map_option (\<lambda>x. [x]) oc))))"

section \<open>One handler per contract\<close>

text \<open>A warning about an unknown topic has no effect but its log line.\<close>

definition warnUnknown :: "event_record \<Rightarrow> unit task" where
  "warnUnknown e = ret ()"

definition on_id :: "js_num option \<Rightarrow> (js_num \<Rightarrow> unit task) \<Rightarrow> unit task" where
  "on_id v f = (case v of None \<Rightarrow> ret () | Some i \<Rightarrow> f i)"

definition topic_number :: "event_record \<Rightarrow> nat \<Rightarrow> js_num option" where
  "topic_number e i = numericValue (js_at (e_topicValues e) i)"

definition on_owner :: "string option \<Rightarrow> (string \<Rightarrow> unit task) \<Rightarrow> unit task" where
  "on_owner s f = (case s of None \<Rightarrow> ret () | Some x \<Rightarrow> if x = [] then ret () else f x)"

definition dispatchMarketFactory :: "manifest \<Rightarrow> event_record \<Rightarrow> unit task" where
  "dispatchMarketFactory m e = (let tp = e_topic e in
     if tp = ''mkt_new'' then on_id (topic_number e 1) (\<lambda>i. reconcileMarket m i (e_ledger e))
     else if tp \<in> {''modules'', ''creator'', ''collat'', ''pause''} then reconcileGovernance m (e_ledger e)
     else warnUnknown e)"

definition dispatchMarketRegistry :: "manifest \<Rightarrow> event_record \<Rightarrow> unit task" where
  "dispatchMarketRegistry m e = (let tp = e_topic e in
     if tp \<in> {''mkt_new'', ''status'', ''final'', ''fee_cfg''}
       then on_id (topic_number e 1) (\<lambda>i. reconcileMarket m i (e_ledger e))
     else if tp = ''res_req'' then
       thenM (on_id (topic_number e 1) (\<lambda>i. reconcileMarket m i (e_ledger e)))
         (on_id (numericValue (e_payload e)) (\<lambda>r. reconcileRequest m r (e_ledger e)))
     else if tp \<in> {''role'', ''collat'', ''pause''} then reconcileGovernance m (e_ledger e)
     else warnUnknown e)"

definition dispatchAmm :: "manifest \<Rightarrow> event_record \<Rightarrow> unit task" where
  "dispatchAmm m e = (let tp = e_topic e in
     if tp = ''pool'' then
       thenM (on_id (topic_number e 1) (\<lambda>i. reconcileMarket m i (e_ledger e)))
         (on_id (numericValue (e_payload e)) (\<lambda>i. bindM (reconcilePool m i (e_ledger e)) (\<lambda>_. ret ())))
     else if tp \<in> {''seed'', ''lp_add'', ''lp_rm'', ''buy'', ''sell''} then
       on_id (topic_number e 1) (\<lambda>poolId.
         bindM (reconcilePool m poolId (e_ledger e)) (\<lambda>marketId.
           on_id marketId (recordAmmUserEffects m e poolId)))
     else if tp = ''lpfee'' then
       on_id (topic_number e 1) (\<lambda>poolId.
         on_owner (firstString (e_topicValues e) (e_payload e) [2] [] []) (\<lambda>lp.
           recordLpFeesClaimed m poolId lp (amountValue (e_payload e)) (e_ledger e) (e_eventId e)))
     else if tp \<in> {''role'', ''pause''} then reconcileGovernance m (e_ledger e)
     else warnUnknown e)"

definition vault_and_user :: "manifest \<Rightarrow> int \<Rightarrow> string option \<Rightarrow> js_num \<Rightarrow> unit task" where
  "vault_and_user m ledger owner marketId =
     thenM (reconcileVault m marketId ledger)
       (on_owner owner (\<lambda>ow. reconcileUserVaultState m marketId ow ledger))"

definition dispatchCollateralVault :: "manifest \<Rightarrow> event_record \<Rightarrow> unit task" where
  "dispatchCollateralVault m e = (let tp = e_topic e in
     if tp \<in> {''deposit'', ''release'', ''redeem'', ''fee''} then
       on_id (topic_number e 1) (\<lambda>i.
         thenM (reconcileVault m i (e_ledger e)) (recordVaultUserEffects m e i))
     else if tp \<in> {''cfund'', ''cpay''} then
       (let owner = firstString (e_topicValues e) (e_payload e) [3] [''user'', ''owner''] [0] in
        thenM (on_id (topic_number e 1) (vault_and_user m (e_ledger e) owner))
          (on_id (topic_number e 2) (vault_and_user m (e_ledger e) owner)))
     else if tp \<in> {''role'', ''treas'', ''pause'', ''bond'', ''bond_rel''}
       then reconcileGovernance m (e_ledger e)
     else warnUnknown e)"

definition dispatchConditionalTokens :: "manifest \<Rightarrow> event_record \<Rightarrow> unit task" where
  "dispatchConditionalTokens m e = (let tp = e_topic e; tv = e_topicValues e; pl = e_payload e;
       position = (\<lambda>i ow ocs. reconcileUserPosition m i ow (e_ledger e) (Some ocs)) in
     if tp \<in> {''split'', ''merge''} then
       on_id (topic_number e 1) (\<lambda>i.
         on_owner (firstString tv pl [2] [''user'', ''owner'', ''to''] []) (\<lambda>ow. position i ow [Yes, No]))
     else if tp = ''pos_xfer'' then
       on_id (topic_number e 1) (\<lambda>i. case firstOutcome tv pl [] [''outcome''] [0] of
         None \<Rightarrow> ret ()
       | Some oc \<Rightarrow>
           thenM (on_owner (firstString tv pl [2] [''from''] []) (\<lambda>ow. position i ow [oc]))
             (on_owner (firstString tv pl [3] [''to''] []) (\<lambda>ow. position i ow [oc])))
     else if tp \<in> {''burn'', ''losebrn''} then
       on_id (topic_number e 1) (\<lambda>i.
         on_owner (firstString tv pl [2] [''owner'', ''user'', ''from''] []) (\<lambda>ow.
           case firstOutcome tv pl [] [''outcome''] [0] of None \<Rightarrow> ret () | Some oc \<Rightarrow> position i ow [oc]))
     else if tp \<in> {''role'', ''pause''} then reconcileGovernance m (e_ledger e)
     else warnUnknown e)"

definition dispatchCodOracle :: "manifest \<Rightarrow> event_record \<Rightarrow> unit task" where
  "dispatchCodOracle m e = (let tp = e_topic e in
     if tp = ''res_req'' then
       thenM (on_id (topic_number e 1) (\<lambda>i. reconcileMarket m i (e_ledger e)))
         (on_id (numericValue (e_payload e)) (\<lambda>r. reconcileRequest m r (e_ledger e)))
     else if tp \<in> {''propose'', ''dispute'', ''final'', ''cod_fin'', ''escal''} then
       on_id (topic_number e 1) (\<lambda>r. reconcileRequest m r (e_ledger e))
     else if tp \<in> {''role'', ''pause''} then reconcileGovernance m (e_ledger e)
     else warnUnknown e)"

text \<open>The vote columns of a commit, a reveal and a reward.\<close>

definition vote_columns :: "event_record \<Rightarrow> (string \<times> jsval) list" where
  "vote_columns e = (let tp = e_topic e; pl = e_payload e in
     if tp = ''commit'' then [(''has_commit'', JBool True)]
     else if tp = ''reveal'' then [(''has_reveal'', JBool True),
       (''revealed_outcome'', case firstOutcome (e_topicValues e) pl [] [''outcome''] [0] of
          Some oc \<Rightarrow> JStr (outcome_text oc) | None \<Rightarrow> JNull)]
     else [(''claimed_reward'', JBool True),
       (''correct'', case recordValue pl [''correct''] [0] of JBool b \<Rightarrow> JBool b | _ \<Rightarrow> JUndefined),
       (''reward_amount'', JStr (amountValue (recordValue pl [''payout''] [1])))])"

definition dispatchCouncil :: "manifest \<Rightarrow> event_record \<Rightarrow> unit task" where
  "dispatchCouncil m e = (let tp = e_topic e in
     if tp = ''case'' then on_id (numericValue (e_payload e)) (\<lambda>c. reconcileCase m c (e_ledger e))
     else if tp = ''casefin'' then on_id (topic_number e 1) (\<lambda>c. reconcileCase m c (e_ledger e))
     else if tp \<in> {''commit'', ''reveal'', ''reward''} then
       on_id (topic_number e 1) (\<lambda>caseId.
         thenM (reconcileCase m caseId (e_ledger e))
           (on_owner (firstString (e_topicValues e) (e_payload e) [2] [] []) (\<lambda>voter.
             upsertCouncilVote ([(''network'', JStr (m_network m)), (''case_id'', JNum caseId),
               (''voter'', JStr voter)] @ vote_columns e))))
     else if tp \<in> {''role'', ''member'', ''pause''} then reconcileGovernance m (e_ledger e)
     else warnUnknown e)"

text \<open>\<open>Buffer.from(v).toString("hex")\<close>\<close>

definition js_byte :: "jsval \<Rightarrow> nat" where
  "js_byte v = (case js_Number v of Fin q \<Rightarrow> nat ((if 0 \<le> q then \<lfloor>q\<rfloor> else \<lceil>q\<rceil>) mod 256) | _ \<Rightarrow> 0)"

definition buffer_hex :: "jsval \<Rightarrow> exn + jsval" where
  "buffer_hex v = (case v of JBuffer bs \<Rightarrow> Inr (JStr (hex_of_bytes bs))
     | JStr s \<Rightarrow> Inr (JStr (hex_of_bytes (map of_char s)))
     | JArr vs \<Rightarrow> Inr (JStr (hex_of_bytes (map js_byte vs)))
     | _ \<Rightarrow> Inl (TypeError ''The first argument must be of type string or an instance of Buffer''))"

definition timelock_event_columns ::
  "manifest \<Rightarrow> js_num \<Rightarrow> jsval \<Rightarrow> int \<Rightarrow> string \<Rightarrow> (string \<times> (exn + jsval)) list" where
  "timelock_event_columns m actionId action ledger now =
    (let via = (\<lambda>k f. (k, case js_prop action k of Inl e \<Rightarrow> Inl e | Inr v \<Rightarrow> f v)) in
     [col ''network'' (JStr (m_network m)), col ''action_id'' (JNum actionId), tag_col action ''kind'',
      via ''target'' (\<lambda>v. Inr (JStr (js_String v))), via ''payload_hash'' buffer_hex,
      (''payload_json'', case js_prop action ''payload'' of Inl e \<Rightarrow> Inl e | Inr v \<Rightarrow> Inr (stringify_bigints v)),
      via ''execute_after'' (\<lambda>v. Inr (JNum (js_Number v))), via ''expires_at'' (\<lambda>v. Inr (JNum (js_Number v))),
      via ''executed'' Inr, via ''cancelled'' Inr] @ stamps ledger now)"

definition timelock_effects :: "manifest \<Rightarrow> int \<Rightarrow> js_num \<Rightarrow> unit task" where
  "timelock_effects m ledger actionId = catchM
     (bindM (getTimelockAction actionId) (\<lambda>action.
      bindM now_iso (\<lambda>now.
      bindM (liftE (collect (timelock_event_columns m actionId action ledger now))) upsertTimelockAction)))
     (\<lambda>_. ret ())"

definition dispatchTimelock :: "manifest \<Rightarrow> event_record \<Rightarrow> unit task" where
  "dispatchTimelock m e = (let tp = e_topic e in
     if tp = ''roles'' then reconcileGovernance m (e_ledger e)
     else if tp \<in> {''queued'', ''cancel'', ''execute''} then
       thenM (reconcileGovernance m (e_ledger e))
         (on_id (topic_number e 1) (timelock_effects m (e_ledger e)))
     else warnUnknown e)"

definition dispatch :: "manifest \<Rightarrow> event_record \<Rightarrow> unit task" where
  "dispatch m e = (case contractModuleFor m (e_contractId e) of
     None \<Rightarrow> ret ()
   | Some md \<Rightarrow>
       if md = ''market_factory'' then dispatchMarketFactory m e
       else if md = ''market_registry'' then dispatchMarketRegistry m e
       else if md = ''amm'' then dispatchAmm m e
       else if md = ''collateral_vault'' then dispatchCollateralVault m e
       else if md = ''conditional_tokens'' then dispatchConditionalTokens m e
       else if md = ''cod_oracle'' then dispatchCodOracle m e
       else if md = ''council_of_dike'' then dispatchCouncil m e
       else if md = ''dike_governance'' \<or> md = ''fee_manager'' then reconcileGovernance m (e_ledger e)
       else if md = ''dike_timelock'' then dispatchTimelock m e
       else ret ())"

section \<open>Frames of dispatch\<close>

text \<open>A frame that whatever leaves the indexer's state alone stays in, and that the three
  event-keyed inserts stay in, holds of every dispatch.\<close>

lemma evolves_mono: "evolves R m \<Longrightarrow> (\<And>w w'. R w w' \<Longrightarrow> S w w') \<Longrightarrow> evolves S m"
  by (auto simp: evolves_def)

locale dispatch_frame = frame R for R :: "world \<Rightarrow> world \<Rightarrow> bool" +
  fixes network :: string and eventId :: string
  assumes state_R: "indexer_state w' = indexer_state w \<Longrightarrow> R w w'"
    and trade_R: "map_of s ''event_id'' = Some (JStr eventId) \<Longrightarrow>
      map_of s ''network'' = Some (JStr network) \<Longrightarrow> evolves R (insertTrade s)"
    and liquidity_R: "map_of s ''event_id'' = Some (JStr eventId) \<Longrightarrow>
      map_of s ''network'' = Some (JStr network) \<Longrightarrow> evolves R (insertLiquidityEvent s)"
    and claim_R: "evolves R (addLpFeesClaimed network i ow a eventId)"
begin

lemma invisible: "recon.keeps m \<Longrightarrow> evolves R m"
  by (erule evolves_mono) (simp add: same_def state_R)

lemmas recon_R = recon.reconcile_keeps [THEN invisible] recon.upserts_keep [THEN invisible]

lemma on_id_R: "(\<And>i. evolves R (f i)) \<Longrightarrow> evolves R (on_id v f)"
  by (simp add: on_id_def ret_evolves split: option.split)

lemma on_owner_R: "(\<And>s. evolves R (f s)) \<Longrightarrow> evolves R (on_owner v f)"
  by (simp add: on_owner_def ret_evolves split: option.split)

lemma warn_R: "evolves R (warnUnknown e)"
  by (simp add: warnUnknown_def ret_evolves)

lemmas dispatch_R_rules = evolves_rules recon_R on_id_R on_owner_R warn_R

lemma recordLpFeesClaimed_R:
  "m_network m = network \<Longrightarrow> evolves R (recordLpFeesClaimed m i ow a l eventId)"
  unfolding recordLpFeesClaimed_def using claim_R by (auto intro!: thenM_evolves recon_R)

lemma recordAmmUserEffects_R:
  "m_network m = network \<Longrightarrow> e_eventId e = eventId \<Longrightarrow> evolves R (recordAmmUserEffects m e i j)"
  unfolding recordAmmUserEffects_def Let_def
  by (intro dispatch_R_rules trade_R liquidity_R) simp_all

lemma recordVaultUserEffects_R: "evolves R (recordVaultUserEffects m e i)"
  unfolding recordVaultUserEffects_def by (intro dispatch_R_rules)

lemma timelock_effects_R: "evolves R (timelock_effects m l i)"
proof (rule invisible)
  show "recon.keeps (timelock_effects m l i)"
    unfolding timelock_effects_def read_defs by (intro recon.steps)
qed

lemma vault_and_user_R: "evolves R (vault_and_user m l ow i)"
  unfolding vault_and_user_def by (intro dispatch_R_rules)

lemma handlers_R:
  "evolves R (dispatchMarketFactory m e)" "evolves R (dispatchMarketRegistry m e)"
  "evolves R (dispatchCollateralVault m e)" "evolves R (dispatchConditionalTokens m e)"
  "evolves R (dispatchCodOracle m e)" "evolves R (dispatchCouncil m e)" "evolves R (dispatchTimelock m e)"
  unfolding dispatchMarketFactory_def dispatchMarketRegistry_def dispatchCollateralVault_def
    dispatchConditionalTokens_def dispatchCodOracle_def dispatchCouncil_def dispatchTimelock_def Let_def
  by (intro dispatch_R_rules recordVaultUserEffects_R timelock_effects_R vault_and_user_R)+

lemma dispatchAmm_R:
  "m_network m = network \<Longrightarrow> e_eventId e = eventId \<Longrightarrow> evolves R (dispatchAmm m e)"
  unfolding dispatchAmm_def
  by (intro dispatch_R_rules recordAmmUserEffects_R) (simp_all add: recordLpFeesClaimed_R)

lemma dispatch_R:
  "m_network m = network \<Longrightarrow> e_eventId e = eventId \<Longrightarrow> evolves R (dispatch m e)"
  unfolding dispatch_def by (intro dispatch_R_rules handlers_R dispatchAmm_R) simp_all

end

section \<open>What a dispatch may change\<close>

text \<open>The part of the indexer's state only the worker itself writes.\<close>

definition core_state where
  "core_state w = (checkpoints (db w), raw_events (db w), deployments (db w), advisory_locks (db w), oracles w)"

definition row_of_event :: "string \<Rightarrow> string \<Rightarrow> row \<Rightarrow> bool" where
  "row_of_event n e r \<longleftrightarrow> r ''network'' = Some n \<and> r ''event_id'' = Some e"

text \<open>A log gains at most one row, of this event, and none if it already has one.\<close>

definition at_most_once :: "string \<Rightarrow> string \<Rightarrow> row list \<Rightarrow> row list \<Rightarrow> bool" where
  "at_most_once n e rows rows' \<longleftrightarrow> rows' = rows \<or>
     (\<not> list_ex (row_of_event n e) rows \<and> (\<exists>r. row_of_event n e r \<and> rows' = rows @ [r]))"

definition event_frame :: "string \<Rightarrow> string \<Rightarrow> world \<Rightarrow> world \<Rightarrow> bool" where
  "event_frame n e w w' \<longleftrightarrow> core_state w' = core_state w \<and>
     at_most_once n e (trades (db w)) (trades (db w')) \<and>
     at_most_once n e (liquidity_events (db w)) (liquidity_events (db w')) \<and>
     at_most_once n e (fee_claims (db w)) (fee_claims (db w'))"

lemma at_most_once_refl [simp]: "at_most_once n e rows rows"
  by (simp add: at_most_once_def)

lemma at_most_once_trans:
  "at_most_once n e a b \<Longrightarrow> at_most_once n e b c \<Longrightarrow> at_most_once n e a c"
  by (auto simp: at_most_once_def list_ex_iff)

lemma insert_unique_once:
  "row_of_event n e r \<Longrightarrow> at_most_once n e rows (insert_unique r rows)"
  by (auto simp: insert_unique_def at_most_once_def list_ex_iff same_event_def row_of_event_def)

lemma summary_row_of_event:
  "map_of s ''event_id'' = Some (JStr e) \<Longrightarrow> map_of s ''network'' = Some (JStr n) \<Longrightarrow>
    row_of_event n e (summary_row t w s)"
  by (simp add: row_of_event_def summary_row_def override_def map_of_map)

lemma put_fee_claim_once:
  assumes "put_fee_claim n i ow a e d = Inr (u, d')"
  shows "at_most_once n e (fee_claims d) (fee_claims d') \<and> trades d' = trades d \<and>
    liquidity_events d' = liquidity_events d \<and> checkpoints d' = checkpoints d \<and>
    raw_events d' = raw_events d \<and> deployments d' = deployments d \<and>
    advisory_locks d' = advisory_locks d"
proof -
  have key: "row_of_event n e (claim_row n i ow a e)"
    by (simp add: row_of_event_def claim_row_def)
  have new: "\<not> list_ex (same_event (claim_row n i ow a e)) (fee_claims d) \<Longrightarrow>
      at_most_once n e (fee_claims d) (fee_claims d @ [claim_row n i ow a e])"
    using insert_unique_once [OF key, of "fee_claims d"] by (simp add: insert_unique_def)
  show ?thesis
    using assms new
    by (auto simp: put_fee_claim_def Let_def set_table_def split: if_splits option.splits)
qed

lemma db_query_frame:
  assumes "frame R" "\<And>w. R w (w\<lparr>tick := Suc (tick w)\<rparr>)"
    "\<And>w a d. f w (db w) = Inr (a, d) \<Longrightarrow> R w (w\<lparr>tick := Suc (tick w), db := d\<rparr>)"
  shows "evolves R (db_query f)"
proof (rule evolvesI)
  fix w
  show "R w (snd (db_query f w))"
    using snd_db_query [of f w] assms(2,3) by auto
qed

lemma event_frame_frame: "frame (event_frame n e)"
  by unfold_locales (auto simp: event_frame_def intro: at_most_once_trans)

interpretation ev: dispatch_frame "event_frame n e" n e for n e
proof (intro dispatch_frame.intro event_frame_frame dispatch_frame_axioms.intro)
  fix w w'
  assume "indexer_state w' = indexer_state w"
  then show "event_frame n e w w'" by (simp add: event_frame_def indexer_state_def core_state_def)
next
  fix s
  assume "map_of s ''event_id'' = Some (JStr e)" "map_of s ''network'' = Some (JStr n)"
  then have once: "at_most_once n e rows (insert_unique (summary_row t w s) rows)" for t w rows
    by (intro insert_unique_once summary_row_of_event)
  show "evolves (event_frame n e) (insertTrade s)"
    unfolding insertTrade_def
    by (rule db_query_frame [OF event_frame_frame])
      (auto simp: event_frame_def core_state_def Let_def once split: if_splits)
  show "evolves (event_frame n e) (insertLiquidityEvent s)"
    unfolding insertLiquidityEvent_def
    by (rule db_query_frame [OF event_frame_frame])
      (auto simp: event_frame_def core_state_def Let_def once split: if_splits)
next
  fix i ow a
  show "evolves (event_frame n e) (addLpFeesClaimed n i ow a e)"
    unfolding addLpFeesClaimed_def
    by (rule db_query_frame [OF event_frame_frame])
      (auto simp: event_frame_def core_state_def dest: put_fee_claim_once)
qed

section \<open>Properties\<close>

text \<open>C7: whatever the contracts, the RPC node and the database answer, dispatching an event
  leaves checkpoints, raw events, deployments and locks alone and adds at most one trade, one
  liquidity event and one fee claim, each under the event's own id and only if there was none.\<close>

lemma dispatch_once:
  "event_frame (m_network m) (e_eventId e) w (snd (dispatch m e w))"
  by (rule evolvesD) (rule ev.dispatch_R; rule refl)

text \<open>An event of a contract the manifest does not name, or with a topic its contract's handler
  does not know, changes nothing.\<close>

lemma dispatch_unknown:
  "contractModuleFor m (e_contractId e) = None \<or>
   (contractModuleFor m (e_contractId e) = Some ''amm'' \<and>
    e_topic e \<notin> {''pool'', ''seed'', ''lp_add'', ''lp_rm'', ''buy'', ''sell'', ''lpfee'', ''role'', ''pause''}) \<Longrightarrow>
   dispatch m e w = (Inr (), w)"
  by (auto simp: dispatch_def dispatchAmm_def warnUnknown_def ret_def Let_def)

definition sample_manifest :: manifest where
  "sample_manifest = \<lparr>m_network = ''testnet'', m_contracts = [(''amm'', ''CAMM'')], m_hash = ''h'',
     m_admin = [], m_governance_authority = []\<rparr>"

definition sample_event :: "string \<Rightarrow> event_record" where
  "sample_event tp = \<lparr>e_network = ''testnet'', e_contractId = ''CAMM'', e_ledger = 7, e_txHash = ''tx'',
     e_eventId = ''ev'', e_topic = tp, e_topicValues = [JStr tp], e_payload = JNull, e_rawEvent = JNull,
     e_cursor = None\<rparr>"

lemma dispatch_unknown_witness:
  "dispatch sample_manifest (sample_event ''unheard'') quiet_world = (Inr (), quiet_world)"
  by (rule dispatch_unknown) (simp add: contractModuleFor_def sample_manifest_def sample_event_def)

end
