(* ===== verification/Indexer_Worker.thy ===== *)
theory Indexer_Worker imports Event_Source Dispatcher begin

text \<open>
  \<open>indexer/worker.ts\<close>: the polling tick.  It takes the lease, polls every deployment, records and
  dispatches the events of each batch in order until one fails, and advances, resets or keeps the
  checkpoint.  Nothing escapes a tick, the lease is given back and the running flag cleared on
  every path.
\<close>

definition leaseKey :: int where
  "leaseKey = 2048001"

text \<open>\<open>String(error)\<close>\<close>

definition exn_text :: "exn \<Rightarrow> string" where
  "exn_text e = (let show = (\<lambda>n m. if m = [] then n else n @ '': '' @ m) in case e of
     Error m \<Rightarrow> show ''Error'' m
   | TypeError m \<Rightarrow> show ''TypeError'' m
   | RangeError m \<Rightarrow> show ''RangeError'' m
   | SyntaxError m \<Rightarrow> show ''SyntaxError'' m
   | RequestValidationError m \<Rightarrow> show ''RequestValidationError'' m
   | NetworkMismatchError m \<Rightarrow> show ''NetworkMismatchError'' m)"

text \<open>The integer of an environment number, which the schema checked.\<close>

definition num_int :: "js_num \<Rightarrow> int" where
  "num_int n = (case n of Fin q \<Rightarrow> \<lfloor>q\<rfloor> | _ \<Rightarrow> 0)"

definition event_failed :: "manifest \<Rightarrow> string \<Rightarrow> event_record \<Rightarrow> exn \<Rightarrow> bool task" where
  "event_failed m mdl e err =
     thenM (on_metrics noteProcessingFailure)
     (thenM (noteMismatch (m_network m) mdl (e_eventId e)
        (''event processing failed; checkpoint retained for replay: '' @ exn_text err))
     (ret False))"

primrec process_events :: "manifest \<Rightarrow> string \<Rightarrow> event_record list \<Rightarrow> bool task" where
  "process_events m mdl [] = ret True"
| "process_events m mdl (e # es) =
     bindM (catchM (thenM (recordRawEvent e) (thenM (dispatch m e) (ret True))) (event_failed m mdl e))
       (\<lambda>ok. if ok then process_events m mdl es else ret False)"

definition settle_checkpoint :: "manifest \<Rightarrow> string \<Rightarrow> event_batch \<Rightarrow> bool \<Rightarrow> unit task" where
  "settle_checkpoint m contractId batch processingSucceeded =
     (if b_complete batch \<and> processingSucceeded then
        if b_reset batch then resetCheckpoint (m_network m) contractId (b_checkpointLedger batch)
        else advanceCheckpoint (m_network m) contractId (b_checkpointLedger batch) (b_cursor batch)
      else ret ())"

definition process_deployment :: "manifest \<Rightarrow> env \<Rightarrow> deployment \<Rightarrow> unit task" where
  "process_deployment m env dep =
     bindM (pollContract m (num_int (INDEXER_LEDGER_WINDOW env)) (num_int (REORG_SAFETY_MARGIN_LEDGERS env))
         (d_contract_id dep) (d_module dep) (map_option num_int (INDEXER_START_LEDGER env))) (\<lambda>batch.
     bindM (process_events m (d_module dep) (b_events batch)) (\<lambda>ok.
       settle_checkpoint m (d_contract_id dep) batch ok))"

definition note_lag_alerts :: "env \<Rightarrow> unit task" where
  "note_lag_alerts env = bindM (getsM metrics) (\<lambda>ms. on_metrics (setLagAlertCount
     (int (length (filter (\<lambda>cm. num_int (INDEXER_LAG_ALERT_THRESHOLD env) \<le> cm_lagLedgers cm)
       (snapshot_contracts ms))))))"

definition index_all :: "manifest \<Rightarrow> env \<Rightarrow> unit task" where
  "index_all m env = bindM (getDeployments (m_network m)) (\<lambda>deps.
     thenM (forM deps (process_deployment m env)) (note_lag_alerts env))"

definition tick_failed :: "exn \<Rightarrow> unit task" where
  "tick_failed e = on_metrics noteProcessingFailure"

definition with_lease :: "unit task \<Rightarrow> unit task" where
  "with_lease work = catchM
     (bindM (tryAcquireIndexerLease leaseKey) (\<lambda>acquired.
        if \<not> acquired then ret ()
        else thenM (catchM work tick_failed) (catchM (releaseIndexerLease leaseKey) (\<lambda>_. ret ()))))
     tick_failed"

definition set_indexer_running :: "bool \<Rightarrow> unit task" where
  "set_indexer_running b = modifyM (\<lambda>w. w\<lparr>indexer_running := b\<rparr>)"

definition indexer_tick :: "manifest \<Rightarrow> env \<Rightarrow> unit task" where
  "indexer_tick m env = bindM (getsM indexer_running) (\<lambda>running.
     if running then ret ()
     else thenM (set_indexer_running True)
       (thenM (with_lease (index_all m env)) (set_indexer_running False)))"

definition indexer_start :: "manifest \<Rightarrow> env \<Rightarrow> unit task" where
  "indexer_start m env = bindM (getsM indexer_timer) (\<lambda>armed.
     if armed then ret ()
     else thenM (modifyM (\<lambda>w. w\<lparr>indexer_timer := True\<rparr>)) (indexer_tick m env))"

definition indexer_stop :: "unit task" where
  "indexer_stop = modifyM (\<lambda>w. w\<lparr>indexer_timer := False\<rparr>)"

section \<open>A tick returns\<close>

lemma with_lease_returns: "fst (with_lease work w) = Inr ()"
  by (auto simp: with_lease_def tick_failed_def on_metrics_def io_simps split: prod.splits sum.splits)

lemma indexer_tick_returns: "fst (indexer_tick m env w) = Inr ()"
  using with_lease_returns [of "index_all m env"]
  by (auto simp: indexer_tick_def set_indexer_running_def io_simps split: prod.splits sum.splits)
    (metis fst_conv Inr_not_Inl)

lemma indexer_tick_running: "indexer_running (snd (indexer_tick m env w)) = indexer_running w"
proof (cases "indexer_running w")
  case True
  then show ?thesis by (simp add: indexer_tick_def io_simps)
next
  case False
  obtain w' where "with_lease (index_all m env) (w\<lparr>indexer_running := True\<rparr>) = (Inr (), w')"
    by (metis prod.collapse with_lease_returns)
  with False show ?thesis by (simp add: indexer_tick_def set_indexer_running_def io_simps)
qed

text \<open>C13: a tick of the indexer never throws and leaves the running flag as it found it, so one
  failure never blocks later ticks; a tick that finds another one running, or the lease held by
  another session, does nothing but ask for the lease.\<close>

lemma indexer_tick_guarded:
  "fst (indexer_tick m env w) = Inr () \<and>
   indexer_running (snd (indexer_tick m env w)) = indexer_running w \<and>
   (indexer_running w \<longrightarrow> snd (indexer_tick m env w) = w) \<and>
   (\<not> indexer_running w \<and> db_fault_at w (tick w) = NoFault \<and>
    (\<exists>s n. advisory_locks (db w) leaseKey = Some (s, n) \<and> s \<noteq> session_at w (tick w)) \<longrightarrow>
      snd (indexer_tick m env w) = w\<lparr>tick := Suc (tick w)\<rparr>)"
proof -
  have "snd (indexer_tick m env w) = w\<lparr>tick := Suc (tick w)\<rparr>"
    if "\<not> indexer_running w" "db_fault_at w (tick w) = NoFault"
      "advisory_locks (db w) leaseKey = Some (s, n)" "s \<noteq> session_at w (tick w)" for s n
    using that by (cases w) (simp add: indexer_tick_def set_indexer_running_def with_lease_def
        tryAcquireIndexerLease_def db_query_def take_lock_def io_simps)
  moreover have "indexer_running w \<Longrightarrow> snd (indexer_tick m env w) = w"
    by (simp add: indexer_tick_def io_simps)
  ultimately show ?thesis
    using indexer_tick_returns indexer_tick_running by blast
qed

lemma indexer_tick_guarded_witness:
  "snd (indexer_tick sample_manifest sample_config (quiet_world\<lparr>indexer_running := True\<rparr>)) =
     quiet_world\<lparr>indexer_running := True\<rparr>"
  using indexer_tick_guarded [of sample_manifest sample_config "quiet_world\<lparr>indexer_running := True\<rparr>"] by simp

end
