(* ===== verification/Indexer_Safety.thy ===== *)
theory Indexer_Safety imports Indexer_Worker begin

text \<open>
  What the indexer guarantees over whole ticks, under the documented behaviour of the event query:
  every event at or below a checkpoint is among the raw events, but for those of the ledgers at
  which a checkpoint stood (the node leaves the end of a window out); checkpoints fall only by the safety margin below the chain tip, and the
  logs keep at most one row per event, under every fault of the database and the RPC node.
\<close>

section \<open>The outcome of a poll\<close>

text \<open>The ledger a poll starts from.\<close>

definition from_ledger :: "int \<Rightarrow> int option \<Rightarrow> int" where
  "from_ledger old start = (if 0 < old then old + 1 else the start)"

lemma getCheckpoint_Inr:
  assumes "getCheckpoint n c w = (Inr cp, w1)"
  shows "lastProcessedLedger cp = checkpoint_ledger (db w) (n, c)" "w1 = w\<lparr>tick := Suc (tick w)\<rparr>"
proof -
  obtain d where d: "Inr (or_else (checkpoints (db w) (n, c))
      \<lparr>lastProcessedLedger = 0, lastProcessedCursor = None\<rparr>, db w) = (Inr (cp, d) :: exn + _)"
    "w1 = w\<lparr>tick := Suc (tick w), db := d\<rparr>"
    using assms unfolding getCheckpoint_def db_select_def by (blast dest: db_query_Inr)
  then show "lastProcessedLedger cp = checkpoint_ledger (db w) (n, c)"
    by (auto simp: checkpoint_ledger_def or_else_def split: option.splits)
  show "w1 = w\<lparr>tick := Suc (tick w)\<rparr>" using d by (cases w) simp
qed

lemma poll_outcome:
  assumes "pollContract m win mg c md st w = (Inr b, w')"
  defines "old \<equiv> checkpoint_ledger (db w) (m_network m, c)"
  shows "\<exists>latest. rpc_ledger w (Suc (tick w)) = Inr latest \<and> (0 < old \<or> st \<noteq> None) \<and>
    (if latest < from_ledger old st
     then b_reset b \<and> b_complete b \<and> b_events b = [] \<and> b_checkpointLedger b = max 0 (latest - mg)
     else \<not> b_reset b \<and> b_checkpointLedger b = min (from_ledger old st + win - 1) latest \<and>
       (\<exists>cu co ex w1 w2. fetch_pages 100 m c (b_checkpointLedger b)
            (LedgerWindow c (from_ledger old st) (b_checkpointLedger b) 100) [] None False w1 =
            (Inr (b_events b, cu, co, ex), w2) \<and> b_complete b = (co \<and> \<not> ex) \<and>
            oracles w1 = oracles w \<and> tick w1 = Suc (Suc (tick w))))"
proof -
  obtain cp w1 where cp: "getCheckpoint (m_network m) c w = (Inr cp, w1)"
    using assms(1) by (auto simp: pollContract_def bindM_eq_Inr)
  note cpf = getCheckpoint_Inr [OF cp]
  obtain latest where latest: "rpc_ledger w (Suc (tick w)) = Inr latest"
    using assms(1) cp cpf(2)
    by (auto simp: pollContract_def bindM_def getLatestLedger_def ask_def split: sum.splits)
  define w2 where "w2 = w\<lparr>tick := Suc (Suc (tick w)), metrics := setLatestLedger latest (metrics w)\<rparr>"
  have w2: "oracles w2 = oracles w" "tick w2 = Suc (Suc (tick w))"
    by (simp_all add: w2_def)
  have run: "poll_from m win mg c md st cp latest w2 = (Inr b, w')"
    using assms(1) cp latest
    by (simp add: pollContract_def bindM_def thenM_def getLatestLedger_def ask_def on_metrics_def
        modifyM_def cpf(2) w2_def)
  have cp_old: "lastProcessedLedger cp = old" using cpf(1) by (simp add: old_def)
  show ?thesis
  proof (cases "old \<le> 0 \<and> st = None")
    case True
    with run show ?thesis by (simp add: poll_from_def cp_old on_metrics_def io_simps)
  next
    case False
    note outer = False
    show ?thesis
    proof (cases "latest < from_ledger old st")
      case True
      have "thenM (on_metrics (setContractLag c md old latest))
          (thenM (on_metrics noteCheckpointRewind)
          (ret \<lparr>b_events = [], b_checkpointLedger = max 0 (latest - mg),
                b_cursor = lastProcessedCursor cp, b_complete = True, b_reset = True\<rparr>)) w2 = (Inr b, w')"
        using run outer True unfolding poll_from_def Let_def cp_old from_ledger_def by (simp only: if_False if_True)
      then have "b = \<lparr>b_events = [], b_checkpointLedger = max 0 (latest - mg),
          b_cursor = lastProcessedCursor cp, b_complete = True, b_reset = True\<rparr>"
        by (auto simp: thenM_eq_Inr ret_def on_metrics_def modifyM_def)
      with True outer latest show ?thesis by auto
    next
      case False
      let ?e = "min (from_ledger old st + win - 1) latest"
      have "bindM (fetch_pages 100 m c ?e (LedgerWindow c (from_ledger old st) ?e 100) [] None False)
            (\<lambda>(events, cursor, complete, exhausted).
          thenM (on_metrics (setContractLag c md ?e latest))
          (ret \<lparr>b_events = events, b_checkpointLedger = ?e, b_cursor = cursor,
                b_complete = (complete \<and> \<not> exhausted), b_reset = False\<rparr>)) w2 = (Inr b, w')"
        using run outer False unfolding poll_from_def Let_def cp_old from_ledger_def by (simp only: if_False)
      then obtain es cu co ex w3 where
        pages: "fetch_pages 100 m c ?e (LedgerWindow c (from_ledger old st) ?e 100) [] None False w2
          = (Inr (es, cu, co, ex), w3)" and
        b: "b = \<lparr>b_events = es, b_checkpointLedger = ?e, b_cursor = cu,
                b_complete = (co \<and> \<not> ex), b_reset = False\<rparr>"
        by (auto simp: bindM_eq_Inr thenM_eq_Inr ret_def on_metrics_def modifyM_def)
      have "\<exists>cu co ex w1 w2. fetch_pages 100 m c (b_checkpointLedger b)
            (LedgerWindow c (from_ledger old st) (b_checkpointLedger b) 100) [] None False w1 =
            (Inr (b_events b, cu, co, ex), w2) \<and> b_complete b = (co \<and> \<not> ex) \<and>
            oracles w1 = oracles w \<and> tick w1 = Suc (Suc (tick w))"
        using pages w2 unfolding b
        by (intro exI [of _ cu] exI [of _ co] exI [of _ ex] exI [of _ w2] exI [of _ w3]) simp
      moreover have "\<not> b_reset b" "b_checkpointLedger b = ?e" by (simp_all add: b)
      ultimately show ?thesis using False outer latest by auto
    qed
  qed
qed

text \<open>What a complete window contains.\<close>

lemma poll_window:
  assumes "pollContract m win mg c md st w = (Inr b, w')" "serves scan w c chain after" "win \<le> scan"
    "b_complete b" "\<not> b_reset b"
  shows "map record_id (b_events b) = map (event_id m c) (filter (\<lambda>ev.
      from_ledger (checkpoint_ledger (db w) (m_network m, c)) st \<le> ev_ledger ev \<and>
      ev_ledger ev \<le> last_covered chain (from_ledger (checkpoint_ledger (db w) (m_network m, c)) st)
        (b_checkpointLedger b)) chain)"
proof -
  let ?from = "from_ledger (checkpoint_ledger (db w) (m_network m, c)) st"
  obtain latest where tip: "rpc_ledger w (Suc (tick w)) = Inr latest" and
    split: "if latest < ?from then b_reset b \<and> b_complete b \<and> b_events b = [] \<and>
          b_checkpointLedger b = max 0 (latest - mg)
       else \<not> b_reset b \<and> b_checkpointLedger b = min (?from + win - 1) latest \<and>
       (\<exists>cu co ex w1 w2. fetch_pages 100 m c (b_checkpointLedger b)
            (LedgerWindow c ?from (b_checkpointLedger b) 100) [] None False w1 =
            (Inr (b_events b, cu, co, ex), w2) \<and> b_complete b = (co \<and> \<not> ex) \<and>
            oracles w1 = oracles w \<and> tick w1 = Suc (Suc (tick w)))"
    using poll_outcome [OF assms(1)] by blast
  have "\<not> latest < ?from" using split assms(5) by (cases "latest < ?from") simp_all
  note outcome = split [unfolded if_not_P [OF this]]
  then have window: "b_checkpointLedger b = min (?from + win - 1) latest" and
    "\<exists>cu co ex w1 w2. fetch_pages 100 m c (b_checkpointLedger b)
            (LedgerWindow c ?from (b_checkpointLedger b) 100) [] None False w1 =
            (Inr (b_events b, cu, co, ex), w2) \<and> b_complete b = (co \<and> \<not> ex) \<and>
            oracles w1 = oracles w \<and> tick w1 = Suc (Suc (tick w))"
    by blast+
  then obtain cu co ex w1 w2 where
    pages: "fetch_pages 100 m c (b_checkpointLedger b) (LedgerWindow c ?from (b_checkpointLedger b) 100)
      [] None False w1 = (Inr (b_events b, cu, co, ex), w2)" and
    fl: "b_complete b = (co \<and> \<not> ex)" "oracles w1 = oracles w" "tick w1 = Suc (Suc (tick w))"
    by blast
  have bounds: "b_checkpointLedger b \<le> latest" "b_checkpointLedger b < ?from + scan"
    using window assms(3) by simp_all
  have serves1: "serves scan w1 c chain after" using serves_oracles [OF fl(2)] assms(2) by simp
  have tip1: "rpc_ledger w1 (Suc (tick w)) = Inr latest"
    using tip fl(2) by (simp add: oracles_def)
  have flags: "co" "\<not> ex" using fl(1) assms(4) by auto
  have done_pages: "fetch_pages 100 m c (b_checkpointLedger b) (LedgerWindow c ?from (b_checkpointLedger b) 100)
      [] None False w1 = (Inr (b_events b, cu, True, False), w2)"
    using pages flags by simp
  have "map record_id (b_events b) = map record_id [] @ map (event_id m c) (filter (\<lambda>ev.
      ev_ledger ev \<le> last_covered chain ?from (b_checkpointLedger b)) (filter (\<lambda>ev. ?from \<le> ev_ledger ev) chain))"
    by (rule fetch_window [OF done_pages serves1 tip1 _ bounds]) (simp add: fl(3))
  then show ?thesis by (simp add: conj_commute)
qed

text \<open>C11: a poll that reports a complete window, under the documented behaviour of the event query (the
  end of a window is not part of it, a call scans a limited number of ledgers, which the window does not
  exceed), has exactly the contract's events of a range of ledgers, in chain order.  The range starts
  right after the checkpoint.  It ends at the ledger that becomes the new checkpoint when the window's first
  page was full (100 events or more before that ledger), and otherwise one ledger before it.\<close>

lemma poll_complete_window:
  assumes "pollContract m win mg c md st w = (Inr b, w')" "serves scan w c chain after" "win \<le> scan"
    "b_complete b" "\<not> b_reset b"
  shows "map record_id (b_events b) = map (event_id m c) (filter (\<lambda>ev.
      from_ledger (checkpoint_ledger (db w) (m_network m, c)) st \<le> ev_ledger ev \<and>
      ev_ledger ev \<le> last_covered chain (from_ledger (checkpoint_ledger (db w) (m_network m, c)) st)
        (b_checkpointLedger b)) chain)"
  by (rule poll_window [OF assms])

text \<open>So the last ledger of a window is lost unless the contract was very busy: no event of it is in the
  batch, and the checkpoint is set to it, after which the next poll starts one ledger later.\<close>

lemma window_end_skipped:
  assumes "pollContract m win mg c md st w = (Inr b, w')" "serves scan w c chain after" "win \<le> scan"
    "b_complete b" "\<not> b_reset b" "length chain < 100" "x \<in> set (b_events b)"
  shows "e_ledger x < b_checkpointLedger b"
proof -
  let ?from = "from_ledger (checkpoint_ledger (db w) (m_network m, c)) st"
  have "length (filter (\<lambda>ev. ?from \<le> ev_ledger ev \<and> ev_ledger ev < b_checkpointLedger b) chain) < 100"
    using length_filter_le [of _ chain] assms(6) by (metis (no_types, lifting) le_less_trans)
  then have "last_covered chain ?from (b_checkpointLedger b) = b_checkpointLedger b - 1"
    by (simp add: last_covered_def)
  moreover have "record_id x \<in> set (map record_id (b_events b))" using assms(7) by simp
  ultimately show ?thesis
    unfolding poll_window [OF assms(1-5)] by (auto simp: record_id_def event_id_def)
qed

section \<open>Recording a batch\<close>

text \<open>Processing events only adds raw events.\<close>

definition raw_grow :: "world \<Rightarrow> world \<Rightarrow> bool" where
  "raw_grow w w' \<longleftrightarrow> (\<exists>xs. raw_events (db w') = raw_events (db w) @ xs) \<and>
     checkpoints (db w') = checkpoints (db w) \<and> deployments (db w') = deployments (db w) \<and>
     oracles w' = oracles w"

interpretation grow: frame raw_grow
  by unfold_locales (auto simp: raw_grow_def)

lemma has_event_grow: "raw_grow w w' \<Longrightarrow> has_event n e (db w) \<Longrightarrow> has_event n e (db w')"
  by (auto simp: raw_grow_def has_event_def)

lemma recordRawEvent_grow: "evolves raw_grow (recordRawEvent e)"
  unfolding recordRawEvent_def
proof (rule db_query_frame [OF grow.frame_axioms])
  fix w a d
  assume "put_raw_event e w (db w) = Inr (a, d)"
  then obtain tv pl where "d = (db w)\<lparr>raw_events := put_stored (stored e tv pl) (raw_events (db w))\<rparr>"
    using put_raw_event_stored by blast
  then show "raw_grow w (w\<lparr>tick := Suc (tick w), db := d\<rparr>)"
    by (simp add: raw_grow_def put_stored_def)
qed (simp add: raw_grow_def)

lemma dispatch_grow: "evolves raw_grow (dispatch m e)"
proof (rule evolvesI)
  fix w
  show "raw_grow w (snd (dispatch m e w))"
    using evolvesD [OF ev.dispatch_R [OF refl refl], of m e w]
    by (simp add: event_frame_def core_state_def raw_grow_def)
qed

lemma quiet_grow: "recon.keeps t \<Longrightarrow> evolves raw_grow t"
  by (erule evolves_mono) (simp add: same_def indexer_state_def raw_grow_def)

lemma event_failed_grow: "evolves raw_grow (event_failed m md e err)"
  unfolding event_failed_def by (rule quiet_grow) (intro recon.steps)

lemma process_events_grow: "evolves raw_grow (process_events m md es)"
proof (induction es)
  case Nil
  then show ?case by (simp add: grow.ret_evolves)
next
  case (Cons e es)
  then show ?case
    unfolding process_events.simps
    by (intro grow.evolves_rules recordRawEvent_grow dispatch_grow event_failed_grow)
qed

lemma recordRawEvent_has:
  assumes "recordRawEvent e w = (Inr u, w')"
  shows "has_event (e_network e) (e_eventId e) (db w')"
proof -
  obtain d where d: "put_raw_event e w (db w) = Inr (u, d)" "w' = w\<lparr>tick := Suc (tick w), db := d\<rparr>"
    using assms db_query_Inr [of "put_raw_event e" w u w'] unfolding recordRawEvent_def by blast
  then show ?thesis
    by (auto simp: put_raw_event_def has_event_def stored_def split: option.splits if_splits)
qed

lemma event_failed_not_True: "event_failed m md e err w \<noteq> (Inr True, w')"
  by (auto simp: event_failed_def thenM_eq_Inr ret_def)

lemma process_events_has:
  "process_events m md es w = (Inr True, w') \<Longrightarrow>
    e \<in> set es \<Longrightarrow> has_event (e_network e) (e_eventId e) (db w')"
proof (induction es arbitrary: w)
  case Nil
  then show ?case by simp
next
  case (Cons a es)
  let ?step = "thenM (recordRawEvent a) (thenM (dispatch m a) (ret True))"
  obtain w1 where w1: "?step w = (Inr True, w1)" "process_events m md es w1 = (Inr True, w')"
    using Cons.prems(1) event_failed_not_True
    by (auto simp: bindM_def catchM_def ret_def split: prod.splits sum.splits if_splits)
  show ?case
  proof (cases "e = a")
    case True
    obtain w0 where w0: "recordRawEvent a w = (Inr (), w0)" "thenM (dispatch m a) (ret True) w0 = (Inr True, w1)"
      using w1(1) by (auto simp: thenM_eq_Inr)
    have "evolves raw_grow (thenM (dispatch m a) (ret True))"
      by (intro grow.evolves_rules dispatch_grow)
    from evolvesD [OF this, of w0] have "raw_grow w0 w1" by (simp add: w0(2))
    moreover from evolvesD [OF process_events_grow, of w1 m md es] have "raw_grow w1 w'"
      by (simp add: w1(2))
    ultimately show ?thesis
      using recordRawEvent_has [OF w0(1)] True by (blast intro: has_event_grow)
  next
    case False
    then show ?thesis using Cons.IH [OF w1(2)] Cons.prems(2) by simp
  qed
qed

section \<open>Coverage\<close>

text \<open>Every event of a contract from the base ledger up to its checkpoint is stored, but for the events of
  the ledgers \<open>gaps\<close>.\<close>

definition covered :: "string \<Rightarrow> (string \<Rightarrow> rpc_event list) \<Rightarrow> (string \<Rightarrow> int set) \<Rightarrow> int \<Rightarrow> world \<Rightarrow> bool" where
  "covered n chs gaps base w \<longleftrightarrow> (\<forall>c. \<forall>ev \<in> set (chs c).
     base \<le> ev_ledger ev \<and> ev_ledger ev \<le> checkpoint_ledger (db w) (n, c) \<longrightarrow>
       has_event n (ev_id ev) (db w) \<or> ev_ledger ev \<in> gaps c)"

definition safe :: "int \<Rightarrow> string \<Rightarrow> (string \<Rightarrow> rpc_event list) \<Rightarrow> (string \<Rightarrow> string \<Rightarrow> int \<times> rpc_event list) \<Rightarrow>
    (string \<Rightarrow> int set) \<Rightarrow> int \<Rightarrow> world \<Rightarrow> bool" where
  "safe scan n chs after gaps base w \<longleftrightarrow>
     covered n chs gaps base w \<and> (\<forall>c. serves scan w c (chs c) (after c))"

lemma safe_mono:
  "safe scan n chs after gaps base w \<Longrightarrow> (\<And>c. gaps c \<subseteq> gaps' c) \<Longrightarrow> safe scan n chs after gaps' base w"
  unfolding safe_def covered_def by blast

lemma checkpoint_ledger_cong: "checkpoints d' = checkpoints d \<Longrightarrow> checkpoint_ledger d' = checkpoint_ledger d"
  by (simp add: checkpoint_ledger_def fun_eq_iff)

lemma safe_grow: "raw_grow w w' \<Longrightarrow> safe scan n chs after gaps base w \<Longrightarrow> safe scan n chs after gaps base w'"
  unfolding safe_def covered_def
  by (metis has_event_grow raw_grow_def serves_oracles checkpoint_ledger_cong)

text \<open>A checkpoint write, acknowledged or not, either happened or did not.\<close>

lemma snd_db_exec:
  "snd (db_exec f w) = w\<lparr>tick := Suc (tick w)\<rparr> \<or> snd (db_exec f w) = w\<lparr>tick := Suc (tick w), db := f (db w)\<rparr>"
  using snd_db_query [of "\<lambda>w d. Inr ((), f d)" w] by (auto simp: db_exec_def)

text \<open>The gaps once the ledger at which a contract's checkpoint stands is counted among them.\<close>

definition stands :: "string \<Rightarrow> string \<Rightarrow> world \<Rightarrow> (string \<Rightarrow> int set) \<Rightarrow> string \<Rightarrow> int set" where
  "stands n c w gaps = gaps(c := insert (checkpoint_ledger (db w) (n, c)) (gaps c))"

lemma stands_more: "gaps c' \<subseteq> stands n c w gaps c'"
  by (auto simp: stands_def)

lemma safe_write:
  assumes "safe scan n chs after gaps base w"
    "raw_events (f (db w)) = raw_events (db w)"
    "\<And>c' ev. ev \<in> set (chs c') \<Longrightarrow> base \<le> ev_ledger ev \<Longrightarrow>
      ev_ledger ev \<le> checkpoint_ledger (f (db w)) (n, c') \<Longrightarrow>
      checkpoint_ledger (db w) (n, c') < ev_ledger ev \<Longrightarrow>
      has_event n (ev_id ev) (db w) \<or> c' = c \<and> ev_ledger ev = checkpoint_ledger (f (db w)) (n, c)"
  shows "safe scan n chs after (stands n c (snd (db_exec f w)) gaps) base (snd (db_exec f w))"
proof -
  let ?w1 = "w\<lparr>tick := Suc (tick w)\<rparr>" and ?w2 = "w\<lparr>tick := Suc (tick w), db := f (db w)\<rparr>"
  have "safe scan n chs after gaps base ?w1"
    by (rule safe_grow [OF _ assms(1)]) (simp add: raw_grow_def)
  then have tick: "safe scan n chs after (stands n c ?w1 gaps) base ?w1"
    by (rule safe_mono) (rule stands_more)
  have "covered n chs (stands n c ?w2 gaps) base ?w2"
    unfolding covered_def
  proof (intro allI ballI impI)
    fix c' ev
    assume ev: "ev \<in> set (chs c')" "base \<le> ev_ledger ev \<and> ev_ledger ev \<le> checkpoint_ledger (db ?w2) (n, c')"
    have "has_event n (ev_id ev) (db w) \<or> ev_ledger ev \<in> stands n c ?w2 gaps c'"
    proof (cases "ev_ledger ev \<le> checkpoint_ledger (db w) (n, c')")
      case True
      then show ?thesis using ev assms(1) stands_more [of gaps c' n c ?w2] by (auto simp: safe_def covered_def)
    next
      case False
      then show ?thesis using assms(3) [of ev c'] ev by (auto simp: stands_def)
    qed
    then show "has_event n (ev_id ev) (db ?w2) \<or> ev_ledger ev \<in> stands n c ?w2 gaps c'"
      using assms(2) by (simp add: has_event_def)
  qed
  moreover have "serves scan ?w2 c (chs c) (after c)" for c
    using assms(1) serves_oracles [of ?w2 w] by (simp add: safe_def)
  ultimately show ?thesis using snd_db_exec [of f w] tick by (auto simp: safe_def)
qed

section \<open>One deployment\<close>

text \<open>The settings a tick runs with: a positive window and a margin that is not negative, as the environment
  schema leaves them; a window within the number of ledgers one call scans, which the schema does not check;
  and a start ledger, when there is one, between zero and the base.\<close>

definition settings_ok :: "int \<Rightarrow> env \<Rightarrow> int \<Rightarrow> bool" where
  "settings_ok scan env base \<longleftrightarrow> 1 \<le> num_int (INDEXER_LEDGER_WINDOW env) \<and>
     num_int (INDEXER_LEDGER_WINDOW env) \<le> scan \<and>
     0 \<le> num_int (REORG_SAFETY_MARGIN_LEDGERS env) \<and>
     (\<forall>s. INDEXER_START_LEDGER env = Some s \<longrightarrow> 0 \<le> num_int s \<and> num_int s \<le> base)"

lemma pollContract_grow: "evolves raw_grow (pollContract m win mg c md st)"
  by (rule evolves_mono [OF pollContract_same])
    (auto simp: same_def db_and_oracles_def raw_grow_def)

lemma put_advance_raises:
  assumes "checkpoint_ledger d (n', c') < checkpoint_ledger (put_advance n c l cu d) (n', c')"
  shows "n' = n \<and> c' = c \<and> checkpoint_ledger (put_advance n c l cu d) (n', c') = l"
  using assms by (auto simp: checkpoint_ledger_def put_advance_def split: option.splits if_splits)

lemma advance_safe:
  assumes "safe scan n chs after gaps base w"
    "\<And>ev. ev \<in> set (chs c) \<Longrightarrow> base \<le> ev_ledger ev \<Longrightarrow> ev_ledger ev \<le> l \<Longrightarrow>
      checkpoint_ledger (db w) (n, c) < ev_ledger ev \<Longrightarrow> has_event n (ev_id ev) (db w) \<or> ev_ledger ev = l"
  shows "safe scan n chs after (stands n c (snd (db_exec (put_advance n c l cu) w)) gaps) base
    (snd (db_exec (put_advance n c l cu) w))"
proof (rule safe_write [OF assms(1)])
  fix c' ev
  assume ev: "ev \<in> set (chs c')" "base \<le> ev_ledger ev"
    "ev_ledger ev \<le> checkpoint_ledger (put_advance n c l cu (db w)) (n, c')"
    "checkpoint_ledger (db w) (n, c') < ev_ledger ev"
  then have raised: "checkpoint_ledger (db w) (n, c') < checkpoint_ledger (put_advance n c l cu (db w)) (n, c')"
    by linarith
  have new: "c' = c" "checkpoint_ledger (put_advance n c l cu (db w)) (n, c') = l"
    using put_advance_raises [OF raised] by blast+
  have "has_event n (ev_id ev) (db w) \<or> ev_ledger ev = l"
    using assms(2) [of ev] ev unfolding new(2) unfolding new(1) by blast
  moreover have "checkpoint_ledger (put_advance n c l cu (db w)) (n, c) = l" using new by simp
  ultimately show "has_event n (ev_id ev) (db w) \<or>
      c' = c \<and> ev_ledger ev = checkpoint_ledger (put_advance n c l cu (db w)) (n, c)"
    using new(1) by simp
qed (simp add: put_advance_def)

lemma reset_safe:
  assumes "safe scan n chs after gaps base w"
    "\<And>ev. ev \<in> set (chs c) \<Longrightarrow> base \<le> ev_ledger ev \<Longrightarrow> ev_ledger ev \<le> l \<Longrightarrow>
      ev_ledger ev \<le> checkpoint_ledger (db w) (n, c)"
  shows "safe scan n chs after (stands n c (snd (db_exec (put_reset n c l) w)) gaps) base
    (snd (db_exec (put_reset n c l) w))"
proof (rule safe_write [OF assms(1)])
  fix c' ev
  assume ev: "ev \<in> set (chs c')" "base \<le> ev_ledger ev"
    "ev_ledger ev \<le> checkpoint_ledger (put_reset n c l (db w)) (n, c')"
    "checkpoint_ledger (db w) (n, c') < ev_ledger ev"
  have "checkpoint_ledger (put_reset n c l (db w)) (n, c') =
      (if c' = c then l else checkpoint_ledger (db w) (n, c'))"
    using cps.reset_law [of "(n, c)" l "db w" "(n, c')"] by simp
  then show "has_event n (ev_id ev) (db w) \<or>
      c' = c \<and> ev_ledger ev = checkpoint_ledger (put_reset n c l (db w)) (n, c)"
    using assms(2) [of ev] ev by (cases "c' = c") auto
qed (simp add: put_reset_def)

lemma settle_safe:
  assumes safe: "safe scan n chs after gaps base w" and n: "m_network m = n"
    and reset: "\<And>ev. b_reset b \<Longrightarrow> ev \<in> set (chs c) \<Longrightarrow> base \<le> ev_ledger ev \<Longrightarrow>
      ev_ledger ev \<le> b_checkpointLedger b \<Longrightarrow> ev_ledger ev \<le> checkpoint_ledger (db w) (n, c)"
    and advance: "\<And>ev. \<not> b_reset b \<Longrightarrow> b_complete b \<Longrightarrow> ok \<Longrightarrow> ev \<in> set (chs c) \<Longrightarrow> base \<le> ev_ledger ev \<Longrightarrow>
      ev_ledger ev \<le> b_checkpointLedger b \<Longrightarrow> checkpoint_ledger (db w) (n, c) < ev_ledger ev \<Longrightarrow>
      has_event n (ev_id ev) (db w) \<or> ev_ledger ev = b_checkpointLedger b"
  shows "safe scan n chs after (stands n c (snd (settle_checkpoint m c b ok w)) gaps) base
    (snd (settle_checkpoint m c b ok w))"
proof -
  let ?l = "b_checkpointLedger b"
  have keep: "safe scan n chs after (stands n c w gaps) base w"
    using safe by (rule safe_mono) (rule stands_more)
  consider (keep) "\<not> (b_complete b \<and> ok)" | (reset) "b_complete b" ok "b_reset b"
    | (adv) "b_complete b" ok "\<not> b_reset b" by blast
  then show ?thesis
  proof cases
    case keep
    then show ?thesis using \<open>safe scan n chs after (stands n c w gaps) base w\<close>
      by (auto simp: settle_checkpoint_def ret_def)
  next
    case reset
    then have "settle_checkpoint m c b ok = db_exec (put_reset n c ?l)"
      by (simp add: settle_checkpoint_def resetCheckpoint_def n)
    then show ?thesis using reset_safe [OF safe, of c ?l] assms(3) reset by simp
  next
    case adv
    then have "settle_checkpoint m c b ok = db_exec (put_advance n c ?l (b_cursor b))"
      by (simp add: settle_checkpoint_def advanceCheckpoint_def n)
    then show ?thesis using advance_safe [OF safe, of c ?l] assms(4) adv by simp
  qed
qed

lemma batch_recorded:
  assumes "map record_id evs = map (event_id m c) (filter P chain)" "ev \<in> set chain" "P ev"
    "\<And>e. e \<in> set evs \<Longrightarrow> has_event (e_network e) (e_eventId e) d"
  shows "has_event (m_network m) (ev_id ev) d"
proof -
  have "event_id m c ev \<in> set (map record_id evs)" using assms(1-3) by simp
  then obtain e where "e \<in> set evs" "record_id e = event_id m c ev" by auto
  then show ?thesis using assms(4) [of e] by (simp add: record_id_def event_id_def)
qed

lemma from_ledger_base:
  assumes "settings_ok scan env base" "0 < old \<or> map_option num_int (INDEXER_START_LEDGER env) \<noteq> None"
    "base \<le> l" "old < l"
  shows "from_ledger old (map_option num_int (INDEXER_START_LEDGER env)) \<le> l"
  using assms by (cases "INDEXER_START_LEDGER env") (auto simp: from_ledger_def settings_ok_def)

text \<open>A rewind stays at or below the old checkpoint, or below the base where nothing was due.\<close>

lemma rewind_below:
  assumes "settings_ok scan env base" "0 < old \<or> map_option num_int (INDEXER_START_LEDGER env) \<noteq> None"
    "latest < from_ledger old (map_option num_int (INDEXER_START_LEDGER env))"
    "base \<le> l" "0 \<le> base" "l \<le> max 0 (latest - num_int (REORG_SAFETY_MARGIN_LEDGERS env))"
    "0 \<le> old"
  shows "l \<le> old"
  using assms by (cases "INDEXER_START_LEDGER env") (auto simp: from_ledger_def settings_ok_def split: if_splits)

text \<open>What justifies settling a checkpoint: a rewind gives up nothing that was due, and an advance
  passes stored events only, but for those of the very ledger it moves to.\<close>

definition settle_allowed :: "string \<Rightarrow> (string \<Rightarrow> rpc_event list) \<Rightarrow> int \<Rightarrow> string \<Rightarrow> event_batch \<Rightarrow> bool \<Rightarrow>
    world \<Rightarrow> bool" where
  "settle_allowed n chs base c b ok w \<longleftrightarrow> 0 \<le> b_checkpointLedger b \<and>
    (\<forall>ev \<in> set (chs c). base \<le> ev_ledger ev \<and> ev_ledger ev \<le> b_checkpointLedger b \<longrightarrow>
      (b_reset b \<longrightarrow> ev_ledger ev \<le> checkpoint_ledger (db w) (n, c)) \<and>
      (\<not> b_reset b \<and> b_complete b \<and> ok \<and> checkpoint_ledger (db w) (n, c) < ev_ledger ev \<longrightarrow>
        has_event n (ev_id ev) (db w) \<or> ev_ledger ev = b_checkpointLedger b))"

lemma poll_nonneg:
  assumes "pollContract m (num_int (INDEXER_LEDGER_WINDOW env)) mg c md
      (map_option num_int (INDEXER_START_LEDGER env)) w = (Inr b, w')"
    "settings_ok scan env base" "0 \<le> checkpoint_ledger (db w) (m_network m, c)"
  shows "0 \<le> b_checkpointLedger b"
proof -
  let ?old = "checkpoint_ledger (db w) (m_network m, c)"
  let ?from = "from_ledger ?old (map_option num_int (INDEXER_START_LEDGER env))"
  obtain latest where o: "0 < ?old \<or> map_option num_int (INDEXER_START_LEDGER env) \<noteq> None"
    "if latest < ?from then b_checkpointLedger b = max 0 (latest - mg)
     else b_checkpointLedger b = min (?from + num_int (INDEXER_LEDGER_WINDOW env) - 1) latest"
    using poll_outcome [OF assms(1)] by (metis (no_types, lifting))
  have "0 \<le> ?from"
    using o(1) assms(2) by (cases "INDEXER_START_LEDGER env") (auto simp: from_ledger_def settings_ok_def)
  then show ?thesis using o(2) assms(2) by (cases "latest < ?from") (auto simp: settings_ok_def)
qed

lemma batch_allowed:
  assumes poll: "pollContract m (num_int (INDEXER_LEDGER_WINDOW env)) (num_int (REORG_SAFETY_MARGIN_LEDGERS env))
      c md (map_option num_int (INDEXER_START_LEDGER env)) w = (Inr b, w1)"
    and events: "process_events m md (b_events b) w1 = (Inr ok, w2)"
    and st: "settings_ok scan env base" and base: "0 \<le> base"
    and nonneg: "0 \<le> checkpoint_ledger (db w) (m_network m, c)"
    and same: "checkpoint_ledger (db w2) (m_network m, c) = checkpoint_ledger (db w) (m_network m, c)"
    and serves: "serves scan w c (chs c) (after c)"
  shows "settle_allowed (m_network m) chs base c b ok w2"
  unfolding settle_allowed_def same
proof (intro conjI ballI impI)
  let ?old = "checkpoint_ledger (db w) (m_network m, c)" and ?st = "map_option num_int (INDEXER_START_LEDGER env)"
  let ?last = "last_covered (chs c) (from_ledger ?old ?st) (b_checkpointLedger b)"
  obtain latest where outcome: "0 < ?old \<or> ?st \<noteq> None" "if latest < from_ledger ?old ?st
      then b_reset b \<and> b_checkpointLedger b = max 0 (latest - num_int (REORG_SAFETY_MARGIN_LEDGERS env))
      else \<not> b_reset b"
    using poll_outcome [OF poll] by (metis (no_types, lifting))
  show "0 \<le> b_checkpointLedger b" by (rule poll_nonneg [OF poll st nonneg])
  fix ev
  assume ev: "ev \<in> set (chs c)" "base \<le> ev_ledger ev \<and> ev_ledger ev \<le> b_checkpointLedger b"
  show "ev_ledger ev \<le> ?old" if "b_reset b"
  proof -
    have "latest < from_ledger ?old ?st"
      "b_checkpointLedger b = max 0 (latest - num_int (REORG_SAFETY_MARGIN_LEDGERS env))"
      using that outcome(2) by (metis (no_types))+
    then show ?thesis using rewind_below [OF st outcome(1)] base nonneg ev(2) by metis
  qed
  assume adv: "\<not> b_reset b \<and> b_complete b \<and> ok \<and> ?old < ev_ledger ev"
  have win: "num_int (INDEXER_LEDGER_WINDOW env) \<le> scan" using st by (simp add: settings_ok_def)
  show "has_event (m_network m) (ev_id ev) (db w2) \<or> ev_ledger ev = b_checkpointLedger b"
  proof (cases "ev_ledger ev \<le> ?last")
    case False
    then show ?thesis using last_covered_bounds(1) [of "b_checkpointLedger b" "chs c" "from_ledger ?old ?st"] ev(2) by linarith
  next
    case True
    have "has_event (m_network m) (ev_id ev) (db w2)"
    proof (rule batch_recorded [OF poll_window [OF poll serves win] ev(1)])
      show "b_complete b" "\<not> b_reset b" using adv by simp_all
      show "from_ledger ?old ?st \<le> ev_ledger ev \<and> ev_ledger ev \<le> ?last"
        using from_ledger_base [OF st outcome(1)] ev(2) adv True by blast
      show "has_event (e_network e) (e_eventId e) (db w2)" if "e \<in> set (b_events b)" for e
        using process_events_has [OF _ that] events adv by simp
    qed
    then show ?thesis ..
  qed
qed

text \<open>A deployment's pass only adds events, and then perhaps settles the checkpoint.\<close>

lemma process_deployment_cases:
  assumes "safe scan (m_network m) chs after gaps base w" "settings_ok scan env base" "0 \<le> base"
    and "0 \<le> checkpoint_ledger (db w) (m_network m, d_contract_id dep)"
  shows "\<exists>w2. raw_grow w w2 \<and> (snd (process_deployment m env dep w) = w2 \<or>
    (\<exists>b ok. settle_allowed (m_network m) chs base (d_contract_id dep) b ok w2 \<and>
       snd (process_deployment m env dep w) = snd (settle_checkpoint m (d_contract_id dep) b ok w2)))"
proof -
  let ?c = "d_contract_id dep"
  let ?poll = "pollContract m (num_int (INDEXER_LEDGER_WINDOW env)) (num_int (REORG_SAFETY_MARGIN_LEDGERS env)) ?c
      (d_module dep) (map_option num_int (INDEXER_START_LEDGER env))"
  obtain r1 w1 where poll: "?poll w = (r1, w1)" by fastforce
  have grow1: "raw_grow w w1" using evolvesD [OF pollContract_grow, of w] poll by (metis snd_conv)
  show ?thesis
  proof (cases r1)
    case (Inl e)
    then show ?thesis using grow1 poll by (auto simp: process_deployment_def bindM_def)
  next
    case (Inr b)
    obtain r2 w2 where events: "process_events m (d_module dep) (b_events b) w1 = (r2, w2)" by fastforce
    have grow: "raw_grow w w2"
      using evolvesD [OF process_events_grow, of w1 m "d_module dep" "b_events b"] events grow.R_trans [OF grow1] by simp
    then have same: "checkpoint_ledger (db w2) (m_network m, ?c) = checkpoint_ledger (db w) (m_network m, ?c)"
      by (simp add: raw_grow_def checkpoint_ledger_def)
    have "settle_allowed (m_network m) chs base ?c b ok w2" if "r2 = Inr ok" for ok
    proof (rule batch_allowed [OF _ _ assms(2-4) same])
      show "?poll w = (Inr b, w1)" using poll Inr by simp
      show "process_events m (d_module dep) (b_events b) w1 = (Inr ok, w2)" using events that by simp
      show "serves scan w ?c (chs ?c) (after ?c)" using assms(1) by (simp add: safe_def)
    qed
    then show ?thesis
      using grow poll Inr events by (cases r2) (auto simp: process_deployment_def bindM_def)
  qed
qed

section \<open>Whole ticks\<close>

definition cps_nonneg :: "string \<Rightarrow> world \<Rightarrow> bool" where
  "cps_nonneg n w \<longleftrightarrow> (\<forall>c. 0 \<le> checkpoint_ledger (db w) (n, c))"

text \<open>The invariant of the indexer.\<close>

definition sound :: "int \<Rightarrow> string \<Rightarrow> (string \<Rightarrow> rpc_event list) \<Rightarrow> (string \<Rightarrow> string \<Rightarrow> int \<times> rpc_event list) \<Rightarrow>
    (string \<Rightarrow> int set) \<Rightarrow> int \<Rightarrow> world \<Rightarrow> bool" where
  "sound scan n chs after gaps base w \<longleftrightarrow> safe scan n chs after gaps base w \<and> cps_nonneg n w"

lemma sound_mono:
  "sound scan n chs after gaps base w \<Longrightarrow> (\<And>c. gaps c \<subseteq> gaps' c) \<Longrightarrow> sound scan n chs after gaps' base w"
  unfolding sound_def by (blast intro: safe_mono)

lemma sound_grow:
  "raw_grow w w' \<Longrightarrow> sound scan n chs after gaps base w \<Longrightarrow> sound scan n chs after gaps base w'"
  using safe_grow [of w w' scan n chs after gaps base] checkpoint_ledger_cong [of "db w'" "db w"]
  by (simp add: sound_def cps_nonneg_def raw_grow_def)

lemma write_nonneg:
  assumes "cps_nonneg n w" "\<And>c. 0 \<le> checkpoint_ledger (f (db w)) (n, c)"
  shows "cps_nonneg n (snd (db_exec f w))"
  using assms snd_db_exec [of f w] by (auto simp: cps_nonneg_def)

lemma settle_nonneg:
  assumes "cps_nonneg (m_network m) w" "0 \<le> b_checkpointLedger b"
  shows "cps_nonneg (m_network m) (snd (settle_checkpoint m c b ok w))"
proof -
  let ?n = "m_network m" and ?l = "b_checkpointLedger b"
  have "cps_nonneg ?n (snd (db_exec (put_reset ?n c ?l) w))"
    by (rule write_nonneg [OF assms(1)])
      (use cps.reset_law [of "(?n, c)" ?l "db w"] assms in \<open>auto simp: cps_nonneg_def\<close>)
  moreover have "cps_nonneg ?n (snd (db_exec (put_advance ?n c ?l (b_cursor b)) w))"
    by (rule write_nonneg [OF assms(1)])
      (use cps.advance_law [of ?l "(?n, c)" "b_cursor b" "db w"] assms in \<open>auto simp: cps_nonneg_def\<close>)
  ultimately show ?thesis
    using assms(1) by (auto simp: settle_checkpoint_def resetCheckpoint_def advanceCheckpoint_def ret_def)
qed

lemma settle_sound:
  assumes "sound scan (m_network m) chs after gaps base w" "settle_allowed (m_network m) chs base c b ok w"
  shows "sound scan (m_network m) chs after (stands (m_network m) c (snd (settle_checkpoint m c b ok w)) gaps) base
    (snd (settle_checkpoint m c b ok w))"
  unfolding sound_def
proof
  show "safe scan (m_network m) chs after (stands (m_network m) c (snd (settle_checkpoint m c b ok w)) gaps) base
      (snd (settle_checkpoint m c b ok w))"
    using assms by (intro settle_safe) (auto simp: sound_def settle_allowed_def)
  show "cps_nonneg (m_network m) (snd (settle_checkpoint m c b ok w))"
    using assms by (intro settle_nonneg) (auto simp: sound_def settle_allowed_def)
qed

text \<open>Settling touches one contract's checkpoint.\<close>

definition others_stay :: "string \<Rightarrow> string set \<Rightarrow> world \<Rightarrow> world \<Rightarrow> bool" where
  "others_stay n cs w w' \<longleftrightarrow> deployments (db w') = deployments (db w) \<and>
     (\<forall>c. c \<notin> cs \<longrightarrow> checkpoint_ledger (db w') (n, c) = checkpoint_ledger (db w) (n, c))"

lemma others_stay_grow: "raw_grow w w' \<Longrightarrow> others_stay n cs w w'"
  by (auto simp: others_stay_def raw_grow_def checkpoint_ledger_def)

lemma others_stay_trans:
  "others_stay n cs w w' \<Longrightarrow> others_stay n ds w' w'' \<Longrightarrow> others_stay n (cs \<union> ds) w w''"
  by (simp add: others_stay_def)

lemma settle_others: "others_stay (m_network m) {c} w (snd (settle_checkpoint m c b ok w))"
  using snd_db_exec [of "put_reset (m_network m) c (b_checkpointLedger b)" w]
    snd_db_exec [of "put_advance (m_network m) c (b_checkpointLedger b) (b_cursor b)" w]
  by (auto simp: settle_checkpoint_def resetCheckpoint_def advanceCheckpoint_def others_stay_def ret_def
      put_reset_def put_advance_def checkpoint_ledger_def)

lemma process_deployment_sound:
  fixes dep :: deployment
  assumes "sound scan (m_network m) chs after gaps base w" "settings_ok scan env base" "0 \<le> base"
  defines "c \<equiv> d_contract_id dep" and "w' \<equiv> snd (process_deployment m env dep w)"
  shows "sound scan (m_network m) chs after (stands (m_network m) c w' gaps) base w' \<and>
    others_stay (m_network m) {c} w w'"
proof -
  let ?n = "m_network m"
  have start: "safe scan ?n chs after gaps base w" "0 \<le> checkpoint_ledger (db w) (?n, c)"
    using assms(1) by (auto simp: sound_def cps_nonneg_def)
  obtain w2 where w2: "raw_grow w w2" and "w' = w2 \<or> (\<exists>b ok. settle_allowed ?n chs base c b ok w2 \<and>
      w' = snd (settle_checkpoint m c b ok w2))"
    using process_deployment_cases [OF start(1) assms(2,3), of dep] start(2) unfolding c_def w'_def by blast
  then consider "w' = w2" | b ok where "settle_allowed ?n chs base c b ok w2" "w' = snd (settle_checkpoint m c b ok w2)"
    by blast
  then show ?thesis
  proof cases
    case 1
    then show ?thesis
      using sound_mono [OF sound_grow [OF w2 assms(1)], of "stands ?n c w2 gaps"] stands_more [of gaps]
        others_stay_grow [OF w2] by simp
  next
    case 2
    then show ?thesis
      using settle_sound [OF sound_grow [OF w2 assms(1)]]
        others_stay_trans [OF others_stay_grow [OF w2, of ?n "{}"] settle_others, of c b ok] by simp
  qed
qed

text \<open>The gaps after a pass over contracts \<open>cs\<close>: where each contract's checkpoint then stands.\<close>

definition all_stand :: "string \<Rightarrow> string set \<Rightarrow> world \<Rightarrow> (string \<Rightarrow> int set) \<Rightarrow> string \<Rightarrow> int set" where
  "all_stand n cs w gaps c = (if c \<in> cs then insert (checkpoint_ledger (db w) (n, c)) (gaps c) else gaps c)"

lemma stands_then_all:
  assumes "c \<notin> cs" "others_stay n cs w w'"
  shows "all_stand n cs w' (stands n c w gaps) = all_stand n (insert c cs) w' gaps"
  using assms by (auto simp: all_stand_def stands_def others_stay_def fun_eq_iff)

lemma deployments_sound:
  assumes "settings_ok scan env base" "0 \<le> base"
  shows "distinct (map d_contract_id deps) \<Longrightarrow> sound scan (m_network m) chs after gaps base w \<Longrightarrow>
    sound scan (m_network m) chs after
      (all_stand (m_network m) (d_contract_id ` set deps) (snd (forM deps (process_deployment m env) w)) gaps) base
      (snd (forM deps (process_deployment m env) w)) \<and>
    others_stay (m_network m) (d_contract_id ` set deps) w (snd (forM deps (process_deployment m env) w))"
proof (induction deps arbitrary: w gaps)
  case Nil
  then show ?case by (simp add: ret_def all_stand_def others_stay_def sound_mono)
next
  case (Cons dep deps)
  let ?n = "m_network m" and ?c = "d_contract_id dep" and ?cs = "d_contract_id ` set deps"
  obtain r w1 where one: "process_deployment m env dep w = (r, w1)" by fastforce
  have step: "sound scan ?n chs after (stands ?n ?c w1 gaps) base w1" "others_stay ?n {?c} w w1"
    using process_deployment_sound [OF Cons.prems(2) assms, of dep] one by simp_all
  show ?case
  proof (cases r)
    case (Inl e)
    have "sound scan ?n chs after (all_stand ?n (insert ?c ?cs) w1 gaps) base w1"
      by (rule sound_mono [OF step(1)]) (auto simp: all_stand_def stands_def)
    moreover have "others_stay ?n (insert ?c ?cs) w w1" using step(2) by (simp add: others_stay_def)
    ultimately show ?thesis using Inl one by (simp add: thenM_def bindM_def)
  next
    case (Inr u)
    let ?w' = "snd (forM deps (process_deployment m env) w1)"
    have ih: "sound scan ?n chs after (all_stand ?n ?cs ?w' (stands ?n ?c w1 gaps)) base ?w'"
      "others_stay ?n ?cs w1 ?w'"
      using Cons.IH [OF _ step(1)] Cons.prems(1) by auto
    have "?c \<notin> ?cs" using Cons.prems(1) by auto
    then have "sound scan ?n chs after (all_stand ?n (insert ?c ?cs) ?w' gaps) base ?w'"
      using ih stands_then_all by simp
    moreover have "others_stay ?n (insert ?c ?cs) w ?w'"
      using others_stay_trans [OF step(2) ih(2)] by simp
    ultimately show ?thesis using Inr one by (simp add: thenM_def bindM_def)
  qed
qed

lemma lease_grow: "evolves raw_grow (tryAcquireIndexerLease k)" "evolves raw_grow (releaseIndexerLease k)"
  unfolding tryAcquireIndexerLease_def releaseIndexerLease_def
  by (rule db_query_frame [OF grow.frame_axioms];
      auto simp: raw_grow_def take_lock_def drop_lock_def split: option.splits prod.splits if_splits)+

lemma getDeployments_grow: "evolves raw_grow (getDeployments n)"
  unfolding getDeployments_def by (rule quiet_grow) (rule recon.select_keeps)

lemma on_metrics_grow: "evolves raw_grow (on_metrics f)"
  by (rule quiet_grow) (rule recon.on_metrics_keeps)

lemma set_running_grow: "evolves raw_grow (set_indexer_running b)"
  unfolding set_indexer_running_def by (rule grow.modifyM_evolves) (simp add: raw_grow_def)

lemma lag_alerts_grow: "evolves raw_grow (note_lag_alerts env)"
  unfolding note_lag_alerts_def by (intro grow.evolves_rules on_metrics_grow)

text \<open>A tick is a pass over the deployments the database holds, between steps that only add events.\<close>

definition deployed :: "string \<Rightarrow> world \<Rightarrow> deployment list" where
  "deployed n w = sort_key d_module (filter (\<lambda>x. d_network x = n) (deployments (db w)))"

definition pass :: "manifest \<Rightarrow> env \<Rightarrow> world \<Rightarrow> world \<Rightarrow> bool" where
  "pass m env v v' \<longleftrightarrow> v' = snd (forM (deployed (m_network m) v) (process_deployment m env) v)"

definition padded :: "(world \<Rightarrow> world \<Rightarrow> bool) \<Rightarrow> world \<Rightarrow> world \<Rightarrow> bool" where
  "padded R w w' \<longleftrightarrow> raw_grow w w' \<or> (\<exists>v v'. raw_grow w v \<and> R v v' \<and> raw_grow v' w')"

lemma padded_grow: "evolves raw_grow m \<Longrightarrow> evolves (padded R) m"
  by (erule evolves_mono) (simp add: padded_def)

lemma padded_inside: "R v v' \<Longrightarrow> padded R v v'"
  unfolding padded_def using grow.R_refl by blast

lemma padded_before: "raw_grow w v \<Longrightarrow> padded R v w' \<Longrightarrow> padded R w w'"
  unfolding padded_def using grow.R_trans by blast

lemma padded_after: "padded R w v \<Longrightarrow> raw_grow v w' \<Longrightarrow> padded R w w'"
  unfolding padded_def using grow.R_trans by blast

lemma pad_before:
  assumes "evolves raw_grow m" "\<And>a. evolves (padded R) (k a)"
  shows "evolves (padded R) (bindM m k)"
proof (rule evolvesI)
  fix w
  obtain r v where m: "m w = (r, v)" by fastforce
  have "raw_grow w v" using evolvesD [OF assms(1), of w] m by simp
  then show "padded R w (snd (bindM m k w))"
    using m evolvesD [OF assms(2)] padded_before
    by (cases r) (auto simp: bindM_def padded_def)
qed

lemma pad_after:
  assumes "evolves (padded R) m" "\<And>a. evolves raw_grow (k a)"
  shows "evolves (padded R) (bindM m k)"
proof (rule evolvesI)
  fix w
  show "padded R w (snd (bindM m k w))"
    using evolvesD [OF assms(1), of w] padded_after evolvesD [OF assms(2)]
    by (cases "m w"; cases "fst (m w)") (auto simp: bindM_def)
qed

lemma pad_catch:
  assumes "evolves (padded R) m" "\<And>e. evolves raw_grow (h e)"
  shows "evolves (padded R) (catchM m h)"
proof (rule evolvesI)
  fix w
  show "padded R w (snd (catchM m h w))"
    using evolvesD [OF assms(1), of w] padded_after evolvesD [OF assms(2)]
    by (cases "m w"; cases "fst (m w)") (auto simp: catchM_def)
qed

lemma index_all_padded: "evolves (padded (pass m env)) (index_all m env)"
proof (rule evolvesI)
  fix w
  let ?deps = "deployed (m_network m) w"
  obtain r v where get: "getDeployments (m_network m) w = (r, v)" by fastforce
  have grow: "raw_grow w v" using evolvesD [OF getDeployments_grow, of w "m_network m"] get by simp
  then have same: "deployed (m_network m) v = ?deps" by (simp add: deployed_def raw_grow_def)
  show "padded (pass m env) w (snd (index_all m env w))"
  proof (cases r)
    case (Inl e)
    then show ?thesis using get grow by (simp add: index_all_def bindM_def padded_def)
  next
    case (Inr deps)
    then have "deps = ?deps"
      using get unfolding getDeployments_def db_select_def deployed_def by (auto dest!: db_query_Inr)
    then have "padded (pass m env) v (snd (forM deps (process_deployment m env) v))"
      by (intro padded_inside) (simp add: pass_def same)
    then have "padded (pass m env) v (snd (thenM (forM deps (process_deployment m env)) (note_lag_alerts env) v))"
      using padded_after evolvesD [OF lag_alerts_grow]
      by (cases "forM deps (process_deployment m env) v"; cases "fst (forM deps (process_deployment m env) v)")
        (auto simp: thenM_def bindM_def)
    then show ?thesis using padded_before [OF grow] get Inr by (simp add: index_all_def bindM_def)
  qed
qed

lemma pad_if: "evolves (padded R) m \<Longrightarrow> evolves (padded R) k \<Longrightarrow> evolves (padded R) (if b then m else k)"
  by simp

lemma indexer_tick_padded: "evolves (padded (pass m env)) (indexer_tick m env)"
  unfolding indexer_tick_def with_lease_def thenM_def tick_failed_def
  by (intro pad_before grow.getsM_evolves pad_if padded_grow [OF grow.ret_evolves] pad_after pad_catch set_running_grow
      index_all_padded lease_grow on_metrics_grow grow.evolves_rules)

text \<open>So a tick leaves the gaps of each contract but for the ledger at which its checkpoint then stands.\<close>

lemma indexer_tick_sound:
  assumes "settings_ok scan env base" "0 \<le> base" "sound scan (m_network m) chs after gaps base w"
    "distinct (map d_contract_id (deployed (m_network m) w))"
  defines "w' \<equiv> snd (indexer_tick m env w)"
  shows "sound scan (m_network m) chs after (\<lambda>c. insert (checkpoint_ledger (db w') (m_network m, c)) (gaps c)) base w' \<and>
    deployments (db w') = deployments (db w)"
proof -
  let ?n = "m_network m" and ?G = "\<lambda>w' c. insert (checkpoint_ledger (db w') (m_network m, c)) (gaps c)"
  have "padded (pass m env) w w'" unfolding w'_def by (rule evolvesD [OF indexer_tick_padded])
  then consider "raw_grow w w'" | v v' where "raw_grow w v" "pass m env v v'" "raw_grow v' w'"
    unfolding padded_def by blast
  then show ?thesis
  proof cases
    case 1
    then show ?thesis
      using sound_mono [OF sound_grow [OF 1 assms(3)], of "?G w'"] by (auto simp: raw_grow_def)
  next
    case 2
    let ?cs = "d_contract_id ` set (deployed ?n v)"
    have "deployed ?n v = deployed ?n w" using 2(1) by (simp add: deployed_def raw_grow_def)
    then have dist: "distinct (map d_contract_id (deployed ?n v))" using assms(4) by simp
    have v': "v' = snd (forM (deployed ?n v) (process_deployment m env) v)" using 2(2) by (simp add: pass_def)
    have run: "sound scan ?n chs after (all_stand ?n ?cs v' gaps) base v'" "others_stay ?n ?cs v v'"
      unfolding v' by (rule deployments_sound [OF assms(1,2) dist sound_grow [OF 2(1) assms(3)], THEN conjunct1],
          rule deployments_sound [OF assms(1,2) dist sound_grow [OF 2(1) assms(3)], THEN conjunct2])
    have same: "checkpoint_ledger (db w') = checkpoint_ledger (db v')"
      by (rule checkpoint_ledger_cong) (use 2(3) in \<open>simp add: raw_grow_def\<close>)
    have "sound scan ?n chs after (?G w') base v'"
      by (rule sound_mono [OF run(1)]) (auto simp: all_stand_def same)
    moreover have "deployments (db w') = deployments (db w)"
      using 2(1,3) run(2) by (simp add: raw_grow_def others_stay_def)
    ultimately show ?thesis using sound_grow [OF 2(3)] by blast
  qed
qed

text \<open>C1: no event is skipped, but at the ledgers where a checkpoint stood.  Under the documented behaviour of
  the event query (\<open>serves\<close>: the end of a window is not part of it, and one call scans a limited number of ledgers,
  which the window does not exceed), with one deployment per contract: if every event from the base ledger up
  to each contract's checkpoint is stored, but for those of the ledgers \<open>gaps\<close>, then after any number of ticks this
  is still so, where at most the ledgers have become gaps at which the contract's checkpoint stood after one of
  these ticks; whatever queries, reads and dispatches fail on the way.\<close>

lemma indexer_never_skips:
  assumes "settings_ok scan env base" "0 \<le> base" "sound scan (m_network m) chs after gaps base w"
    "distinct (map d_contract_id (deployed (m_network m) w))"
  shows "sound scan (m_network m) chs after
    (\<lambda>c. gaps c \<union> {checkpoint_ledger (db (((\<lambda>v. snd (indexer_tick m env v)) ^^ j) w)) (m_network m, c) | j. 1 \<le> j \<and> j \<le> k})
    base (((\<lambda>v. snd (indexer_tick m env v)) ^^ k) w)"
proof -
  let ?n = "m_network m" and ?run = "\<lambda>k. ((\<lambda>v. snd (indexer_tick m env v)) ^^ k) w"
  let ?G = "\<lambda>k c. gaps c \<union> {checkpoint_ledger (db (?run j)) (?n, c) | j. 1 \<le> j \<and> j \<le> k}"
  have "sound scan ?n chs after (?G k) base (?run k) \<and> deployments (db (?run k)) = deployments (db w)"
  proof (induction k)
    case 0
    then show ?case using assms(3) by (simp add: sound_mono)
  next
    case (Suc k)
    have "distinct (map d_contract_id (deployed ?n (?run k)))"
      using Suc.IH assms(4) by (simp add: deployed_def)
    from indexer_tick_sound [OF assms(1,2) conjunct1 [OF Suc.IH] this]
    have step: "sound scan ?n chs after (\<lambda>c. insert (checkpoint_ledger (db (?run (Suc k))) (?n, c)) (?G k c)) base (?run (Suc k))"
      "deployments (db (?run (Suc k))) = deployments (db (?run k))"
      by simp_all
    have "sound scan ?n chs after (?G (Suc k)) base (?run (Suc k))"
      by (rule sound_mono [OF step(1)]) (auto simp: le_Suc_eq intro: exI [of _ "Suc k"])
    then show ?case using step(2) Suc.IH by simp
  qed
  then show ?thesis by simp
qed

definition sample_chain :: "string \<Rightarrow> rpc_event list" where
  "sample_chain c = (if c = ''CAMM'' then [\<lparr>ev_ledger = 50, ev_txHash = ''tx'', ev_id = ''ev'',
     ev_topic = None, ev_value = ''xdr''\<rparr>] else [])"

definition chain_world :: world where
  "chain_world = quiet_world\<lparr>db := empty_db\<lparr>deployments :=
     [\<lparr>d_network = ''testnet'', d_module = ''amm'', d_contract_id = ''CAMM''\<rparr>]\<rparr>, rpc_events := \<lambda>_ rq. case rq of
     LedgerWindow c s e l \<Rightarrow> Inr \<lparr>r_events = filter (\<lambda>ev. ev_ledger ev < min e (min (s + 10000) 101))
        (filter (\<lambda>ev. s \<le> ev_ledger ev) (sample_chain c)), r_cursor = None\<rparr>
   | FromCursor _ _ _ \<Rightarrow> Inl (Error ''unknown cursor'')\<rparr>"

lemma chain_world_serves: "serves 10000 chain_world c (sample_chain c) (\<lambda>_. (0, []))"
proof -
  have few: "length (filter P (sample_chain c)) < 100" for P
    by (auto simp: sample_chain_def)
  have page: "filter P (sample_chain c) = take 100 (filter P (sample_chain c))" for P
    using few [of P] by simp
  have sorted: "sorted (map ev_ledger (sample_chain c))" by (simp add: sample_chain_def)
  show ?thesis
    unfolding serves_def
  proof (intro conjI allI impI)
    fix t tip t' s e r
    assume "rpc_ledger chain_world t = Inr tip" "rpc_events chain_world t' (LedgerWindow c s e 100) = Inr r"
    then have tip: "tip = 100" and r: "r_events r = filter (\<lambda>ev. ev_ledger ev < min e (min (s + 10000) (100 + 1)))
        (filter (\<lambda>ev. s \<le> ev_ledger ev) (sample_chain c))"
      by (auto simp: chain_world_def quiet_defs)
    then show "\<exists>v \<ge> tip. r_events r = take 100 (filter (\<lambda>ev. ev_ledger ev < min e (min (s + 10000) (v + 1)))
        (filter (\<lambda>ev. s \<le> ev_ledger ev) (sample_chain c)))"
      using page unfolding filter_filter by (intro exI [of _ 100]) simp
    have "length (r_events r) < 100" unfolding r filter_filter by (rule few)
    then show "\<exists>cur. r_cursor r = Some cur \<and> (0, []) = (ev_ledger (last (r_events r)),
        drop 100 (filter (\<lambda>ev. s \<le> ev_ledger ev) (sample_chain c)))" if "length (r_events r) = 100"
      using that by simp
  qed (use sorted in \<open>auto simp: chain_world_def quiet_defs\<close>)
qed

lemma chain_world_sound: "sound 10000 n sample_chain (\<lambda>_ _. (0, [])) (\<lambda>_. {}) 1 chain_world"
  using chain_world_serves
  by (auto simp: sound_def safe_def covered_def cps_nonneg_def checkpoint_ledger_def chain_world_def
      quiet_defs sample_chain_def)

lemma indexer_never_skips_witness:
  "sound 10000 ''testnet'' sample_chain (\<lambda>_ _. (0, []))
     (\<lambda>c. {} \<union> {checkpoint_ledger (db (((\<lambda>v. snd (indexer_tick sample_manifest sample_config v)) ^^ j) chain_world)) (''testnet'', c)
        | j. 1 \<le> j \<and> j \<le> 3}) 1
     (((\<lambda>v. snd (indexer_tick sample_manifest sample_config v)) ^^ 3) chain_world)"
proof -
  have settings: "settings_ok 10000 sample_config 1"
    by (simp add: settings_ok_def sample_config_def num_int_def)
  have "distinct (map d_contract_id (deployed (m_network sample_manifest) chain_world))"
    by (simp add: deployed_def chain_world_def)
  from indexer_never_skips [OF settings _ chain_world_sound this, of 3]
  show ?thesis by (simp add: sample_manifest_def)
qed

lemma chain_world_page:
  "\<exists>es cu w'. fetch_pages 100 m ''CAMM'' 100 (LedgerWindow ''CAMM'' 1 100 100) [] None False
    (chain_world\<lparr>tick := n, metrics := ms\<rparr>) = (Inr (es, cu, True, False), w')"
proof -
  have unroll: "fetch_pages 100 = fetch_pages (Suc 99)" by (rule arg_cong [where f = fetch_pages]) simp
  show ?thesis
    unfolding unroll fetch_pages.simps(2)
    by (simp add: io_simps getEvents_def ask_def Let_def chain_world_def quiet_defs sample_chain_def)
qed

lemma chain_world_poll:
  "\<exists>b w'. pollContract sample_manifest 250 10 ''CAMM'' ''amm'' (Some 1) chain_world = (Inr b, w') \<and>
    b_complete b \<and> \<not> b_reset b \<and> b_checkpointLedger b = 100"
proof -
  have checkpoint: "getCheckpoint n c chain_world =
      (Inr \<lparr>lastProcessedLedger = 0, lastProcessedCursor = None\<rparr>, chain_world\<lparr>tick := Suc 0\<rparr>)" for n c
    by (simp add: getCheckpoint_def db_select_def db_query_def chain_world_def quiet_defs)
  have latest: "getLatestLedger (chain_world\<lparr>tick := Suc 0\<rparr>) = (Inr 100, chain_world\<lparr>tick := Suc (Suc 0)\<rparr>)"
    by (simp add: getLatestLedger_def ask_def chain_world_def quiet_defs)
  obtain es cu w' where page: "fetch_pages 100 sample_manifest ''CAMM'' 100 (LedgerWindow ''CAMM'' 1 100 100) [] None False
      (chain_world\<lparr>tick := Suc (Suc 0), metrics := setLatestLedger 100 (metrics chain_world)\<rparr>) = (Inr (es, cu, True, False), w')"
    using chain_world_page by blast
  show ?thesis
    by (simp add: pollContract_def poll_from_def checkpoint latest page io_simps on_metrics_def Let_def)
qed

lemma poll_complete_window_witness:
  "\<exists>b w'. pollContract sample_manifest 250 10 ''CAMM'' ''amm'' (Some 1) chain_world = (Inr b, w') \<and>
    map record_id (b_events b) = map (event_id sample_manifest ''CAMM'') (sample_chain ''CAMM'')"
proof -
  obtain b w' where b: "pollContract sample_manifest 250 10 ''CAMM'' ''amm'' (Some 1) chain_world = (Inr b, w')"
    "b_complete b" "\<not> b_reset b" "b_checkpointLedger b = 100"
    using chain_world_poll by blast
  from poll_complete_window [OF b(1) chain_world_serves _ b(2,3)] b(1,4) show ?thesis
    by (auto simp: checkpoint_ledger_def chain_world_def quiet_defs sample_chain_def from_ledger_def last_covered_def)
qed

end
