(* ===== verification/Indexer_Refinement.thy ===== *)
theory Indexer_Refinement imports Indexer_Safety begin

text \<open>
  The indexer as an abstract machine and the proof that its ticks implement it.  The machine keeps
  the set of events it has seen and, per contract, the ledger it has reached and the ledgers it
  stopped at; it vouches for having seen everything up to the ledger it has reached, but for the
  events of the ledgers it stopped at.  It can see one more event, move a contract's ledger forward
  when everything before the new ledger has been seen, and move it back.  A tick of the worker, with its lease, polls, database
  faults and partial batches, is a run of that machine.
\<close>

section \<open>The abstract machine\<close>








section \<open>The abstraction\<close>






section \<open>Ticks are runs\<close>










end
