(* ===== verification/Scheduled_Jobs.thy ===== *)
theory Scheduled_Jobs imports Reconciliation begin

text \<open>
  \<open>jobs/scheduled.ts\<close>: the periodic reconciliation.  Every reconciliation is a guarded step, so a
  failing one never keeps the rest from being attempted; only the queries that list what is known
  can end a pass early.
\<close>

definition safeStep :: "unit task \<Rightarrow> unit task" where
  "safeStep step = catchM step (\<lambda>_. ret ())"

definition discovered :: "js_num list \<Rightarrow> jsval \<Rightarrow> exn + js_num list" where
  "discovered knownMarketIds next = (let nextMarketId = js_Number next in
     if \<not> js_isSafeInteger nextMarketId \<or> js_lt nextMarketId (Fin 1)
     then Inl (Error (''Invalid next market id: '' @ num_to_string nextMarketId))
     else Inr (js_set (knownMarketIds @ (case nextMarketId of
       Fin q \<Rightarrow> map (\<lambda>i. Fin (of_int i)) [1..\<lfloor>q\<rfloor> - 1] | _ \<Rightarrow> []))))"

definition discoverMarketIds :: "manifest \<Rightarrow> js_num list \<Rightarrow> js_num list task" where
  "discoverMarketIds m knownMarketIds = catchM
     (bindM (getNextMarketId m) (\<lambda>next. liftE (discovered knownMarketIds next)))
     (\<lambda>_. ret knownMarketIds)"

definition reconcile_lps :: "manifest \<Rightarrow> string \<Rightarrow> int \<Rightarrow> js_num option \<Rightarrow> unit task" where
  "reconcile_lps m network latestLedger poolId = (case poolId of None \<Rightarrow> ret ()
     | Some p \<Rightarrow> bindM (listKnownLpOwners network p) (\<lambda>lpOwners.
         forM lpOwners (\<lambda>owner. safeStep (reconcileLpPosition m p owner latestLedger))))"

definition reconcile_one_market :: "manifest \<Rightarrow> string \<Rightarrow> int \<Rightarrow> (js_num \<times> js_num) list \<Rightarrow> js_num \<Rightarrow> unit task" where
  "reconcile_one_market m network latestLedger pools marketId =
     thenM (safeStep (reconcileMarket m marketId latestLedger))
     (thenM (safeStep (reconcileVault m marketId latestLedger))
     (bindM (listKnownPositionOwners network marketId) (\<lambda>owners.
     thenM (forM owners (\<lambda>owner. safeStep (reconcileUserPosition m marketId owner latestLedger None)))
     (thenM (forM owners (\<lambda>owner. safeStep (reconcileUserVaultState m marketId owner latestLedger)))
     (reconcile_lps m network latestLedger (map_of (rev pools) marketId))))))"

definition jobs_pass :: "manifest \<Rightarrow> string \<Rightarrow> unit task" where
  "jobs_pass m network =
     bindM getLatestLedger (\<lambda>latestLedger.
     thenM (safeStep (reconcileGovernance m latestLedger))
     (bindM (listKnownMarketIds network) (\<lambda>known.
     bindM (discoverMarketIds m known) (\<lambda>marketIds.
     bindM (listKnownMarketPools network) (\<lambda>pools.
     thenM (forM marketIds (reconcile_one_market m network latestLedger pools))
     (bindM (listKnownTimelockActionIds network) (\<lambda>actionIds.
       forM actionIds (\<lambda>i. safeStep (reconcileTimelockAction m i latestLedger)))))))))"

definition set_jobs_running :: "bool \<Rightarrow> unit task" where
  "set_jobs_running b = modifyM (\<lambda>w. w\<lparr>jobs_running := b\<rparr>)"

definition jobs_tick :: "manifest \<Rightarrow> string \<Rightarrow> unit task" where
  "jobs_tick m network = bindM (getsM jobs_running) (\<lambda>running.
     if running then ret ()
     else thenM (set_jobs_running True)
       (thenM (catchM (jobs_pass m network) (\<lambda>_. ret ())) (set_jobs_running False)))"

definition jobs_start :: "manifest \<Rightarrow> string \<Rightarrow> unit task" where
  "jobs_start m network = bindM (getsM jobs_timer) (\<lambda>armed.
     if armed then ret ()
     else thenM (modifyM (\<lambda>w. w\<lparr>jobs_timer := True\<rparr>)) (jobs_tick m network))"

definition jobs_stop :: "unit task" where
  "jobs_stop = modifyM (\<lambda>w. w\<lparr>jobs_timer := False\<rparr>)"

section \<open>Discovery\<close>

text \<open>The markets of a pass are the known ones and every id below the factory's counter, each
  once; whatever the counter read does, the known ones are never lost.\<close>

lemma discovered_markets:
  assumes "discovered known nxt = Inr ids"
  shows "distinct ids \<and> (\<exists>n. js_Number nxt = Fin (of_int n) \<and> 1 \<le> n \<and>
      set ids = set known \<union> (\<lambda>i. Fin (of_int i)) ` {1..<n}) \<and>
    (\<exists>ids'. fst (discoverMarketIds m known w) = Inr ids' \<and> set known \<subseteq> set ids')"
proof -
  have ok: "\<exists>n. js_Number nxt = Fin (of_int n) \<and> 1 \<le> n \<and>
      ids = js_set (known @ map (\<lambda>i. Fin (of_int i)) [1..n - 1])"
    if d: "discovered known nxt = Inr ids" for ids nxt
  proof -
    obtain q where q: "js_Number nxt = Fin q"
      using d by (cases "js_Number nxt") (auto simp: discovered_def js_isSafeInteger_def)
    have int: "of_int \<lfloor>q\<rfloor> = q" "1 \<le> q"
      using d q by (auto simp: discovered_def Let_def js_isSafeInteger_def not_less split: if_splits)
    have "ids = js_set (known @ map (\<lambda>i. Fin (of_int i)) [1..\<lfloor>q\<rfloor> - 1])"
      using d q by (auto simp: discovered_def Let_def split: if_splits)
    then show ?thesis using q int by (intro exI [of _ "\<lfloor>q\<rfloor>"]) (auto simp: le_floor_iff)
  qed
  have upto: "set [1..n - 1] = {1..<n}" for n :: int by auto
  have fallback: "\<exists>ids. fst (discoverMarketIds m known w) = Inr ids \<and> set known \<subseteq> set ids"
    using ok by (auto simp: discoverMarketIds_def io_simps split: prod.splits sum.splits) fastforce
  show ?thesis using ok [OF assms] fallback upto by fastforce
qed

lemma discovered_markets_witness:
  "set (js_set ([Fin 2] @ map (\<lambda>i. Fin (of_int i)) [1..2])) = {Fin 2} \<union> (\<lambda>i. Fin (of_int i)) ` {1..<3 :: int}"
proof -
  have "discovered [Fin 2] (JNum (Fin 3)) = Inr (js_set ([Fin 2] @ map (\<lambda>i. Fin (of_int i)) [1..2]))"
    using isSafeInteger_of_int [of 3] by (simp add: discovered_def max_safe_def)
  from discovered_markets [OF this] show ?thesis
    by (auto simp del: set_js_set)
qed

section \<open>A pass never throws and never touches the indexer\<close>

lemma safeStep_returns [simp]: "\<exists>w'. safeStep s w = (Inr (), w')"
  by (auto simp: safeStep_def io_simps split: prod.splits sum.splits)

lemma forM_safeStep: "\<exists>w'. forM xs (\<lambda>x. safeStep (f x)) w = (Inr (), w')"
proof (induction xs arbitrary: w)
  case Nil
  then show ?case by (simp add: ret_def)
next
  case (Cons x xs)
  obtain w1 where "safeStep (f x) w = (Inr (), w1)" using safeStep_returns by blast
  with Cons.IH [of w1] show ?case by (simp add: thenM_app)
qed

lemma safeStep_keeps: "recon.keeps s \<Longrightarrow> recon.keeps (safeStep s)"
  unfolding safeStep_def by (intro recon.steps)

lemma jobs_pass_keeps: "recon.keeps (jobs_pass m n)"
  unfolding jobs_pass_def reconcile_one_market_def reconcile_lps_def discoverMarketIds_def read_defs
    listKnownMarketIds_def listKnownMarketPools_def listKnownPositionOwners_def
    listKnownLpOwners_def listKnownTimelockActionIds_def
  by (intro recon.steps safeStep_keeps recon.reconcile_keeps)

text \<open>A scheduled pass never throws, clears its running flag on every path, does nothing while
  another pass runs, and leaves the indexer's checkpoints, events, trades, claims and locks alone.\<close>

lemma jobs_tick_isolated:
  "fst (jobs_tick m n w) = Inr () \<and>
   jobs_running (snd (jobs_tick m n w)) = jobs_running w \<and>
   indexer_state (snd (jobs_tick m n w)) = indexer_state w \<and>
   (jobs_running w \<longrightarrow> snd (jobs_tick m n w) = w)"
proof (cases "jobs_running w")
  case True
  then show ?thesis by (simp add: jobs_tick_def io_simps)
next
  case False
  let ?body = "catchM (jobs_pass m n) (\<lambda>_. ret ())"
  have "recon.keeps ?body" by (intro recon.steps jobs_pass_keeps)
  then have keep: "indexer_state (snd (?body v)) = indexer_state v" for v by (rule evolves_same)
  have "fst (?body v) = Inr ()" for v
    by (simp add: catchM_def ret_def split: prod.split sum.split)
  then obtain w' where w': "?body (w\<lparr>jobs_running := True\<rparr>) = (Inr (), w')"
    by (metis prod.collapse)
  have "indexer_state w' = indexer_state w"
    using keep [of "w\<lparr>jobs_running := True\<rparr>"] w' by (simp add: indexer_state_def oracles_def)
  then show ?thesis
    using False w' by (simp add: jobs_tick_def set_jobs_running_def io_simps thenM_app bindM_app
        indexer_state_def oracles_def del: catchM_app)
qed

definition jobs_manifest :: manifest where
  "jobs_manifest = \<lparr>m_network = ''testnet'', m_contracts = [], m_hash = [],
     m_admin = [], m_governance_authority = []\<rparr>"

lemma jobs_tick_isolated_witness:
  "snd (jobs_tick jobs_manifest ''testnet'' (quiet_world\<lparr>jobs_running := True\<rparr>)) =
     quiet_world\<lparr>jobs_running := True\<rparr>"
  using jobs_tick_isolated [of jobs_manifest "''testnet''" "quiet_world\<lparr>jobs_running := True\<rparr>"] by simp

end
