(* ===== verification/Sponsor_Policy.thy ===== *)
theory Sponsor_Policy imports JS_Values Config begin

text \<open>
  The sponsorship vocabulary (\<open>sponsorship/types.ts\<close>), the contract and method allowlist
  (\<open>allowlist.ts\<close>), the fee policy (\<open>fees.ts\<close>) and the request's shape (\<open>request.ts\<close>).  Stroop
  amounts are \<open>bigint\<close>s, so integers.
\<close>

section \<open>Errors\<close>

datatype sponsorship_code = SPONSORSHIP_DISABLED | MALFORMED_XDR | UNSUPPORTED_ENVELOPE
  | UNSUPPORTED_SOURCE | BAD_SIGNATURE | EXPIRED_TRANSACTION | DISALLOWED_CONTRACT
  | DISALLOWED_METHOD | FEE_LIMIT_EXCEEDED | QUOTA_EXCEEDED | BUDGET_EXCEEDED
  | TRANSACTION_REPLAY | RPC_REJECTED | TRANSACTION_FAILED | CONFIRMATION_TIMEOUT

text \<open>\<open>OtherError\<close> is any other exception; \<open>NotReturned\<close> is a polling loop cut off by the model's
  fuel.\<close>

datatype sponsorship_error = SponsorshipError sponsorship_code string bool | OtherError string
  | NotReturned

record public_error =
  pe_code :: sponsorship_code
  pe_message :: string
  pe_retryable :: bool

definition publicSponsorshipError :: "sponsorship_error \<Rightarrow> public_error" where
  "publicSponsorshipError e = (case e of
     SponsorshipError c m r \<Rightarrow> \<lparr>pe_code = c, pe_message = m, pe_retryable = r\<rparr>
   | _ \<Rightarrow> \<lparr>pe_code = RPC_REJECTED,
       pe_message = ''Sponsored transaction could not be submitted.'', pe_retryable = True\<rparr>)"

definition sponsorshipHttpStatus :: "sponsorship_code \<Rightarrow> nat" where
  "sponsorshipHttpStatus code =
    (if code = SPONSORSHIP_DISABLED then 503
     else if code = QUOTA_EXCEEDED \<or> code = BUDGET_EXCEEDED then 429
     else if code = TRANSACTION_REPLAY then 409
     else if code = RPC_REJECTED then 502
     else if code = CONFIRMATION_TIMEOUT then 504
     else if code = TRANSACTION_FAILED then 422
     else 400)"

record sponsorship_result =
  sr_innerHash :: string
  sr_outerHash :: string
  sr_returnValueXdr :: "string option"

section \<open>Allowlist\<close>

definition SPONSORED_METHODS :: "(string \<times> string list) list" where
  "SPONSORED_METHODS = [
     (''mock_usdc'', []),
     (''dike_timelock'', [''execute'']),
     (''dike_governance'', []),
     (''market_registry'', [''close_trading'']),
     (''conditional_tokens'', []),
     (''collateral_vault'', [''redeem_resolved'', ''redeem_cancelled'', ''sweep_protocol_fees'']),
     (''amm'', [''buy_yes'', ''buy_no'', ''buy_child_yes'', ''buy_child_no'', ''sell_yes'', ''sell_no'',
        ''add_liquidity'', ''remove_liquidity'', ''claim_lp_fees'']),
     (''fee_manager'', []),
     (''cod_oracle'', [''request_resolution'', ''propose_outcome'', ''dispute_outcome'',
        ''finalize_undisputed'', ''escalate_to_council'']),
     (''council_of_dike'', [''commit_vote'', ''reveal_vote'', ''finalize_and_report_case'', ''claim_reward'']),
     (''market_factory'', [''create_market''])]"

definition sponsored_module :: "manifest \<Rightarrow> string \<Rightarrow> string option" where
  "sponsored_module m contractId =
     find (\<lambda>name. map_of (m_contracts m) name = Some contractId) (map fst SPONSORED_METHODS)"

definition assertAllowedContractCall ::
  "manifest \<Rightarrow> string \<Rightarrow> string \<Rightarrow> sponsorship_error + unit" where
  "assertAllowedContractCall m contractId meth = (case sponsored_module m contractId of
     None \<Rightarrow> Inl (SponsorshipError DISALLOWED_CONTRACT ''The contract is not sponsored by Dike.'' False)
   | Some mdl \<Rightarrow> if meth \<notin> set (or_else (map_of SPONSORED_METHODS mdl) [])
       then Inl (SponsorshipError DISALLOWED_METHOD ''The contract method is not sponsored by Dike.'' False)
       else Inr ())"

section \<open>Fees\<close>

record fee_policy =
  baseFeeStroops :: string
  maxTotalFeeStroops :: string
  maxResourceFeeStroops :: string

record fee_quote =
  innerInclusionFee :: int
  outerFee :: int
  quoteResourceFee :: int

text \<open>\<open>BASE_FEE\<close> of the Stellar library.\<close>

definition BASE_FEE :: int where
  "BASE_FEE = 100"

definition fee_error :: "string \<Rightarrow> sponsorship_error" where
  "fee_error m = SponsorshipError FEE_LIMIT_EXCEEDED m False"

definition bigint_of :: "string \<Rightarrow> sponsorship_error + int" where
  "bigint_of s = (case js_BigInt_of_string s of
     None \<Rightarrow> Inl (OtherError (''SyntaxError: Cannot convert '' @ s @ '' to a BigInt'')) | Some i \<Rightarrow> Inr i)"

definition quote_fees :: "int \<Rightarrow> int \<Rightarrow> int \<Rightarrow> int \<Rightarrow> int \<Rightarrow> sponsorship_error + fee_quote" where
  "quote_fees baseFee maxTotalFee maxResourceFee innerFee resourceFee =
    (let inclusion = innerFee - resourceFee; outer = baseFee * 2 + resourceFee in
     if baseFee < BASE_FEE \<or> inclusion < BASE_FEE \<or> inclusion > baseFee
       then Inl (fee_error ''The inner inclusion fee is outside the sponsor policy.'')
     else if resourceFee < 0 \<or> resourceFee > maxResourceFee
       then Inl (fee_error ''The Soroban resource fee exceeds the sponsor policy.'')
     else if outer < innerFee \<or> outer > maxTotalFee
       then Inl (fee_error ''The sponsored fee exceeds the sponsor policy.'')
     else Inr \<lparr>innerInclusionFee = inclusion, outerFee = outer, quoteResourceFee = resourceFee\<rparr>)"

definition quoteSponsoredFee :: "int \<Rightarrow> int \<Rightarrow> fee_policy \<Rightarrow> sponsorship_error + fee_quote" where
  "quoteSponsoredFee innerFee resourceFee policy =
    (case bigint_of (baseFeeStroops policy) of Inl e \<Rightarrow> Inl e | Inr baseFee \<Rightarrow>
     case bigint_of (maxTotalFeeStroops policy) of Inl e \<Rightarrow> Inl e | Inr maxTotalFee \<Rightarrow>
     case bigint_of (maxResourceFeeStroops policy) of Inl e \<Rightarrow> Inl e | Inr maxResourceFee \<Rightarrow>
       quote_fees baseFee maxTotalFee maxResourceFee innerFee resourceFee)"

section \<open>Request\<close>

definition MAX_XDR_BYTES :: nat where
  "MAX_XDR_BYTES = 150000"

definition MAX_XDR_BASE64_LENGTH :: nat where
  "MAX_XDR_BASE64_LENGTH = (MAX_XDR_BYTES + 2) div 3 * 4"

definition is_base64_char :: "char \<Rightarrow> bool" where
  "is_base64_char c \<longleftrightarrow> (let n = of_char c :: nat in
     (65 \<le> n \<and> n \<le> 90) \<or> (97 \<le> n \<and> n \<le> 122) \<or> (48 \<le> n \<and> n \<le> 57) \<or> n = 43 \<or> n = 47)"

definition padding :: "string \<Rightarrow> nat" where
  "padding s = length (takeWhile (\<lambda>c. c = CHR ''='') (rev s))"

text \<open>Whole groups of four, the last one possibly padded by one or two \<open>=\<close>.\<close>

definition isBase64 :: "string \<Rightarrow> bool" where
  "isBase64 s \<longleftrightarrow> length s mod 4 = 0 \<and> padding s \<le> 2 \<and>
     list_all is_base64_char (take (length s - padding s) s)"

definition base64_decoded_length :: "string \<Rightarrow> nat" where
  "base64_decoded_length s = 3 * (length s div 4) - padding s"

definition parseSponsorshipRequest :: "jsval \<Rightarrow> sponsorship_error + string" where
  "parseSponsorshipRequest body =
    (let malformed = (\<lambda>m. Inl (SponsorshipError MALFORMED_XDR m False)) in
     case body of
       JObj [(k, JStr xdr)] \<Rightarrow>
         if k \<noteq> ''signedTransactionXdr'' \<or> xdr = [] \<or> MAX_XDR_BASE64_LENGTH < length xdr \<or> \<not> isBase64 xdr
           then malformed ''signedTransactionXdr must be base64 XDR.''
         else if base64_decoded_length xdr = 0 \<or> MAX_XDR_BYTES < base64_decoded_length xdr
           then malformed ''signedTransactionXdr exceeds the size limit.''
         else Inr xdr
     | _ \<Rightarrow> malformed ''signedTransactionXdr must be base64 XDR.'')"

section \<open>Properties\<close>

text \<open>A call is sponsored exactly when its contract is one of the manifest's and its method is on
  that contract's list; in particular no contract with an empty list is ever sponsored.\<close>

lemma assertAllowedContractCall_iff:
  "assertAllowedContractCall m contractId meth = Inr () \<longleftrightarrow>
    (\<exists>mdl methods. sponsored_module m contractId = Some mdl \<and> map_of (m_contracts m) mdl = Some contractId \<and>
      (mdl, methods) \<in> set SPONSORED_METHODS \<and> meth \<in> set methods)"
proof -
  have unique: "(mdl, methods) \<in> set SPONSORED_METHODS \<longleftrightarrow> map_of SPONSORED_METHODS mdl = Some methods" for mdl methods
    by (rule map_of_eq_Some_iff [symmetric]) (simp add: SPONSORED_METHODS_def)
  have found: "sponsored_module m contractId = Some mdl \<Longrightarrow> map_of (m_contracts m) mdl = Some contractId" for mdl
    by (auto simp: sponsored_module_def find_Some_iff)
  show ?thesis
  proof (cases "sponsored_module m contractId")
    case None
    then show ?thesis by (simp add: assertAllowedContractCall_def)
  next
    case (Some mdl)
    from found [OF this] show ?thesis
      by (cases "map_of SPONSORED_METHODS mdl")
        (simp_all add: Some unique assertAllowedContractCall_def or_else_def)
  qed
qed

text \<open>An accepted quote pays twice the policy's base fee plus the declared resource fee, never more
  than the policy allows and never less than the inner transaction declares; the check that it
  covers the inner fee can never fail once the inclusion fee has passed.\<close>

lemma quote_fees_iff:
  "quote_fees base maxTotal maxResource inner resource = Inr q \<longleftrightarrow>
    BASE_FEE \<le> inner - resource \<and> inner - resource \<le> base \<and> 0 \<le> resource \<and> resource \<le> maxResource \<and>
    2 * base + resource \<le> maxTotal \<and>
    q = \<lparr>innerInclusionFee = inner - resource, outerFee = 2 * base + resource, quoteResourceFee = resource\<rparr>"
  by (auto simp: quote_fees_def Let_def BASE_FEE_def)

lemma quoteSponsoredFee_cases:
  "quoteSponsoredFee inner resource policy = Inr q \<Longrightarrow>
    \<exists>base maxTotal maxResource. js_BigInt_of_string (baseFeeStroops policy) = Some base \<and>
      js_BigInt_of_string (maxTotalFeeStroops policy) = Some maxTotal \<and>
      js_BigInt_of_string (maxResourceFeeStroops policy) = Some maxResource \<and>
      quote_fees base maxTotal maxResource inner resource = Inr q"
  by (auto simp: quoteSponsoredFee_def bigint_of_def split: sum.splits option.splits)

text \<open>What an accepted quote guarantees.\<close>

lemma quoteSponsoredFee_bounds:
  assumes "quoteSponsoredFee inner resource policy = Inr q"
  shows "\<exists>base maxTotal maxResource. js_BigInt_of_string (baseFeeStroops policy) = Some base \<and>
    js_BigInt_of_string (maxTotalFeeStroops policy) = Some maxTotal \<and>
    js_BigInt_of_string (maxResourceFeeStroops policy) = Some maxResource \<and>
    outerFee q = 2 * base + resource \<and> inner < outerFee q \<and> outerFee q \<le> maxTotal \<and>
    0 \<le> quoteResourceFee q \<and> quoteResourceFee q \<le> maxResource \<and>
    BASE_FEE \<le> innerInclusionFee q \<and> innerInclusionFee q \<le> base"
  using quoteSponsoredFee_cases [OF assms] unfolding quote_fees_iff
  by (fastforce simp: BASE_FEE_def)

definition default_policy :: fee_policy where
  "default_policy = \<lparr>baseFeeStroops = ''2000000'', maxTotalFeeStroops = ''10000000'',
     maxResourceFeeStroops = ''8000000''\<rparr>"

lemma default_policy_values:
  "js_BigInt_of_string ''2000000'' = Some 2000000" "js_BigInt_of_string ''10000000'' = Some 10000000"
  "js_BigInt_of_string ''8000000'' = Some 8000000"
  by (simp_all add: BigInt_digits all_digits_def is_digit_def digits_val_def digit_val_def)

lemma quoteSponsoredFee_bounds_witness:
  "\<exists>q. quoteSponsoredFee 2001000 1000 default_policy = Inr q \<and> 2001000 < outerFee q"
proof -
  obtain q where q: "quoteSponsoredFee 2001000 1000 default_policy = Inr q"
    by (simp add: quoteSponsoredFee_def bigint_of_def default_policy_def default_policy_values
        quote_fees_def BASE_FEE_def)
  with quoteSponsoredFee_bounds [OF q] show ?thesis by auto
qed

text \<open>An accepted request carries canonical base64 text of between 1 and 150000 decoded bytes.\<close>

lemma parseSponsorshipRequest_sound:
  assumes "parseSponsorshipRequest body = Inr xdr"
  shows "body = JObj [(''signedTransactionXdr'', JStr xdr)] \<and> isBase64 xdr \<and>
    0 < base64_decoded_length xdr \<and> base64_decoded_length xdr \<le> MAX_XDR_BYTES"
  using assms
  by (auto simp: parseSponsorshipRequest_def Let_def split: jsval.splits list.splits prod.splits if_splits)

lemma parseSponsorshipRequest_sound_witness:
  "parseSponsorshipRequest (JObj [(''signedTransactionXdr'', JStr ''AAAA'')]) = Inr ''AAAA'' \<and>
    isBase64 ''AAAA''"
proof -
  have run: "parseSponsorshipRequest (JObj [(''signedTransactionXdr'', JStr ''AAAA'')]) = Inr ''AAAA''"
    by (simp add: parseSponsorshipRequest_def Let_def isBase64_def padding_def is_base64_char_def
        base64_decoded_length_def MAX_XDR_BYTES_def MAX_XDR_BASE64_LENGTH_def)
  from parseSponsorshipRequest_sound [OF run] run show ?thesis by simp
qed

end
