(* ===== verification/Sponsor_Validator.thy ===== *)
theory Sponsor_Validator imports Sponsor_Policy begin

text \<open>
  What the service checks of a signed transaction before it spends anything: the shape of the inner
  transaction (\<open>sponsorship/validator.ts\<close>), its one source signature (\<open>signature.ts\<close>), and the
  fee bump it wraps it in (\<open>fee-bump.ts\<close>, \<open>signer.ts\<close>).

  The Stellar library is the parameter \<open>sdk\<close>: decoding an envelope, recognising and decoding a
  public key, encoding a contract address, verifying a signature, and building and signing a fee
  bump.  A decoded transaction is the view of it that the code reads; a library function that may
  throw returns an option.
\<close>

section \<open>The Stellar library\<close>

datatype invoked_address = ContractAddress "nat list" | OtherAddress

datatype host_function = InvokeContract invoked_address string | OtherHostFunction string

datatype operation = InvokeHostFunction host_function | OtherOperation string

record decorated_signature =
  sig_hint :: "nat list"
  sig_bytes :: "nat list"

text \<open>\<open>tx_resourceFee\<close> is the 64-bit resource fee of the Soroban data, absent when the extension has
  none; \<open>tx_maxTime\<close> is absent without time bounds.\<close>

record transaction =
  tx_source :: string
  tx_signatures :: "decorated_signature list"
  tx_maxTime :: "string option"
  tx_operations :: "operation list"
  tx_resourceFee :: "int option"
  tx_fee :: string
  tx_hash :: "nat list"

datatype envelope = Inner transaction | FeeBumpEnvelope

record fee_bump =
  fb_fee :: string
  fb_source :: string
  fb_inner :: transaction
  fb_signed :: bool
  fb_hash :: "nat list"
  fb_xdr :: string

record sdk =
  fromXDR :: "string \<Rightarrow> string \<Rightarrow> envelope option"
  isValidEd25519PublicKey :: "string \<Rightarrow> bool"
  decodeEd25519PublicKey :: "string \<Rightarrow> nat list option"
  encodeContract :: "nat list \<Rightarrow> string"
  verifySignature :: "string \<Rightarrow> nat list \<Rightarrow> nat list \<Rightarrow> bool option"
  buildFeeBumpTransaction :: "string \<Rightarrow> string \<Rightarrow> transaction \<Rightarrow> string \<Rightarrow> fee_bump option"
  publicKeyOfSeed :: "string \<Rightarrow> string option"
  signWithSeed :: "string \<Rightarrow> fee_bump \<Rightarrow> fee_bump"

section \<open>The inner transaction\<close>

record parsed_transaction =
  p_xdr :: string
  p_transaction :: transaction
  p_source :: string
  p_hash :: string
  p_contractId :: string
  p_method :: string
  p_innerFee :: int
  p_resourceFee :: int

definition MAX_VALIDITY_SECONDS :: int where
  "MAX_VALIDITY_SECONDS = 15 * 60"

abbreviation refuse :: "sponsorship_code \<Rightarrow> string \<Rightarrow> sponsorship_error + 'a" where
  "refuse c m \<equiv> Inl (SponsorshipError c m False)"

text \<open>The envelope, its source, its signatures and its validity, up to the operation.\<close>

definition decode_inner :: "sdk \<Rightarrow> string \<Rightarrow> string \<Rightarrow> sponsorship_error + transaction" where
  "decode_inner lib xdr passphrase = (case fromXDR lib xdr passphrase of
     None \<Rightarrow> refuse MALFORMED_XDR ''Could not decode the signed transaction.''
   | Some FeeBumpEnvelope \<Rightarrow> refuse UNSUPPORTED_ENVELOPE ''Fee bumps cannot be nested.''
   | Some (Inner tx) \<Rightarrow> Inr tx)"

definition check_validity :: "int \<Rightarrow> int \<Rightarrow> string option \<Rightarrow> sponsorship_error + unit" where
  "check_validity nowSeconds maxValiditySeconds maxTime = (case maxTime of
     None \<Rightarrow> refuse EXPIRED_TRANSACTION ''The signed transaction has expired.''
   | Some t \<Rightarrow>
       if js_le (js_Number_of_string t) (Fin (of_int nowSeconds))
         then refuse EXPIRED_TRANSACTION ''The signed transaction has expired.''
       else if js_lt (Fin (of_int (nowSeconds + maxValiditySeconds))) (js_Number_of_string t)
         then refuse EXPIRED_TRANSACTION ''The signed transaction is valid for too long.''
       else Inr ())"

definition invoked_contract :: "operation list \<Rightarrow> sponsorship_error + nat list \<times> string" where
  "invoked_contract ops = (case ops of
     [InvokeHostFunction (InvokeContract (ContractAddress c) f)] \<Rightarrow> Inr (c, f)
   | [InvokeHostFunction (InvokeContract OtherAddress f)] \<Rightarrow>
       refuse DISALLOWED_CONTRACT ''The invocation must target a contract address.''
   | [InvokeHostFunction (OtherHostFunction n)] \<Rightarrow>
       refuse UNSUPPORTED_ENVELOPE ''Only contract invocations may be sponsored.''
   | _ \<Rightarrow> refuse UNSUPPORTED_SOURCE ''Only one Soroban contract operation may be sponsored.'')"

text \<open>\<open>nowSeconds\<close> is \<open>Math.floor(Date.now() / 1000)\<close>.\<close>

definition parseSponsoredInnerTransaction ::
  "sdk \<Rightarrow> string \<Rightarrow> string \<Rightarrow> int \<Rightarrow> int \<Rightarrow> sponsorship_error + parsed_transaction" where
  "parseSponsoredInnerTransaction lib xdr passphrase nowSeconds maxValiditySeconds =
    (case decode_inner lib xdr passphrase of Inl e \<Rightarrow> Inl e | Inr tx \<Rightarrow>
     if \<not> isValidEd25519PublicKey lib (tx_source tx)
       then refuse UNSUPPORTED_SOURCE ''The inner source must be a standard G account.''
     else if tx_signatures tx = []
       then refuse BAD_SIGNATURE ''The inner transaction has no source signature.''
     else (case check_validity nowSeconds maxValiditySeconds (tx_maxTime tx) of Inl e \<Rightarrow> Inl e | Inr _ \<Rightarrow>
     case invoked_contract (tx_operations tx) of Inl e \<Rightarrow> Inl e | Inr (contract, meth) \<Rightarrow>
     case tx_resourceFee tx of
       None \<Rightarrow> refuse UNSUPPORTED_ENVELOPE ''The Soroban transaction is not assembled.''
     | Some resourceFee \<Rightarrow>
       (case bigint_of (tx_fee tx) of Inl e \<Rightarrow> Inl e | Inr innerFee \<Rightarrow>
        if resourceFee < 0 \<or> innerFee < resourceFee
          then refuse FEE_LIMIT_EXCEEDED ''The signed transaction has invalid fee data.''
        else Inr \<lparr>p_xdr = xdr, p_transaction = tx, p_source = tx_source tx,
          p_hash = hex_of_bytes (tx_hash tx), p_contractId = encodeContract lib contract,
          p_method = meth, p_innerFee = innerFee, p_resourceFee = resourceFee\<rparr>)))"

section \<open>Its signature\<close>

definition verifyInnerSourceSignature :: "sdk \<Rightarrow> parsed_transaction \<Rightarrow> sponsorship_error + unit" where
  "verifyInnerSourceSignature lib parsed = (case tx_signatures (p_transaction parsed) of
     [signature] \<Rightarrow>
       (case decodeEd25519PublicKey lib (p_source parsed) of
          None \<Rightarrow> refuse BAD_SIGNATURE ''The source signature is invalid.''
        | Some publicKey \<Rightarrow>
            if sig_hint signature \<noteq> drop (length publicKey - 4) publicKey
              then refuse BAD_SIGNATURE ''The source signature hint does not match.''
            else if verifySignature lib (p_source parsed) (tx_hash (p_transaction parsed)) (sig_bytes signature) = Some True
              then Inr ()
            else refuse BAD_SIGNATURE ''The source signature is invalid.'')
   | _ \<Rightarrow> refuse BAD_SIGNATURE ''Exactly one source signature is required.'')"

section \<open>The fee bump\<close>

record sponsor_signer =
  signer_publicKey :: string
  signer_sign :: "fee_bump \<Rightarrow> fee_bump"

definition createSeedSponsorSigner :: "sdk \<Rightarrow> string \<Rightarrow> sponsorship_error + sponsor_signer" where
  "createSeedSponsorSigner lib seed = (case publicKeyOfSeed lib seed of
     None \<Rightarrow> Inl (OtherError ''invalid encoded string'')
   | Some pk \<Rightarrow> Inr \<lparr>signer_publicKey = pk, signer_sign = signWithSeed lib seed\<rparr>)"

record built_fee_bump =
  b_transaction :: fee_bump
  b_xdr :: string
  b_hash :: string
  b_quote :: fee_quote

definition buildAndSignFeeBump ::
  "sdk \<Rightarrow> parsed_transaction \<Rightarrow> fee_policy \<Rightarrow> sponsor_signer \<Rightarrow> string \<Rightarrow> sponsorship_error + built_fee_bump" where
  "buildAndSignFeeBump lib parsed policy signer passphrase =
    (case quoteSponsoredFee (p_innerFee parsed) (p_resourceFee parsed) policy of Inl e \<Rightarrow> Inl e | Inr q \<Rightarrow>
     case buildFeeBumpTransaction lib (signer_publicKey signer) (baseFeeStroops policy)
         (p_transaction parsed) passphrase of
       None \<Rightarrow> Inl (OtherError ''the fee bump could not be built'')
     | Some tx \<Rightarrow> (case bigint_of (fb_fee tx) of Inl e \<Rightarrow> Inl e | Inr fee \<Rightarrow>
         if fee \<noteq> outerFee q
           then refuse FEE_LIMIT_EXCEEDED ''The fee-bump fee did not match the sponsor policy.''
         else (let signed = signer_sign signer tx in
           Inr \<lparr>b_transaction = signed, b_xdr = fb_xdr signed, b_hash = hex_of_bytes (fb_hash signed),
             b_quote = q\<rparr>)))"

section \<open>Properties\<close>

lemma invoked_contract_Inr:
  "invoked_contract ops = Inr (c, f) \<Longrightarrow> ops = [InvokeHostFunction (InvokeContract (ContractAddress c) f)]"
  by (simp add: invoked_contract_def split: list.splits operation.splits host_function.splits
      invoked_address.splits)

lemma invoked_contract_single [simp]:
  "invoked_contract [InvokeHostFunction (InvokeContract (ContractAddress c) f)] = Inr (c, f)"
  by (simp add: invoked_contract_def)

lemma check_validity_int:
  "check_validity now window (Some (int_str n)) = Inr () \<Longrightarrow> \<bar>n\<bar> \<le> max_safe \<Longrightarrow> now < n \<and> n \<le> now + window"
  by (auto simp: check_validity_def Number_int_str num_of_int_safe js_le_def js_num_eq_def
      split: if_splits simp flip: of_int_add)

lemma verified_signature:
  "verifyInnerSourceSignature lib p = Inr () \<Longrightarrow>
   \<exists>s key. tx_signatures (p_transaction p) = [s] \<and> decodeEd25519PublicKey lib (p_source p) = Some key \<and>
     sig_hint s = drop (length key - 4) key \<and>
     verifySignature lib (p_source p) (tx_hash (p_transaction p)) (sig_bytes s) = Some True"
  by (auto simp: verifyInnerSourceSignature_def split: list.splits option.splits if_splits)

lemma parsed_transaction_cases:
  assumes "parseSponsoredInnerTransaction lib xdr passphrase now window = Inr p"
  obtains tx c f where "fromXDR lib xdr passphrase = Some (Inner tx)" "p_transaction p = tx"
    "p_source p = tx_source tx" "p_hash p = hex_of_bytes (tx_hash tx)" "isValidEd25519PublicKey lib (tx_source tx)"
    "check_validity now window (tx_maxTime tx) = Inr ()"
    "tx_operations tx = [InvokeHostFunction (InvokeContract (ContractAddress c) f)]"
    "p_contractId p = encodeContract lib c" "p_method p = f" "tx_resourceFee tx = Some (p_resourceFee p)"
    "js_BigInt_of_string (tx_fee tx) = Some (p_innerFee p)" "0 \<le> p_resourceFee p"
    "p_resourceFee p \<le> p_innerFee p"
proof -
  obtain tx where tx: "fromXDR lib xdr passphrase = Some (Inner tx)"
    using assms by (auto simp: parseSponsoredInnerTransaction_def decode_inner_def
        split: option.splits envelope.splits)
  obtain c f where cf: "invoked_contract (tx_operations tx) = Inr (c, f)"
    using assms by (auto simp: parseSponsoredInnerTransaction_def decode_inner_def tx split: if_splits sum.splits)
  show thesis
    using assms
    by (intro that [OF tx, of c f])
      (auto simp: parseSponsoredInnerTransaction_def decode_inner_def tx bigint_of_def cf
        invoked_contract_Inr [OF cf] split: if_splits sum.splits option.splits)
qed

text \<open>C33: a transaction that passes the validator and the signature check invokes exactly one contract
  function, carries exactly one signature, which the library verifies over its hash for its source
  account, expires within the next \<open>window\<close> seconds but not yet, and declares a fee that covers a
  non-negative resource fee.\<close>

lemma validated_transaction:
  assumes "parseSponsoredInnerTransaction lib xdr passphrase now window = Inr p"
    and "verifyInnerSourceSignature lib p = Inr ()"
    and "tx_maxTime (p_transaction p) = Some (int_str n)" and "\<bar>n\<bar> \<le> max_safe"
  shows "fromXDR lib xdr passphrase = Some (Inner (p_transaction p)) \<and> now < n \<and> n \<le> now + window \<and>
    (\<exists>c. tx_operations (p_transaction p) =
        [InvokeHostFunction (InvokeContract (ContractAddress c) (p_method p))] \<and>
      p_contractId p = encodeContract lib c) \<and>
    (\<exists>s. tx_signatures (p_transaction p) = [s] \<and>
      verifySignature lib (tx_source (p_transaction p)) (tx_hash (p_transaction p)) (sig_bytes s) = Some True) \<and>
    0 \<le> p_resourceFee p \<and> p_resourceFee p \<le> p_innerFee p"
proof -
  obtain s where s: "tx_signatures (p_transaction p) = [s]"
      "verifySignature lib (p_source p) (tx_hash (p_transaction p)) (sig_bytes s) = Some True"
    using verified_signature [OF assms(2)] by blast
  show ?thesis
    using assms(1)
  proof (rule parsed_transaction_cases)
    fix tx c f
    assume "fromXDR lib xdr passphrase = Some (Inner tx)" "p_transaction p = tx" "p_source p = tx_source tx"
      "check_validity now window (tx_maxTime tx) = Inr ()"
      "tx_operations tx = [InvokeHostFunction (InvokeContract (ContractAddress c) f)]"
      "p_contractId p = encodeContract lib c" "p_method p = f"
      "0 \<le> p_resourceFee p" "p_resourceFee p \<le> p_innerFee p"
    with s assms(3,4) check_validity_int [of now window n] show ?thesis by simp
  qed
qed

definition sample_transaction :: transaction where
  "sample_transaction = \<lparr>tx_source = ''GA'', tx_signatures = [\<lparr>sig_hint = [1, 2, 3, 4], sig_bytes = [9]\<rparr>],
     tx_maxTime = Some (int_str 1000), tx_operations = [InvokeHostFunction (InvokeContract (ContractAddress [7]) ''buy_yes'')],
     tx_resourceFee = Some 1000, tx_fee = int_str 2001000, tx_hash = [171]\<rparr>"

definition sample_sdk :: sdk where
  "sample_sdk = \<lparr>fromXDR = (\<lambda>_ _. Some (Inner sample_transaction)), isValidEd25519PublicKey = (\<lambda>_. True),
     decodeEd25519PublicKey = (\<lambda>_. Some [0, 1, 2, 3, 4]), encodeContract = (\<lambda>_. ''CAMM''),
     verifySignature = (\<lambda>_ h s. Some (h = [171] \<and> s = [9])),
     buildFeeBumpTransaction = (\<lambda>pk base tx _. Some \<lparr>fb_fee = int_str 4001000, fb_source = pk, fb_inner = tx,
       fb_signed = False, fb_hash = [205], fb_xdr = ''BBBB''\<rparr>),
     publicKeyOfSeed = (\<lambda>_. Some ''GSPONSOR''), signWithSeed = (\<lambda>_ tx. tx\<lparr>fb_signed := True\<rparr>)\<rparr>"

definition sample_parsed :: parsed_transaction where
  "sample_parsed = \<lparr>p_xdr = ''AAAA'', p_transaction = sample_transaction, p_source = ''GA'', p_hash = hex_of_bytes [171],
     p_contractId = ''CAMM'', p_method = ''buy_yes'', p_innerFee = 2001000, p_resourceFee = 1000\<rparr>"

lemma sample_maxTime: "check_validity 500 900 (Some (int_str 1000)) = Inr ()"
proof -
  have "js_Number_of_string (int_str 1000) = Fin (of_int 1000)"
    by (simp only: Number_int_str) (rule num_of_int_safe, simp add: max_safe_def)
  then show ?thesis by (simp add: check_validity_def js_le_def js_num_eq_def)
qed

lemma sample_parse: "parseSponsoredInnerTransaction sample_sdk x p 500 900 = Inr (sample_parsed\<lparr>p_xdr := x\<rparr>)"
  by (simp add: parseSponsoredInnerTransaction_def decode_inner_def sample_sdk_def sample_transaction_def
      sample_maxTime invoked_contract_def bigint_of_def sample_parsed_def)

lemma sample_verified: "verifyInnerSourceSignature sample_sdk (sample_parsed\<lparr>p_xdr := x\<rparr>) = Inr ()"
  by (simp add: verifyInnerSourceSignature_def sample_sdk_def sample_parsed_def sample_transaction_def)

lemma validated_transaction_witness: "(500 :: int) < 1000 \<and> p_resourceFee sample_parsed \<le> p_innerFee sample_parsed"
  using validated_transaction [OF sample_parse sample_verified, where n = 1000]
  by (simp add: sample_parsed_def sample_transaction_def max_safe_def)

end
