(* ===== verification/Sponsor_Store.thy ===== *)
theory Sponsor_Store imports Sponsor_Validator World begin

text \<open>
  What the sponsorship service keeps in Redis: the rate and budget counters (\<open>sponsorship/quota.ts\<close>)
  and the result records and locks of replayed transactions (\<open>sponsorship/replay.ts\<close>).

  A Redis command or script is a program over the key space at the server's time; a script that
  errors keeps the effects it had.  An operation of the client can fail without being run or be run
  without being acknowledged.  A key holds an integer, a text or a replay record (for the JSON text
  that encodes it); it may have an expiry, from which on it reads as absent.
\<close>

section \<open>Redis\<close>

datatype replay_record = ReplayFailure sponsorship_code | ReplaySuccess sponsorship_result

datatype redis_value = RInt int | RText string | RRecord replay_record

type_synonym store = "string \<Rightarrow> (redis_value \<times> int option) option"

type_synonym 'a script = "(string, store, 'a) io"

definition entry :: "int \<Rightarrow> store \<Rightarrow> string \<Rightarrow> (redis_value \<times> int option) option" where
  "entry now st k = (case st k of None \<Rightarrow> None
     | Some (v, x) \<Rightarrow> (case x of Some e \<Rightarrow> if now < e then Some (v, x) else None | None \<Rightarrow> Some (v, x)))"

definition live :: "int \<Rightarrow> store \<Rightarrow> string \<Rightarrow> redis_value option" where
  "live now st k = map_option fst (entry now st k)"

definition int64_range :: "int \<Rightarrow> bool" where
  "int64_range i \<longleftrightarrow> - (2 ^ 63) \<le> i \<and> i < 2 ^ 63"

text \<open>The integer an argument text denotes for Redis: a canonical 64-bit decimal.\<close>

definition redis_int :: "string \<Rightarrow> int option" where
  "redis_int s = (case js_BigInt_of_string s of
     None \<Rightarrow> None | Some i \<Rightarrow> if int_str i = s \<and> int64_range i then Some i else None)"

definition int_arg :: "string \<Rightarrow> int script" where
  "int_arg s = (case redis_int s of
     None \<Rightarrow> throw ''ERR value is not an integer or out of range'' | Some i \<Rightarrow> ret i)"

definition incrby :: "int \<Rightarrow> string \<Rightarrow> int \<Rightarrow> int script" where
  "incrby now k d = (\<lambda>st. case entry now st k of
     None \<Rightarrow> (Inr d, st(k \<mapsto> (RInt d, None)))
   | Some (RInt n, x) \<Rightarrow> if int64_range (n + d) then (Inr (n + d), st(k \<mapsto> (RInt (n + d), x)))
       else (Inl ''ERR increment or decrement would overflow'', st)
   | Some _ \<Rightarrow> (Inl ''ERR value is not an integer or out of range'', st))"

abbreviation decrby :: "int \<Rightarrow> string \<Rightarrow> int \<Rightarrow> int script" where
  "decrby now k d \<equiv> incrby now k (- d)"

definition expire_key :: "int \<Rightarrow> string \<Rightarrow> int \<Rightarrow> unit script" where
  "expire_key now k seconds = modifyM (\<lambda>st. case entry now st k of
     None \<Rightarrow> st
   | Some (v, _) \<Rightarrow> if seconds \<le> 0 then st(k := None) else st(k \<mapsto> (v, Some (now + 1000 * seconds))))"

text \<open>\<open>SET k v EX seconds\<close>, with or without \<open>NX\<close>; the result tells whether it was set.\<close>

definition set_ex :: "int \<Rightarrow> bool \<Rightarrow> string \<Rightarrow> redis_value \<Rightarrow> string \<Rightarrow> bool script" where
  "set_ex now nx k v seconds = bindM (int_arg seconds) (\<lambda>s.
     if s \<le> 0 then throw ''ERR invalid expire time''
     else (\<lambda>st. if nx \<and> live now st k \<noteq> None then (Inr False, st)
       else (Inr True, st(k \<mapsto> (v, Some (now + 1000 * s))))))"

definition get_key :: "int \<Rightarrow> string \<Rightarrow> redis_value option script" where
  "get_key now k = getsM (\<lambda>st. live now st k)"

definition del_key :: "string \<Rightarrow> unit script" where
  "del_key k = modifyM (\<lambda>st. st(k := None))"

section \<open>The service's world\<close>

record send_response =
  sent_status :: string
  sent_hash :: "string option"

record get_response =
  got_status :: string
  got_returnValue :: "string option"

text \<open>Every external operation takes the \<open>sw_delay\<close> of its tick; a sleep takes at least the time it
  was asked for.  \<open>Date.now()\<close> and the Redis server read the same clock.\<close>

record sworld =
  sw_tick :: nat
  sw_time :: int
  sw_store :: store
  sw_metrics :: metrics
  sw_sent :: "fee_bump list"
  sw_delay :: "nat \<Rightarrow> nat"
  sw_fault :: "nat \<Rightarrow> db_fault"
  sw_uuid :: "nat \<Rightarrow> string"
  sw_send :: "nat \<Rightarrow> fee_bump \<Rightarrow> string + send_response"
  sw_get :: "nat \<Rightarrow> string \<Rightarrow> string + get_response"

type_synonym 'a sponsoring = "(sponsorship_error, sworld, 'a) io"

definition elapse :: "sworld \<Rightarrow> sworld" where
  "elapse w = w\<lparr>sw_tick := Suc (sw_tick w), sw_time := sw_time w + int (sw_delay w (sw_tick w))\<rparr>"

definition other_error :: "string + 'a \<Rightarrow> sponsorship_error + 'a" where
  "other_error r = (case r of Inl m \<Rightarrow> Inl (OtherError m) | Inr a \<Rightarrow> Inr a)"

definition redis :: "(int \<Rightarrow> 'a script) \<Rightarrow> 'a sponsoring" where
  "redis f = (\<lambda>w. case f (sw_time w) (sw_store w) of (r, st) \<Rightarrow>
     (case sw_fault w (sw_tick w) of
        Lost m \<Rightarrow> (Inl (OtherError m), elapse w)
      | Unacknowledged m \<Rightarrow> (Inl (OtherError m), (elapse w)\<lparr>sw_store := st\<rparr>)
      | NoFault \<Rightarrow> (other_error r, (elapse w)\<lparr>sw_store := st\<rparr>)))"

definition date_now :: "int sponsoring" where
  "date_now = getsM sw_time"

definition note_metric :: "(metrics \<Rightarrow> metrics) \<Rightarrow> unit sponsoring" where
  "note_metric f = modifyM (\<lambda>w. w\<lparr>sw_metrics := f (sw_metrics w)\<rparr>)"

section \<open>Quota\<close>

record quota_policy =
  maxPerMinute :: js_num
  maxPerIpMinute :: js_num
  dailyBudgetStroops :: string
  ttlSeconds :: js_num

record budget_reservation =
  dailyKey :: string
  r_amount :: int

text \<open>\<open>tonumber\<close> of a script argument; on the decimal texts the service passes it is \<open>Number\<close>.\<close>

abbreviation tonumber :: "string \<Rightarrow> js_num" where
  "tonumber s \<equiv> js_Number_of_string s"

definition RESERVE_SCRIPT ::
  "string \<Rightarrow> string \<Rightarrow> string \<Rightarrow> string \<Rightarrow> string \<Rightarrow> string \<Rightarrow> string \<Rightarrow> string \<Rightarrow> string \<Rightarrow> int \<Rightarrow> (int \<times> string) script" where
  "RESERVE_SCRIPT key1 key2 key3 amount maxSource maxIp budget ttl dayTtl now =
    bindM (incrby now key1 1) (\<lambda>source_count.
    thenM (whenM (source_count = 1) (bindM (int_arg ttl) (expire_key now key1)))
    (if js_lt (tonumber maxSource) (num_of_int source_count)
       then thenM (decrby now key1 1) (ret (0, ''source''))
     else bindM (incrby now key2 1) (\<lambda>ip_count.
    thenM (whenM (ip_count = 1) (bindM (int_arg ttl) (expire_key now key2)))
    (if js_lt (tonumber maxIp) (num_of_int ip_count)
       then thenM (decrby now key1 1) (thenM (decrby now key2 1) (ret (0, ''ip'')))
     else bindM (bindM (int_arg amount) (incrby now key3)) (\<lambda>daily_count.
    thenM (whenM (js_num_eq (num_of_int daily_count) (tonumber amount)) (bindM (int_arg dayTtl) (expire_key now key3)))
    (if js_lt (tonumber budget) (num_of_int daily_count)
       then thenM (decrby now key1 1) (thenM (decrby now key2 1)
         (thenM (bindM (int_arg amount) (decrby now key3)) (ret (0, ''budget''))))
     else ret (1, ''ok'')))))))"

definition RELEASE_SCRIPT :: "string \<Rightarrow> string \<Rightarrow> string \<Rightarrow> int \<Rightarrow> int script" where
  "RELEASE_SCRIPT key amount ttl now =
    bindM (bindM (int_arg amount) (decrby now key)) (\<lambda>v.
    thenM (whenM (v < 0) (thenM (set_ex now False key (RInt 0) ttl) (ret ()))) (ret v))"

definition uri_byte :: "nat \<Rightarrow> string" where
  "uri_byte n = CHR ''%'' # map (\<lambda>d. if d < 10 then char_of (48 + d) else char_of (55 + d)) [n div 16, n mod 16]"

text \<open>\<open>encodeURIComponent\<close>; a character above 127 is two UTF-8 bytes.\<close>

definition uri_char :: "char \<Rightarrow> string" where
  "uri_char c = (let n = of_char c :: nat in
     if (65 \<le> n \<and> n \<le> 90) \<or> (97 \<le> n \<and> n \<le> 122) \<or> (48 \<le> n \<and> n \<le> 57) \<or> c \<in> set ''-_.!~*'' \<or> n \<in> {39, 40, 41}
       then [c]
     else if n < 128 then uri_byte n else uri_byte (192 + n div 64) @ uri_byte (128 + n mod 64))"

definition to_upper :: "char \<Rightarrow> char" where
  "to_upper c = (let n = of_char c :: nat in if 97 \<le> n \<and> n \<le> 122 then char_of (n - 32) else c)"

definition keyPart :: "string \<Rightarrow> string" where
  "keyPart s = concat (map uri_char (map to_upper (js_trim s)))"

definition source_key :: "string \<Rightarrow> int \<Rightarrow> string" where
  "source_key source now = ''dike:sponsor:source:'' @ keyPart source @ '':'' @ int_str (now div 60000)"

definition ip_key :: "string \<Rightarrow> int \<Rightarrow> string" where
  "ip_key ip now = ''dike:sponsor:ip:'' @ keyPart ip @ '':'' @ int_str (now div 60000)"

definition budget_key :: "int \<Rightarrow> string" where
  "budget_key now = ''dike:sponsor:budget:'' @ take 10 (toISOString now)"

definition two_days :: string where
  "two_days = int_str (2 * 24 * 60 * 60)"

definition quota_reserve :: "quota_policy \<Rightarrow> string \<Rightarrow> string \<Rightarrow> int \<Rightarrow> budget_reservation sponsoring" where
  "quota_reserve policy source ip amount = bindM date_now (\<lambda>nowMs.
     if amount \<le> 0 then throw (SponsorshipError FEE_LIMIT_EXCEEDED ''The declared fee must be positive.'' False)
     else bindM (redis (RESERVE_SCRIPT (source_key source nowMs) (ip_key ip nowMs) (budget_key nowMs)
         (int_str amount) (num_to_string (maxPerMinute policy)) (num_to_string (maxPerIpMinute policy))
         (dailyBudgetStroops policy) (num_to_string (ttlSeconds policy)) two_days)) (\<lambda>(ok, reason).
       if ok \<noteq> 1 then throw (SponsorshipError (if reason = ''budget'' then BUDGET_EXCEEDED else QUOTA_EXCEEDED)
         ''Sponsorship limit reached.'' False)
       else ret \<lparr>dailyKey = budget_key nowMs, r_amount = amount\<rparr>))"

definition releaseBudget :: "budget_reservation \<Rightarrow> unit sponsoring" where
  "releaseBudget r = thenM (redis (RELEASE_SCRIPT (dailyKey r) (int_str (r_amount r)) two_days)) (ret ())"

section \<open>Replay\<close>

definition resultKey :: "string \<Rightarrow> string" where
  "resultKey innerHash = ''dike:sponsor:result:'' @ innerHash"

definition lockKey :: "string \<Rightarrow> string" where
  "lockKey innerHash = ''dike:sponsor:lock:'' @ innerHash"

definition replay_terminal :: "string \<Rightarrow> replay_record option sponsoring" where
  "replay_terminal innerHash = bindM (redis (\<lambda>now. get_key now (resultKey innerHash))) (\<lambda>v. case v of
     None \<Rightarrow> ret None
   | Some (RRecord r) \<Rightarrow> ret (Some r)
   | Some (RText s) \<Rightarrow> if s = [] then ret None else throw (OtherError ''SyntaxError: Unexpected token'')
   | Some (RInt i) \<Rightarrow> throw (OtherError ''the stored value is not a record''))"

definition replay_acquire :: "js_num \<Rightarrow> string \<Rightarrow> string sponsoring" where
  "replay_acquire lockTtlSeconds innerHash = bindM (getsM (\<lambda>w. sw_uuid w (sw_tick w))) (\<lambda>token.
     bindM (redis (\<lambda>now. set_ex now True (lockKey innerHash) (RText token) (num_to_string lockTtlSeconds))) (\<lambda>acquired.
       if \<not> acquired
         then throw (SponsorshipError TRANSACTION_REPLAY ''This transaction is already being sponsored.'' True)
       else ret token))"

definition replay_complete :: "js_num \<Rightarrow> string \<Rightarrow> string \<Rightarrow> replay_record \<Rightarrow> unit sponsoring" where
  "replay_complete ttl innerHash token rec = bindM (redis (\<lambda>now. get_key now (lockKey innerHash))) (\<lambda>current.
     if current \<noteq> Some (RText token)
       then throw (SponsorshipError TRANSACTION_REPLAY ''The sponsorship lock is no longer owned.'' False)
     else thenM (redis (\<lambda>now. set_ex now False (resultKey innerHash) (RRecord rec) (num_to_string ttl)))
       (redis (\<lambda>_. del_key (lockKey innerHash))))"

definition replay_release :: "string \<Rightarrow> string \<Rightarrow> unit sponsoring" where
  "replay_release innerHash token = bindM (redis (\<lambda>now. get_key now (lockKey innerHash))) (\<lambda>current.
     whenM (current = Some (RText token)) (redis (\<lambda>_. del_key (lockKey innerHash))))"

section \<open>Counters as numbers\<close>

text \<open>The abstraction of the quota scripts: the keys \<open>K\<close> hold counters with the values \<open>f\<close> (an absent
  or expired counter is 0), every other key is as in \<open>st0\<close>.\<close>

definition count :: "int \<Rightarrow> store \<Rightarrow> string \<Rightarrow> int" where
  "count now st k = (case live now st k of Some (RInt n) \<Rightarrow> n | _ \<Rightarrow> 0)"

definition is_counter :: "int \<Rightarrow> store \<Rightarrow> string \<Rightarrow> bool" where
  "is_counter now st k \<longleftrightarrow> (case live now st k of None \<Rightarrow> True | Some (RInt n) \<Rightarrow> True | _ \<Rightarrow> False)"

definition counts :: "int \<Rightarrow> string set \<Rightarrow> store \<Rightarrow> (string \<Rightarrow> int) \<Rightarrow> store \<Rightarrow> bool" where
  "counts now K st0 f st \<longleftrightarrow> (\<forall>k\<in>K. is_counter now st k \<and> count now st k = f k) \<and> (\<forall>k. k \<notin> K \<longrightarrow> st k = st0 k)"

text \<open>From counters \<open>f\<close> the script returns some \<open>a\<close> with counters \<open>g\<close> such that \<open>Q a g\<close>.\<close>

definition runs ::
  "int \<Rightarrow> string set \<Rightarrow> store \<Rightarrow> (string \<Rightarrow> int) \<Rightarrow> 'a script \<Rightarrow> ('a \<Rightarrow> (string \<Rightarrow> int) \<Rightarrow> bool) \<Rightarrow> bool" where
  "runs now K st0 f m Q \<longleftrightarrow>
    (\<forall>st. counts now K st0 f st \<longrightarrow> (\<exists>a st' g. m st = (Inr a, st') \<and> counts now K st0 g st' \<and> Q a g))"

lemma runs_ret: "Q a f \<Longrightarrow> runs now K st0 f (ret a) Q"
  by (auto simp: runs_def ret_def)

lemma runs_bind:
  assumes "runs now K st0 f m (\<lambda>a g. runs now K st0 g (k a) Q)"
  shows "runs now K st0 f (bindM m k) Q"
  unfolding runs_def
proof (intro allI impI)
  fix st
  assume "counts now K st0 f st"
  with assms obtain a st1 g where 1: "m st = (Inr a, st1)" "counts now K st0 g st1" "runs now K st0 g (k a) Q"
    unfolding runs_def by blast
  from 1(2,3) obtain b st2 h where "k a st1 = (Inr b, st2)" "counts now K st0 h st2" "Q b h"
    unfolding runs_def by blast
  with 1(1) show "\<exists>a st' g. bindM m k st = (Inr a, st') \<and> counts now K st0 g st' \<and> Q a g"
    by (auto simp: bindM_def)
qed

lemma runs_then: "runs now K st0 f m (\<lambda>_ g. runs now K st0 g k Q) \<Longrightarrow> runs now K st0 f (thenM m k) Q"
  by (simp add: thenM_def runs_bind)

lemma runs_when:
  "(b \<Longrightarrow> runs now K st0 f m Q) \<Longrightarrow> (\<not> b \<Longrightarrow> Q () f) \<Longrightarrow> runs now K st0 f (whenM b m) Q"
  by (simp add: whenM_def runs_ret)

lemma runs_int_arg: "int64_range i \<Longrightarrow> Q i f \<Longrightarrow> runs now K st0 f (int_arg (int_str i)) Q"
  by (simp add: int_arg_def redis_int_def runs_ret)

lemma counts_update:
  assumes "counts now K st0 f st" "k \<in> K" "live now (st(k := e)) k = Some (RInt n)"
  shows "counts now K st0 (f(k := n)) (st(k := e))"
  using assms by (auto simp: counts_def is_counter_def count_def live_def entry_def)

lemma counts_entry:
  assumes "counts now K st0 f st" "k \<in> K"
  shows "entry now st k = None \<and> f k = 0 \<or>
    (\<exists>x. entry now st k = Some (RInt (f k), x) \<and> (\<forall>e. x = Some e \<longrightarrow> now < e))"
proof -
  have "is_counter now st k" "count now st k = f k" using assms by (auto simp: counts_def)
  then show ?thesis
    by (auto simp: is_counter_def count_def live_def entry_def
        split: option.splits prod.splits if_splits redis_value.splits)
qed

lemma runs_incrby:
  assumes "k \<in> K" "int64_range (f k + d)" "Q (f k + d) (f(k := f k + d))"
  shows "runs now K st0 f (incrby now k d) Q"
  unfolding runs_def
proof (intro allI impI)
  fix st
  assume st: "counts now K st0 f st"
  from counts_entry [OF this assms(1)]
  have "\<exists>x. incrby now k d st = (Inr (f k + d), st(k \<mapsto> (RInt (f k + d), x))) \<and> (\<forall>e. x = Some e \<longrightarrow> now < e)"
    using assms(2) by (auto simp: incrby_def)
  then obtain x where "incrby now k d st = (Inr (f k + d), st(k \<mapsto> (RInt (f k + d), x)))"
    "\<forall>e. x = Some e \<longrightarrow> now < e" by blast
  moreover from this(2) have "counts now K st0 (f(k := f k + d)) (st(k \<mapsto> (RInt (f k + d), x)))"
    by (intro counts_update [OF st assms(1)]) (auto simp: live_def entry_def split: option.split)
  ultimately show "\<exists>a st' g. incrby now k d st = (Inr a, st') \<and> counts now K st0 g st' \<and> Q a g"
    using assms(3) by blast
qed

lemma runs_expire:
  assumes "k \<in> K" "0 < s" "Q () f"
  shows "runs now K st0 f (expire_key now k s) Q"
  unfolding runs_def
proof (intro allI impI)
  fix st
  assume st: "counts now K st0 f st"
  have "counts now K st0 f (snd (expire_key now k s st))"
    using counts_entry [OF st assms(1)]
  proof (elim disjE exE conjE)
    assume "entry now st k = None"
    then show ?thesis using st by (simp add: expire_key_def modifyM_def)
  next
    fix x
    assume "entry now st k = Some (RInt (f k), x)"
    then have "snd (expire_key now k s st) = st(k \<mapsto> (RInt (f k), Some (now + 1000 * s)))"
      using assms(2) by (simp add: expire_key_def modifyM_def)
    moreover have "counts now K st0 (f(k := f k)) (st(k \<mapsto> (RInt (f k), Some (now + 1000 * s))))"
      using assms(2) by (intro counts_update [OF st assms(1)]) (simp add: live_def entry_def)
    ultimately show ?thesis by simp
  qed
  with assms(3) show "\<exists>a st' g. expire_key now k s st = (Inr a, st') \<and> counts now K st0 g st' \<and> Q a g"
    by (auto simp: expire_key_def modifyM_def)
qed

lemma runs_if:
  "(b \<Longrightarrow> runs now K st0 f m Q) \<Longrightarrow> (\<not> b \<Longrightarrow> runs now K st0 f m' Q) \<Longrightarrow> runs now K st0 f (if b then m else m') Q"
  by simp

lemmas runs_rules = runs_if runs_ret runs_bind runs_then runs_when runs_int_arg runs_incrby runs_expire

text \<open>What the reserve script decides and what it does to the three counters.\<close>

definition reserve_outcome ::
  "int \<Rightarrow> int \<Rightarrow> int \<Rightarrow> string \<Rightarrow> string \<Rightarrow> string \<Rightarrow> int \<Rightarrow> (string \<Rightarrow> int) \<Rightarrow> (int \<times> string) \<times> (string \<Rightarrow> int)" where
  "reserve_outcome maxSource maxIp budget k1 k2 k3 amount f =
    (if maxSource < f k1 + 1 then ((0, ''source''), f)
     else if maxIp < f k2 + 1 then ((0, ''ip''), f)
     else if budget < f k3 + amount then ((0, ''budget''), f)
     else ((1, ''ok''), f(k1 := f k1 + 1, k2 := f k2 + 1, k3 := f k3 + amount)))"

lemma exceeds_limit:
  assumes "0 \<le> n" "n \<le> max_safe" "0 \<le> c"
  shows "js_lt (tonumber (int_str n)) (num_of_int c) \<longleftrightarrow> n < c"
proof (cases "n < c")
  case True
  then show ?thesis using assms num_of_int_gt_safe [of n c] by (simp add: Number_int_str num_of_int_safe)
next
  case False
  then show ?thesis using assms by (simp add: Number_int_str num_of_int_safe)
qed

lemma reserve_runs:
  assumes keys: "k1 \<in> K" "k2 \<in> K" "k3 \<in> K" "k1 \<noteq> k2" "k1 \<noteq> k3" "k2 \<noteq> k3"
    and limits: "0 \<le> ms" "ms \<le> max_safe" "0 \<le> mi" "mi \<le> max_safe" "0 \<le> budget" "budget \<le> max_safe"
    and amount: "0 < amount" "amount \<le> max_safe" and ttl: "0 < ttl" "int64_range ttl" "0 < day" "int64_range day"
    and room: "0 \<le> f k1" "f k1 < max_safe" "0 \<le> f k2" "f k2 < max_safe" "0 \<le> f k3" "f k3 \<le> max_safe"
  shows "runs now K st0 f
    (RESERVE_SCRIPT k1 k2 k3 (int_str amount) (int_str ms) (int_str mi) (int_str budget) (int_str ttl) (int_str day) now)
    (\<lambda>r g. (r, g) = reserve_outcome ms mi budget k1 k2 k3 amount f)"
proof -
  have range: "- max_safe \<le> i \<Longrightarrow> i \<le> 2 * max_safe \<Longrightarrow> int64_range i" for i
    by (simp add: int64_range_def max_safe_def)
  have bounds: "f k3 + amount \<le> 2 * max_safe" "0 < max_safe" using room amount by (simp_all add: max_safe_def)
  note limit = exceeds_limit [OF limits(1,2), of "f k1 + 1"] exceeds_limit [OF limits(3,4), of "f k2 + 1"]
    exceeds_limit [OF limits(5,6), of "f k3 + amount"] exceeds_limit [OF limits(1,2), of 1]
    exceeds_limit [OF limits(3,4), of 1]
  show ?thesis
    unfolding RESERVE_SCRIPT_def
    using keys ttl room amount bounds
    by (intro runs_rules) (simp_all add: limit reserve_outcome_def range fun_eq_iff)
qed

lemma release_runs:
  assumes "k \<in> K" "0 \<le> amount" "amount \<le> max_safe" "0 \<le> f k" "f k \<le> max_safe" "0 < day" "int64_range day"
  shows "runs now K st0 f (RELEASE_SCRIPT k (int_str amount) (int_str day) now)
    (\<lambda>v g. v = f k - amount \<and> g = f(k := max 0 (f k - amount)))"
proof -
  have zero: "runs now K st0 g (set_ex now False k (RInt 0) (int_str day)) Q"
    if "Q True (g(k := 0))" for g Q
    unfolding runs_def
  proof (intro allI impI)
    fix st
    assume st: "counts now K st0 g st"
    have "set_ex now False k (RInt 0) (int_str day) st = (Inr True, st(k \<mapsto> (RInt 0, Some (now + 1000 * day))))"
      using assms(6,7) by (simp add: set_ex_def bindM_def int_arg_def redis_int_def ret_def)
    moreover have "counts now K st0 (g(k := 0)) (st(k \<mapsto> (RInt 0, Some (now + 1000 * day))))"
      using assms(6) by (intro counts_update [OF st assms(1)]) (simp add: live_def entry_def)
    ultimately show "\<exists>a st' h. set_ex now False k (RInt 0) (int_str day) st = (Inr a, st') \<and>
        counts now K st0 h st' \<and> Q a h"
      using that by blast
  qed
  have range: "- max_safe \<le> i \<Longrightarrow> i \<le> max_safe \<Longrightarrow> int64_range i" for i
    by (simp add: int64_range_def max_safe_def)
  show ?thesis
    unfolding RELEASE_SCRIPT_def using assms
    by (intro runs_rules zero) (simp_all add: range)
qed

lemma counts_self: "(\<And>k. k \<in> K \<Longrightarrow> is_counter now st k) \<Longrightarrow> counts now K st (count now st) st"
  by (simp add: counts_def)

lemma quota_keys_distinct:
  "source_key s now \<noteq> ip_key i now" "source_key s now \<noteq> budget_key now" "ip_key i now \<noteq> budget_key now"
  by (simp_all add: source_key_def ip_key_def budget_key_def)

text \<open>C14: the reserve script always decides, within every limit: either it grants and counts one more
  request for the source and the address and \<open>amount\<close> more of the day's budget, all still within
  their limits, or it refuses and leaves every counter at its value.  No other key changes.\<close>

lemma reserve_script_atomic:
  assumes "distinct [k1, k2, k3]" and "\<And>k. k \<in> {k1, k2, k3} \<Longrightarrow> is_counter now st k"
    and "0 \<le> ms" "ms \<le> max_safe" "0 \<le> mi" "mi \<le> max_safe" "0 \<le> budget" "budget \<le> max_safe"
    and "0 < amount" "amount \<le> max_safe" "0 < ttl" "int64_range ttl" "0 < day" "int64_range day"
    and "0 \<le> count now st k1" "count now st k1 < max_safe" "0 \<le> count now st k2" "count now st k2 < max_safe"
      "0 \<le> count now st k3" "count now st k3 \<le> max_safe"
  shows "\<exists>ok reason st'. RESERVE_SCRIPT k1 k2 k3 (int_str amount) (int_str ms) (int_str mi) (int_str budget)
      (int_str ttl) (int_str day) now st = (Inr (ok, reason), st') \<and>
    (ok = 1 \<and> count now st' k1 = count now st k1 + 1 \<and> count now st' k1 \<le> ms \<and>
       count now st' k2 = count now st k2 + 1 \<and> count now st' k2 \<le> mi \<and>
       count now st' k3 = count now st k3 + amount \<and> count now st' k3 \<le> budget \<or>
     ok = 0 \<and> count now st' k1 = count now st k1 \<and> count now st' k2 = count now st k2 \<and>
       count now st' k3 = count now st k3 \<and>
       (ms < count now st k1 + 1 \<or> mi < count now st k2 + 1 \<or> budget < count now st k3 + amount)) \<and>
    (\<forall>k. k \<notin> {k1, k2, k3} \<longrightarrow> st' k = st k)"
proof -
  have "counts now {k1, k2, k3} st (count now st) st" using assms(2) by (rule counts_self)
  moreover have "runs now {k1, k2, k3} st (count now st) (RESERVE_SCRIPT k1 k2 k3 (int_str amount) (int_str ms)
      (int_str mi) (int_str budget) (int_str ttl) (int_str day) now)
      (\<lambda>r g. (r, g) = reserve_outcome ms mi budget k1 k2 k3 amount (count now st))"
    using assms by (intro reserve_runs) simp_all
  ultimately obtain r st' g where run: "RESERVE_SCRIPT k1 k2 k3 (int_str amount) (int_str ms) (int_str mi)
      (int_str budget) (int_str ttl) (int_str day) now st = (Inr r, st')"
    and g: "counts now {k1, k2, k3} st g st'" "(r, g) = reserve_outcome ms mi budget k1 k2 k3 amount (count now st)"
    unfolding runs_def by blast
  from g(1) have vals: "count now st' k1 = g k1" "count now st' k2 = g k2" "count now st' k3 = g k3"
    "\<forall>k. k \<notin> {k1, k2, k3} \<longrightarrow> st' k = st k"
    by (simp_all add: counts_def)
  show ?thesis
    using assms(1) run vals g(2)
    by (intro exI [of _ "fst r"] exI [of _ "snd r"] exI [of _ st'])
      (auto simp: reserve_outcome_def split: if_splits)
qed

lemma reserve_script_atomic_witness:
  "\<exists>ok reason st'. RESERVE_SCRIPT ''s'' ''i'' ''b'' (int_str 400) (int_str 10) (int_str 30) (int_str 1000)
      (int_str 900) (int_str 172800) 0 (\<lambda>_. None) = (Inr (ok, reason), st') \<and> count 0 st' ''b'' \<le> 1000"
proof -
  have empty: "is_counter 0 (\<lambda>_. None) k" "count 0 (\<lambda>_. None) k = 0" for k
    by (simp_all add: is_counter_def count_def live_def entry_def)
  have run: "\<exists>ok reason st'. RESERVE_SCRIPT ''s'' ''i'' ''b'' (int_str 400) (int_str 10) (int_str 30) (int_str 1000)
      (int_str 900) (int_str 172800) 0 (\<lambda>_. None) = (Inr (ok, reason), st') \<and>
    (ok = 1 \<and> count 0 st' ''s'' = 0 + 1 \<and> count 0 st' ''s'' \<le> 10 \<and>
       count 0 st' ''i'' = 0 + 1 \<and> count 0 st' ''i'' \<le> 30 \<and>
       count 0 st' ''b'' = 0 + 400 \<and> count 0 st' ''b'' \<le> 1000 \<or>
     ok = 0 \<and> count 0 st' ''s'' = 0 \<and> count 0 st' ''i'' = 0 \<and> count 0 st' ''b'' = 0 \<and>
       ((10 :: int) < 0 + 1 \<or> (30 :: int) < 0 + 1 \<or> (1000 :: int) < 0 + 400)) \<and>
    (\<forall>k. k \<notin> {''s'', ''i'', ''b''} \<longrightarrow> st' k = None)"
    by (rule reserve_script_atomic [of "''s''" "''i''" "''b''" 0 "\<lambda>_. None" 10 30 1000 400 900 172800, unfolded empty])
      (simp_all add: empty max_safe_def int64_range_def)
  from run show ?thesis
    by (elim ex_forward conjE) (rule conjI, assumption, linarith)
qed

section \<open>Who holds a lock\<close>

text \<open>From \<open>w\<close> to \<open>w'\<close> the clock did not go back, and the lock \<open>t\<close> on \<open>h\<close> that expires at \<open>e\<close>, held
  in \<open>w\<close>, is still held in \<open>w'\<close> unless it expired, given that no session draws the token \<open>t\<close> again:
  the relation every other session's operations stay in.\<close>

definition guards :: "string \<Rightarrow> string \<Rightarrow> int \<Rightarrow> sworld \<Rightarrow> sworld \<Rightarrow> bool" where
  "guards h t e w w' \<longleftrightarrow> (\<forall>n. sw_uuid w n \<noteq> t) \<longrightarrow>
     sw_time w \<le> sw_time w' \<and> sw_uuid w' = sw_uuid w \<and>
     (sw_store w (lockKey h) = Some (RText t, Some e) \<and> sw_time w' < e \<longrightarrow>
        sw_store w' (lockKey h) = Some (RText t, Some e))"

interpretation guards: frame "guards h t e"
  by unfold_locales (auto simp: guards_def)

lemma elapse_simps [simp]:
  "sw_store (elapse w) = sw_store w" "sw_sent (elapse w) = sw_sent w" "sw_metrics (elapse w) = sw_metrics w"
  "sw_time w \<le> sw_time (elapse w)" "sw_uuid (elapse w) = sw_uuid w" "sw_fault (elapse w) = sw_fault w"
  "sw_tick (elapse w) = Suc (sw_tick w)" "sw_delay (elapse w) = sw_delay w"
  "sw_send (elapse w) = sw_send w" "sw_get (elapse w) = sw_get w"
  by (simp_all add: elapse_def)

lemma snd_redis:
  "snd (redis f w) = elapse w \<or> snd (redis f w) = (elapse w)\<lparr>sw_store := snd (f (sw_time w) (sw_store w))\<rparr>"
  by (auto simp: redis_def split: prod.split db_fault.split)

lemma redis_Inr:
  "redis f w = (Inr a, w') \<Longrightarrow> \<exists>st. f (sw_time w) (sw_store w) = (Inr a, st) \<and> w' = (elapse w)\<lparr>sw_store := st\<rparr>"
  by (auto simp: redis_def other_error_def split: prod.splits db_fault.splits sum.splits)

lemma redis_NoFault:
  "sw_fault w (sw_tick w) = NoFault \<Longrightarrow> f (sw_time w) (sw_store w) = (Inr a, st) \<Longrightarrow>
    redis f w = (Inr a, (elapse w)\<lparr>sw_store := st\<rparr>)"
  by (simp add: redis_def other_error_def)

lemma redis_same:
  assumes "\<And>w. p (elapse w) = p w" "\<And>w st. p (w\<lparr>sw_store := st\<rparr>) = p w"
  shows "evolves (same p) (redis f)"
proof (rule evolvesI)
  fix w
  show "same p w (snd (redis f w))"
    using snd_redis [of f w] assms by (auto simp: same_def)
qed

lemma redis_guards:
  assumes "\<And>now st. st (lockKey h) = Some (RText t, Some e) \<Longrightarrow> now < e \<Longrightarrow>
    snd (f now st) (lockKey h) = Some (RText t, Some e)"
  shows "evolves (guards h t e) (redis f)"
proof (rule evolvesI)
  fix w
  have "sw_time w < e" if "sw_time (elapse w) < e"
    using that elapse_simps(4) [of w] by linarith
  then show "guards h t e w (snd (redis f w))"
    using snd_redis [of f w] assms [of "sw_store w" "sw_time w"] by (auto simp: guards_def)
qed

lemma live_lock:
  "st (lockKey h) = Some (RText t, Some e) \<Longrightarrow> now < e \<Longrightarrow> live now st (lockKey h) = Some (RText t)"
  by (simp add: live_def entry_def)

lemma key_kinds [simp]:
  "lockKey h \<noteq> resultKey h'" "lockKey h \<noteq> source_key s n" "lockKey h \<noteq> ip_key i n" "lockKey h \<noteq> budget_key n"
  "resultKey h \<noteq> lockKey h'" "resultKey h \<noteq> source_key s n" "resultKey h \<noteq> ip_key i n" "resultKey h \<noteq> budget_key n"
  by (simp_all add: lockKey_def resultKey_def source_key_def ip_key_def budget_key_def)

lemma lockKey_inject [simp]: "lockKey h = lockKey h' \<longleftrightarrow> h = h'" "resultKey h = resultKey h' \<longleftrightarrow> h = h'"
  by (simp_all add: lockKey_def resultKey_def)

lemma scripts_other:
  "k \<noteq> k' \<Longrightarrow> evolves (same (\<lambda>st. st k')) (incrby now k d)"
  "evolves (same p) (int_arg s)"
  "k \<noteq> k' \<Longrightarrow> evolves (same (\<lambda>st. st k')) (expire_key now k n)"
  "k \<noteq> k' \<Longrightarrow> evolves (same (\<lambda>st. st k')) (set_ex now nx k v s)"
  "k \<noteq> k' \<Longrightarrow> evolves (same (\<lambda>st. st k')) (del_key k)"
  by (auto simp: evolves_def same_def del_key_def incrby_def int_arg_def expire_key_def set_ex_def modifyM_def bindM_def
      throw_def ret_def split: option.splits prod.splits redis_value.splits sum.splits if_splits)

lemma RESERVE_other:
  "k \<noteq> k1 \<Longrightarrow> k \<noteq> k2 \<Longrightarrow> k \<noteq> k3 \<Longrightarrow>
    evolves (same (\<lambda>st. st k)) (RESERVE_SCRIPT k1 k2 k3 a ms mi b ttl day now)"
  unfolding RESERVE_SCRIPT_def by (intro same.evolves_rules scripts_other) simp_all

lemma RELEASE_other: "k \<noteq> k1 \<Longrightarrow> evolves (same (\<lambda>st. st k)) (RELEASE_SCRIPT k1 a ttl now)"
  unfolding RELEASE_SCRIPT_def by (intro same.evolves_rules scripts_other) simp_all

lemma redis_guards_other:
  "(\<And>now. evolves (same (\<lambda>st. st (lockKey h))) (f now)) \<Longrightarrow> evolves (guards h t e) (redis f)"
  by (rule redis_guards) (auto simp: evolves_def same_def)

lemma quota_reserve_guards: "evolves (guards h t e) (quota_reserve policy source ip amount)"
  unfolding quota_reserve_def date_now_def case_prod_beta
  by (intro guards.evolves_rules redis_guards_other RESERVE_other) simp_all

lemma quota_reserve_key: "quota_reserve policy source ip amount w = (Inr r, w') \<Longrightarrow> dailyKey r = budget_key (sw_time w)"
  by (auto simp: quota_reserve_def date_now_def io_simps split: prod.splits sum.splits if_splits)

lemma releaseBudget_guards: "dailyKey r = budget_key n \<Longrightarrow> evolves (guards h t e) (releaseBudget r)"
  unfolding releaseBudget_def by (intro guards.evolves_rules redis_guards_other RELEASE_other) simp_all

lemma replay_terminal_guards: "evolves (guards h t e) (replay_terminal h')"
  unfolding replay_terminal_def get_key_def
  by (intro guards.evolves_rules redis_guards_other same.evolves_rules)
    (auto intro!: guards.evolves_rules split: option.split redis_value.split)

lemma set_nx_held: "live now st k \<noteq> None \<Longrightarrow> snd (set_ex now True k v s st) = st"
  by (auto simp: set_ex_def bindM_def int_arg_def throw_def ret_def split: option.splits)

lemma set_nx_keeps:
  assumes "st (lockKey h) = Some (RText t, Some e)" "now < e"
  shows "snd (set_ex now True (lockKey h') v s st) (lockKey h) = Some (RText t, Some e)"
proof (cases "h' = h")
  case True
  then show ?thesis using assms by (simp add: set_nx_held live_lock)
next
  case False
  then have "snd (set_ex now True (lockKey h') v s st) (lockKey h) = st (lockKey h)"
    by (intro evolves_same [where p = "\<lambda>st. st (lockKey h)"] scripts_other) simp
  then show ?thesis by (simp add: assms)
qed

text \<open>While the lock is live nobody acquires it, and whoever acquires another one draws another token.\<close>

lemma acquire_guards:
  assumes "\<And>tok. tok \<noteq> t \<Longrightarrow> evolves (guards h t e) (f tok)"
  shows "evolves (guards h t e) (bindM (replay_acquire ttl h') f)"
proof (rule evolvesI)
  fix w
  have take: "evolves (guards h t e) (replay_acquire ttl h')"
    unfolding replay_acquire_def
    by (intro guards.evolves_rules redis_guards) (rule set_nx_keeps)
  show "guards h t e w (snd (bindM (replay_acquire ttl h') f w))"
  proof (cases "replay_acquire ttl h' w")
    case (Pair r w')
    with take have g: "guards h t e w w'" by (metis evolves_result)
    show ?thesis
    proof (cases r)
      case (Inl x)
      with g Pair show ?thesis by (simp add: bindM_def)
    next
      case (Inr tok)
      with Pair have "\<exists>n. tok = sw_uuid w n"
        by (auto simp: replay_acquire_def io_simps split: prod.splits sum.splits if_splits)
      then have "(\<forall>n. sw_uuid w n \<noteq> t) \<Longrightarrow> guards h t e w' (snd (f tok w'))"
        using assms evolvesD by metis
      then have "guards h t e w (snd (f tok w'))"
        using guards.R_trans [OF g] by (cases "\<forall>n. sw_uuid w n \<noteq> t") (simp, auto simp: guards_def)
      with Pair Inr show ?thesis by (simp add: bindM_def)
    qed
  qed
qed

text \<open>A session deletes only the lock it sees to be its own.\<close>

lemma if_own_guards:
  assumes "token \<noteq> t" "\<And>v. v \<noteq> Some (RText token) \<Longrightarrow> evolves (guards h t e) (f v)"
    and "h' \<noteq> h \<Longrightarrow> evolves (guards h t e) (f (Some (RText token)))"
    and time: "\<And>w. sw_time w \<le> sw_time (snd (f (Some (RText token)) w)) \<and>
      sw_uuid (snd (f (Some (RText token)) w)) = sw_uuid w"
  shows "evolves (guards h t e) (bindM (redis (\<lambda>now. get_key now (lockKey h'))) f)"
proof (rule evolvesI)
  fix w
  have get: "evolves (guards h t e) (redis (\<lambda>now. get_key now (lockKey h')))"
    unfolding get_key_def by (intro redis_guards_other same.evolves_rules)
  show "guards h t e w (snd (bindM (redis (\<lambda>now. get_key now (lockKey h'))) f w))"
  proof (cases "redis (\<lambda>now. get_key now (lockKey h')) w")
    case (Pair r w')
    with get have g: "guards h t e w w'" by (metis evolves_result)
    show ?thesis
    proof (cases r)
      case (Inl x)
      with g Pair show ?thesis by (simp add: bindM_def)
    next
      case (Inr v)
      with Pair have v: "v = live (sw_time w) (sw_store w) (lockKey h')" and w': "w' = elapse w"
        by (auto dest!: redis_Inr simp: get_key_def getsM_def elapse_def)
      have end_time: "sw_time w \<le> sw_time w'" by (simp add: w')
      show ?thesis
      proof (cases "v = Some (RText token) \<and> h' = h")
        case False
        then have "evolves (guards h t e) (f v)" using assms(2,3) by (cases "v = Some (RText token)") auto
        then have "guards h t e w' (snd (f v w'))" by (rule evolvesD)
        with g have "guards h t e w (snd (f v w'))" by (rule guards.R_trans)
        with Pair Inr show ?thesis by (simp add: bindM_def)
      next
        case True
        then have own: "live (sw_time w) (sw_store w) (lockKey h) = Some (RText token)" using v by auto
        have "\<not> (sw_store w (lockKey h) = Some (RText t, Some e) \<and> sw_time (snd (f v w')) < e)"
        proof
          assume lock: "sw_store w (lockKey h) = Some (RText t, Some e) \<and> sw_time (snd (f v w')) < e"
          moreover from this have "sw_time w < e" using time [of w'] end_time True by auto
          ultimately have "live (sw_time w) (sw_store w) (lockKey h) = Some (RText t)" by (simp add: live_lock)
          with own assms(1) show False by simp
        qed
        moreover have "sw_time w \<le> sw_time (snd (f v w'))" "sw_uuid (snd (f v w')) = sw_uuid w"
          using order_trans [OF end_time] time [of w'] True by (simp_all add: w')
        ultimately have "guards h t e w (snd (f v w'))" by (auto simp: guards_def)
        with Pair Inr show ?thesis by (simp add: bindM_def)
      qed
    qed
  qed
qed

lemma redis_time: "sw_time w \<le> sw_time (snd (redis f w)) \<and> sw_uuid (snd (redis f w)) = sw_uuid w"
  using snd_redis [of f w] elapse_simps(4) [of w] by auto

lemma then_time:
  "(\<And>w. sw_time w \<le> sw_time (snd (m w)) \<and> sw_uuid (snd (m w)) = sw_uuid w) \<Longrightarrow>
   (\<And>w. sw_time w \<le> sw_time (snd (k w)) \<and> sw_uuid (snd (k w)) = sw_uuid w) \<Longrightarrow>
   sw_time w \<le> sw_time (snd (thenM m k w)) \<and> sw_uuid (snd (thenM m k w)) = sw_uuid w"
  unfolding thenM_app by (auto split: prod.splits sum.splits) (metis order_trans snd_conv)+

lemma del_guards: "h' \<noteq> h \<Longrightarrow> evolves (guards h t e) (redis (\<lambda>_. del_key (lockKey h')))"
  by (intro redis_guards_other scripts_other) simp

lemma replay_release_guards: "token \<noteq> t \<Longrightarrow> evolves (guards h t e) (replay_release h' token)"
  unfolding replay_release_def
  by (rule if_own_guards [of token])
    (auto simp: whenM_def redis_time intro: guards.evolves_rules del_guards)

lemma replay_complete_guards: "token \<noteq> t \<Longrightarrow> evolves (guards h t e) (replay_complete ttl h' token r)"
  unfolding replay_complete_def
  by (rule if_own_guards [of token])
    (auto intro!: guards.evolves_rules redis_guards_other scripts_other then_time redis_time)

end
