(* ===== verification/Sponsor_Service.thy ===== *)
theory Sponsor_Service imports Sponsor_Store begin

text \<open>
  The sponsorship service: submitting a fee bump and polling for its confirmation
  (\<open>sponsorship/submitter.ts\<close>), the request from its arrival to its recorded outcome
  (\<open>service.ts\<close>), its assembly from the environment (\<open>factory.ts\<close>) and the two HTTP routes
  (\<open>api/sponsorship-routes.ts\<close>).  Log lines are left out.
\<close>

section \<open>Submission\<close>

record submitter_options =
  timeoutSeconds :: js_num
  pollIntervalMs :: "int option"

record submitted =
  s_outerHash :: string
  s_returnValueXdr :: "string option"

definition sendTransaction :: "fee_bump \<Rightarrow> send_response sponsoring" where
  "sendTransaction tx = (\<lambda>w. (other_error (sw_send w (sw_tick w) tx), (elapse w)\<lparr>sw_sent := sw_sent w @ [tx]\<rparr>))"

definition getTransaction :: "string \<Rightarrow> get_response sponsoring" where
  "getTransaction h = (\<lambda>w. (other_error (sw_get w (sw_tick w) h), elapse w))"

definition sleep :: "int \<Rightarrow> unit sponsoring" where
  "sleep ms = modifyM (\<lambda>w. (elapse w)\<lparr>sw_time := sw_time (elapse w) + max ms 1\<rparr>)"

text \<open>The loop with fuel; \<open>Date.now()\<close> is an integer a double holds exactly.\<close>

primrec poll :: "nat \<Rightarrow> js_num \<Rightarrow> int \<Rightarrow> string \<Rightarrow> get_response \<Rightarrow> get_response sponsoring" where
  "poll 0 deadline interval hash response = throw NotReturned"
| "poll (Suc n) deadline interval hash response = bindM date_now (\<lambda>now.
     if got_status response = ''NOT_FOUND'' \<and> js_lt (Fin (of_int now)) deadline
       then thenM (sleep interval) (bindM (getTransaction hash) (poll n deadline interval hash))
     else ret response)"

text \<open>Every turn of the loop takes a millisecond or more, so that many turns reach the deadline.\<close>

definition poll_fuel :: "int \<Rightarrow> js_num \<Rightarrow> nat" where
  "poll_fuel now deadline = (case deadline of Fin d \<Rightarrow> Suc (Suc (nat (\<lceil>d\<rceil> - now))) | _ \<Rightarrow> 1)"

definition submit :: "submitter_options \<Rightarrow> fee_bump \<Rightarrow> submitted sponsoring" where
  "submit opts tx = bindM (sendTransaction tx) (\<lambda>sent. case sent_hash sent of
     None \<Rightarrow> throw (SponsorshipError RPC_REJECTED ''Stellar RPC rejected the sponsored transaction.'' True)
   | Some hash \<Rightarrow>
       if sent_status sent \<noteq> ''PENDING'' \<or> hash = []
         then throw (SponsorshipError RPC_REJECTED ''Stellar RPC rejected the sponsored transaction.'' True)
       else bindM date_now (\<lambda>now.
         let deadline = js_add (Fin (of_int now)) (js_mul (timeoutSeconds opts) (Fin 1000)) in
         bindM (getTransaction hash) (\<lambda>first.
         bindM (poll (poll_fuel now deadline) deadline (or_else (pollIntervalMs opts) 1000) hash first) (\<lambda>response.
           if got_status response = ''SUCCESS''
             then ret \<lparr>s_outerHash = hash, s_returnValueXdr = got_returnValue response\<rparr>
           else if got_status response = ''FAILED''
             then throw (SponsorshipError TRANSACTION_FAILED ''The sponsored transaction failed on-chain.'' False)
           else throw (SponsorshipError CONFIRMATION_TIMEOUT ''The sponsored transaction was not confirmed in time.'' True)))))"

section \<open>The service\<close>

record service_options =
  so_enabled :: bool
  so_network :: network_name
  so_passphrase :: string
  so_manifest :: manifest
  so_feePolicy :: fee_policy
  so_signer :: sponsor_signer
  so_quota :: quota_policy
  so_replayTtl :: js_num
  so_lockTtl :: js_num
  so_submitter :: submitter_options

record service_status =
  ss_enabled :: bool
  ss_available :: bool
  ss_network :: network_name
  ss_sponsorAddress :: "string option"
  ss_limits :: fee_policy
  ss_reason :: "string option"

definition status :: "service_options \<Rightarrow> service_status" where
  "status opts = (let configured = so_enabled opts \<and> 0 < length (signer_publicKey (so_signer opts)) in
     \<lparr>ss_enabled = so_enabled opts, ss_available = configured, ss_network = so_network opts,
      ss_sponsorAddress = (if configured then Some (signer_publicKey (so_signer opts)) else None),
      ss_limits = so_feePolicy opts,
      ss_reason = (if configured then None
        else Some (if so_enabled opts then ''sponsor_not_configured'' else ''disabled''))\<rparr>)"

definition code_name :: "sponsorship_code \<Rightarrow> string" where
  "code_name c = (case c of SPONSORSHIP_DISABLED \<Rightarrow> ''SPONSORSHIP_DISABLED''
     | MALFORMED_XDR \<Rightarrow> ''MALFORMED_XDR'' | UNSUPPORTED_ENVELOPE \<Rightarrow> ''UNSUPPORTED_ENVELOPE''
     | UNSUPPORTED_SOURCE \<Rightarrow> ''UNSUPPORTED_SOURCE'' | BAD_SIGNATURE \<Rightarrow> ''BAD_SIGNATURE''
     | EXPIRED_TRANSACTION \<Rightarrow> ''EXPIRED_TRANSACTION'' | DISALLOWED_CONTRACT \<Rightarrow> ''DISALLOWED_CONTRACT''
     | DISALLOWED_METHOD \<Rightarrow> ''DISALLOWED_METHOD'' | FEE_LIMIT_EXCEEDED \<Rightarrow> ''FEE_LIMIT_EXCEEDED''
     | QUOTA_EXCEEDED \<Rightarrow> ''QUOTA_EXCEEDED'' | BUDGET_EXCEEDED \<Rightarrow> ''BUDGET_EXCEEDED''
     | TRANSACTION_REPLAY \<Rightarrow> ''TRANSACTION_REPLAY'' | RPC_REJECTED \<Rightarrow> ''RPC_REJECTED''
     | TRANSACTION_FAILED \<Rightarrow> ''TRANSACTION_FAILED'' | CONFIRMATION_TIMEOUT \<Rightarrow> ''CONFIRMATION_TIMEOUT'')"

definition replayResult :: "replay_record \<Rightarrow> sponsorship_error + sponsorship_result" where
  "replayResult r = (case r of ReplaySuccess result \<Rightarrow> Inr result
     | ReplayFailure c \<Rightarrow> refuse c ''This sponsored transaction already reached a terminal state.'')"

text \<open>The checks before anything is spent.\<close>

definition accept_request ::
  "sdk \<Rightarrow> service_options \<Rightarrow> jsval \<Rightarrow> int \<Rightarrow> sponsorship_error + parsed_transaction \<times> fee_quote" where
  "accept_request lib opts body now =
    (case parseSponsorshipRequest body of Inl e \<Rightarrow> Inl e | Inr xdr \<Rightarrow>
     case parseSponsoredInnerTransaction lib xdr (so_passphrase opts) (now div 1000) MAX_VALIDITY_SECONDS of
       Inl e \<Rightarrow> Inl e | Inr p \<Rightarrow>
     case verifyInnerSourceSignature lib p of Inl e \<Rightarrow> Inl e | Inr _ \<Rightarrow>
     case assertAllowedContractCall (so_manifest opts) (p_contractId p) (p_method p) of Inl e \<Rightarrow> Inl e | Inr _ \<Rightarrow>
     case quoteSponsoredFee (p_innerFee p) (p_resourceFee p) (so_feePolicy opts) of Inl e \<Rightarrow> Inl e | Inr q \<Rightarrow>
       Inr (p, q))"

text \<open>The \<open>catch\<close> block; a polling loop that has not returned reaches no handler.\<close>

definition safe_code :: "sponsorship_error \<Rightarrow> sponsorship_code" where
  "safe_code e = (case e of SponsorshipError c _ _ \<Rightarrow> c | _ \<Rightarrow> RPC_REJECTED)"

definition sponsor_failed :: "service_options \<Rightarrow> string \<Rightarrow> string \<Rightarrow> int \<Rightarrow> budget_reservation option \<Rightarrow> bool \<Rightarrow>
    sponsorship_error \<Rightarrow> sponsorship_result sponsoring" where
  "sponsor_failed opts hash token startedAt reservation submissionStarted e =
    (if e = NotReturned then throw e else
     let code = safe_code e;
         outcome = (if code = CONFIRMATION_TIMEOUT then Timeout
           else if code = TRANSACTION_FAILED then Failed else Rejected) in
     bindM date_now (\<lambda>now.
     thenM (note_metric (noteSponsorshipCompleted outcome (now - startedAt) (Some (code_name code))))
     (thenM (case reservation of None \<Rightarrow> ret () | Some r \<Rightarrow> whenM (\<not> submissionStarted) (releaseBudget r))
     (thenM (if submissionStarted
         then replay_complete (so_replayTtl opts) hash token (ReplayFailure code)
         else replay_release hash token)
       (throw e)))))"

text \<open>The continuation \<open>k\<close> runs outside the handler \<open>h\<close>.\<close>

definition attemptM :: "'a sponsoring \<Rightarrow> (sponsorship_error \<Rightarrow> 'b sponsoring) \<Rightarrow> ('a \<Rightarrow> 'b sponsoring) \<Rightarrow> 'b sponsoring" where
  "attemptM m h k = (\<lambda>w. case m w of (Inl e, w') \<Rightarrow> h e w' | (Inr a, w') \<Rightarrow> k a w')"

definition submit_and_record ::
  "service_options \<Rightarrow> string \<Rightarrow> string \<Rightarrow> int \<Rightarrow> built_fee_bump \<Rightarrow> sponsorship_result sponsoring" where
  "submit_and_record opts hash token startedAt built =
    bindM (submit (so_submitter opts) (b_transaction built)) (\<lambda>sub.
    let result = \<lparr>sr_innerHash = hash, sr_outerHash = s_outerHash sub,
      sr_returnValueXdr = (if s_returnValueXdr sub = Some [] then None else s_returnValueXdr sub)\<rparr> in
    thenM (replay_complete (so_replayTtl opts) hash token (ReplaySuccess result))
    (bindM date_now (\<lambda>now.
    thenM (note_metric (noteSponsorshipCompleted Confirmed (now - startedAt) None)) (ret result))))"

text \<open>From the acquired lock on: the \<open>try\<close> block, whose handler knows how far it got.\<close>

definition sponsor_locked :: "sdk \<Rightarrow> service_options \<Rightarrow> parsed_transaction \<Rightarrow> fee_quote \<Rightarrow> string \<Rightarrow> int \<Rightarrow> string \<Rightarrow>
    sponsorship_result sponsoring" where
  "sponsor_locked lib opts p q ip startedAt token =
    (let failed = sponsor_failed opts (p_hash p) token startedAt in
     attemptM (quota_reserve (so_quota opts) (p_source p) ip (outerFee q)) (failed None False) (\<lambda>reservation.
     attemptM (liftE (buildAndSignFeeBump lib p (so_feePolicy opts) (so_signer opts) (so_passphrase opts)))
       (failed (Some reservation) False) (\<lambda>built.
     catchM (submit_and_record opts (p_hash p) token startedAt built) (failed (Some reservation) True))))"

definition sponsor_after_lookup :: "sdk \<Rightarrow> service_options \<Rightarrow> parsed_transaction \<Rightarrow> fee_quote \<Rightarrow> string \<Rightarrow> int \<Rightarrow>
    replay_record option \<Rightarrow> sponsorship_result sponsoring" where
  "sponsor_after_lookup lib opts p q ip startedAt terminal = (case terminal of
     Some r \<Rightarrow> liftE (replayResult r)
   | None \<Rightarrow> bindM (replay_acquire (so_lockTtl opts) (p_hash p)) (sponsor_locked lib opts p q ip startedAt))"

definition sponsor :: "sdk \<Rightarrow> service_options \<Rightarrow> jsval \<Rightarrow> string \<Rightarrow> sponsorship_result sponsoring" where
  "sponsor lib opts body ip =
    thenM (note_metric noteSponsorshipRequested)
    (if \<not> so_enabled opts
       then throw (SponsorshipError SPONSORSHIP_DISABLED ''Fee sponsorship is not enabled.'' False)
     else bindM date_now (\<lambda>now.
       bindM (liftE (accept_request lib opts body now)) (\<lambda>(p, q).
       thenM (note_metric (noteSponsorshipAccepted (outerFee q)))
       (bindM date_now (\<lambda>startedAt.
       bindM (replay_terminal (p_hash p)) (sponsor_after_lookup lib opts p q ip startedAt))))))"

section \<open>Assembly and routes\<close>

definition disabledSigner :: sponsor_signer where
  "disabledSigner = \<lparr>signer_publicKey = [], signer_sign = (\<lambda>tx. tx)\<rparr>"

definition createFeeSponsorshipService :: "sdk \<Rightarrow> env \<Rightarrow> manifest \<Rightarrow> sponsorship_error + service_options" where
  "createFeeSponsorshipService lib cfg m =
    (case (if \<not> FEE_SPONSOR_ENABLED cfg then Inr disabledSigner
        else (case FEE_SPONSOR_SEED cfg of
            None \<Rightarrow> Inl (OtherError ''invalid encoded string'') | Some seed \<Rightarrow> createSeedSponsorSigner lib seed)) of
       Inl e \<Rightarrow> Inl e
     | Inr signer \<Rightarrow> Inr \<lparr>so_enabled = FEE_SPONSOR_ENABLED cfg, so_network = STELLAR_NETWORK cfg,
         so_passphrase = STELLAR_NETWORK_PASSPHRASE cfg, so_manifest = m,
         so_feePolicy = \<lparr>baseFeeStroops = FEE_SPONSOR_BASE_FEE_STROOPS cfg,
           maxTotalFeeStroops = FEE_SPONSOR_MAX_TOTAL_FEE_STROOPS cfg,
           maxResourceFeeStroops = FEE_SPONSOR_MAX_RESOURCE_FEE_STROOPS cfg\<rparr>,
         so_signer = signer,
         so_quota = \<lparr>maxPerMinute = FEE_SPONSOR_MAX_PER_MINUTE cfg,
           maxPerIpMinute = FEE_SPONSOR_MAX_PER_IP_MINUTE cfg,
           dailyBudgetStroops = FEE_SPONSOR_DAILY_BUDGET_STROOPS cfg,
           ttlSeconds = FEE_SPONSOR_REPLAY_TTL_SECONDS cfg\<rparr>,
         so_replayTtl = FEE_SPONSOR_REPLAY_TTL_SECONDS cfg, so_lockTtl = FEE_SPONSOR_LOCK_TTL_SECONDS cfg,
         so_submitter = \<lparr>timeoutSeconds = FEE_SPONSOR_CONFIRMATION_TIMEOUT_SECONDS cfg, pollIntervalMs = None\<rparr>\<rparr>)"

datatype http_reply = StatusReply service_status | ResultReply nat sponsorship_result | ErrorReply nat public_error

definition get_sponsorship_status :: "service_options \<Rightarrow> http_reply" where
  "get_sponsorship_status opts = StatusReply (status opts)"

text \<open>The route validates the body once more before the service does.  No reply at all is \<open>None\<close>.\<close>

definition sent_body :: "string \<Rightarrow> jsval" where
  "sent_body xdr = JObj [(''signedTransactionXdr'', JStr xdr)]"

definition error_reply :: "sponsorship_error \<Rightarrow> http_reply" where
  "error_reply e = (let safe = publicSponsorshipError e in ErrorReply (sponsorshipHttpStatus (pe_code safe)) safe)"

definition post_sponsorship_transactions ::
  "sdk \<Rightarrow> service_options \<Rightarrow> jsval \<Rightarrow> string \<Rightarrow> sworld \<Rightarrow> http_reply option \<times> sworld" where
  "post_sponsorship_transactions lib opts body ip w =
    (case parseSponsorshipRequest body of
       Inl e \<Rightarrow> (Some (error_reply e), w)
     | Inr xdr \<Rightarrow> (case sponsor lib opts (sent_body xdr) ip w of
         (Inr r, w') \<Rightarrow> (Some (ResultReply 200 r), w')
       | (Inl e, w') \<Rightarrow> (if e = NotReturned then None else Some (error_reply e), w')))"

end
