(* ===== verification/Sponsor_Safety.thy ===== *)
theory Sponsor_Safety imports Sponsor_Service begin

text \<open>
  What the sponsorship service guarantees: polling always ends, a fee bump is sent at most once per
  request and only for a validated, allowlisted call whose fee the policy and the quota granted, a
  live lock keeps every other request from sending the same transaction, and outcomes are recorded.
\<close>

section \<open>Polling ends\<close>

lemma poll_returns:
  assumes "1 \<le> n" "\<And>d. deadline = Fin d \<Longrightarrow> nat (\<lceil>d\<rceil> - sw_time w) < n" "deadline \<noteq> Infty True"
  shows "fst (poll n deadline interval hash r w) \<noteq> Inl NotReturned"
  using assms
proof (induction n arbitrary: r w)
  case 0
  then show ?case by simp
next
  case (Suc n)
  show ?case
  proof (cases "got_status r = ''NOT_FOUND'' \<and> js_lt (Fin (of_int (sw_time w))) deadline")
    case False
    then show ?thesis by (auto simp: io_simps date_now_def)
  next
    case True
    then obtain d where d: "deadline = Fin d" "of_int (sw_time w) < d"
      using Suc.prems(3) by (cases deadline) auto
    then have before: "sw_time w < \<lceil>d\<rceil>" by (simp add: less_ceiling_iff)
    define v where "v = snd (sleep interval w)"
    have "sw_time v = sw_time (elapse w) + max interval 1" by (simp add: v_def sleep_def modifyM_def)
    then have later: "sw_time w + 1 \<le> sw_time v" using elapse_simps(4) [of w] by linarith
    have "nat (\<lceil>d\<rceil> - sw_time (elapse v)) < n" "1 \<le> n"
      using Suc.prems(2) [OF d(1)] before later elapse_simps(4) [of v] by linarith+
    then have "fst (poll n deadline interval hash r' (elapse v)) \<noteq> Inl NotReturned" for r'
      using d(1) Suc.prems(3) by (intro Suc.IH) auto
    with True show ?thesis
      by (auto simp: io_simps date_now_def getTransaction_def other_error_def sleep_def modifyM_def v_def
          split: sum.splits)
  qed
qed

text \<open>C20: with a confirmation timeout of \<open>s\<close> seconds and a clock in the range where a double holds the
  deadline exactly, submission always returns a result or an error of the code: the polling loop
  does not run forever, whatever the RPC node answers and however long its calls take.\<close>

lemma submit_returns:
  assumes "timeoutSeconds opts = Fin (of_int s)" "0 \<le> s" "0 \<le> sw_time w"
    and "sw_time (elapse w) + 1000 * s \<le> 2 ^ 53"
  shows "fst (submit opts tx w) \<noteq> Inl NotReturned"
proof -
  let ?now = "sw_time (elapse w)"
  have now: "0 \<le> ?now" using assms(3) elapse_simps(4) [of w] by linarith
  have "js_mul (Fin (of_int s)) (Fin 1000) = fround (of_int (s * 1000))" by simp
  also have "\<dots> = Fin (of_int (s * 1000))" using assms(2,4) now by (intro fround_of_int) linarith
  finally have mul: "js_mul (timeoutSeconds opts) (Fin 1000) = Fin (of_int (s * 1000))" by (simp add: assms(1))
  have "js_add (Fin (of_int ?now)) (Fin (of_int (s * 1000))) = fround (of_int (?now + s * 1000))" by simp
  also have "\<dots> = Fin (of_int (?now + s * 1000))" using assms(2,4) now by (intro fround_of_int) linarith
  finally have deadline: "js_add (Fin (of_int ?now)) (js_mul (timeoutSeconds opts) (Fin 1000)) =
      Fin (of_int (?now + s * 1000))" by (simp add: mul)
  let ?d = "js_add (Fin (of_int ?now)) (js_mul (timeoutSeconds opts) (Fin 1000))" and ?v = "(elapse w)\<lparr>sw_sent := sw_sent w @ [tx]\<rparr>"
  have "fst (poll (poll_fuel ?now ?d) ?d i h r (elapse ?v)) \<noteq> Inl NotReturned" for i h r
  proof (rule poll_returns)
    show "nat (\<lceil>d\<rceil> - sw_time (elapse ?v)) < poll_fuel ?now ?d" if "?d = Fin d" for d
    proof -
      from that have "d = of_int (?now + s * 1000)" unfolding deadline by simp
      then have "\<lceil>d\<rceil> = ?now + s * 1000" by (simp only: ceiling_of_int)
      moreover have "?now \<le> sw_time (elapse ?v)" by (simp add: elapse_def)
      moreover have "poll_fuel ?now ?d = Suc (Suc (nat (s * 1000)))"
        by (simp only: deadline poll_fuel_def js_num.case ceiling_of_int add_diff_cancel_left')
      ultimately show ?thesis by linarith
    qed
  qed (simp_all add: deadline poll_fuel_def)
  then show ?thesis
    by (auto simp: submit_def io_simps sendTransaction_def getTransaction_def other_error_def date_now_def Let_def
        split: sum.splits option.splits prod.splits) (metis fst_conv)
qed


definition sample_sworld :: sworld where
  "sample_sworld = \<lparr>sw_tick = 0, sw_time = 500000, sw_store = (\<lambda>_. None), sw_metrics = initial_metrics, sw_sent = [],
     sw_delay = (\<lambda>_. 1), sw_fault = (\<lambda>_. NoFault), sw_uuid = (\<lambda>n. ''token'' @ nat_str n),
     sw_send = (\<lambda>_ tx. Inr \<lparr>sent_status = ''PENDING'', sent_hash = Some ''OUTER''\<rparr>),
     sw_get = (\<lambda>_ _. Inr \<lparr>got_status = ''SUCCESS'', got_returnValue = None\<rparr>)\<rparr>"

definition sample_submitter :: submitter_options where
  "sample_submitter = \<lparr>timeoutSeconds = Fin 120, pollIntervalMs = None\<rparr>"

lemma submit_returns_witness:
  "fst (submit sample_submitter \<lparr>fb_fee = ''1'', fb_source = ''G'', fb_inner = sample_transaction, fb_signed = True,
     fb_hash = [], fb_xdr = []\<rparr> sample_sworld) \<noteq> Inl NotReturned"
  by (rule submit_returns [where s = 120]) (simp_all add: sample_submitter_def sample_sworld_def elapse_def)

section \<open>What is sent\<close>

lemma redis_sent: "evolves (same sw_sent) (redis f)"
  by (rule redis_same) simp_all

lemma note_metric_sent: "evolves (same sw_sent) (note_metric f)"
  unfolding note_metric_def by (rule same.modifyM_evolves) (simp add: same_def)

lemmas sent_rules = same.evolves_rules redis_sent note_metric_sent

lemma store_operations_sent:
  "evolves (same sw_sent) (quota_reserve policy source ip amount)"
  "evolves (same sw_sent) (releaseBudget r)"
  "evolves (same sw_sent) (replay_acquire ttl h)"
  "evolves (same sw_sent) (replay_complete ttl h tok rec)"
  "evolves (same sw_sent) (replay_release h tok)"
  "evolves (same sw_sent) (replay_terminal h)"
  unfolding quota_reserve_def releaseBudget_def replay_acquire_def replay_complete_def replay_release_def
    replay_terminal_def date_now_def case_prod_beta
  by (intro sent_rules; auto intro!: sent_rules split: option.split redis_value.split)+

lemma sponsor_failed_sent: "evolves (same sw_sent) (sponsor_failed opts h tok t0 res started e)"
  unfolding sponsor_failed_def Let_def date_now_def
  by (intro sent_rules store_operations_sent)

lemma poll_sent: "evolves (same sw_sent) (poll n deadline i h r)"
proof (induction n arbitrary: r)
  case 0
  then show ?case by (simp add: same.throw_evolves)
next
  case (Suc n)
  have "evolves (same sw_sent) (sleep i)"
    unfolding sleep_def by (rule same.modifyM_evolves) (simp add: same_def)
  moreover have "evolves (same sw_sent) (getTransaction h)"
    by (simp add: evolves_def same_def getTransaction_def)
  ultimately show ?case
    using Suc unfolding poll.simps date_now_def by (intro sent_rules)
qed

lemma submit_sent: "sw_sent (snd (submit opts tx w)) = sw_sent w @ [tx]"
proof -
  have "evolves (same sw_sent) (getTransaction h)" for h
    by (simp add: evolves_def same_def getTransaction_def)
  then show ?thesis
    unfolding submit_def date_now_def Let_def
    by (intro bindM_after [where p = sw_sent] sent_rules poll_sent) (simp_all add: sendTransaction_def)
qed

lemma submit_and_record_sent:
  "sw_sent (snd (submit_and_record opts h tok t0 built w)) = sw_sent w @ [b_transaction built]"
  unfolding submit_and_record_def date_now_def Let_def
  by (intro bindM_after [where p = sw_sent] sent_rules store_operations_sent) (simp add: submit_sent)

lemma sponsor_locked_sent:
  "sw_sent (snd (sponsor_locked lib opts p q ip t0 tok w)) = sw_sent w \<or>
   (\<exists>rsv w1 built. quota_reserve (so_quota opts) (p_source p) ip (outerFee q) w = (Inr rsv, w1) \<and>
     buildAndSignFeeBump lib p (so_feePolicy opts) (so_signer opts) (so_passphrase opts) = Inr built \<and>
     sw_sent (snd (sponsor_locked lib opts p q ip t0 tok w)) = sw_sent w @ [b_transaction built])"
proof -
  have failed: "sw_sent (snd (sponsor_failed opts h tok t0 r s e v)) = sw_sent v" for h r s e v
    by (rule evolves_same [OF sponsor_failed_sent])
  obtain x w1 where x: "quota_reserve (so_quota opts) (p_source p) ip (outerFee q) w = (x, w1)" by fastforce
  have w1: "sw_sent w1 = sw_sent w"
    using evolves_same [OF store_operations_sent(1)] x by (metis snd_conv)
  show ?thesis
  proof (cases x)
    case (Inl e)
    then show ?thesis by (simp add: sponsor_locked_def Let_def attemptM_def x failed w1)
  next
    case (Inr rsv)
    show ?thesis
    proof (cases "buildAndSignFeeBump lib p (so_feePolicy opts) (so_signer opts) (so_passphrase opts)")
      case (Inl e)
      then show ?thesis by (simp add: sponsor_locked_def Let_def attemptM_def x \<open>x = Inr rsv\<close> failed w1 liftE_def)
    next
      case (Inr built)
      have "sw_sent (snd (catchM (submit_and_record opts (p_hash p) tok t0 built) h w1)) = sw_sent w @ [b_transaction built]"
        if "\<And>e v. sw_sent (snd (h e v)) = sw_sent v" for h
        using that submit_and_record_sent [of opts "p_hash p" tok t0 built w1] w1
        by (auto simp: catchM_def split: prod.splits sum.splits)
      then show ?thesis
        by (auto simp: sponsor_locked_def Let_def attemptM_def x \<open>x = Inr rsv\<close> Inr liftE_def failed)
    qed
  qed
qed

lemma after_lookup_sent:
  "sw_sent (snd (sponsor_after_lookup lib opts p q ip t0 found u)) = sw_sent u \<or>
    (\<exists>tok u1 rsv u2 built. found = None \<and> replay_acquire (so_lockTtl opts) (p_hash p) u = (Inr tok, u1) \<and>
      quota_reserve (so_quota opts) (p_source p) ip (outerFee q) u1 = (Inr rsv, u2) \<and>
      buildAndSignFeeBump lib p (so_feePolicy opts) (so_signer opts) (so_passphrase opts) = Inr built \<and>
      sw_sent (snd (sponsor_after_lookup lib opts p q ip t0 found u)) = sw_sent u @ [b_transaction built])"
proof (cases found)
  case (Some r)
  then show ?thesis by (simp add: sponsor_after_lookup_def liftE_def)
next
  case None
  obtain x u1 where x: "replay_acquire (so_lockTtl opts) (p_hash p) u = (x, u1)" by fastforce
  then have "sw_sent u1 = sw_sent u" using evolves_same [OF store_operations_sent(3)] by (metis snd_conv)
  then show ?thesis
    using sponsor_locked_sent [of lib opts p q ip t0 "projr x" u1] x
    by (cases x) (simp add: sponsor_after_lookup_def None bindM_def,
        auto simp add: sponsor_after_lookup_def None bindM_def)
qed

lemma built_fee_bump_cases:
  assumes "buildAndSignFeeBump lib p policy signer passphrase = Inr built"
  shows "\<exists>tx q. quoteSponsoredFee (p_innerFee p) (p_resourceFee p) policy = Inr q \<and>
    buildFeeBumpTransaction lib (signer_publicKey signer) (baseFeeStroops policy) (p_transaction p) passphrase = Some tx \<and>
    js_BigInt_of_string (fb_fee tx) = Some (outerFee q) \<and> b_transaction built = signer_sign signer tx"
  using assms by (auto simp: buildAndSignFeeBump_def Let_def bigint_of_def split: sum.splits option.splits if_splits)

lemma accept_request_cases:
  assumes "accept_request lib opts body now = Inr (p, q)"
  shows "\<exists>xdr. parseSponsorshipRequest body = Inr xdr \<and>
    parseSponsoredInnerTransaction lib xdr (so_passphrase opts) (now div 1000) MAX_VALIDITY_SECONDS = Inr p \<and>
    verifyInnerSourceSignature lib p = Inr () \<and>
    assertAllowedContractCall (so_manifest opts) (p_contractId p) (p_method p) = Inr () \<and>
    quoteSponsoredFee (p_innerFee p) (p_resourceFee p) (so_feePolicy opts) = Inr q"
  using assms by (auto simp: accept_request_def split: sum.splits)

lemma step_simps [simp]:
  "bindM date_now k v = k (sw_time v) v"
  "thenM (note_metric g) m v = m (snd (note_metric g v))"
  "sw_time (snd (note_metric g v)) = sw_time v" "sw_sent (snd (note_metric g v)) = sw_sent v"
  "sw_store (snd (note_metric g v)) = sw_store v" "sw_uuid (snd (note_metric g v)) = sw_uuid v"
  "sw_delay (snd (note_metric g v)) = sw_delay v" "sw_fault (snd (note_metric g v)) = sw_fault v" "sw_tick (snd (note_metric g v)) = sw_tick v"
  by (simp_all add: bindM_def thenM_def date_now_def getsM_def note_metric_def modifyM_def)

lemma liftE_bind: "bindM (liftE r) k v = (case r of Inl e \<Rightarrow> (Inl e, v) | Inr a \<Rightarrow> k a v)"
  by (simp add: bindM_def liftE_def)

text \<open>What \<open>sponsor\<close> does, in the order of its checks.\<close>

definition counted :: "fee_quote \<Rightarrow> sworld \<Rightarrow> sworld" where
  "counted q w = snd (note_metric (noteSponsorshipAccepted (outerFee q)) (snd (note_metric noteSponsorshipRequested w)))"

lemma counted_simps [simp]:
  "sw_time (counted q w) = sw_time w" "sw_sent (counted q w) = sw_sent w" "sw_store (counted q w) = sw_store w"
  "sw_delay (counted q w) = sw_delay w" "sw_uuid (counted q w) = sw_uuid w" "sw_fault (counted q w) = sw_fault w" "sw_tick (counted q w) = sw_tick w"
  by (simp_all add: counted_def)

lemma sponsor_unfold:
  "sponsor lib opts body ip w =
    (if \<not> so_enabled opts
       then (Inl (SponsorshipError SPONSORSHIP_DISABLED ''Fee sponsorship is not enabled.'' False),
         snd (note_metric noteSponsorshipRequested w))
     else case accept_request lib opts body (sw_time w) of
       Inl e \<Rightarrow> (Inl e, snd (note_metric noteSponsorshipRequested w))
     | Inr (p, q) \<Rightarrow> bindM (replay_terminal (p_hash p)) (sponsor_after_lookup lib opts p q ip (sw_time w)) (counted q w))"
proof (cases "accept_request lib opts body (sw_time w)")
  case (Inl e)
  then show ?thesis by (simp add: sponsor_def liftE_bind throw_def)
next
  case (Inr pq)
  then show ?thesis by (cases pq) (simp add: sponsor_def liftE_bind throw_def counted_def)
qed

text \<open>C3: a request sends at most one fee bump, and sends one only when the service is enabled, the
  transaction passed the validator, the signature check and the allowlist, its fee is one the
  policy quotes, no outcome of it is recorded, its lock was acquired, the quota then granted the
  fee, and the fee bump built declares exactly that fee.\<close>

lemma sponsor_sends_checked:
  "sw_sent (snd (sponsor lib opts body ip w)) = sw_sent w \<or>
   (\<exists>xdr p q tx. so_enabled opts \<and> parseSponsorshipRequest body = Inr xdr \<and>
     parseSponsoredInnerTransaction lib xdr (so_passphrase opts) (sw_time w div 1000) MAX_VALIDITY_SECONDS = Inr p \<and>
     verifyInnerSourceSignature lib p = Inr () \<and>
     assertAllowedContractCall (so_manifest opts) (p_contractId p) (p_method p) = Inr () \<and>
     quoteSponsoredFee (p_innerFee p) (p_resourceFee p) (so_feePolicy opts) = Inr q \<and>
     (\<exists>v tok v1 rsv v2. replay_terminal (p_hash p) (counted q w) = (Inr None, v) \<and>
        replay_acquire (so_lockTtl opts) (p_hash p) v = (Inr tok, v1) \<and>
        quota_reserve (so_quota opts) (p_source p) ip (outerFee q) v1 = (Inr rsv, v2)) \<and>
     buildFeeBumpTransaction lib (signer_publicKey (so_signer opts)) (baseFeeStroops (so_feePolicy opts))
        (p_transaction p) (so_passphrase opts) = Some tx \<and> js_BigInt_of_string (fb_fee tx) = Some (outerFee q) \<and>
     sw_sent (snd (sponsor lib opts body ip w)) = sw_sent w @ [signer_sign (so_signer opts) tx])"
  (is "?same \<or> _")
proof (cases "so_enabled opts \<and> (\<exists>p q. accept_request lib opts body (sw_time w) = Inr (p, q))")
  case False
  then show ?thesis
    by (cases "accept_request lib opts body (sw_time w)") (auto simp: sponsor_unfold)
next
  case True
  then obtain p q where enabled: "so_enabled opts" and pq: "accept_request lib opts body (sw_time w) = Inr (p, q)"
    by blast
  then have run: "sponsor lib opts body ip w =
      bindM (replay_terminal (p_hash p)) (sponsor_after_lookup lib opts p q ip (sw_time w)) (counted q w)"
    by (simp add: sponsor_unfold)
  obtain x u where x: "replay_terminal (p_hash p) (counted q w) = (x, u)" by fastforce
  have u: "sw_sent u = sw_sent w"
    using evolves_same [OF store_operations_sent(6)] x counted_simps(2) by (metis snd_conv)
  have "?same \<or> (\<exists>tok u1 rsv u2 built. x = Inr None \<and> replay_acquire (so_lockTtl opts) (p_hash p) u = (Inr tok, u1) \<and>
      quota_reserve (so_quota opts) (p_source p) ip (outerFee q) u1 = (Inr rsv, u2) \<and>
      buildAndSignFeeBump lib p (so_feePolicy opts) (so_signer opts) (so_passphrase opts) = Inr built \<and>
      sw_sent (snd (sponsor lib opts body ip w)) = sw_sent w @ [b_transaction built])"
    using after_lookup_sent [of lib opts p q ip "sw_time w" "projr x" u] u
    by (cases x) (simp_all add: run bindM_def x)
  then show ?thesis
  proof (elim disjE exE conjE)
    fix tok u1 rsv u2 built
    assume steps: "x = Inr None" "replay_acquire (so_lockTtl opts) (p_hash p) u = (Inr tok, u1)"
      "quota_reserve (so_quota opts) (p_source p) ip (outerFee q) u1 = (Inr rsv, u2)"
      and built: "buildAndSignFeeBump lib p (so_feePolicy opts) (so_signer opts) (so_passphrase opts) = Inr built"
      and sent: "sw_sent (snd (sponsor lib opts body ip w)) = sw_sent w @ [b_transaction built]"
    obtain xdr where checks: "parseSponsorshipRequest body = Inr xdr"
      "parseSponsoredInnerTransaction lib xdr (so_passphrase opts) (sw_time w div 1000) MAX_VALIDITY_SECONDS = Inr p"
      "verifyInnerSourceSignature lib p = Inr ()"
      "assertAllowedContractCall (so_manifest opts) (p_contractId p) (p_method p) = Inr ()"
      "quoteSponsoredFee (p_innerFee p) (p_resourceFee p) (so_feePolicy opts) = Inr q"
      using accept_request_cases [OF pq] by blast
    then obtain tx where tx: "buildFeeBumpTransaction lib (signer_publicKey (so_signer opts))
        (baseFeeStroops (so_feePolicy opts)) (p_transaction p) (so_passphrase opts) = Some tx"
      "js_BigInt_of_string (fb_fee tx) = Some (outerFee q)" "b_transaction built = signer_sign (so_signer opts) tx"
      using built_fee_bump_cases [OF built] by auto
    have lookup: "replay_terminal (p_hash p) (counted q w) = (Inr None, u)" using x steps(1) by simp
    have "\<exists>v tok v1 rsv v2. replay_terminal (p_hash p) (counted q w) = (Inr None, v) \<and>
        replay_acquire (so_lockTtl opts) (p_hash p) v = (Inr tok, v1) \<and>
        quota_reserve (so_quota opts) (p_source p) ip (outerFee q) v1 = (Inr rsv, v2)"
      using lookup steps(2,3) by blast
    with enabled checks tx sent show ?thesis by auto
  qed simp
qed

section \<open>Locks\<close>

lemma attemptM_evolves:
  assumes "frame R" "evolves R m" "\<And>e. evolves R (h e)" "\<And>w a w'. m w = (Inr a, w') \<Longrightarrow> evolves R (k a)"
  shows "evolves R (attemptM m h k)"
proof (rule evolvesI)
  fix w
  obtain x w1 where x: "m w = (x, w1)" by fastforce
  have "R w w1" using assms(2) x by (rule evolves_result)
  moreover have "R w1 (snd (attemptM m h k w))"
    using assms(3,4) x by (cases x) (auto simp: attemptM_def evolves_def)
  ultimately show "R w (snd (attemptM m h k w))" by (rule frame.R_trans [OF assms(1)])
qed

lemma note_metric_guards: "evolves (guards h t e) (note_metric f)"
  by (simp add: evolves_def guards_def)

lemma date_now_guards: "evolves (guards h t e) date_now"
  unfolding date_now_def by (rule guards.getsM_evolves)

lemma network_guards:
  "evolves (guards h t e) (sleep i)" "evolves (guards h t e) (getTransaction g)"
  "evolves (guards h t e) (sendTransaction tx)"
proof -
  have "sw_time w \<le> sw_time (elapse w) + max i 1" for w using elapse_simps(4) [of w] by linarith
  then show "evolves (guards h t e) (sleep i)"
    by (auto simp: evolves_def guards_def sleep_def modifyM_def)
qed (auto simp: evolves_def guards_def getTransaction_def sendTransaction_def)

lemmas guards_rules = guards.evolves_rules note_metric_guards date_now_guards network_guards

lemma poll_guards: "evolves (guards h t e) (poll n deadline i g r)"
proof (induction n arbitrary: r)
  case 0
  then show ?case by (simp add: guards.throw_evolves)
next
  case (Suc n)
  then show ?case unfolding poll.simps by (intro guards_rules)
qed

lemma submit_guards: "evolves (guards h t e) (submit opts tx)"
  unfolding submit_def Let_def by (intro guards_rules poll_guards)

lemma sponsor_failed_guards:
  assumes "tok \<noteq> t" "\<And>r. res = Some r \<Longrightarrow> \<exists>n. dailyKey r = budget_key n"
  shows "evolves (guards h t e) (sponsor_failed opts h' tok t0 res started er)"
proof -
  have release: "evolves (guards h t e) (case res of None \<Rightarrow> ret () | Some r \<Rightarrow> whenM (\<not> started) (releaseBudget r))"
    using assms(2) by (cases res) (auto intro: guards.ret_evolves guards.whenM_evolves releaseBudget_guards)
  show ?thesis
    unfolding sponsor_failed_def Let_def
    using assms(1) by (intro release guards_rules replay_complete_guards replay_release_guards)
qed

lemma submit_and_record_guards:
  "tok \<noteq> t \<Longrightarrow> evolves (guards h t e) (submit_and_record opts h' tok t0 built)"
  unfolding submit_and_record_def Let_def
  by (intro guards_rules submit_guards replay_complete_guards)

lemma sponsor_locked_guards:
  assumes "tok \<noteq> t"
  shows "evolves (guards h t e) (sponsor_locked lib opts p q ip t0 tok)"
  unfolding sponsor_locked_def Let_def
proof (intro attemptM_evolves [OF guards.frame_axioms] quota_reserve_guards sponsor_failed_guards [OF assms]
    guards.liftE_evolves)
  fix w r w'
  assume "quota_reserve (so_quota opts) (p_source p) ip (outerFee q) w = (Inr r, w')"
  then have key: "\<exists>n. dailyKey r = budget_key n" using quota_reserve_key by blast
  show "evolves (guards h t e) (catchM (submit_and_record opts (p_hash p) tok t0 built)
      (sponsor_failed opts (p_hash p) tok t0 (Some r) True))" for built
    using key by (intro guards.catchM_evolves submit_and_record_guards sponsor_failed_guards assms) auto
  show "\<exists>n. dailyKey r' = budget_key n" if "Some r = Some r'" for r'
    using key that by simp
qed simp

lemma after_lookup_guards: "evolves (guards h t e) (sponsor_after_lookup lib opts p q ip t0 found)"
  unfolding sponsor_after_lookup_def
  by (intro guards_rules acquire_guards sponsor_locked_guards)

lemma sponsor_guards: "evolves (guards h t e) (sponsor lib opts body ip)"
  unfolding sponsor_def case_prod_beta
  by (intro guards_rules replay_terminal_guards after_lookup_guards)

lemma acquire_refused:
  assumes "sw_store v (lockKey h) = Some (RText t, Some e)" "sw_time v < e"
  shows "fst (replay_acquire ttl h v) \<noteq> Inr tok"
proof
  assume "fst (replay_acquire ttl h v) = Inr tok"
  then obtain v' where "replay_acquire ttl h v = (Inr tok, v')" by (metis prod.collapse)
  then obtain v1 where "redis (\<lambda>now. set_ex now True (lockKey h) (RText (sw_uuid v (sw_tick v))) (num_to_string ttl)) v =
      (Inr True, v1)"
    by (auto simp: replay_acquire_def io_simps split: prod.splits sum.splits if_splits)
  from redis_Inr [OF this] live_lock [of "sw_store v" h, OF assms] show False
    by (auto simp: set_ex_def bindM_def int_arg_def throw_def ret_def split: option.splits if_splits)
qed

text \<open>C8: a request that begins and ends while another session holds the unexpired lock of a transaction leaves
  that lock in place, and if it is for the same transaction it sends nothing.  The request runs alone here; requests
  that are in progress when a lock expires are the subject of Sponsor_Sessions.\<close>

lemma sponsor_respects_lock:
  assumes "\<forall>n. sw_uuid w n \<noteq> t" "sw_store w (lockKey h) = Some (RText t, Some e)"
    and "sw_time (snd (sponsor lib opts body ip w)) < e"
  shows "sw_store (snd (sponsor lib opts body ip w)) (lockKey h) = Some (RText t, Some e) \<and>
    (\<forall>p q. accept_request lib opts body (sw_time w) = Inr (p, q) \<and> p_hash p = h \<longrightarrow>
      sw_sent (snd (sponsor lib opts body ip w)) = sw_sent w)"
proof (intro conjI allI impI)
  show "sw_store (snd (sponsor lib opts body ip w)) (lockKey h) = Some (RText t, Some e)"
  proof -
    have "guards h t e w (snd (sponsor lib opts body ip w))" by (rule evolvesD [OF sponsor_guards])
    then show ?thesis using assms by (simp add: guards_def)
  qed
next
  fix p q
  assume pq: "accept_request lib opts body (sw_time w) = Inr (p, q) \<and> p_hash p = h"
  show "sw_sent (snd (sponsor lib opts body ip w)) = sw_sent w"
  proof (cases "so_enabled opts")
    case True
    obtain x v where x: "replay_terminal h (counted q w) = (x, v)" by fastforce
    have sent: "sw_sent v = sw_sent w"
      using evolves_same [OF store_operations_sent(6)] x counted_simps(2) by (metis snd_conv)
    have g1: "guards h t e (counted q w) v" using replay_terminal_guards x by (rule evolves_result)
    have run: "sponsor lib opts body ip w = bindM (replay_terminal h)
        (sponsor_after_lookup lib opts p q ip (sw_time w)) (counted q w)"
      using True pq by (auto simp: sponsor_unfold)
    show ?thesis
    proof (cases x)
      case (Inl er)
      then show ?thesis by (simp add: run bindM_def x sent)
    next
      case (Inr found)
      have final: "snd (sponsor lib opts body ip w) = snd (sponsor_after_lookup lib opts p q ip (sw_time w) found v)"
        by (simp add: run bindM_def x Inr)
      have "guards h t e v (snd (sponsor_after_lookup lib opts p q ip (sw_time w) found v))"
        by (rule evolvesD [OF after_lookup_guards])
      then have "sw_time v < e" "sw_store v (lockKey h) = Some (RText t, Some e)"
        using g1 assms final by (auto simp: guards_def)
      then show ?thesis
        using after_lookup_sent [of lib opts p q ip "sw_time w" found v] acquire_refused [of v h t e] pq sent
        by (auto simp: final) (metis fst_conv)
    qed
  qed (simp add: sponsor_unfold)
qed

definition sample_manifest_contracts :: manifest where
  "sample_manifest_contracts = \<lparr>m_network = ''testnet'', m_contracts = [(''amm'', ''CAMM'')], m_hash = ''h'',
     m_admin = [], m_governance_authority = []\<rparr>"

definition sample_service :: service_options where
  "sample_service = \<lparr>so_enabled = True, so_network = testnet, so_passphrase = ''pass'',
     so_manifest = sample_manifest_contracts, so_feePolicy = default_policy,
     so_signer = \<lparr>signer_publicKey = ''GSPONSOR'', signer_sign = (\<lambda>tx. tx\<lparr>fb_signed := True\<rparr>)\<rparr>,
     so_quota = \<lparr>maxPerMinute = Fin 10, maxPerIpMinute = Fin 30, dailyBudgetStroops = int_str 100000000, ttlSeconds = Fin 900\<rparr>,
     so_replayTtl = Fin 900, so_lockTtl = Fin 180, so_submitter = sample_submitter\<rparr>"

lemma replay_terminal_absent:
  assumes "sw_fault v (sw_tick v) = NoFault" "live (sw_time v) (sw_store v) (resultKey h) = None"
  shows "replay_terminal h v = (Inr None, elapse v)"
proof -
  have "redis (\<lambda>now. get_key now (resultKey h)) v = (Inr None, (elapse v)\<lparr>sw_store := sw_store v\<rparr>)"
    using assms by (intro redis_NoFault) (simp_all add: get_key_def getsM_def)
  then show ?thesis by (simp add: replay_terminal_def io_simps elapse_def)
qed

lemma replay_acquire_held:
  assumes "sw_store v (lockKey h) = Some (RText t, Some e)" "sw_time v < e" "sw_fault v (sw_tick v) = NoFault"
  shows "\<exists>er. replay_acquire ttl h v = (Inl er, elapse v)"
proof -
  let ?set = "\<lambda>now. set_ex now True (lockKey h) (RText (sw_uuid v (sw_tick v))) (num_to_string ttl)"
  have "(\<exists>er. fst (?set (sw_time v) (sw_store v)) = Inl er) \<or> fst (?set (sw_time v) (sw_store v)) = Inr False"
    using live_lock [of "sw_store v" h, OF assms(1,2)]
    by (auto simp: set_ex_def bindM_def int_arg_def throw_def ret_def split: option.splits)
  moreover have "snd (?set (sw_time v) (sw_store v)) = sw_store v"
    using live_lock [of "sw_store v" h, OF assms(1,2)] by (intro set_nx_held) simp
  ultimately have "(\<exists>er. redis ?set v = (Inl er, elapse v)) \<or> redis ?set v = (Inr False, elapse v)"
    using assms(3) by (cases "?set (sw_time v) (sw_store v)") (auto simp: redis_def other_error_def elapse_def)
  then show ?thesis by (auto simp: replay_acquire_def io_simps)
qed

lemma sample_accept: "accept_request sample_sdk sample_service (sent_body ''AAAA'') 500000 =
    Inr (sample_parsed\<lparr>p_xdr := ''AAAA''\<rparr>, \<lparr>innerInclusionFee = 2000000, outerFee = 4001000, quoteResourceFee = 1000\<rparr>)"
proof -
  have body: "parseSponsorshipRequest (sent_body ''AAAA'') = Inr ''AAAA''"
    by (simp add: parseSponsorshipRequest_def Let_def isBase64_def padding_def is_base64_char_def sent_body_def
        base64_decoded_length_def MAX_XDR_BYTES_def MAX_XDR_BASE64_LENGTH_def)
  have call: "assertAllowedContractCall sample_manifest_contracts ''CAMM'' ''buy_yes'' = Inr ()"
    by (simp add: assertAllowedContractCall_def sponsored_module_def SPONSORED_METHODS_def sample_manifest_contracts_def)
  have quote: "quoteSponsoredFee 2001000 1000 default_policy =
      Inr \<lparr>innerInclusionFee = 2000000, outerFee = 4001000, quoteResourceFee = 1000\<rparr>"
    by (simp add: quoteSponsoredFee_def bigint_of_def default_policy_def default_policy_values quote_fees_def BASE_FEE_def)
  show ?thesis
    using sample_parse [of "''AAAA''" "''pass''"] sample_verified [of "''AAAA''"]
    by (simp add: accept_request_def body MAX_VALIDITY_SECONDS_def sample_service_def call quote)
      (simp add: sample_parsed_def call quote)
qed

definition locked_sworld :: sworld where
  "locked_sworld = sample_sworld\<lparr>sw_store := (\<lambda>_. None)(lockKey (p_hash sample_parsed) \<mapsto> (RText ''mine'', Some 900000))\<rparr>"

lemma sponsor_respects_lock_witness:
  "sw_sent (snd (sponsor sample_sdk sample_service (sent_body ''AAAA'') ''ip'' locked_sworld)) = []"
proof -
  have fresh: "\<forall>n. sw_uuid locked_sworld n \<noteq> ''mine''" by (simp add: locked_sworld_def sample_sworld_def)
  have lock: "sw_store locked_sworld (lockKey (p_hash sample_parsed)) = Some (RText ''mine'', Some 900000)"
    by (simp add: locked_sworld_def)
  have accept: "accept_request sample_sdk sample_service (sent_body ''AAAA'') (sw_time locked_sworld) =
      Inr (sample_parsed\<lparr>p_xdr := ''AAAA''\<rparr>, \<lparr>innerInclusionFee = 2000000, outerFee = 4001000, quoteResourceFee = 1000\<rparr>)"
    using sample_accept by (simp add: locked_sworld_def sample_sworld_def)
  have "snd (bindM (replay_terminal h) (sponsor_after_lookup sample_sdk sample_service p q ip t0)
      (counted q' locked_sworld)) = elapse (elapse (counted q' locked_sworld))"
    if "h = p_hash sample_parsed" "p_hash p = h" for h p q ip t0 q'
  proof -
    have "replay_terminal h (counted q' locked_sworld) = (Inr None, elapse (counted q' locked_sworld))"
      by (rule replay_terminal_absent) (simp_all add: locked_sworld_def sample_sworld_def live_def entry_def)
    moreover have "\<exists>er. replay_acquire ttl h (elapse (counted q' locked_sworld)) =
        (Inl er, elapse (elapse (counted q' locked_sworld)))" for ttl
      by (rule replay_acquire_held [of _ _ "''mine''" 900000])
        (simp_all add: that locked_sworld_def sample_sworld_def elapse_def)
    ultimately show ?thesis
      using that by (auto simp: bindM_def sponsor_after_lookup_def split: prod.split sum.split) (metis Inl_Inr_False prod.inject)+
  qed
  then have "sw_time (snd (sponsor sample_sdk sample_service (sent_body ''AAAA'') ''ip'' locked_sworld)) < 900000"
    using accept
    by (simp add: sponsor_unfold) (simp add: sample_service_def locked_sworld_def sample_sworld_def elapse_def sample_parsed_def)
  then show ?thesis
    using sponsor_respects_lock [OF fresh lock, of sample_sdk sample_service "sent_body ''AAAA''" "''ip''"] accept
    by (simp add: locked_sworld_def sample_sworld_def)
qed

section \<open>Recorded outcomes\<close>

lemma redis_set:
  "redis (\<lambda>now. set_ex now False k v s) w = (Inr b, w') \<Longrightarrow> \<exists>e. sw_store w' = (sw_store w)(k \<mapsto> (v, Some e))"
  by (drule redis_Inr)
    (auto simp: set_ex_def bindM_def int_arg_def ret_def throw_def split: option.splits if_splits)

lemma redis_del: "redis (\<lambda>_. del_key k) w = (Inr b, w') \<Longrightarrow> sw_store w' = (sw_store w)(k := None)"
  by (drule redis_Inr) (auto simp: del_key_def modifyM_def)

lemma replay_complete_Inr:
  assumes "replay_complete ttl h tok rec w = (Inr u, w')"
  shows "\<exists>e. sw_store w' (resultKey h) = Some (RRecord rec, Some e) \<and> sw_store w' (lockKey h) = None"
proof -
  obtain c w1 where "(if c \<noteq> Some (RText tok)
       then throw (SponsorshipError TRANSACTION_REPLAY ''The sponsorship lock is no longer owned.'' False)
     else thenM (redis (\<lambda>now. set_ex now False (resultKey h) (RRecord rec) (num_to_string ttl)))
       (redis (\<lambda>_. del_key (lockKey h)))) w1 = (Inr u, w')"
    using assms unfolding replay_complete_def bindM_eq_Inr by blast
  then have "thenM (redis (\<lambda>now. set_ex now False (resultKey h) (RRecord rec) (num_to_string ttl)))
       (redis (\<lambda>_. del_key (lockKey h))) w1 = (Inr u, w')"
    by (cases "c = Some (RText tok)") (simp_all add: throw_def)
  then obtain b w2 where "redis (\<lambda>now. set_ex now False (resultKey h) (RRecord rec) (num_to_string ttl)) w1 = (Inr b, w2)"
    and "redis (\<lambda>_. del_key (lockKey h)) w2 = (Inr u, w')"
    unfolding thenM_eq_Inr by blast
  then show ?thesis by (auto dest!: redis_set redis_del)
qed

lemma submit_and_record_Inr:
  assumes "submit_and_record opts h tok t0 built w = (Inr r, w')"
  shows "\<exists>e. sw_store w' (resultKey h) = Some (RRecord (ReplaySuccess r), Some e)"
proof -
  obtain result u w1 w2 where complete: "replay_complete (so_replayTtl opts) h tok (ReplaySuccess result) w1 = (Inr u, w2)"
    and rest: "bindM date_now (\<lambda>now. thenM (note_metric (noteSponsorshipCompleted Confirmed (now - t0) None)) (ret result)) w2 =
      (Inr r, w')"
    using assms unfolding submit_and_record_def Let_def bindM_eq_Inr [where f = "\<lambda>sub. thenM (m sub) (k sub)" for m k]
      thenM_eq_Inr [where m = "replay_complete a b c d" for a b c d] by blast
  then have "result = r" "sw_store w' = sw_store w2" by (auto simp: ret_def)
  with replay_complete_Inr [OF complete] show ?thesis by simp
qed

lemma throws_then: "(\<And>v. fst (k v) \<noteq> Inr b) \<Longrightarrow> fst (thenM m k w) \<noteq> Inr b"
  unfolding thenM_app by (auto split: prod.split sum.split)

lemma sponsor_failed_Inl: "fst (sponsor_failed opts h tok t0 res started er w) \<noteq> Inr r"
proof -
  have thrown: "fst (throw er v) \<noteq> Inr r" for er v by (simp add: throw_def)
  show ?thesis
    unfolding sponsor_failed_def Let_def
    by (cases "er = NotReturned")
      (simp_all only: if_True if_False step_simps thrown throws_then simp_thms not_False_eq_True)
qed

lemma attemptM_Inr:
  "attemptM m h k w = (Inr b, w') \<Longrightarrow> (\<And>e v. fst (h e v) \<noteq> Inr b) \<Longrightarrow> \<exists>a w1. m w = (Inr a, w1) \<and> k a w1 = (Inr b, w')"
  by (auto simp: attemptM_def split: prod.splits sum.splits) (metis fst_conv)+

lemma sponsor_locked_Inr:
  assumes "sponsor_locked lib opts p q ip t0 tok w = (Inr r, w')"
  shows "\<exists>e. sw_store w' (resultKey (p_hash p)) = Some (RRecord (ReplaySuccess r), Some e)"
proof -
  obtain rsv w0 where build: "attemptM (liftE (buildAndSignFeeBump lib p (so_feePolicy opts) (so_signer opts) (so_passphrase opts)))
      (sponsor_failed opts (p_hash p) tok t0 (Some rsv) False) (\<lambda>built.
        catchM (submit_and_record opts (p_hash p) tok t0 built) (sponsor_failed opts (p_hash p) tok t0 (Some rsv) True)) w0 =
      (Inr r, w')"
    using attemptM_Inr [OF assms [unfolded sponsor_locked_def Let_def] sponsor_failed_Inl] by blast
  obtain built w1 where "catchM (submit_and_record opts (p_hash p) tok t0 built)
      (sponsor_failed opts (p_hash p) tok t0 (Some rsv) True) w1 = (Inr r, w')"
    using attemptM_Inr [OF build sponsor_failed_Inl] by blast
  moreover have "sponsor_failed opts (p_hash p) tok t0 (Some rsv) True er v \<noteq> (Inr r, w')" for er v
    using sponsor_failed_Inl [of opts "p_hash p" tok t0 "Some rsv" True er v r] by (metis fst_conv)
  ultimately have "submit_and_record opts (p_hash p) tok t0 built w1 = (Inr r, w')"
    by (auto simp: catchM_def split: prod.splits sum.splits)
  then show ?thesis by (rule submit_and_record_Inr)
qed

lemma live_later: "live now st k = Some v \<Longrightarrow> live now' st k \<noteq> None \<Longrightarrow> live now' st k = Some v"
  by (auto simp: live_def entry_def split: option.splits if_splits)

lemma replay_terminal_Some:
  assumes "replay_terminal h w = (Inr (Some r), w')"
  shows "live (sw_time w) (sw_store w) (resultKey h) = Some (RRecord r) \<and> sw_store w' = sw_store w"
proof -
  obtain v w1 where get: "redis (\<lambda>now. get_key now (resultKey h)) w = (Inr v, w1)"
    and found: "(case v of None \<Rightarrow> ret None | Some (RRecord r) \<Rightarrow> ret (Some r)
      | Some (RText s) \<Rightarrow> if s = [] then ret None else throw (OtherError ''SyntaxError: Unexpected token'')
      | Some (RInt i) \<Rightarrow> throw (OtherError ''the stored value is not a record'')) w1 = (Inr (Some r), w')"
    using assms unfolding replay_terminal_def bindM_eq_Inr by blast
  then have "v = Some (RRecord r)" "w' = w1"
    by (auto simp: ret_def throw_def split: option.splits redis_value.splits if_splits)
  with redis_Inr [OF get] show ?thesis by (auto simp: get_key_def getsM_def)
qed

lemma replay_terminal_live:
  assumes "sw_fault w (sw_tick w) = NoFault" "live (sw_time w) (sw_store w) (resultKey h) = Some (RRecord r)"
  shows "replay_terminal h w = (Inr (Some r), elapse w)"
proof -
  have "redis (\<lambda>now. get_key now (resultKey h)) w = (Inr (Some (RRecord r)), (elapse w)\<lparr>sw_store := sw_store w\<rparr>)"
    using assms by (intro redis_NoFault) (simp_all add: get_key_def getsM_def)
  then show ?thesis by (simp add: replay_terminal_def io_simps elapse_def)
qed

lemma accept_request_time:
  "accept_request lib opts body t = Inr a \<Longrightarrow> accept_request lib opts body t' = Inr b \<Longrightarrow> a = b"
  by (auto simp: accept_request_def parseSponsoredInnerTransaction_def split: sum.splits option.splits if_splits prod.splits)

text \<open>A successful request leaves its result recorded.\<close>

lemma sponsor_Inr:
  assumes "sponsor lib opts body ip w = (Inr r, w1)"
  shows "\<exists>p q now. accept_request lib opts body (sw_time w) = Inr (p, q) \<and> so_enabled opts \<and>
    live now (sw_store w1) (resultKey (p_hash p)) = Some (RRecord (ReplaySuccess r))"
proof -
  obtain p q where pq: "accept_request lib opts body (sw_time w) = Inr (p, q)" and enabled: "so_enabled opts"
    and run: "bindM (replay_terminal (p_hash p)) (sponsor_after_lookup lib opts p q ip (sw_time w)) (counted q w) = (Inr r, w1)"
    using assms by (auto simp: sponsor_unfold split: if_splits sum.splits)
  from run obtain found v where found: "replay_terminal (p_hash p) (counted q w) = (Inr found, v)"
    and rest: "sponsor_after_lookup lib opts p q ip (sw_time w) found v = (Inr r, w1)"
    by (auto simp: bindM_eq_Inr)
  have "\<exists>now. live now (sw_store w1) (resultKey (p_hash p)) = Some (RRecord (ReplaySuccess r))"
  proof (cases found)
    case None
    then obtain tok u where "sponsor_locked lib opts p q ip (sw_time w) tok u = (Inr r, w1)"
      using rest by (auto simp: sponsor_after_lookup_def bindM_eq_Inr)
    from sponsor_locked_Inr [OF this] obtain e where
      "sw_store w1 (resultKey (p_hash p)) = Some (RRecord (ReplaySuccess r), Some e)" ..
    then have "live (e - 1) (sw_store w1) (resultKey (p_hash p)) = Some (RRecord (ReplaySuccess r))"
      by (simp add: live_def entry_def)
    then show ?thesis ..
  next
    case (Some rec)
    then have "rec = ReplaySuccess r" "w1 = v"
      using rest by (auto simp: sponsor_after_lookup_def liftE_def replayResult_def split: replay_record.splits)
    then show ?thesis
      using replay_terminal_Some [of "p_hash p" "counted q w" rec v] found Some by auto
  qed
  with pq enabled show ?thesis by blast
qed

text \<open>C31: once a request succeeded, sending the same request again while its result is still kept gives
  the same result, submits nothing and stores nothing.\<close>

lemma sponsor_retry_cached:
  assumes "sponsor lib opts body ip w = (Inr r, w1)"
    and "accept_request lib opts body (sw_time w1) = Inr (p, q)" "sw_fault w1 (sw_tick w1) = NoFault"
    and "live (sw_time w1) (sw_store w1) (resultKey (p_hash p)) \<noteq> None"
  shows "\<exists>w2. sponsor lib opts body ip' w1 = (Inr r, w2) \<and> sw_sent w2 = sw_sent w1 \<and> sw_store w2 = sw_store w1"
proof -
  obtain p' q' now where first: "accept_request lib opts body (sw_time w) = Inr (p', q')" "so_enabled opts"
    "live now (sw_store w1) (resultKey (p_hash p')) = Some (RRecord (ReplaySuccess r))"
    using sponsor_Inr [OF assms(1)] by blast
  have "p' = p" using accept_request_time [OF first(1) assms(2)] by simp
  then have "live (sw_time w1) (sw_store w1) (resultKey (p_hash p)) = Some (RRecord (ReplaySuccess r))"
    using live_later first(3) assms(4) by blast
  then have "replay_terminal (p_hash p) (counted q w1) = (Inr (Some (ReplaySuccess r)), elapse (counted q w1))"
    using assms(3) by (intro replay_terminal_live) simp_all
  then show ?thesis
    using first(2) assms(2)
    by (simp add: sponsor_unfold bindM_def sponsor_after_lookup_def liftE_def replayResult_def)
qed

definition cached_sworld :: sworld where
  "cached_sworld = sample_sworld\<lparr>sw_store := (\<lambda>_. None)(resultKey (p_hash sample_parsed) \<mapsto>
     (RRecord (ReplaySuccess \<lparr>sr_innerHash = ''ab'', sr_outerHash = ''OUTER'', sr_returnValueXdr = None\<rparr>), Some 900000))\<rparr>"

lemma sponsor_retry_cached_witness:
  "\<exists>w1 w2. sponsor sample_sdk sample_service (sent_body ''AAAA'') ''other'' w1 =
     (Inr \<lparr>sr_innerHash = ''ab'', sr_outerHash = ''OUTER'', sr_returnValueXdr = None\<rparr>, w2) \<and> sw_sent w2 = []"
proof -
  let ?q = "\<lparr>innerInclusionFee = 2000000, outerFee = 4001000, quoteResourceFee = 1000\<rparr>"
  let ?r = "\<lparr>sr_innerHash = ''ab'', sr_outerHash = ''OUTER'', sr_returnValueXdr = None\<rparr>"
  let ?w1 = "elapse (counted ?q cached_sworld)"
  have live: "live t (sw_store cached_sworld) (resultKey (p_hash sample_parsed)) = Some (RRecord (ReplaySuccess ?r))"
    if "t < 900000" for t using that by (simp add: live_def entry_def cached_sworld_def)
  have world: "sw_time cached_sworld = 500000" "sw_fault cached_sworld = (\<lambda>_. NoFault)" "sw_sent cached_sworld = []"
    "sw_delay cached_sworld = (\<lambda>_. 1)" "sw_tick cached_sworld = 0"
    by (simp_all add: cached_sworld_def sample_sworld_def)
  have time1: "sw_time ?w1 = 500001" by (simp add: elapse_def world)
  have accept: "accept_request sample_sdk sample_service (sent_body ''AAAA'') t =
      Inr (sample_parsed\<lparr>p_xdr := ''AAAA''\<rparr>, ?q)" if "t div 1000 = 500" for t
  proof -
    have "t div 1000 = 500000 div 1000" using that by simp
    then show ?thesis using sample_accept unfolding accept_request_def by (simp only:)
  qed
  have "replay_terminal (p_hash sample_parsed) (counted ?q cached_sworld) = (Inr (Some (ReplaySuccess ?r)), ?w1)"
    by (rule replay_terminal_live) (simp_all add: live world)
  then have first: "sponsor sample_sdk sample_service (sent_body ''AAAA'') ''ip'' cached_sworld = (Inr ?r, ?w1)"
    using accept [of 500000]
    by (simp add: sponsor_unfold world bindM_def sponsor_after_lookup_def liftE_def replayResult_def)
      (simp add: sample_service_def sample_parsed_def)
  have "sw_fault ?w1 (sw_tick ?w1) = NoFault" by (simp add: world)
  moreover have "live (sw_time ?w1) (sw_store ?w1) (resultKey (p_hash (sample_parsed\<lparr>p_xdr := ''AAAA''\<rparr>))) \<noteq> None"
    using live [of 500001] by (simp add: time1 sample_parsed_def)
  ultimately show ?thesis
    using sponsor_retry_cached [OF first accept, where ip' = "''other''"] time1 world(3) by auto
qed

lemma replay_complete_runs:
  assumes "\<And>n. sw_fault w n = NoFault" "sw_store w (lockKey h) = Some (RText tok, Some e)" "sw_time w < e"
    and "ttl = Fin (of_int n)" "0 < n" "n \<le> max_safe"
  shows "\<exists>w' e'. replay_complete ttl h tok rec w = (Inr (), w') \<and>
    sw_store w' (resultKey h) = Some (RRecord rec, Some e') \<and> sw_store w' (lockKey h) = None"
proof -
  have ttl_text: "num_to_string ttl = int_str n" using assms(4-6) by simp
  have arg: "int_arg (int_str n) st = (Inr n, st)" for st
    using assms(5,6) by (simp add: int_arg_def redis_int_def int64_range_def max_safe_def ret_def)
  define w1 where "w1 = (elapse w)\<lparr>sw_store := sw_store w\<rparr>"
  have get: "redis (\<lambda>now. get_key now (lockKey h)) w = (Inr (Some (RText tok)), w1)"
    unfolding w1_def using assms(1) live_lock [of "sw_store w" h, OF assms(2,3)]
    by (intro redis_NoFault) (simp_all add: get_key_def getsM_def)
  define st where "st = (sw_store w1)(resultKey h \<mapsto> (RRecord rec, Some (sw_time w1 + 1000 * n)))"
  define w2 where "w2 = (elapse w1)\<lparr>sw_store := st\<rparr>"
  have set: "redis (\<lambda>now. set_ex now False (resultKey h) (RRecord rec) (num_to_string ttl)) w1 = (Inr True, w2)"
    unfolding w2_def st_def using assms(1,5)
    by (intro redis_NoFault) (simp_all add: set_ex_def bindM_def ttl_text arg w1_def)
  define w3 where "w3 = (elapse w2)\<lparr>sw_store := st(lockKey h := None)\<rparr>"
  have del: "redis (\<lambda>_. del_key (lockKey h)) w2 = (Inr (), w3)"
    unfolding w3_def using assms(1)
    by (intro redis_NoFault) (simp_all add: del_key_def modifyM_def w1_def w2_def)
  have "replay_complete ttl h tok rec w = (Inr (), w3)"
    unfolding replay_complete_def bindM_app get by (simp add: thenM_app set del)
  moreover have "sw_store w3 = st(lockKey h := None)" by (simp add: w3_def)
  ultimately show ?thesis by (simp add: st_def)
qed

text \<open>C32: when a submission fails for any reason, a rejected or lost call included, its code is recorded
  as the transaction's terminal outcome in place of whatever was recorded before, the lock is
  released, and the caller gets the error; a later request gets that code, no longer marked
  retryable.\<close>

lemma failed_submission_recorded:
  assumes "quota_reserve (so_quota opts) (p_source p) ip (outerFee q) w = (Inr rsv, w0)"
    and "buildAndSignFeeBump lib p (so_feePolicy opts) (so_signer opts) (so_passphrase opts) = Inr built"
    and "submit (so_submitter opts) (b_transaction built) w0 = (Inl er, w1)" "er \<noteq> NotReturned"
    and "\<And>n. sw_fault w1 n = NoFault" "sw_store w1 (lockKey (p_hash p)) = Some (RText tok, Some e)" "sw_time w1 < e"
    and "so_replayTtl opts = Fin (of_int ttl)" "0 < ttl" "ttl \<le> max_safe"
  shows "\<exists>w2 e'. sponsor_locked lib opts p q ip t0 tok w = (Inl er, w2) \<and>
    sw_store w2 (resultKey (p_hash p)) = Some (RRecord (ReplayFailure (safe_code er)), Some e') \<and>
    sw_store w2 (lockKey (p_hash p)) = None \<and>
    replayResult (ReplayFailure (safe_code er)) =
      Inl (SponsorshipError (safe_code er) ''This sponsored transaction already reached a terminal state.'' False)"
proof -
  have fail: "submit_and_record opts (p_hash p) tok t0 built w0 = (Inl er, w1)"
    using assms(3) by (simp add: submit_and_record_def bindM_app)
  define v where "v = snd (note_metric (noteSponsorshipCompleted (if safe_code er = CONFIRMATION_TIMEOUT then Timeout
    else if safe_code er = TRANSACTION_FAILED then Failed else Rejected) (sw_time w1 - t0) (Some (code_name (safe_code er)))) w1)"
  have "sw_fault v n = NoFault" for n using assms(5) by (simp add: v_def)
  moreover have "sw_store v (lockKey (p_hash p)) = Some (RText tok, Some e)" "sw_time v < e"
    using assms(6,7) by (simp_all add: v_def)
  ultimately obtain w2 e' where w2: "replay_complete (so_replayTtl opts) (p_hash p) tok (ReplayFailure (safe_code er)) v = (Inr (), w2)"
    "sw_store w2 (resultKey (p_hash p)) = Some (RRecord (ReplayFailure (safe_code er)), Some e')"
    "sw_store w2 (lockKey (p_hash p)) = None"
    using replay_complete_runs [OF _ _ _ assms(8-10)] by blast
  have kept: "thenM (case Some rsv of None \<Rightarrow> ret () | Some r \<Rightarrow> whenM (\<not> True) (releaseBudget r)) k u = k u"
    for k :: "sponsorship_result sponsoring" and u by (simp add: whenM_def thenM_app ret_def)
  have recorded: "thenM (replay_complete (so_replayTtl opts) (p_hash p) tok (ReplayFailure (safe_code er))) (throw er) v = (Inl er, w2)"
    by (simp add: thenM_app w2(1) throw_def)
  have "sponsor_failed opts (p_hash p) tok t0 (Some rsv) True er w1 = (Inl er, w2)"
    unfolding sponsor_failed_def Let_def if_not_P [OF assms(4)] if_P [OF TrueI] step_simps(1,2) kept v_def [symmetric]
    by (rule recorded)
  then have "sponsor_locked lib opts p q ip t0 tok w = (Inl er, w2)"
    by (simp add: sponsor_locked_def Let_def attemptM_def assms(1,2) liftE_def catchM_def fail)
  with w2(2,3) show ?thesis by (auto simp: replayResult_def)
qed

text \<open>The first request of a source, an address and a day is granted.\<close>

lemma quota_reserve_first:
  assumes "sw_fault w (sw_tick w) = NoFault" "\<And>k. k \<in> {source_key source (sw_time w), ip_key ip (sw_time w), budget_key (sw_time w)} \<Longrightarrow> sw_store w k = None"
    and "maxPerMinute policy = Fin (of_int ms)" "1 \<le> ms" "ms \<le> max_safe"
    and "maxPerIpMinute policy = Fin (of_int mi)" "1 \<le> mi" "mi \<le> max_safe"
    and "dailyBudgetStroops policy = int_str budget" "budget \<le> max_safe" "0 < amount" "amount \<le> budget"
    and "ttlSeconds policy = Fin (of_int ttl)" "0 < ttl" "ttl \<le> max_safe"
  shows "\<exists>st. quota_reserve policy source ip amount w =
      (Inr \<lparr>dailyKey = budget_key (sw_time w), r_amount = amount\<rparr>, (elapse w)\<lparr>sw_store := st\<rparr>) \<and>
    (\<forall>h. st (lockKey h) = sw_store w (lockKey h))"
proof -
  let ?s = "source_key source (sw_time w)" and ?i = "ip_key ip (sw_time w)" and ?b = "budget_key (sw_time w)"
  let ?script = "RESERVE_SCRIPT ?s ?i ?b (int_str amount) (int_str ms) (int_str mi) (int_str budget) (int_str ttl)
      (int_str 172800)"
  have zero: "is_counter (sw_time w) (sw_store w) k \<and> count (sw_time w) (sw_store w) k = 0" if "k \<in> {?s, ?i, ?b}" for k
    using assms(2) [OF that] by (simp add: is_counter_def count_def live_def entry_def)
  have "runs (sw_time w) {?s, ?i, ?b} (sw_store w) (count (sw_time w) (sw_store w)) (?script (sw_time w))
      (\<lambda>r g. (r, g) = reserve_outcome ms mi budget ?s ?i ?b amount (count (sw_time w) (sw_store w)))"
    using assms(4,5,7,8,10-12,14,15) zero
    by (intro reserve_runs) (simp_all add: quota_keys_distinct int64_range_def max_safe_def)
  moreover have "counts (sw_time w) {?s, ?i, ?b} (sw_store w) (count (sw_time w) (sw_store w)) (sw_store w)"
    using zero by (intro counts_self) blast
  moreover have "fst (reserve_outcome ms mi budget ?s ?i ?b amount (count (sw_time w) (sw_store w))) = (1, ''ok'')"
    using assms(4,7,12) zero by (simp add: reserve_outcome_def)
  ultimately obtain st g where run: "?script (sw_time w) (sw_store w) = (Inr (1, ''ok''), st)"
    and g: "counts (sw_time w) {?s, ?i, ?b} (sw_store w) g st"
    unfolding runs_def by (metis fst_conv)
  have texts: "num_to_string (maxPerMinute policy) = int_str ms" "num_to_string (maxPerIpMinute policy) = int_str mi"
    "num_to_string (ttlSeconds policy) = int_str ttl" "two_days = int_str 172800"
    using assms(3-8,13-15) by (simp_all add: two_days_def)
  have "redis ?script w = (Inr (1, ''ok''), (elapse w)\<lparr>sw_store := st\<rparr>)"
    using assms(1) run by (rule redis_NoFault)
  then have "quota_reserve policy source ip amount w =
      (Inr \<lparr>dailyKey = ?b, r_amount = amount\<rparr>, (elapse w)\<lparr>sw_store := st\<rparr>)"
    using assms(11) by (simp add: quota_reserve_def date_now_def texts assms(9) io_simps)
  moreover have "st (lockKey h) = sw_store w (lockKey h)" for h
    using g by (simp add: counts_def)
  ultimately show ?thesis by blast
qed

definition failing_sworld :: sworld where
  "failing_sworld = sample_sworld\<lparr>sw_store := (\<lambda>_. None)(lockKey (p_hash sample_parsed) \<mapsto> (RText ''mine'', Some 900000)),
     sw_send := (\<lambda>_ _. Inl ''connection reset'')\<rparr>"

abbreviation sample_quote :: fee_quote where
  "sample_quote \<equiv> \<lparr>innerInclusionFee = 2000000, outerFee = 4001000, quoteResourceFee = 1000\<rparr>"

lemma sample_build:
  "\<exists>built. buildAndSignFeeBump sample_sdk sample_parsed (so_feePolicy sample_service) (so_signer sample_service)
    (so_passphrase sample_service) = Inr built"
proof -
  have "quoteSponsoredFee 2001000 1000 default_policy = Inr sample_quote"
    by (simp add: quoteSponsoredFee_def bigint_of_def default_policy_def default_policy_values quote_fees_def BASE_FEE_def)
  then show ?thesis
    by (simp add: buildAndSignFeeBump_def sample_service_def sample_parsed_def sample_sdk_def bigint_of_def Let_def)
qed

lemma failed_submission_recorded_witness:
  "\<exists>w2 e'. sponsor_locked sample_sdk sample_service sample_parsed sample_quote ''ip'' 500000 ''mine'' failing_sworld =
      (Inl (OtherError ''connection reset''), w2) \<and>
    sw_store w2 (resultKey (p_hash sample_parsed)) = Some (RRecord (ReplayFailure RPC_REJECTED), Some e')"
proof -
  have world: "sw_time failing_sworld = 500000" "sw_fault failing_sworld = (\<lambda>_. NoFault)" "sw_delay failing_sworld = (\<lambda>_. 1)"
    "sw_store failing_sworld = (\<lambda>_. None)(lockKey (p_hash sample_parsed) \<mapsto> (RText ''mine'', Some 900000))"
    "sw_send failing_sworld = (\<lambda>_ _. Inl ''connection reset'')"
    by (simp_all add: failing_sworld_def sample_sworld_def)
  obtain built where built: "buildAndSignFeeBump sample_sdk sample_parsed (so_feePolicy sample_service)
      (so_signer sample_service) (so_passphrase sample_service) = Inr built"
    using sample_build by blast
  have "\<exists>st. quota_reserve (so_quota sample_service) (p_source sample_parsed) ''ip'' 4001000 failing_sworld =
      (Inr \<lparr>dailyKey = budget_key (sw_time failing_sworld), r_amount = 4001000\<rparr>, (elapse failing_sworld)\<lparr>sw_store := st\<rparr>) \<and>
    (\<forall>h. st (lockKey h) = sw_store failing_sworld (lockKey h))"
    by (rule quota_reserve_first [where ms = 10 and mi = 30 and budget = 100000000 and ttl = 900])
      (auto simp: world sample_service_def max_safe_def dest: sym)
  then obtain rsv st where reserved: "quota_reserve (so_quota sample_service) (p_source sample_parsed) ''ip''
      (outerFee sample_quote) failing_sworld =
      (Inr rsv, (elapse failing_sworld)\<lparr>sw_store := st\<rparr>)"
    and st: "st (lockKey (p_hash sample_parsed)) = Some (RText ''mine'', Some 900000)"
    by (auto simp: world)
  define w0 where "w0 = (elapse failing_sworld)\<lparr>sw_store := st\<rparr>"
  define w1 where "w1 = (elapse w0)\<lparr>sw_sent := sw_sent w0 @ [b_transaction built]\<rparr>"
  have failed: "submit (so_submitter sample_service) (b_transaction built) w0 = (Inl (OtherError ''connection reset''), w1)"
    by (simp add: submit_def bindM_app sendTransaction_def other_error_def w0_def w1_def world)
  have facts: "sw_fault w1 n = NoFault" "sw_store w1 (lockKey (p_hash sample_parsed)) = Some (RText ''mine'', Some 900000)"
    "sw_time w1 < 900000" for n
    by (simp_all add: w1_def w0_def world st) (simp add: elapse_def world)
  have "so_replayTtl sample_service = Fin (of_int 900)" by (simp add: sample_service_def)
  from failed_submission_recorded [OF reserved [folded w0_def] built failed _ facts this, of 500000]
  show ?thesis by (auto simp: max_safe_def safe_code_def)
qed

end
