(* ===== verification/Sponsor_Sessions.thy ===== *)
theory Sponsor_Sessions imports Sponsor_Service begin

text \<open>
  Several sponsorship requests at once.  Sponsor_Service runs one request from its arrival to its end; here any
  number of them, in any number of processes over one Redis, take turns after every command.  A session is at one
  point of \<open>sponsor\<close> (\<open>sponsorship/service.ts\<close>) and of the operations on results and locks it calls
  (\<open>sponsorship/replay.ts\<close>); its commands are those of Sponsor_Store, each run, lost, or run without an answer;
  time passes between any two commands, and a process may stop at any point.
\<close>

section \<open>Sessions\<close>

text \<open>What a session knows of the lock it took: the transaction, its token, and (for the statements below only) the
  time at which the lock expires.\<close>

record claim =
  c_hash :: string
  c_token :: string
  c_expiry :: int

text \<open>The points of a request between two commands: before \<open>terminal\<close> and \<open>acquire\<close>; with the lock, before and after
  the submission started; before the reads, the write and the deletion of \<open>complete\<close>; before the read of \<open>release\<close>; and
  the end.  \<open>Rechecking\<close> is the \<open>complete\<close> that the handler calls when the first one has failed; \<open>Unlocking\<close> knows
  what it has recorded, if anything.\<close>

datatype session_phase = Fresh | Looking string | Locking string | Holding claim | Submitted claim
  | Completing claim replay_record | Rechecking claim sponsorship_code | Recording claim replay_record
  | Unlocking claim "replay_record option" | Releasing claim | Ended

record sessions =
  se_time :: int
  se_store :: store
  se_tokens :: "string set"
  se_sent :: "(nat \<times> string) list"
  se_phase :: "nat \<Rightarrow> session_phase"

text \<open>What a command can answer, and the store it leaves.\<close>

definition answers :: "(int \<Rightarrow> 'a script) \<Rightarrow> sessions \<Rightarrow> string + 'a \<Rightarrow> store \<Rightarrow> bool" where
  "answers f s r st \<longleftrightarrow> (r, st) = f (se_time s) (se_store s) \<or>
     (\<exists>m. r = Inl m \<and> (st = se_store s \<or> st = snd (f (se_time s) (se_store s))))"

definition goes :: "nat \<Rightarrow> session_phase \<Rightarrow> store \<Rightarrow> sessions \<Rightarrow> sessions" where
  "goes i p st s = s\<lparr>se_store := st, se_phase := (se_phase s)(i := p)\<rparr>"

text \<open>Where the answers lead.\<close>

definition after_lookup :: "string \<Rightarrow> string + redis_value option \<Rightarrow> session_phase" where
  "after_lookup h r = (case r of Inr None \<Rightarrow> Locking h | Inr (Some (RText [])) \<Rightarrow> Locking h | _ \<Rightarrow> Ended)"

text \<open>A failed \<open>complete\<close>: recording the success is inside the \<open>try\<close> block, so its handler records a failure instead;
  a failure that cannot be recorded ends the request.\<close>

definition complete_failed :: "sponsorship_code \<Rightarrow> claim \<Rightarrow> replay_record \<Rightarrow> session_phase" where
  "complete_failed code c rec = (case rec of ReplaySuccess _ \<Rightarrow> Rechecking c code | ReplayFailure _ \<Rightarrow> Ended)"

definition after_unlock :: "sponsorship_code \<Rightarrow> claim \<Rightarrow> replay_record option \<Rightarrow> string + unit \<Rightarrow> session_phase" where
  "after_unlock code c o' r = (case (r, o') of (Inl _, Some rec) \<Rightarrow> complete_failed code c rec | _ \<Rightarrow> Ended)"

abbreviation owned :: "claim \<Rightarrow> string + redis_value option \<Rightarrow> bool" where
  "owned c r \<equiv> r = Inr (Some (RText (c_token c)))"

section \<open>Steps\<close>

inductive session_step :: "js_num \<Rightarrow> js_num \<Rightarrow> sessions \<Rightarrow> sessions \<Rightarrow> bool" for lockTtl ttl where
  Arrive: "se_phase s i = Fresh \<Longrightarrow> session_step lockTtl ttl s (goes i (Looking h) (se_store s) s)"
| Pass: "0 \<le> d \<Longrightarrow> session_step lockTtl ttl s (s\<lparr>se_time := se_time s + d\<rparr>)"
| Count: "(\<And>h. st (lockKey h) = se_store s (lockKey h)) \<Longrightarrow> (\<And>h. st (resultKey h) = se_store s (resultKey h)) \<Longrightarrow>
    session_step lockTtl ttl s (s\<lparr>se_store := st\<rparr>)"
| Look: "se_phase s i = Looking h \<Longrightarrow> answers (\<lambda>now. get_key now (resultKey h)) s r st \<Longrightarrow>
    session_step lockTtl ttl s (goes i (after_lookup h r) st s)"
| Acquire: "se_phase s i = Locking h \<Longrightarrow> t \<notin> se_tokens s \<Longrightarrow>
    answers (\<lambda>now. set_ex now True (lockKey h) (RText t) (num_to_string lockTtl)) s r st \<Longrightarrow>
    session_step lockTtl ttl s ((goes i (case (r, st (lockKey h)) of
        (Inr True, Some (v, Some e)) \<Rightarrow> Holding \<lparr>c_hash = h, c_token = t, c_expiry = e\<rparr> | _ \<Rightarrow> Ended) st s)
      \<lparr>se_tokens := insert t (se_tokens s)\<rparr>)"
| Give_Up: "se_phase s i = Holding c \<Longrightarrow> session_step lockTtl ttl s (goes i (Releasing c) (se_store s) s)"
| Send: "se_phase s i = Holding c \<Longrightarrow>
    session_step lockTtl ttl s ((goes i (Submitted c) (se_store s) s)\<lparr>se_sent := se_sent s @ [(i, c_hash c)]\<rparr>)"
| Outcome: "se_phase s i = Submitted c \<Longrightarrow> session_step lockTtl ttl s (goes i (Completing c rec) (se_store s) s)"
| Check: "se_phase s i = Completing c rec \<Longrightarrow> answers (\<lambda>now. get_key now (lockKey (c_hash c))) s r st \<Longrightarrow>
    session_step lockTtl ttl s (goes i (if owned c r then Recording c rec else complete_failed code c rec) st s)"
| Recheck: "se_phase s i = Rechecking c code \<Longrightarrow> answers (\<lambda>now. get_key now (lockKey (c_hash c))) s r st \<Longrightarrow>
    session_step lockTtl ttl s (goes i (if owned c r then Recording c (ReplayFailure code) else Ended) st s)"
| Record: "se_phase s i = Recording c rec \<Longrightarrow>
    answers (\<lambda>now. set_ex now False (resultKey (c_hash c)) (RRecord rec) (num_to_string ttl)) s r st \<Longrightarrow>
    session_step lockTtl ttl s (goes i (case r of Inr _ \<Rightarrow> Unlocking c (Some rec) | Inl _ \<Rightarrow> complete_failed code c rec) st s)"
| Unlock: "se_phase s i = Unlocking c o' \<Longrightarrow> answers (\<lambda>_. del_key (lockKey (c_hash c))) s r st \<Longrightarrow>
    session_step lockTtl ttl s (goes i (after_unlock code c o' r) st s)"
| Release: "se_phase s i = Releasing c \<Longrightarrow> answers (\<lambda>now. get_key now (lockKey (c_hash c))) s r st \<Longrightarrow>
    session_step lockTtl ttl s (goes i (if owned c r then Unlocking c None else Ended) st s)"
| Stop: "session_step lockTtl ttl s (goes i Ended (se_store s) s)"

section \<open>Who has the lock\<close>

fun claim_of :: "session_phase \<Rightarrow> claim option" where
  "claim_of (Holding c) = Some c"
| "claim_of (Submitted c) = Some c"
| "claim_of (Completing c rec) = Some c"
| "claim_of (Rechecking c code) = Some c"
| "claim_of (Recording c rec) = Some c"
| "claim_of (Unlocking c o') = Some c"
| "claim_of (Releasing c) = Some c"
| "claim_of _ = None"

text \<open>A session works under the lock from its acquisition until it is given up; in \<open>Rechecking\<close> it may have been given up
  already.\<close>

fun works_under :: "session_phase \<Rightarrow> claim option" where
  "works_under (Rechecking c code) = None"
| "works_under p = claim_of p"

text \<open>Every session with a claim on \<open>h\<close> is still within the time of its lock.\<close>

definition in_time :: "string \<Rightarrow> sessions \<Rightarrow> bool" where
  "in_time h s \<longleftrightarrow> (\<forall>i c. claim_of (se_phase s i) = Some c \<and> c_hash c = h \<longrightarrow> se_time s < c_expiry c)"

definition timely_step :: "js_num \<Rightarrow> js_num \<Rightarrow> string \<Rightarrow> sessions \<Rightarrow> sessions \<Rightarrow> bool" where
  "timely_step lockTtl ttl h s s' \<longleftrightarrow> in_time h s \<and> session_step lockTtl ttl s s' \<and> in_time h s'"

text \<open>At the start no request has arrived; the locks in the store, if any, have tokens that will not be drawn again.\<close>

definition start_sessions :: "sessions \<Rightarrow> bool" where
  "start_sessions s \<longleftrightarrow> se_phase s = (\<lambda>_. Fresh) \<and>
     (\<forall>h t x. se_store s (lockKey h) = Some (RText t, x) \<longrightarrow> t \<in> se_tokens s)"

text \<open>The invariant: tokens are told apart, and were drawn; a stored lock has the expiry its owner knows; and a session
  that works under the lock of \<open>h\<close> has it.\<close>

definition tokens_apart :: "sessions \<Rightarrow> bool" where
  "tokens_apart s \<longleftrightarrow> (\<forall>i j c d. claim_of (se_phase s i) = Some c \<and> claim_of (se_phase s j) = Some d \<and>
     c_token c = c_token d \<longrightarrow> i = j)"

definition tokens_drawn :: "sessions \<Rightarrow> bool" where
  "tokens_drawn s \<longleftrightarrow> (\<forall>i c. claim_of (se_phase s i) = Some c \<longrightarrow> c_token c \<in> se_tokens s) \<and>
     (\<forall>h t x. se_store s (lockKey h) = Some (RText t, x) \<longrightarrow> t \<in> se_tokens s)"

definition expiry_known :: "sessions \<Rightarrow> bool" where
  "expiry_known s \<longleftrightarrow> (\<forall>i c x. claim_of (se_phase s i) = Some c \<and>
     se_store s (lockKey (c_hash c)) = Some (RText (c_token c), x) \<longrightarrow> x = Some (c_expiry c))"

definition lock_kept :: "string \<Rightarrow> sessions \<Rightarrow> bool" where
  "lock_kept h s \<longleftrightarrow> (\<forall>i c. works_under (se_phase s i) = Some c \<and> c_hash c = h \<longrightarrow>
     se_store s (lockKey h) = Some (RText (c_token c), Some (c_expiry c)))"

definition orderly :: "string \<Rightarrow> sessions \<Rightarrow> bool" where
  "orderly h s \<longleftrightarrow> tokens_apart s \<and> tokens_drawn s \<and> expiry_known s \<and> lock_kept h s"

lemmas orderly_defs = orderly_def tokens_apart_def tokens_drawn_def expiry_known_def lock_kept_def

lemma orderlyD:
  assumes "orderly h s"
  shows "claim_of (se_phase s i) = Some c \<Longrightarrow> claim_of (se_phase s j) = Some d \<Longrightarrow> c_token c = c_token d \<Longrightarrow> i = j"
    "claim_of (se_phase s i) = Some c \<Longrightarrow> c_token c \<in> se_tokens s"
    "se_store s (lockKey g) = Some (RText t, x) \<Longrightarrow> t \<in> se_tokens s"
    "claim_of (se_phase s i) = Some c \<Longrightarrow> se_store s (lockKey (c_hash c)) = Some (RText (c_token c), x) \<Longrightarrow> x = Some (c_expiry c)"
    "works_under (se_phase s i) = Some c \<Longrightarrow> c_hash c = h \<Longrightarrow>
      se_store s (lockKey h) = Some (RText (c_token c), Some (c_expiry c))"
  using assms unfolding orderly_defs by blast+

lemma orderlyI:
  assumes "\<And>i j c d. claim_of (se_phase s i) = Some c \<Longrightarrow> claim_of (se_phase s j) = Some d \<Longrightarrow> c_token c = c_token d \<Longrightarrow> i = j"
    "\<And>i c. claim_of (se_phase s i) = Some c \<Longrightarrow> c_token c \<in> se_tokens s"
    "\<And>g t x. se_store s (lockKey g) = Some (RText t, x) \<Longrightarrow> t \<in> se_tokens s"
    "\<And>i c x. claim_of (se_phase s i) = Some c \<Longrightarrow> se_store s (lockKey (c_hash c)) = Some (RText (c_token c), x) \<Longrightarrow>
      x = Some (c_expiry c)"
    "\<And>i c. works_under (se_phase s i) = Some c \<Longrightarrow> c_hash c = h \<Longrightarrow>
      se_store s (lockKey h) = Some (RText (c_token c), Some (c_expiry c))"
  shows "orderly h s"
  using assms unfolding orderly_defs by blast

lemma works_claims: "works_under p = Some c \<Longrightarrow> claim_of p = Some c"
  by (cases p) simp_all

lemma orderly_alone:
  assumes "orderly h s" "works_under (se_phase s i) = Some c" "works_under (se_phase s j) = Some d" "c_hash c = h" "c_hash d = h"
  shows "i = j"
proof -
  have "Some (RText (c_token c), Some (c_expiry c)) = Some (RText (c_token d), Some (c_expiry d))"
    using orderlyD(5) [OF assms(1,2,4)] orderlyD(5) [OF assms(1,3,5)] by (rule subst)
  then have "c_token c = c_token d" by simp
  then show ?thesis by (rule orderlyD(1) [OF assms(1) works_claims [OF assms(2)] works_claims [OF assms(3)]])
qed

lemma goes_simps [simp]:
  "se_phase (goes i p st s) = (se_phase s)(i := p)" "se_store (goes i p st s) = st"
  "se_tokens (goes i p st s) = se_tokens s" "se_time (goes i p st s) = se_time s" "se_sent (goes i p st s) = se_sent s"
  by (simp_all add: goes_def)

section \<open>Steps keep order\<close>

lemma orderly_shrinks:
  assumes "orderly h s" "se_tokens s \<subseteq> se_tokens s'"
    and claims: "\<And>j d. claim_of (se_phase s' j) = Some d \<Longrightarrow> claim_of (se_phase s j) = Some d"
    and locks: "\<And>g v. se_store s' (lockKey g) = Some v \<Longrightarrow> se_store s (lockKey g) = Some v"
    and works: "\<And>j d. works_under (se_phase s' j) = Some d \<Longrightarrow> c_hash d = h \<Longrightarrow>
      se_store s' (lockKey h) = Some (RText (c_token d), Some (c_expiry d))"
  shows "orderly h s'"
proof (rule orderlyI)
  show "a = b" if "claim_of (se_phase s' a) = Some d" "claim_of (se_phase s' b) = Some d'" "c_token d = c_token d'" for a b d d'
    by (rule orderlyD(1) [OF assms(1) claims [OF that(1)] claims [OF that(2)] that(3)])
  show "c_token d \<in> se_tokens s'" if "claim_of (se_phase s' j) = Some d" for j d
    using assms(2) orderlyD(2) [OF assms(1) claims [OF that]] by blast
  show "u \<in> se_tokens s'" if "se_store s' (lockKey g) = Some (RText u, x)" for g u x
    using assms(2) orderlyD(3) [OF assms(1) locks [OF that]] by blast
  show "x = Some (c_expiry d)"
    if "claim_of (se_phase s' j) = Some d" "se_store s' (lockKey (c_hash d)) = Some (RText (c_token d), x)" for j d x
    by (rule orderlyD(4) [OF assms(1) claims [OF that(1)] locks [OF that(2)]])
qed (rule works)

lemma orderly_goes:
  assumes "orderly h s" "\<And>k. st (lockKey k) = se_store s (lockKey k)"
    "\<And>c. claim_of p = Some c \<Longrightarrow> claim_of (se_phase s i) = Some c"
    "\<And>c. works_under p = Some c \<Longrightarrow> c_hash c = h \<Longrightarrow>
      se_store s (lockKey h) = Some (RText (c_token c), Some (c_expiry c))"
  shows "orderly h (goes i p st s)"
proof (rule orderly_shrinks [OF assms(1)])
  show "claim_of (se_phase s j) = Some c" if "claim_of (se_phase (goes i p st s) j) = Some c" for j c
    using that assms(3) by (cases "j = i") auto
  show "se_store (goes i p st s) (lockKey h) = Some (RText (c_token c), Some (c_expiry c))"
    if "works_under (se_phase (goes i p st s) j) = Some c" "c_hash c = h" for j c
    using that assms(2,4) orderlyD(5) [OF assms(1), of j c] by (cases "j = i") auto
qed (simp_all add: assms(2))

lemma orderly_cong:
  assumes "orderly h s" "se_phase s' = se_phase s" "se_tokens s' = se_tokens s"
    "\<And>k. se_store s' (lockKey k) = se_store s (lockKey k)"
  shows "orderly h s'"
  by (rule orderly_shrinks [OF assms(1)]) (use assms orderlyD(5) [OF assms(1)] in simp_all)

text \<open>A step of a session that keeps or drops its claim and touches no lock.\<close>

lemma orderly_stays:
  assumes "orderly h s" "\<And>k. st (lockKey k) = se_store s (lockKey k)"
    "\<And>c. claim_of p = Some c \<Longrightarrow> works_under (se_phase s i) = Some c"
  shows "orderly h (goes i p st s)"
proof (rule orderly_goes [OF assms(1,2)])
  show "claim_of (se_phase s i) = Some c" if "claim_of p = Some c" for c
    using assms(3) [OF that] by (rule works_claims)
  show "se_store s (lockKey h) = Some (RText (c_token c), Some (c_expiry c))"
    if "works_under p = Some c" "c_hash c = h" for c
    using assms(1) assms(3) [OF works_claims [OF that(1)]] that(2) by (auto simp: orderly_def lock_kept_def)
qed

lemma read_answer: "answers (\<lambda>now. get_key now k) s r st \<Longrightarrow> st = se_store s \<and>
    (r = Inr v \<longrightarrow> v = live (se_time s) (se_store s) k)"
  by (auto simp: answers_def get_key_def getsM_def)

lemma write_answer: "answers (\<lambda>now. set_ex now False (resultKey h) v n) s r st \<Longrightarrow> st (lockKey k) = se_store s (lockKey k)"
  by (auto simp: answers_def set_ex_def bindM_def int_arg_def throw_def ret_def split: option.splits if_splits)

lemma delete_answer: "answers (\<lambda>_. del_key k) s r st \<Longrightarrow> st = se_store s \<or> st = (se_store s)(k := None)"
  by (auto simp: answers_def del_key_def modifyM_def)

lemma acquire_answer:
  assumes "answers (\<lambda>now. set_ex now True k v n) s r st"
  shows "st = se_store s \<and> r \<noteq> Inr True \<or> live (se_time s) (se_store s) k = None \<and> (\<exists>e. st = (se_store s)(k \<mapsto> (v, Some e)))"
  using assms
  by (auto simp: answers_def set_ex_def bindM_def int_arg_def throw_def ret_def split: option.splits if_splits)

lemma owned_lock:
  assumes "orderly h s" "claim_of (se_phase s i) = Some c" "live (se_time s) (se_store s) (lockKey (c_hash c)) = Some (RText (c_token c))"
  shows "se_store s (lockKey (c_hash c)) = Some (RText (c_token c), Some (c_expiry c))"
proof -
  obtain x where x: "se_store s (lockKey (c_hash c)) = Some (RText (c_token c), x)"
    using assms(3) by (auto simp: live_def entry_def split: option.splits prod.splits if_splits)
  then have "x = Some (c_expiry c)" using assms(1,2) unfolding orderly_def expiry_known_def by blast
  then show ?thesis using x by simp
qed

lemma acquire_orderly:
  assumes "orderly h s" "in_time h s" "t \<notin> se_tokens s" "live (se_time s) (se_store s) (lockKey k) = None"
    "st = (se_store s)(lockKey k \<mapsto> (RText t, Some e))" "p = Ended \<or> p = Holding \<lparr>c_hash = k, c_token = t, c_expiry = e\<rparr>"
  shows "orderly h ((goes i p st s)\<lparr>se_tokens := insert t (se_tokens s)\<rparr>)" (is "orderly h ?s")
proof -
  have claims: "j = i \<and> c_hash c = k \<and> c_token c = t \<and> c_expiry c = e \<or> claim_of (se_phase s j) = Some c \<and> c_token c \<noteq> t"
    if "claim_of (se_phase ?s j) = Some c" for j c
    using that assms(3,6) orderlyD(2) [OF assms(1), of j c] by (cases c; cases "j = i") auto
  have nobody: "k \<noteq> h" if "works_under (se_phase s j) = Some c" "c_hash c = h" for j c
  proof
    assume "k = h"
    have "se_store s (lockKey h) = Some (RText (c_token c), Some (c_expiry c))" "se_time s < c_expiry c"
      using orderlyD(5) [OF assms(1) that] that assms(2) works_claims [OF that(1)] by (auto simp: in_time_def)
    then show False using assms(4) \<open>k = h\<close> by (simp add: live_def entry_def)
  qed
  show ?thesis
  proof (rule orderlyI)
    show "a = b" if "claim_of (se_phase ?s a) = Some c" "claim_of (se_phase ?s b) = Some d" "c_token c = c_token d" for a b c d
      using claims [OF that(1)] claims [OF that(2)] that(3) orderlyD(1) [OF assms(1), of a c b d] by auto
    show "c_token c \<in> se_tokens ?s" if "claim_of (se_phase ?s j) = Some c" for j c
      using claims [OF that] orderlyD(2) [OF assms(1)] by auto
    show "u \<in> se_tokens ?s" if "se_store ?s (lockKey g) = Some (RText u, x)" for g u x
      using that orderlyD(3) [OF assms(1), of g u x] assms(5) by (cases "g = k") auto
    show "x = Some (c_expiry c)"
      if "claim_of (se_phase ?s j) = Some c" "se_store ?s (lockKey (c_hash c)) = Some (RText (c_token c), x)" for j c x
      using claims [OF that(1)] that(2) orderlyD(4) [OF assms(1), of j c x] assms(5) by (cases "c_hash c = k") auto
    show "se_store ?s (lockKey h) = Some (RText (c_token c), Some (c_expiry c))"
      if "works_under (se_phase ?s j) = Some c" "c_hash c = h" for j c
    proof (cases "j = i")
      case True
      then show ?thesis using that assms(5,6) by (cases c) auto
    next
      case False
      then have "works_under (se_phase s j) = Some c" using that(1) by simp
      then show ?thesis using that(2) nobody [of j c] orderlyD(5) [OF assms(1), of j c] assms(5) by simp
    qed
  qed
qed

lemma unlock_orderly:
  assumes "orderly h s" "se_phase s i = Unlocking c o'" "st = se_store s \<or> st = (se_store s)(lockKey (c_hash c) := None)"
    "works_under p = None" "\<And>d. claim_of p = Some d \<Longrightarrow> d = c"
  shows "orderly h (goes i p st s)"
proof (rule orderly_shrinks [OF assms(1)])
  show "claim_of (se_phase s j) = Some d" if "claim_of (se_phase (goes i p st s) j) = Some d" for j d
    using that assms(2,5) by (cases "j = i") auto
  show "se_store s (lockKey g) = Some v" if "se_store (goes i p st s) (lockKey g) = Some v" for g v
    using that assms(3) by (auto split: if_splits)
  show "se_store (goes i p st s) (lockKey h) = Some (RText (c_token d), Some (c_expiry d))"
    if "works_under (se_phase (goes i p st s) j) = Some d" "c_hash d = h" for j d
  proof -
    have j: "j \<noteq> i" "works_under (se_phase s j) = Some d" using that(1) assms(4) by (cases "j = i"; simp)+
    have "c_hash c \<noteq> h" using orderly_alone [OF assms(1), of i c j d] assms(2) j that(2) by auto
    then show ?thesis using orderlyD(5) [OF assms(1) j(2) that(2)] assms(3) by auto
  qed
qed simp

lemma step_orderly:
  assumes "orderly h s" "in_time h s" "session_step lockTtl ttl s s'"
  shows "orderly h s'"
  using assms(3)
proof cases
  case (Pass d)
  show ?thesis unfolding Pass by (rule orderly_cong [OF assms(1)]) simp_all
next
  case (Count st)
  show ?thesis unfolding Count(1) by (rule orderly_cong [OF assms(1)]) (simp_all add: Count(2))
next
  case (Acquire i k t r st)
  consider "st = se_store s" "r \<noteq> Inr True"
    | e where "live (se_time s) (se_store s) (lockKey k) = None" "st = (se_store s)(lockKey k \<mapsto> (RText t, Some e))"
    using acquire_answer [OF Acquire(4)] by blast
  then show ?thesis
  proof cases
    case 1
    have ended: "(case (r, st (lockKey k)) of (Inr True, Some (v, Some e)) \<Rightarrow>
        Holding \<lparr>c_hash = k, c_token = t, c_expiry = e\<rparr> | _ \<Rightarrow> Ended) = Ended"
      using 1(2) by (auto split: sum.split bool.split)
    have ended_order: "orderly h (goes i Ended st s)" by (rule orderly_stays [OF assms(1)]) (simp_all add: 1(1))
    show ?thesis unfolding Acquire(1) ended
      by (rule orderly_shrinks [OF ended_order]) (use orderlyD(5) [OF ended_order] in auto)
  next
    case (2 e)
    show ?thesis unfolding Acquire(1)
      by (rule acquire_orderly [OF assms(1,2) Acquire(3) 2]) (auto simp: 2(2) split: sum.split bool.split)
  qed
next
  case (Send i c)
  have "orderly h (goes i (Submitted c) (se_store s) s)" by (rule orderly_stays [OF assms(1)]) (simp_all add: Send(2))
  then show ?thesis unfolding Send(1) by (rule orderly_cong) simp_all
next
  case (Recheck i c code r st)
  have st: "st = se_store s" "owned c r \<Longrightarrow> live (se_time s) (se_store s) (lockKey (c_hash c)) = Some (RText (c_token c))"
    using read_answer [OF Recheck(3)] by auto
  have c: "claim_of (se_phase s i) = Some c" using Recheck(2) by simp
  show ?thesis unfolding Recheck(1)
    by (rule orderly_goes [OF assms(1)]) (use st c owned_lock [OF assms(1) c] in \<open>auto split: if_splits\<close>)
next
  case (Unlock i c o' r st code)
  show ?thesis unfolding Unlock(1)
    by (rule unlock_orderly [OF assms(1) Unlock(2) delete_answer [OF Unlock(3)]])
      (auto simp: after_unlock_def complete_failed_def split: sum.splits option.splits replay_record.splits)
qed (auto intro!: orderly_stays [OF assms(1)] simp: after_lookup_def complete_failed_def dest: read_answer write_answer
    split: sum.splits option.splits redis_value.splits list.splits replay_record.splits if_splits)

section \<open>Mutual exclusion\<close>

lemma run_orderly:
  assumes "start_sessions s0" "(timely_step lockTtl ttl h)\<^sup>*\<^sup>* s0 s"
  shows "orderly h s \<and> in_time h s"
  using assms(2)
proof (induction rule: rtranclp_induct)
  case base
  have "orderly h s0" by (rule orderlyI) (use assms(1) in \<open>auto simp: start_sessions_def\<close>)
  then show ?case using assms(1) by (simp add: start_sessions_def in_time_def)
next
  case (step s s')
  then show ?case using step_orderly by (auto simp: timely_step_def)
qed

text \<open>C40: as long as no session outlives its lock on a transaction, at most one session at a time works on the transaction
  between taking the lock and giving it up, its submission included, and that session's lock is in the store and alive.
  This holds for any number of sessions that take turns after every command, with lost and unanswered commands, processes
  that stop, and all other keys changing.\<close>

lemma sessions_exclusive:
  assumes "start_sessions s0" "(timely_step lockTtl ttl h)\<^sup>*\<^sup>* s0 s"
    "works_under (se_phase s i) = Some c" "c_hash c = h"
  shows "live (se_time s) (se_store s) (lockKey h) = Some (RText (c_token c)) \<and>
    (\<forall>j d. works_under (se_phase s j) = Some d \<and> c_hash d = h \<longrightarrow> j = i)"
proof -
  have inv: "orderly h s" "in_time h s" using run_orderly [OF assms(1,2)] by simp_all
  have "se_store s (lockKey h) = Some (RText (c_token c), Some (c_expiry c))" by (rule orderlyD(5) [OF inv(1) assms(3,4)])
  moreover have "se_time s < c_expiry c" using inv(2) works_claims [OF assms(3)] assms(4) by (simp add: in_time_def)
  ultimately show ?thesis using live_lock orderly_alone [OF inv(1) _ assms(3) _ assms(4)] by blast
qed

section \<open>What goes wrong when a lock expires\<close>

lemma set_nx_free:
  assumes "live now st k = None" "0 < n" "n \<le> max_safe"
  shows "set_ex now True k v (num_to_string (Fin (of_int n))) st = (Inr True, st(k \<mapsto> (v, Some (now + 1000 * n))))"
  using assms by (simp add: set_ex_def int_arg_def redis_int_def int64_range_def max_safe_def ret_def bindM_def)

lemma acquire_free:
  assumes "se_phase s i = Locking k" "t \<notin> se_tokens s" "live (se_time s) (se_store s) (lockKey k) = None" "0 < n" "n \<le> max_safe"
  shows "session_step (Fin (of_int n)) ttl s
    ((goes i (Holding \<lparr>c_hash = k, c_token = t, c_expiry = se_time s + 1000 * n\<rparr>)
       ((se_store s)(lockKey k \<mapsto> (RText t, Some (se_time s + 1000 * n)))) s)\<lparr>se_tokens := insert t (se_tokens s)\<rparr>)"
proof -
  have "answers (\<lambda>now. set_ex now True (lockKey k) (RText t) (num_to_string (Fin (of_int n)))) s (Inr True)
      ((se_store s)(lockKey k \<mapsto> (RText t, Some (se_time s + 1000 * n))))"
    using set_nx_free [OF assms(3-5)] by (simp add: answers_def)
  from Acquire [OF assms(1,2) this] show ?thesis by simp
qed

text \<open>The check and the deletion of \<open>release\<close> (and of \<open>complete\<close>) are two commands.  A session whose lock expires between
  them deletes the lock that another session has taken meanwhile; then a third session takes the lock, while the second
  one's has not expired: both hold the same transaction and may send it.\<close>

lemma unlock_takes_away:
  assumes "se_phase s 0 = Releasing c" "se_phase s 1 = Locking (c_hash c)" "se_phase s 2 = Locking (c_hash c)"
    and lock: "se_store s (lockKey (c_hash c)) = Some (RText (c_token c), Some e)" "se_time s < e"
    and drawn: "a \<notin> se_tokens s" "b \<notin> se_tokens s" "a \<noteq> b" and ttl: "0 < n" "n \<le> max_safe"
  shows "\<exists>s' x. (session_step (Fin (of_int n)) ttl)\<^sup>*\<^sup>* s s' \<and> se_time s' < x \<and>
    se_phase s' 1 = Holding \<lparr>c_hash = c_hash c, c_token = a, c_expiry = x\<rparr> \<and>
    se_phase s' 2 = Holding \<lparr>c_hash = c_hash c, c_token = b, c_expiry = x\<rparr>"
proof -
  let ?step = "session_step (Fin (of_int n)) ttl" and ?k = "lockKey (c_hash c)" and ?x = "e + 1000 * n"
  define s1 where "s1 = goes 0 (Unlocking c None) (se_store s) s"
  define s2 where "s2 = s1\<lparr>se_time := se_time s1 + (e - se_time s)\<rparr>"
  define s3 where "s3 = (goes 1 (Holding \<lparr>c_hash = c_hash c, c_token = a, c_expiry = ?x\<rparr>)
    ((se_store s2)(?k \<mapsto> (RText a, Some ?x))) s2)\<lparr>se_tokens := insert a (se_tokens s2)\<rparr>"
  define s4 where "s4 = goes 0 (after_unlock RPC_REJECTED c None (Inr ())) ((se_store s3)(?k := None)) s3"
  define s5 where "s5 = (goes 2 (Holding \<lparr>c_hash = c_hash c, c_token = b, c_expiry = ?x\<rparr>)
    ((se_store s4)(?k \<mapsto> (RText b, Some ?x))) s4)\<lparr>se_tokens := insert b (se_tokens s4)\<rparr>"
  have time: "se_time s2 = e" "se_time s4 = e" by (simp_all add: s1_def s2_def s3_def s4_def)
  have "answers (\<lambda>now. get_key now ?k) s (Inr (Some (RText (c_token c)))) (se_store s)"
    using live_lock [of "se_store s" "c_hash c", OF lock] by (simp add: answers_def get_key_def getsM_def)
  from Release [OF assms(1) this] have 1: "?step s s1" by (simp add: s1_def)
  have 2: "?step s1 s2" unfolding s2_def by (rule Pass) (use lock(2) in simp)
  have "?step s2 s3" using acquire_free [where s = s2 and i = 1 and k = "c_hash c" and t = a and ttl = ttl, OF _ _ _ ttl]
      assms(2) lock(1) drawn(1) time(1) by (simp add: s3_def) (simp add: s2_def s1_def live_def entry_def)
  moreover have "answers (\<lambda>_. del_key ?k) s3 (Inr ()) ((se_store s3)(?k := None))"
    by (simp add: answers_def del_key_def modifyM_def)
  then have "?step s3 s4" unfolding s4_def
    by (intro Unlock) (simp_all add: s3_def s2_def s1_def)
  moreover have "?step s4 s5" using acquire_free [where s = s4 and i = 2 and k = "c_hash c" and t = b and ttl = ttl, OF _ _ _ ttl]
      assms(3) drawn(2,3) time(2) by (simp add: s5_def) (simp add: s4_def s3_def s2_def s1_def live_def entry_def)
  ultimately have "?step\<^sup>*\<^sup>* s s5" using 1 2 by (meson converse_rtranclp_into_rtranclp rtranclp.rtrancl_refl)
  moreover have "se_time s5 < ?x" "se_phase s5 1 = Holding \<lparr>c_hash = c_hash c, c_token = a, c_expiry = ?x\<rparr>"
    "se_phase s5 2 = Holding \<lparr>c_hash = c_hash c, c_token = b, c_expiry = ?x\<rparr>"
    using ttl time by (simp_all add: s5_def s4_def s3_def)
  ultimately show ?thesis by blast
qed

section \<open>One request alone\<close>

text \<open>The operations of Sponsor_Store, which run without a break, are runs of the same steps.\<close>

lemma redis_answers:
  assumes "redis f w = (Inr a, w')" "se_time s = sw_time w" "se_store s = sw_store w"
  shows "answers f s (Inr a) (sw_store w')" "sw_time w \<le> sw_time w'"
  using redis_Inr [OF assms(1)] assms(2,3) by (auto simp: answers_def elapse_def)

lemma replay_acquire_step:
  assumes "replay_acquire lockTtl h w = (Inr t, w')" "se_time s = sw_time w" "se_store s = sw_store w"
    "se_phase s i = Locking h" "t \<notin> se_tokens s"
  shows "\<exists>e. session_step lockTtl ttl s ((goes i (Holding \<lparr>c_hash = h, c_token = t, c_expiry = e\<rparr>) (sw_store w') s)
    \<lparr>se_tokens := insert t (se_tokens s)\<rparr>)"
proof -
  let ?f = "\<lambda>now. set_ex now True (lockKey h) (RText t) (num_to_string lockTtl)"
  have run: "redis ?f w = (Inr True, w')"
    using assms(1) by (auto simp: replay_acquire_def io_simps throw_def split: prod.splits sum.splits if_splits)
  have ans: "answers ?f s (Inr True) (sw_store w')" by (rule redis_answers(1) [OF run assms(2,3)])
  obtain e where "sw_store w' = (se_store s)(lockKey h \<mapsto> (RText t, Some e))"
    using acquire_answer [OF ans] by blast
  with Acquire [OF assms(4,5) ans, of ttl] show ?thesis by auto
qed

lemma replay_complete_steps:
  assumes "replay_complete ttl (c_hash c) (c_token c) rec w = (Inr u, w')" "se_time s = sw_time w" "se_store s = sw_store w"
    "se_phase s i = Completing c rec"
  shows "\<exists>s'. (session_step lockTtl ttl)\<^sup>*\<^sup>* s s' \<and> se_phase s' = (se_phase s)(i := Ended) \<and> se_store s' = sw_store w' \<and>
    se_tokens s' = se_tokens s \<and> se_sent s' = se_sent s"
proof -
  let ?get = "\<lambda>now. get_key now (lockKey (c_hash c))" and ?del = "\<lambda>_ :: int. del_key (lockKey (c_hash c))"
    and ?set = "\<lambda>now. set_ex now False (resultKey (c_hash c)) (RRecord rec) (num_to_string ttl)"
  obtain w1 b w2 where r: "redis ?get w = (Inr (Some (RText (c_token c))), w1)" "redis ?set w1 = (Inr b, w2)"
    "redis ?del w2 = (Inr u, w')"
    using assms(1) by (auto simp: replay_complete_def io_eq_Inr throw_def split: if_splits)
  let ?step = "session_step lockTtl ttl"
  define s1 where "s1 = goes i (Recording c rec) (sw_store w1) s"
  define s2 where "s2 = s1\<lparr>se_time := se_time s1 + (sw_time w1 - sw_time w)\<rparr>"
  define s3 where "s3 = goes i (Unlocking c (Some rec)) (sw_store w2) s2"
  define s4 where "s4 = s3\<lparr>se_time := se_time s3 + (sw_time w2 - sw_time w1)\<rparr>"
  define s5 where "s5 = goes i (after_unlock RPC_REJECTED c (Some rec) (Inr ())) (sw_store w') s4"
  have at2: "se_time s2 = sw_time w1" "se_store s2 = sw_store w1" and at4: "se_time s4 = sw_time w2" "se_store s4 = sw_store w2"
    using assms(2) by (simp_all add: s1_def s2_def s3_def s4_def)
  note a1 = redis_answers [OF r(1) assms(2,3)] and a2 = redis_answers [OF r(2) at2] and a3 = redis_answers [OF r(3) at4]
  have "?step s s1" using Check [OF assms(4) a1(1), of lockTtl ttl] by (simp add: s1_def)
  moreover have "?step s1 s2" unfolding s2_def by (rule Pass) (use a1(2) in simp)
  moreover have "?step s2 s3" using Record [where s = s2 and i = i, OF _ a2(1), of lockTtl] by (simp add: s3_def) (simp add: s2_def s1_def)
  moreover have "?step s3 s4" unfolding s4_def by (rule Pass) (use a2(2) in simp)
  moreover have "?step s4 s5" unfolding s5_def
    by (rule Unlock) (use a3(1) in \<open>simp_all add: s4_def s3_def\<close>)
  ultimately have "?step\<^sup>*\<^sup>* s s5" by (meson converse_rtranclp_into_rtranclp rtranclp.rtrancl_refl)
  then show ?thesis
    by (intro exI [of _ s5] conjI) (simp_all add: s5_def s4_def s3_def s2_def s1_def after_unlock_def)
qed

section \<open>A run\<close>

definition no_sessions :: sessions where
  "no_sessions = \<lparr>se_time = 0, se_store = (\<lambda>_. None), se_tokens = {}, se_sent = [], se_phase = (\<lambda>_. Fresh)\<rparr>"

definition first_looks :: sessions where
  "first_looks = goes 0 (Locking ''h'') (se_store no_sessions) (goes 0 (Looking ''h'') (se_store no_sessions) no_sessions)"

definition first_holds :: sessions where
  "first_holds = (goes 0 (Holding \<lparr>c_hash = ''h'', c_token = ''t'', c_expiry = 180000\<rparr>)
     ((se_store first_looks)(lockKey ''h'' \<mapsto> (RText ''t'', Some 180000))) first_looks)\<lparr>se_tokens := {''t''}\<rparr>"

lemma first_run: "(timely_step (Fin (of_int 180)) (Fin 900) ''h'')\<^sup>*\<^sup>* no_sessions first_holds"
proof -
  let ?step = "timely_step (Fin (of_int 180)) (Fin 900) ''h''" and ?s1 = "goes 0 (Looking ''h'') (se_store no_sessions) no_sessions"
  have "?step no_sessions ?s1"
    using Arrive [of no_sessions 0] by (simp add: timely_step_def in_time_def no_sessions_def)
  moreover have "answers (\<lambda>now. get_key now (resultKey ''h'')) ?s1 (Inr None) (se_store ?s1)"
    by (simp add: answers_def get_key_def getsM_def live_def entry_def no_sessions_def)
  then have "session_step (Fin (of_int 180)) (Fin 900) ?s1 (goes 0 (after_lookup ''h'' (Inr None)) (se_store ?s1) ?s1)"
    by (intro Look) simp_all
  then have "?step ?s1 first_looks"
    by (simp add: timely_step_def in_time_def first_looks_def after_lookup_def no_sessions_def)
  moreover have "session_step (Fin (of_int 180)) (Fin 900) first_looks first_holds"
    using acquire_free [of first_looks 0 "''h''" "''t''" 180 "Fin 900"]
    by (simp add: first_holds_def) (simp add: first_looks_def no_sessions_def live_def entry_def max_safe_def)
  then have "?step first_looks first_holds"
    by (simp add: timely_step_def in_time_def first_looks_def first_holds_def no_sessions_def)
  ultimately show ?thesis by (meson converse_rtranclp_into_rtranclp rtranclp.rtrancl_refl)
qed

lemma sessions_exclusive_witness:
  "live 0 (se_store first_holds) (lockKey ''h'') = Some (RText ''t'')"
proof -
  have "start_sessions no_sessions" by (simp add: start_sessions_def no_sessions_def)
  moreover have "works_under (se_phase first_holds 0) = Some \<lparr>c_hash = ''h'', c_token = ''t'', c_expiry = 180000\<rparr>"
    "se_time first_holds = 0"
    by (simp_all add: first_holds_def first_looks_def no_sessions_def)
  ultimately show ?thesis using sessions_exclusive [OF _ first_run] by fastforce
qed

end
