(* ===== verification/Web_Amounts.thy ===== *)
theory Web_Amounts imports JS_Values Domain begin

text \<open>
  Amounts in the browser: the decimal text of a token amount and back, the implied price of a pool
  and the slippage bound (\<open>dike-web/lib/stellar/scval.ts\<close>), and fees in lumens
  (\<open>lib/stellar/transaction.ts\<close>).  A \<open>BigInt\<close> of a text that is no integer throws.
\<close>

section \<open>Text\<close>

definition js_BigInt :: "string \<Rightarrow> exn + int" where
  "js_BigInt s = (case js_BigInt_of_string s of
     None \<Rightarrow> Inl (SyntaxError (''Cannot convert '' @ s @ '' to a BigInt'')) | Some i \<Rightarrow> Inr i)"

definition strip_zeros :: "string \<Rightarrow> string" where
  "strip_zeros s = rev (dropWhile (\<lambda>c. c = CHR ''0'') (rev s))"

definition pad_right :: "nat \<Rightarrow> string \<Rightarrow> string" where
  "pad_right n s = s @ replicate (n - length s) (CHR ''0'')"

text \<open>The part before the first point, and the part between it and the next, if any.\<close>

definition before_point :: "string \<Rightarrow> string" where
  "before_point s = takeWhile (\<lambda>c. c \<noteq> CHR ''.'') s"

definition after_point :: "string \<Rightarrow> string" where
  "after_point s = before_point (drop (Suc (length (before_point s))) s)"

section \<open>Token amounts\<close>

definition fraction_text :: "int \<Rightarrow> string" where
  "fraction_text raw = strip_zeros (pad_left 7 (int_str (big_mod raw 10000000)))"

definition formatUsdc :: "int \<Rightarrow> string" where
  "formatUsdc raw = (let whole = int_str (big_div raw 10000000); fr = fraction_text raw in
     if fr = [] then whole else whole @ ''.'' @ fr)"

definition formatUsdc_text :: "string \<Rightarrow> exn + string" where
  "formatUsdc_text raw = (case js_BigInt raw of Inl e \<Rightarrow> Inl e | Inr n \<Rightarrow> Inr (formatUsdc n))"

definition parseUsdc :: "string \<Rightarrow> exn + int" where
  "parseUsdc display = (case js_BigInt (before_point display) of Inl e \<Rightarrow> Inl e | Inr whole \<Rightarrow>
     (case js_BigInt (take 7 (pad_right 7 (after_point display))) of Inl e \<Rightarrow> Inl e | Inr fr \<Rightarrow>
       Inr (whole * 10000000 + fr)))"

definition formatFeeXlm :: "int \<Rightarrow> string" where
  "formatFeeXlm stroops = (let whole = int_str (big_div stroops 10000000); fraction = fraction_text stroops in
     if 0 < length fraction then whole @ ''.'' @ fraction @ '' XLM'' else whole @ '' XLM'')"

section \<open>Prices and slippage\<close>

definition implied_bps :: "int \<Rightarrow> int \<Rightarrow> js_num" where
  "implied_bps yes no = (if yes + no = 0 then Fin 5000 else num_of_int (big_div (no * 10000) (yes + no)))"

definition impliedYesBps :: "string \<Rightarrow> string \<Rightarrow> exn + js_num" where
  "impliedYesBps yesReserve noReserve = (case js_BigInt yesReserve of Inl e \<Rightarrow> Inl e | Inr yes \<Rightarrow>
     (case js_BigInt noReserve of Inl e \<Rightarrow> Inl e | Inr no \<Rightarrow> Inr (implied_bps yes no)))"

definition applySlippage :: "int \<Rightarrow> js_num \<Rightarrow> exn + int" where
  "applySlippage amountOut slippageBps =
    (case js_BigInt_of_num (js_add (Fin 10000) (js_neg slippageBps)) of Inl e \<Rightarrow> Inl e
     | Inr keep \<Rightarrow> Inr (big_div (amountOut * keep) 10000))"

section \<open>Lemmas\<close>

lemma js_BigInt_int_str [simp]: "js_BigInt (int_str i) = Inr i"
  by (simp add: js_BigInt_def)

lemma js_BigInt_digits: "all_digits s \<Longrightarrow> js_BigInt s = Inr (int (digits_val s))"
  by (simp add: js_BigInt_def BigInt_digits)

lemma digit_not_point: "is_digit c \<Longrightarrow> c \<noteq> CHR ''.''"
  by (auto simp: is_digit_def)

lemma before_point_digits: "list_all is_digit s \<Longrightarrow> before_point s = s"
  by (auto simp: before_point_def list_all_iff digit_not_point)

lemma before_point_append: "list_all is_digit s \<Longrightarrow> before_point (s @ CHR ''.'' # t) = s"
  by (auto simp: before_point_def list_all_iff digit_not_point takeWhile_append2)

lemma takeWhile_const: "\<exists>n. takeWhile (\<lambda>c. c = a) xs = replicate n a"
proof (induction xs)
  case (Cons x xs)
  then obtain n where "takeWhile (\<lambda>c. c = a) xs = replicate n a" by blast
  then have "takeWhile (\<lambda>c. c = a) (x # xs) = replicate (if x = a then Suc n else 0) a" by simp
  then show ?case by blast
qed simp

lemma strip_zeros_append: "\<exists>n. s = strip_zeros s @ replicate n (CHR ''0'')"
proof -
  obtain n where n: "takeWhile (\<lambda>c. c = CHR ''0'') (rev s) = replicate n (CHR ''0'')"
    using takeWhile_const [of "CHR ''0''" "rev s"] by (elim exE)
  have "s = strip_zeros s @ rev (takeWhile (\<lambda>c. c = CHR ''0'') (rev s))"
    by (simp add: strip_zeros_def flip: rev_append)
  then have "s = strip_zeros s @ replicate n (CHR ''0'')" by (simp only: n rev_replicate)
  then show ?thesis by blast
qed

text \<open>The seven digits of a fraction survive stripping and padding.\<close>

lemma pad_strip:
  assumes "length s = 7"
  shows "pad_right 7 (strip_zeros s) = s"
proof -
  obtain n where n: "s = strip_zeros s @ replicate n (CHR ''0'')" using strip_zeros_append by blast
  then have "length s = length (strip_zeros s) + n" by (metis length_append length_replicate)
  then have "7 - length (strip_zeros s) = n" using assms by simp
  then show ?thesis using n by (simp add: pad_right_def)
qed

lemma pad_left_digits:
  assumes "r < 10 ^ Suc k"
  shows "length (pad_left (Suc k) (nat_str r)) = Suc k"
    and "list_all is_digit (pad_left (Suc k) (nat_str r))"
    and "digits_val (pad_left (Suc k) (nat_str r)) = r"
proof -
  have "is_digit (CHR ''0'')" by (simp add: is_digit_def)
  then show "list_all is_digit (pad_left (Suc k) (nat_str r))"
    using nat_str_digits [of r] by (auto simp: pad_left_def list_all_iff)
  show "length (pad_left (Suc k) (nat_str r)) = Suc k" using length_nat_str [OF assms] by (simp add: pad_left_def)
  show "digits_val (pad_left (Suc k) (nat_str r)) = r" by (simp add: pad_left_def digits_val_append)
qed

lemma fraction_parses:
  assumes "0 \<le> r" "r < 10000000"
  defines "p \<equiv> pad_left 7 (nat_str (nat r))"
  shows "list_all is_digit (strip_zeros p)" and "js_BigInt (take 7 (pad_right 7 (strip_zeros p))) = Inr r"
proof -
  have "nat r < 10 ^ Suc 6" using assms by (simp add: nat_less_iff)
  from pad_left_digits [OF this] have p: "length p = 7" "list_all is_digit p" "digits_val p = nat r"
    by (simp_all add: p_def numeral_eq_Suc)
  obtain z where "p = strip_zeros p @ replicate z (CHR ''0'')" using strip_zeros_append by blast
  then show "list_all is_digit (strip_zeros p)" using p(2) by (metis list_all_append)
  have "p \<noteq> []" using p(1) by auto
  then have "js_BigInt p = Inr r" using p assms(1) by (simp add: js_BigInt_digits all_digits_def)
  then show "js_BigInt (take 7 (pad_right 7 (strip_zeros p))) = Inr r" by (simp add: pad_strip p(1))
qed

text \<open>Reading the text of a whole part and a fraction part.\<close>

lemma split_amount:
  assumes "list_all is_digit w" "list_all is_digit f"
  defines "d \<equiv> if f = [] then w else w @ ''.'' @ f"
  shows "before_point d = w" "after_point d = f"
proof -
  show before: "before_point d = w" using assms by (simp add: d_def before_point_digits before_point_append)
  have "before_point [] = []" by (simp add: before_point_def)
  then show "after_point d = f" using assms(2)
    unfolding after_point_def before by (simp add: d_def before_point_digits)
qed

lemma int_str_nat: "0 \<le> i \<Longrightarrow> int_str i = nat_str (nat i)"
  by (simp add: int_str_def)

text \<open>C34: an amount shown to the user and read back is the same amount, for every amount that is not
  negative.\<close>

lemma parse_format_usdc:
  assumes "0 \<le> n"
  shows "parseUsdc (formatUsdc n) = Inr n"
proof -
  define q r where "q = n div 10000000" and "r = n mod 10000000"
  define w f where "w = nat_str (nat q)" and "f = strip_zeros (pad_left 7 (nat_str (nat r)))"
  have r: "0 \<le> r" "r < 10000000" and q: "0 \<le> q" and n: "n = q * 10000000 + r"
    using assms by (simp_all add: q_def r_def)
  have shown: "formatUsdc n = (if f = [] then w else w @ ''.'' @ f)"
    using assms q r by (simp add: formatUsdc_def fraction_text_def big_div_nonneg big_mod_nonneg int_str_nat
        w_def f_def flip: q_def r_def)
  have "list_all is_digit w" by (simp add: w_def nat_str_digits)
  note parts = split_amount [OF this fraction_parses(1) [OF r, folded f_def], folded shown]
  have "js_BigInt w = Inr q" using q by (metis int_str_nat js_BigInt_int_str w_def)
  then show ?thesis using fraction_parses(2) [OF r, folded f_def] by (simp add: parseUsdc_def parts n [symmetric])
qed

lemma parse_format_usdc_witness: "parseUsdc (formatUsdc 12500000) = Inr 12500000"
  by (rule parse_format_usdc) simp

text \<open>The minimum output sent with a trade is the quoted output less the slippage, rounded down: at most
  one unit below the exact bound and never above the quote.\<close>

lemma apply_slippage_bound:
  assumes "0 \<le> out" "0 \<le> bps" "bps \<le> 10000"
  shows "\<exists>least. applySlippage out (Fin (of_int bps)) = Inr least
    \<and> least * 10000 \<le> out * (10000 - bps) \<and> out * (10000 - bps) < (least + 1) * 10000
    \<and> 0 \<le> least \<and> least \<le> out"
proof -
  let ?least = "out * (10000 - bps) div 10000"
  have "js_add (Fin 10000) (js_neg (Fin (of_int bps))) = Fin (of_int (10000 - bps))"
    using fround_of_int [of "10000 - bps"] assms by simp
  then have "applySlippage out (Fin (of_int bps)) = Inr ?least"
    using assms by (simp add: applySlippage_def js_BigInt_of_num_def big_div_nonneg)
  moreover have "?least \<le> out"
    using zdiv_mono1 [of "out * (10000 - bps)" "out * 10000" 10000] mult_left_mono [of "10000 - bps" 10000 out] assms
    by simp
  moreover have "?least * 10000 \<le> out * (10000 - bps)" "out * (10000 - bps) < (?least + 1) * 10000"
    by simp_all
  moreover have "0 \<le> ?least" using assms by (simp add: pos_imp_zdiv_nonneg_iff)
  ultimately show ?thesis by blast
qed

lemma apply_slippage_bound_witness:
  "\<exists>least. applySlippage 1000001 (Fin (of_int 50)) = Inr least
    \<and> least * 10000 \<le> 1000001 * (10000 - 50) \<and> 1000001 * (10000 - 50) < (least + 1) * 10000
    \<and> 0 \<le> least \<and> least \<le> 1000001"
  by (rule apply_slippage_bound) simp_all

text \<open>C35: for the same pool, the web application's YES price in basis points is the NO reserve's share rounded
  down, whereas the services' YES price is the YES reserve's share: the two agree only for equal reserves.\<close>

lemma prices_opposed:
  assumes "y + n \<le> 2 ^ 53" "y + n \<noteq> 0"
  shows "impliedYesBps (nat_str y) (nat_str n) = Inr (Fin (of_nat (n * 10000 div (y + n))))
    \<and> yesPrice (derivePrices (Some (nat_str y)) (Some (nat_str n))) = Some (fround (of_nat y / of_nat (y + n)))
    \<and> noPrice (derivePrices (Some (nat_str y)) (Some (nat_str n))) = Some (fround (of_nat n / of_nat (y + n)))"
proof -
  have read: "js_BigInt (nat_str k) = Inr (int k)" for k
    using js_BigInt_int_str [of "int k"] by (simp add: int_str_nat)
  have "n * 10000 div (y + n) \<le> 10000"
    using div_le_mono [of "n * 10000" "(y + n) * 10000" "y + n"] assms(2)
    unfolding nonzero_mult_div_cancel_left [OF assms(2)] by simp
  then have "num_of_int (int (n * 10000 div (y + n))) = Fin (of_int (int (n * 10000 div (y + n))))"
    by (intro num_of_int_exact) simp
  moreover have "big_div (int n * 10000) (int y + int n) = int (n * 10000 div (y + n))"
  proof -
    have "0 < int y + int n" using assms(2) by linarith
    then show ?thesis using zdiv_int [of "n * 10000" "y + n"] by (simp add: big_div_nonneg)
  qed
  ultimately have "impliedYesBps (nat_str y) (nat_str n) = Inr (Fin (of_nat (n * 10000 div (y + n))))"
    using assms(2) by (simp add: impliedYesBps_def read implied_bps_def) linarith
  then show ?thesis using assms by (simp add: derivePrices_values)
qed

lemma prices_opposed_witness:
  "impliedYesBps (nat_str 30) (nat_str 70) = Inr (Fin 7000)
    \<and> yesPrice (derivePrices (Some (nat_str 30)) (Some (nat_str 70))) = Some (fround (3 / 10))"
  using prices_opposed [of 30 70] by simp

end
