(* ===== verification/Web_Transaction.thy ===== *)
theory Web_Transaction imports Web_Amounts Sponsor_Policy begin

text \<open>
  The browser's transactions (\<open>dike-web/lib/stellar/transaction.ts\<close>, the encoders of
  \<open>lib/stellar/scval.ts\<close>, \<open>lib/api/sponsorship.ts\<close> and \<open>lib/stellar/execute.ts\<close>): building and
  simulating a call, reading with retries, submitting directly or through the sponsor, and the error
  texts.  The Stellar library, the RPC node, the services' HTTP answers and the wallet are the oracles
  of the record \<open>browser\<close>, indexed by the number of external operations performed; \<open>trace\<close> lists those
  operations in order, with the states shown to the user.
\<close>

section \<open>The browser\<close>

datatype scval = ScBool bool | ScVoid | ScU32 int | ScI32 int | ScU64 int | ScI64 int | ScU128 int
  | ScI128 int | ScBytes "nat list" | ScString string | ScSymbol string | ScAddress string
  | ScVec "scval list" | ScMap "(scval \<times> scval) list"

text \<open>What a promise rejects with: an error of the language, a sponsorship error with its code,
  message, whether it may be retried and its status, or any other value (a wallet's rejection).\<close>

datatype web_error = JsError exn | SponsorshipApiError jsval string jsval int | ServiceUnavailableError string
  | Thrown jsval

record contract_tx =
  x_account :: string
  x_fee :: string
  x_passphrase :: string
  x_contract :: string
  x_method :: string
  x_args :: "scval list"
  x_timeout :: nat

datatype simulation = SimulationError string | SimulationSuccess "scval option"

datatype sent_response = SendError "string option" | SendAccepted string

datatype tx_status = NOT_FOUND | SUCCESS "scval option" | FAILED "string option"

text \<open>A parsed transaction with its fee, and the resource fee of its Soroban data if it has one.\<close>

datatype web_tx = Transaction string "string option" | FeeBumpTransaction string

text \<open>\<open>AdminGet url key\<close> is a request that carries the administration key as a header.\<close>

datatype http_request = HttpGet string | HttpPost string jsval | AdminGet string "string option"

record http_response =
  h_ok :: bool
  h_status :: int
  h_json :: "jsval option"

record tx_state =
  ts_status :: string
  ts_hash :: jsval
  ts_error :: "string option"

datatype web_op = AskAccount string | Simulate contract_tx | SendTx string | AskTx string
  | Sleep nat | Fetch http_request | AskNetwork | Confirm string | Sign string | Show tx_state
  | ShowFee string | StoreItem string string | SessionSet string | SessionRemove
  | InitKit | Connect | Disconnect | AskAddress

text \<open>Beside the library and the answers of the network, the browser has the runtime of the page: whether it
  runs in a window, the environment of the server, the two storages (the session storage only holds the
  wallet's address), whether the wallet kit is initialised, the random bytes, the JSON and date parsers and the digest.\<close>

record browser =
  moves :: nat
  trace :: "web_op list"
  w_passphrase :: string
  w_label :: string
  w_configurationErrors :: "string list"
  w_services :: string
  w_manifestNetwork :: string
  w_contracts :: "(string \<times> string) list"
  w_collateral :: string
  w_now :: "nat \<Rightarrow> int"
  w_nativeToScVal :: "jsval \<Rightarrow> string option \<Rightarrow> web_error + scval"
  w_scValToNative :: "scval \<Rightarrow> web_error + jsval"
  w_addressScVal :: "string \<Rightarrow> web_error + scval"
  w_newContract :: "string \<Rightarrow> web_error + unit"
  w_assemble :: "contract_tx \<Rightarrow> simulation \<Rightarrow> web_error + string"
  w_fromXDR :: "string \<Rightarrow> web_error + web_tx"
  w_resultXdr :: "string \<Rightarrow> (string \<times> string option list option) option"
  w_scValXdr :: "jsval \<Rightarrow> web_error + scval"
  w_account :: "nat \<Rightarrow> string \<Rightarrow> web_error + string"
  w_simulate :: "nat \<Rightarrow> contract_tx \<Rightarrow> web_error + simulation"
  w_send :: "nat \<Rightarrow> string \<Rightarrow> web_error + sent_response"
  w_getTransaction :: "nat \<Rightarrow> string \<Rightarrow> web_error + tx_status"
  w_fetch :: "nat \<Rightarrow> http_request \<Rightarrow> web_error + http_response"
  w_walletNetwork :: "nat \<Rightarrow> web_error + string"
  w_confirm :: "nat \<Rightarrow> string \<Rightarrow> bool"
  w_sign :: "nat \<Rightarrow> string \<Rightarrow> web_error + string"
  w_window :: bool
  w_env_services :: string
  w_adminKey :: "string option"
  w_local :: "(string \<times> string) list"
  w_session :: "string option"
  w_random :: "nat \<Rightarrow> nat list"
  w_parse :: "string \<Rightarrow> jsval option"
  w_sha256 :: "string \<Rightarrow> nat list"
  w_date :: "string \<Rightarrow> js_num"
  w_kitReady :: bool
  w_initKit :: "nat \<Rightarrow> web_error + unit"
  w_kitConnect :: "nat \<Rightarrow> web_error + string"
  w_kitDisconnect :: "nat \<Rightarrow> web_error + unit"
  w_kitAddress :: "nat \<Rightarrow> web_error + string"

type_synonym 'a web = "(web_error, browser, 'a) io"

definition perform :: "web_op \<Rightarrow> (browser \<Rightarrow> nat \<Rightarrow> web_error + 'a) \<Rightarrow> 'a web" where
  "perform op f = (\<lambda>b. (f b (moves b), b\<lparr>moves := Suc (moves b), trace := trace b @ [op]\<rparr>))"

definition library :: "(browser \<Rightarrow> web_error + 'a) \<Rightarrow> 'a web" where
  "library f = (\<lambda>b. (f b, b))"

definition raise :: "string \<Rightarrow> 'a web" where
  "raise m = throw (JsError (Error m))"

definition js :: "exn + 'a \<Rightarrow> 'a web" where
  "js r = liftE (case r of Inl e \<Rightarrow> Inl (JsError e) | Inr a \<Rightarrow> Inr a)"

definition pause :: "nat \<Rightarrow> unit web" where
  "pause ms = perform (Sleep ms) (\<lambda>_ _. Inr ())"

section \<open>Encoding arguments\<close>

definition toAddress :: "string \<Rightarrow> scval web" where
  "toAddress addr = library (\<lambda>b. w_addressScVal b addr)"

definition nativeToScVal :: "jsval \<Rightarrow> string \<Rightarrow> scval web" where
  "nativeToScVal v type = library (\<lambda>b. w_nativeToScVal b v (Some type))"

definition toI128 :: "int \<Rightarrow> scval web" where
  "toI128 amount = nativeToScVal (JBigInt amount) ''i128''"

definition toU128 :: "int \<Rightarrow> scval web" where
  "toU128 amount = nativeToScVal (JBigInt amount) ''u128''"

definition toU64 :: "int \<Rightarrow> scval web" where
  "toU64 n = nativeToScVal (JBigInt n) ''u64''"

definition toU32 :: "js_num \<Rightarrow> scval web" where
  "toU32 n = nativeToScVal (JNum n) ''u32''"

definition toI32 :: "js_num \<Rightarrow> scval web" where
  "toI32 n = nativeToScVal (JNum n) ''i32''"

definition toSymbol :: "string \<Rightarrow> scval web" where
  "toSymbol s = nativeToScVal (JStr s) ''symbol''"

definition toStringVal :: "string \<Rightarrow> scval web" where
  "toStringVal s = nativeToScVal (JStr s) ''string''"

definition toBool :: "bool \<Rightarrow> scval web" where
  "toBool v = library (\<lambda>b. w_nativeToScVal b (JBool v) None)"

text \<open>\<open>Buffer.from(text, "hex")\<close> decodes pairs of hexadecimal digits and stops at the first pair that
  is not one.\<close>

fun buffer_from_hex :: "string \<Rightarrow> nat list" where
  "buffer_from_hex (a # c # cs) = (case (radix_val 16 a, radix_val 16 c) of
     (Some h, Some l) \<Rightarrow> (16 * h + l) # buffer_from_hex cs | _ \<Rightarrow> [])"
| "buffer_from_hex _ = []"

definition strip_0x :: "string \<Rightarrow> string" where
  "strip_0x h = (if take 2 h = ''0x'' then drop 2 h else h)"

definition toBytes :: "string \<Rightarrow> scval web" where
  "toBytes hex = nativeToScVal (JBuffer (buffer_from_hex (strip_0x hex))) ''bytes''"

definition toOutcomeVal :: "string \<Rightarrow> scval web" where
  "toOutcomeVal oc = bindM (nativeToScVal (JStr oc) ''symbol'') (\<lambda>v. ret (ScVec [v]))"

definition fromScVal :: "scval \<Rightarrow> jsval web" where
  "fromScVal v = library (\<lambda>b. w_scValToNative b v)"

definition fromI128 :: "scval \<Rightarrow> int web" where
  "fromI128 v = bindM (fromScVal v) (\<lambda>n. case n of JBigInt i \<Rightarrow> ret i | _ \<Rightarrow> js (js_BigInt (js_String n)))"

definition fromU64 :: "scval \<Rightarrow> int web" where
  "fromU64 v = fromI128 v"

definition fromBool :: "scval \<Rightarrow> bool web" where
  "fromBool v = bindM (fromScVal v) (\<lambda>n. ret (js_truthy n))"

definition fromString :: "scval \<Rightarrow> string web" where
  "fromString v = bindM (fromScVal v) (\<lambda>n. ret (js_String n))"

definition fromSymbol :: "scval \<Rightarrow> string web" where
  "fromSymbol v = bindM (fromScVal v) (\<lambda>n. ret (js_String n))"

section \<open>Error texts\<close>

definition DIKE_ERROR_MAP :: "(js_num \<times> string) list" where
  "DIKE_ERROR_MAP = [(Fin 3, ''Unauthorized''), (Fin 6, ''InvalidStatus''), (Fin 15, ''InsufficientBalance''),
     (Fin 17, ''SlippageExceeded''), (Fin 18, ''DeadlineExpired''), (Fin 30, ''UnsupportedCollateral''),
     (Fin 35, ''EncumberedPosition'')]"

definition decodeResultXdr :: "browser \<Rightarrow> string \<Rightarrow> string option" where
  "decodeResultXdr b base64 = (case w_resultXdr b base64 of None \<Rightarrow> None
     | Some (outerCode, opResults) \<Rightarrow> (case or_else opResults [] of [] \<Rightarrow> Some outerCode
         | None # _ \<Rightarrow> None
         | Some op # _ \<Rightarrow> Some (if op = [] then outerCode else outerCode @ '' / '' @ op)))"

text \<open>The first match of \<open>/Error\(Contract, #(\d+)\)/\<close> and of \<open>/(AAAA[A-Za-z0-9+/=]+)/\<close>.\<close>

definition code_here :: "string \<Rightarrow> string option" where
  "code_here s = (let p = ''Error(Contract, #''; r = drop (length p) s; d = takeWhile is_digit r in
     if take (length p) s = p \<and> d \<noteq> [] \<and> take 1 (drop (length d) r) = '')'' then Some d else None)"

fun contract_code :: "string \<Rightarrow> string option" where
  "contract_code [] = None"
| "contract_code (c # cs) = (case code_here (c # cs) of Some d \<Rightarrow> Some d | None \<Rightarrow> contract_code cs)"

definition is_base64 :: "char \<Rightarrow> bool" where
  "is_base64 c = (let n = (of_char c :: nat) in is_digit c \<or> 97 \<le> n \<and> n \<le> 122 \<or> 65 \<le> n \<and> n \<le> 90
     \<or> c \<in> {CHR ''+'', CHR ''/'', CHR ''=''})"

fun xdr_text :: "string \<Rightarrow> string option" where
  "xdr_text [] = None"
| "xdr_text (c # cs) = (let body = takeWhile is_base64 (drop 4 (c # cs)) in
     if take 4 (c # cs) = ''AAAA'' \<and> body \<noteq> [] then Some (''AAAA'' @ body) else xdr_text cs)"

fun has_substring :: "string \<Rightarrow> string \<Rightarrow> bool" where
  "has_substring p [] = (p = [])"
| "has_substring p (c # cs) = (take (length p) (c # cs) = p \<or> has_substring p cs)"

text \<open>\<open>s.replace(p, r)\<close> on texts: the first occurrence.\<close>

fun replace_first :: "string \<Rightarrow> string \<Rightarrow> string \<Rightarrow> string" where
  "replace_first p r [] = (if p = [] then r else [])"
| "replace_first p r (c # cs) = (if take (length p) (c # cs) = p then r @ drop (length p) (c # cs)
     else c # replace_first p r cs)"

definition starts_with :: "string \<Rightarrow> string \<Rightarrow> bool" where
  "starts_with p s = (take (length p) s = p)"

definition error_text :: "browser \<Rightarrow> string \<Rightarrow> string" where
  "error_text b msg = (case contract_code msg of
     Some d \<Rightarrow> (let code = num_of_int (int (digits_val d)) in
       case map_of DIKE_ERROR_MAP code of Some named \<Rightarrow> named | None \<Rightarrow> ''ContractError #'' @ num_to_string code)
   | None \<Rightarrow> (case find (\<lambda>named. has_substring named msg) (map snd DIKE_ERROR_MAP) of
       Some named \<Rightarrow> named
     | None \<Rightarrow> (case xdr_text msg of None \<Rightarrow> msg
         | Some xdr \<Rightarrow> (case decodeResultXdr b xdr of
             Some decoded \<Rightarrow> (if decoded \<noteq> [] then
                 replace_first ''Transaction failed on-chain: '' []
                   (replace_first ''Transaction rejected: '' [] (replace_first xdr decoded msg))
               else if starts_with ''Transaction rejected:'' msg then ''Transaction rejected by Stellar RPC''
               else if starts_with ''Transaction failed on-chain:'' msg then ''Transaction failed on-chain''
               else msg)
           | None \<Rightarrow> if starts_with ''Transaction rejected:'' msg then ''Transaction rejected by Stellar RPC''
               else if starts_with ''Transaction failed on-chain:'' msg then ''Transaction failed on-chain''
               else msg))))"

fun exn_message :: "exn \<Rightarrow> string" where
  "exn_message (Error m) = m"
| "exn_message (TypeError m) = m"
| "exn_message (RangeError m) = m"
| "exn_message (SyntaxError m) = m"
| "exn_message (RequestValidationError m) = m"
| "exn_message (NetworkMismatchError m) = m"

definition parseDikeError :: "browser \<Rightarrow> web_error \<Rightarrow> string" where
  "parseDikeError b err = (case err of
     JsError e \<Rightarrow> error_text b (exn_message e)
   | SponsorshipApiError _ m _ _ \<Rightarrow> error_text b m
   | ServiceUnavailableError m \<Rightarrow> error_text b m
   | Thrown v \<Rightarrow> js_String v)"

definition verifyNetwork :: "string \<Rightarrow> unit web" where
  "verifyNetwork walletNetwork = bindM (getsM (\<lambda>b. (w_passphrase b, w_label b))) (\<lambda>(expected, label).
     if walletNetwork \<noteq> expected then raise (''Wrong wallet network. Switch to '' @ label @ ''.'') else ret ())"

section \<open>Fees shown to the user\<close>

definition feeFromXdr :: "string \<Rightarrow> string web" where
  "feeFromXdr xdr = bindM (library (\<lambda>b. w_fromXDR b xdr)) (\<lambda>tx. case tx of
     Transaction fee _ \<Rightarrow> ret fee | FeeBumpTransaction fee \<Rightarrow> ret fee)"

definition walletFeeFromXdr :: "string \<Rightarrow> bool \<Rightarrow> string web" where
  "walletFeeFromXdr xdr sponsored = (if sponsored then ret ''0'' else feeFromXdr xdr)"

definition sponsorMaximumFeeFromXdr :: "string \<Rightarrow> string web" where
  "sponsorMaximumFeeFromXdr xdr = bindM (library (\<lambda>b. w_fromXDR b xdr)) (\<lambda>tx. case tx of
     FeeBumpTransaction fee \<Rightarrow> ret fee
   | Transaction _ resource \<Rightarrow> (let resourceFee = (case resource of None \<Rightarrow> 0
         | Some s \<Rightarrow> or_else (js_BigInt_of_string s) 0) in
       ret (int_str (BASE_FEE * 2 + resourceFee))))"

section \<open>Building a call\<close>

datatype fee_mode = direct | sponsored

definition INCLUSION_FEE_CEILING_STROOPS :: string where
  "INCLUSION_FEE_CEILING_STROOPS = ''2000000''"

definition SPONSORED_INCLUSION_FEE_STROOPS :: string where
  "SPONSORED_INCLUSION_FEE_STROOPS = int_str BASE_FEE"

definition call_tx :: "browser \<Rightarrow> string \<Rightarrow> string \<Rightarrow> string \<Rightarrow> string \<Rightarrow> scval list \<Rightarrow> contract_tx" where
  "call_tx b account fee contractId meth args = \<lparr>x_account = account, x_fee = fee, x_passphrase = w_passphrase b,
     x_contract = contractId, x_method = meth, x_args = args, x_timeout = 300\<rparr>"

definition simulate_call :: "string \<Rightarrow> string \<Rightarrow> string \<Rightarrow> string \<Rightarrow> scval list \<Rightarrow>
    (contract_tx \<times> simulation) web" where
  "simulate_call sourceAddress fee contractId meth args =
    bindM (perform (AskAccount sourceAddress) (\<lambda>b t. w_account b t sourceAddress)) (\<lambda>account.
    bindM (library (\<lambda>b. w_newContract b contractId)) (\<lambda>_.
    bindM (getsM (\<lambda>b. call_tx b account fee contractId meth args)) (\<lambda>tx.
    bindM (perform (Simulate tx) (\<lambda>b t. w_simulate b t tx)) (\<lambda>simulation. ret (tx, simulation)))))"

definition buildAndSimulate :: "string \<Rightarrow> string \<Rightarrow> string \<Rightarrow> scval list \<Rightarrow> fee_mode \<Rightarrow> string web" where
  "buildAndSimulate sourceAddress contractId meth args feeMode =
    bindM (simulate_call sourceAddress (if feeMode = sponsored then SPONSORED_INCLUSION_FEE_STROOPS
        else INCLUSION_FEE_CEILING_STROOPS) contractId meth args) (\<lambda>(tx, simulation). case simulation of
      SimulationError e \<Rightarrow> raise (''Simulation failed: '' @ e)
    | SimulationSuccess _ \<Rightarrow> library (\<lambda>b. w_assemble b tx simulation))"

section \<open>Reading\<close>

definition simulateReadOnce :: "string \<Rightarrow> string \<Rightarrow> string \<Rightarrow> scval list \<Rightarrow> scval web" where
  "simulateReadOnce sourceAddress contractId meth args =
    bindM (simulate_call sourceAddress (int_str BASE_FEE) contractId meth args) (\<lambda>(tx, simulation).
      case simulation of
        SimulationError e \<Rightarrow> raise (''Read simulation failed: '' @ e)
      | SimulationSuccess None \<Rightarrow> raise ''No return value from simulation''
      | SimulationSuccess (Some retval) \<Rightarrow> ret retval)"

definition READ_RETRY_DELAYS_MS :: "nat list" where
  "READ_RETRY_DELAYS_MS = [250, 750]"

text \<open>One attempt, and another after each delay that is left.\<close>

fun with_retries :: "nat list \<Rightarrow> 'a web \<Rightarrow> 'a web" where
  "with_retries [] m = m"
| "with_retries (d # ds) m = catchM m (\<lambda>_. thenM (pause d) (with_retries ds m))"

definition simulateRead :: "string \<Rightarrow> string \<Rightarrow> string \<Rightarrow> scval list \<Rightarrow> scval web" where
  "simulateRead sourceAddress contractId meth args =
     with_retries READ_RETRY_DELAYS_MS (simulateReadOnce sourceAddress contractId meth args)"

section \<open>Submitting\<close>

definition transaction_status :: "string \<Rightarrow> tx_status web" where
  "transaction_status hash = perform (AskTx hash) (\<lambda>b t. w_getTransaction b t hash)"

text \<open>The loop with \<open>n\<close> attempts left.\<close>

primrec poll_status :: "nat \<Rightarrow> string \<Rightarrow> tx_status \<Rightarrow> tx_status web" where
  "poll_status 0 hash resp = ret resp"
| "poll_status (Suc n) hash resp = (if resp = NOT_FOUND
     then thenM (pause 2000) (bindM (transaction_status hash) (poll_status n hash)) else ret resp)"

definition submitAndPoll :: "string \<Rightarrow> (string \<times> scval option) web" where
  "submitAndPoll signedXdr =
    bindM (library (\<lambda>b. w_fromXDR b signedXdr)) (\<lambda>_.
    bindM (perform (SendTx signedXdr) (\<lambda>b t. w_send b t signedXdr)) (\<lambda>sendResp. case sendResp of
      SendError errResult \<Rightarrow> raise (''Transaction rejected: '' @ or_else errResult ''undefined'')
    | SendAccepted hash \<Rightarrow>
        bindM (transaction_status hash) (\<lambda>first.
        bindM (poll_status 60 hash first) (\<lambda>getResp. case getResp of
          SUCCESS returnValue \<Rightarrow> ret (hash, returnValue)
        | FAILED resultXdr \<Rightarrow> raise (''Transaction failed on-chain: '' @ or_else resultXdr ''unknown'')
        | NOT_FOUND \<Rightarrow> raise ''Transaction not confirmed after polling timeout.''))))"

section \<open>Reads are retried\<close>

text \<open>The accounts a run asks for: one for each attempt at a read.\<close>

fun attempts :: "web_op list \<Rightarrow> nat" where
  "attempts [] = 0"
| "attempts (op # ops) = (case op of AskAccount _ \<Rightarrow> 1 | _ \<Rightarrow> 0) + attempts ops"

lemma attempts_append [simp]: "attempts (xs @ ys) = attempts xs + attempts ys"
  by (induction xs) simp_all

definition after_ops :: "web_op list \<Rightarrow> browser \<Rightarrow> browser" where
  "after_ops ops b = b\<lparr>moves := moves b + length ops, trace := trace b @ ops\<rparr>"

lemma after_ops_simps [simp]:
  "moves (after_ops ops b) = moves b + length ops" "trace (after_ops ops b) = trace b @ ops"
  "after_ops ys (after_ops xs b) = after_ops (xs @ ys) b" "after_ops [] b = b"
  "w_getTransaction (after_ops ops b) = w_getTransaction b" "w_account (after_ops ops b) = w_account b"
  "w_simulate (after_ops ops b) = w_simulate b" "w_newContract (after_ops ops b) = w_newContract b"
  "w_send (after_ops ops b) = w_send b" "w_fromXDR (after_ops ops b) = w_fromXDR b"
  "w_fetch (after_ops ops b) = w_fetch b" "w_sign (after_ops ops b) = w_sign b"
  "w_passphrase (after_ops ops b) = w_passphrase b" "w_label (after_ops ops b) = w_label b"
  "w_contracts (after_ops ops b) = w_contracts b" "w_services (after_ops ops b) = w_services b" "w_confirm (after_ops ops b) = w_confirm b"
  "w_scValToNative (after_ops ops b) = w_scValToNative b" "w_local (after_ops ops b) = w_local b"
  "w_session (after_ops ops b) = w_session b" "w_now (after_ops ops b) = w_now b"
  "w_addressScVal (after_ops ops b) = w_addressScVal b" "w_nativeToScVal (after_ops ops b) = w_nativeToScVal b"
  "w_assemble (after_ops ops b) = w_assemble b" "w_manifestNetwork (after_ops ops b) = w_manifestNetwork b"
  "w_collateral (after_ops ops b) = w_collateral b" "w_scValXdr (after_ops ops b) = w_scValXdr b"
  "w_walletNetwork (after_ops ops b) = w_walletNetwork b"
  "w_configurationErrors (after_ops ops b) = w_configurationErrors b" "w_random (after_ops ops b) = w_random b"
  "w_parse (after_ops ops b) = w_parse b" "w_sha256 (after_ops ops b) = w_sha256 b" "w_date (after_ops ops b) = w_date b"
  "w_kitConnect (after_ops ops b) = w_kitConnect b" "w_kitDisconnect (after_ops ops b) = w_kitDisconnect b"
  "w_kitAddress (after_ops ops b) = w_kitAddress b" "w_initKit (after_ops ops b) = w_initKit b"
  "w_kitReady (after_ops ops b) = w_kitReady b" "w_window (after_ops ops b) = w_window b"
  "call_tx (after_ops ops b) = call_tx b"
  by (simp_all add: after_ops_def call_tx_def fun_eq_iff add.assoc)

lemma perform_app: "perform op f b = (f b (moves b), after_ops [op] b)"
  by (simp add: perform_def after_ops_def)

lemma simulate_call_app:
  "simulate_call a f c m args b = (case w_account b (moves b) a of
     Inl e \<Rightarrow> (Inl e, after_ops [AskAccount a] b)
   | Inr account \<Rightarrow> (case w_newContract b c of Inl e \<Rightarrow> (Inl e, after_ops [AskAccount a] b)
     | Inr _ \<Rightarrow> (let tx = call_tx b account f c m args in
         (case w_simulate b (Suc (moves b)) tx of Inl e \<Rightarrow> Inl e | Inr s \<Rightarrow> Inr (tx, s),
          after_ops [AskAccount a, Simulate tx] b))))"
  by (simp add: simulate_call_def perform_app library_def io_simps Let_def split: sum.split)

lemma read_once_state:
  "snd (simulateReadOnce a c m args b) = snd (simulate_call a (int_str BASE_FEE) c m args b)"
proof (cases "simulate_call a (int_str BASE_FEE) c m args b")
  case (Pair r b')
  then show ?thesis
    by (cases r) (auto simp: simulateReadOnce_def raise_def io_simps split: simulation.split option.split)
qed

lemma one_attempt:
  "\<exists>ops. snd (simulateReadOnce a c m args b) = after_ops ops b
    \<and> attempts ops = 1 \<and> list_all (\<lambda>op. \<exists>tx. op = AskAccount a \<or> op = Simulate tx) ops"
proof (cases "w_account b (moves b) a")
  case (Inl e)
  then show ?thesis unfolding read_once_state simulate_call_app by (intro exI [of _ "[AskAccount a]"]) simp
next
  case (Inr account)
  then show ?thesis
    by (cases "w_newContract b c")
      (simp_all add: read_once_state simulate_call_app Let_def exI [of _ "[AskAccount a]"]
        exI [of _ "[AskAccount a, Simulate (call_tx b account (int_str BASE_FEE) c m args)]"])
qed

lemma retried_attempts:
  assumes one: "\<And>b. \<exists>ops. snd (m b) = after_ops ops b \<and> attempts ops = 1 \<and> list_all P ops"
    and sleeps: "\<And>d. P (Sleep d)"
  shows "\<exists>ops. snd (with_retries ds m b) = after_ops ops b
    \<and> 1 \<le> attempts ops \<and> attempts ops \<le> Suc (length ds) \<and> list_all P ops
    \<and> (attempts ops = Suc (length ds) \<or> (\<exists>v. fst (with_retries ds m b) = Inr v))"
proof (induction ds arbitrary: b)
  case Nil
  obtain ops where "snd (m b) = after_ops ops b" "attempts ops = 1" "list_all P ops" using one by blast
  then show ?case by (intro exI [of _ ops]) simp
next
  case (Cons d ds)
  from one [of b] obtain xs where xs: "snd (m b) = after_ops xs b" "attempts xs = 1" "list_all P xs" by blast
  show ?case
  proof (cases "fst (m b)")
    case (Inr v)
    then have "with_retries (d # ds) m b = (Inr v, snd (m b))" by (cases "m b") (simp add: catchM_app)
    then show ?thesis using xs by (intro exI [of _ xs]) simp
  next
    case (Inl e)
    let ?b = "after_ops (xs @ [Sleep d]) b"
    from Cons.IH [of ?b] obtain ys where ys: "snd (with_retries ds m ?b) = after_ops ys ?b"
      "1 \<le> attempts ys" "attempts ys \<le> Suc (length ds)" "list_all P ys"
      "attempts ys = Suc (length ds) \<or> (\<exists>v. fst (with_retries ds m ?b) = Inr v)" by blast
    have "m b = (Inl e, after_ops xs b)" using Inl xs(1) by (cases "m b") simp
    then have "with_retries (d # ds) m b = with_retries ds m ?b"
      by (simp add: catchM_app thenM_app pause_def perform_app)
    then show ?thesis using xs ys sleeps [of d]
      by (intro exI [of _ "xs @ Sleep d # ys"]) simp
  qed
qed

text \<open>A read makes at least one and at most three attempts, fails only after the third, and never
  sends a transaction or asks the wallet for anything.\<close>

lemma simulate_read_attempts:
  "\<exists>ops. trace (snd (simulateRead a c m args b)) = trace b @ ops \<and> 1 \<le> attempts ops \<and> attempts ops \<le> 3
    \<and> (attempts ops = 3 \<or> (\<exists>v. fst (simulateRead a c m args b) = Inr v))
    \<and> list_all (\<lambda>op. \<exists>tx d. op = AskAccount a \<or> op = Simulate tx \<or> op = Sleep d) ops"
proof -
  let ?P = "\<lambda>op. \<exists>tx d. op = AskAccount a \<or> op = Simulate tx \<or> op = Sleep d"
  have one: "\<exists>ops. snd (simulateReadOnce a c m args b) = after_ops ops b \<and> attempts ops = 1 \<and> list_all ?P ops" for b
  proof -
    obtain ops where "snd (simulateReadOnce a c m args b) = after_ops ops b" "attempts ops = 1"
      "list_all (\<lambda>op. \<exists>tx. op = AskAccount a \<or> op = Simulate tx) ops" using one_attempt by blast
    then show ?thesis by (intro exI [of _ ops]) (auto simp: list_all_iff)
  qed
  have "?P (Sleep d)" for d by blast
  from retried_attempts [of "simulateReadOnce a c m args" ?P, OF one this]
  obtain ops where "snd (simulateRead a c m args b) = after_ops ops b" "1 \<le> attempts ops"
    "attempts ops \<le> Suc (length READ_RETRY_DELAYS_MS)" "list_all ?P ops"
    "attempts ops = Suc (length READ_RETRY_DELAYS_MS) \<or> (\<exists>v. fst (simulateRead a c m args b) = Inr v)"
    unfolding simulateRead_def by blast
  then show ?thesis by (intro exI [of _ ops]) (simp add: READ_RETRY_DELAYS_MS_def numeral_3_eq_3)
qed

section \<open>One submission, then polling\<close>

definition asked_again :: "nat \<Rightarrow> string \<Rightarrow> web_op list" where
  "asked_again k hash = concat (replicate k [Sleep 2000, AskTx hash])"

lemma asked_again_simps [simp]: "asked_again 0 hash = []"
  "asked_again (Suc k) hash = Sleep 2000 # AskTx hash # asked_again k hash"
  by (simp_all add: asked_again_def)

definition answer :: "browser \<Rightarrow> string \<Rightarrow> tx_status \<Rightarrow> nat \<Rightarrow> web_error + tx_status" where
  "answer b hash resp k = (if k = 0 then Inr resp else w_getTransaction b (moves b + 2 * k - 1) hash)"

lemma poll_status_answer:
  "\<exists>k \<le> n. poll_status n hash resp b = (answer b hash resp k, after_ops (asked_again k hash) b)"
proof (induction n arbitrary: resp b)
  case 0
  show ?case by (simp add: ret_def answer_def)
next
  case (Suc n)
  show ?case
  proof (cases "resp = NOT_FOUND")
    case False
    then show ?thesis by (intro exI [of _ 0]) (simp add: ret_def answer_def)
  next
    case True
    let ?b = "after_ops [Sleep 2000, AskTx hash] b"
    have step: "poll_status (Suc n) hash resp b = (case w_getTransaction b (Suc (moves b)) hash of
        Inl e \<Rightarrow> (Inl e, ?b) | Inr s \<Rightarrow> poll_status n hash s ?b)"
      using True by (simp add: thenM_app bindM_app pause_def perform_app transaction_status_def split: sum.split)
    show ?thesis
    proof (cases "w_getTransaction b (Suc (moves b)) hash")
      case (Inl e)
      then show ?thesis by (intro exI [of _ 1]) (simp add: step answer_def del: poll_status.simps)
    next
      case (Inr s)
      obtain k where "k \<le> n" "poll_status n hash s ?b = (answer ?b hash s k, after_ops (asked_again k hash) ?b)"
        using Suc.IH by blast
      moreover have "answer ?b hash s k = answer b hash resp (Suc k)" using Inr by (simp add: answer_def)
      ultimately show ?thesis
        by (intro exI [of _ "Suc k"]) (simp add: step Inr del: poll_status.simps)
    qed
  qed
qed

text \<open>A signed transaction is sent once; it is asked for at most 61 times, two seconds apart, and
  submission reports success exactly with the value of a \<open>SUCCESS\<close> answer for the hash the node gave.\<close>

lemma submit_and_poll_once:
  "(\<exists>e. submitAndPoll x b = (Inl e, b)) \<or>
   (\<exists>e. fst (submitAndPoll x b) = Inl e \<and> trace (snd (submitAndPoll x b)) = trace b @ [SendTx x]) \<or>
   (\<exists>hash k. k \<le> 60 \<and> w_send b (moves b) x = Inr (SendAccepted hash) \<and>
     trace (snd (submitAndPoll x b)) = trace b @ SendTx x # AskTx hash # asked_again k hash \<and>
     (\<forall>h v. fst (submitAndPoll x b) = Inr (h, v) \<longleftrightarrow>
       h = hash \<and> w_getTransaction b (moves b + 1 + 2 * k) hash = Inr (SUCCESS v)))"
proof (cases "\<exists>tx hash. w_fromXDR b x = Inr tx \<and> w_send b (moves b) x = Inr (SendAccepted hash)")
  case False
  then have "(\<exists>e. submitAndPoll x b = (Inl e, b)) \<or> (\<exists>e. submitAndPoll x b = (Inl e, after_ops [SendTx x] b))"
    by (cases "w_fromXDR b x"; cases "w_send b (moves b) x")
      (auto simp: submitAndPoll_def library_def perform_app raise_def bindM_app throw_app split: sent_response.split)
  then show ?thesis by auto
next
  case True
  then obtain tx hash where sent: "w_fromXDR b x = Inr tx" "w_send b (moves b) x = Inr (SendAccepted hash)"
    by blast
  let ?b = "after_ops [SendTx x, AskTx hash] b"
  show ?thesis
  proof (cases "w_getTransaction b (Suc (moves b)) hash")
    case (Inl e)
    then have "submitAndPoll x b = (Inl e, ?b)" using sent
      by (simp add: submitAndPoll_def library_def perform_app transaction_status_def bindM_app)
    then show ?thesis using sent Inl by (intro disjI2 exI [of _ hash] exI [of _ 0]) simp
  next
    case (Inr first)
    obtain k where k: "k \<le> 60"
      "poll_status 60 hash first ?b = (answer ?b hash first k, after_ops (asked_again k hash) ?b)"
      using poll_status_answer by blast
    have ans: "answer ?b hash first k = w_getTransaction b (moves b + 1 + 2 * k) hash"
      using Inr by (simp add: answer_def)
    have run: "submitAndPoll x b = bindM (poll_status 60 hash first) (\<lambda>getResp. case getResp of
          SUCCESS returnValue \<Rightarrow> ret (hash, returnValue)
        | FAILED resultXdr \<Rightarrow> raise (''Transaction failed on-chain: '' @ or_else resultXdr ''unknown'')
        | NOT_FOUND \<Rightarrow> raise ''Transaction not confirmed after polling timeout.'') ?b"
      using sent Inr by (simp add: submitAndPoll_def library_def perform_app transaction_status_def bindM_app
          del: poll_status.simps cong: tx_status.case_cong)
    show ?thesis
      by (intro disjI2 exI [of _ hash] exI [of _ k] conjI)
        (use sent k in \<open>auto simp: run bindM_app ans raise_def ret_app throw_app simp del: poll_status.simps
           split: sum.split tx_status.split\<close>)
  qed
qed

end
