(* ===== verification/Web_Execute.thy ===== *)
theory Web_Execute imports Web_Transaction begin

text \<open>
  The sponsorship client (\<open>dike-web/lib/api/sponsorship.ts\<close>), the transaction executor
  (\<open>lib/stellar/execute.ts\<close>) and the wallet's signing guard (\<open>lib/contexts/wallet.tsx\<close>).  The builder
  and the signer an executor is given are parameters, as in the code.
\<close>

section \<open>The sponsorship client\<close>

text \<open>\<open>v?.k\<close>\<close>

definition optional :: "jsval \<Rightarrow> string \<Rightarrow> jsval" where
  "optional v k = (if js_nullish v then JUndefined else js_field v k)"

definition fetch :: "http_request \<Rightarrow> http_response web" where
  "fetch req = perform (Fetch req) (\<lambda>b t. w_fetch b t req)"

definition readResponse :: "http_response \<Rightarrow> jsval web" where
  "readResponse response = (let payload = or_else (h_json response) JNull in
     if h_ok response then ret payload
     else let err = optional payload ''error'' in
       throw (SponsorshipApiError (js_coalesce (optional err ''code'') (JStr ''SPONSORSHIP_UNAVAILABLE''))
         (js_String (js_coalesce (optional err ''message'') (JStr ''Fee sponsorship is unavailable.'')))
         (js_coalesce (optional err ''retryable'') (JBool (500 \<le> h_status response)))
         (h_status response)))"

definition getSponsorshipStatus :: "jsval web" where
  "getSponsorshipStatus = bindM (getsM w_services) (\<lambda>url.
     bindM (fetch (HttpGet (url @ ''/sponsorship/status''))) readResponse)"

definition submitSponsoredTransaction :: "string \<Rightarrow> jsval web" where
  "submitSponsoredTransaction signedTransactionXdr = bindM (getsM w_services) (\<lambda>url.
     bindM (fetch (HttpPost (url @ ''/sponsorship/transactions'')
       (JObj [(''signedTransactionXdr'', JStr signedTransactionXdr)]))) readResponse)"

definition decodeSponsoredReturnValue :: "jsval \<Rightarrow> scval option web" where
  "decodeSponsoredReturnValue v = (if js_truthy v
     then bindM (library (\<lambda>b. w_scValXdr b v)) (\<lambda>s. ret (Some s)) else ret None)"

section \<open>The executor\<close>

record executed =
  ex_hash :: jsval
  ex_returnValue :: "scval option"
  ex_sponsored :: bool

definition prop_of :: "jsval \<Rightarrow> string \<Rightarrow> jsval web" where
  "prop_of v k = js (js_prop v k)"

definition update :: "bool \<Rightarrow> string \<Rightarrow> jsval \<Rightarrow> string option \<Rightarrow> unit web" where
  "update onState status hash err = whenM onState
     (perform (Show \<lparr>ts_status = status, ts_hash = hash, ts_error = err\<rparr>) (\<lambda>_ _. Inr ()))"

definition selectMode :: "fee_mode web" where
  "selectMode = bindM getSponsorshipStatus (\<lambda>status.
     bindM (prop_of status ''available'') (\<lambda>available.
     if js_truthy available then ret sponsored
     else bindM (prop_of status ''enabled'') (\<lambda>enabled.
       bindM (if js_truthy enabled then ret JUndefined else prop_of status ''reason'') (\<lambda>reason.
       if \<not> js_truthy enabled \<and> reason = JStr ''disabled'' then ret direct
       else throw (SponsorshipApiError (JStr ''SPONSORSHIP_UNAVAILABLE'')
         ''Fee sponsorship is temporarily unavailable. Try again later.'' (JBool True) 503)))))"

definition execute_signed :: "(fee_mode \<Rightarrow> string web) \<Rightarrow> (string \<Rightarrow> bool \<Rightarrow> string web) \<Rightarrow> bool \<Rightarrow>
    executed web" where
  "execute_signed build sign onState =
    bindM selectMode (\<lambda>mode.
    thenM (update onState ''building'' JNull None)
    (bindM (build mode) (\<lambda>xdr.
    thenM (update onState ''awaiting-signature'' JNull None)
    (bindM (sign xdr (mode = sponsored)) (\<lambda>signedXdr.
    if mode = sponsored then
      thenM (update onState ''sponsoring'' JNull None)
      (bindM (submitSponsoredTransaction signedXdr) (\<lambda>result.
       bindM (prop_of result ''outerHash'') (\<lambda>hash.
       thenM (update onState ''pending'' hash None)
       (bindM (prop_of result ''returnValueXdr'') (\<lambda>xdr.
        bindM (decodeSponsoredReturnValue xdr) (\<lambda>v.
        ret \<lparr>ex_hash = hash, ex_returnValue = v, ex_sponsored = True\<rparr>))))))
    else
      thenM (update onState ''submitting'' JNull None)
      (bindM (submitAndPoll signedXdr) (\<lambda>(hash, v).
       thenM (update onState ''pending'' (JStr hash) None)
       (ret \<lparr>ex_hash = JStr hash, ex_returnValue = v, ex_sponsored = False\<rparr>))))))))"

definition executeTransaction :: "(fee_mode \<Rightarrow> string web) \<Rightarrow> (string \<Rightarrow> bool \<Rightarrow> string web) \<Rightarrow> bool \<Rightarrow>
    executed web" where
  "executeTransaction build sign onState = catchM (execute_signed build sign onState) (\<lambda>err.
     bindM (getsM (\<lambda>b. parseDikeError b err)) (\<lambda>m.
     thenM (update onState ''failed'' JNull (Some m)) (throw err)))"

section \<open>Signing\<close>

definition assertValidConfiguration :: "unit web" where
  "assertValidConfiguration = bindM (getsM w_configurationErrors) (\<lambda>errs.
     if errs \<noteq> [] then raise (''Invalid network configuration: '' @ js_join '' '' errs) else ret ())"

definition kitGetNetwork :: "string web" where
  "kitGetNetwork = perform AskNetwork w_walletNetwork"

definition kitSign :: "string \<Rightarrow> string web" where
  "kitSign xdr = perform (Sign xdr) (\<lambda>b t. w_sign b t xdr)"

definition newline :: string where
  "newline = [char_of (10 :: nat)]"

definition review_text :: "string \<Rightarrow> string \<Rightarrow> string \<Rightarrow> string" where
  "review_text label methodLabel maximumFee =
     ''Review transaction before opening your wallet'' @ newline @ newline @ ''Network: '' @ label @ methodLabel
     @ newline @ ''Your wallet network fee: '' @ maximumFee @ newline @ newline
     @ ''Asset transfers, bonds, and liquidity amounts still require your approval. Continue to wallet signing?''"

definition confirm :: "string \<Rightarrow> bool web" where
  "confirm msg = perform (Confirm msg) (\<lambda>b t. Inr (w_confirm b t msg))"

definition sign :: "string option \<Rightarrow> string \<Rightarrow> bool \<Rightarrow> string option \<Rightarrow> string web" where
  "sign address xdr isSponsored meth = (if or_else address [] = [] then raise ''Wallet not connected'' else
    thenM assertValidConfiguration
    (bindM (catchM kitGetNetwork (\<lambda>_. raise (''Could not determine wallet network. '' @
        ''Signing blocked until the wallet reports its active network.''))) (\<lambda>walletNet.
    bindM (getsM (\<lambda>b. (w_passphrase b, w_label b))) (\<lambda>(passphrase, label).
    if walletNet \<noteq> passphrase then raise (''Wrong wallet network. Switch to '' @ label @ '' before signing.'')
    else bindM (if isSponsored then ret ''0 XLM (paid by Dike sponsor)''
        else bindM (feeFromXdr xdr) (\<lambda>fee. bindM (js (js_BigInt fee)) (\<lambda>n. ret (formatFeeXlm n)))) (\<lambda>maximumFee.
      bindM (confirm (review_text label (if or_else meth [] = [] then []
          else newline @ ''Contract action: '' @ or_else meth []) maximumFee)) (\<lambda>approved.
      if approved then kitSign xdr else raise ''Transaction signing cancelled.''))))))"

section \<open>Nothing is signed unreviewed\<close>

text \<open>C18: the wallet is asked to sign only the transaction at hand, for a connected address, under a valid
  configuration, after the wallet has reported the application's network and the user has approved the
  review.\<close>

lemma wallet_signs_reviewed:
  assumes "trace (snd (sign address xdr sp meth b)) = trace b @ ops" "Sign y \<in> set ops"
  shows "y = xdr \<and> or_else address [] \<noteq> [] \<and> w_configurationErrors b = []
    \<and> w_walletNetwork b (moves b) = Inr (w_passphrase b)
    \<and> (\<exists>msg. ops = [AskNetwork, Confirm msg, Sign xdr] \<and> w_confirm b (moves b + 1) msg)"
proof -
  note run = sign_def assertValidConfiguration_def kitGetNetwork_def kitSign_def confirm_def perform_app
    raise_def feeFromXdr_def library_def js_def io_simps
  have checked: "or_else address [] \<noteq> []" "w_configurationErrors b = []"
    using assms by (auto simp: run split: if_splits)
  show ?thesis
  proof (cases "w_walletNetwork b (moves b) = Inr (w_passphrase b)")
    case False
    then show ?thesis using assms checked
      by (cases "w_walletNetwork b (moves b)") (auto simp: run split: if_splits)
  next
    case net: True
    show ?thesis
    proof (cases sp)
      case True
      then show ?thesis using assms checked net
        by (auto simp: run split: if_splits)
    next
      case False
      then show ?thesis using assms checked net
        by (cases "w_fromXDR b xdr")
          (auto simp: run split: if_splits web_tx.splits sum.splits)
    qed
  qed
qed

section \<open>One submission of what was signed\<close>

fun submits :: "web_op \<Rightarrow> bool" where
  "submits (SendTx _) = True"
| "submits (Fetch (HttpPost _ _)) = True"
| "submits _ = False"

definition submissions :: "browser \<Rightarrow> web_op list" where
  "submissions b = filter submits (trace b)"

text \<open>What the executor's steps leave alone: the submissions so far and the services' address.\<close>

definition sent :: "browser \<Rightarrow> web_op list \<times> string" where
  "sent b = (submissions b, w_services b)"

definition submission :: "browser \<Rightarrow> bool \<Rightarrow> string \<Rightarrow> web_op" where
  "submission b sp x = (if sp then Fetch (HttpPost (w_services b @ ''/sponsorship/transactions'')
     (JObj [(''signedTransactionXdr'', JStr x)])) else SendTx x)"

lemma perform_sent: "\<not> submits op \<Longrightarrow> evolves (same sent) (perform op f)"
  by (simp add: evolves_def same_def perform_app sent_def submissions_def after_ops_def)

lemma library_sent: "evolves (same sent) (library f)"
  by (simp add: evolves_def same_def library_def)

lemma js_sent: "evolves (same sent) (js r)"
  unfolding js_def by (rule same.liftE_evolves)

lemma update_sent: "evolves (same sent) (update onState s h e)"
  unfolding update_def by (intro same.whenM_evolves perform_sent) simp

lemma prop_sent: "evolves (same sent) (prop_of v k)"
  unfolding prop_of_def by (rule js_sent)

lemma readResponse_sent: "evolves (same sent) (readResponse r)"
  unfolding readResponse_def Let_def by (intro same.if_evolves same.ret_evolves same.throw_evolves)

lemma selectMode_sent: "evolves (same sent) selectMode"
  unfolding selectMode_def getSponsorshipStatus_def fetch_def
  by (intro same.evolves_rules perform_sent readResponse_sent prop_sent) simp_all

lemma decode_sent: "evolves (same sent) (decodeSponsoredReturnValue v)"
  unfolding decodeSponsoredReturnValue_def by (intro same.evolves_rules library_sent)

text \<open>A step that submits nothing passes a property of the run on to the rest.\<close>

lemma bind_unsent:
  assumes "evolves (same sent) m" "\<And>e b'. sent b' = sent b \<Longrightarrow> Q (Inl e, b')"
    and "\<And>a b'. m b = (Inr a, b') \<Longrightarrow> sent b' = sent b \<Longrightarrow> Q (k a b')"
  shows "Q (bindM m k b)"
  using assms evolves_same [OF assms(1), of b]
  by (cases "m b") (auto simp: bindM_app split: sum.split)

lemma then_unsent:
  assumes "evolves (same sent) m" "\<And>e b'. sent b' = sent b \<Longrightarrow> Q (Inl e, b')"
    and "\<And>b'. sent b' = sent b \<Longrightarrow> Q (k b')"
  shows "Q (thenM m k b)"
  unfolding thenM_def by (rule bind_unsent [of m b Q]) (use assms in auto)

text \<open>What follows a submission submits nothing more.\<close>

lemma bind_tail:
  assumes "\<And>a. evolves (same sent) (k a)"
  shows "submissions (snd (bindM m k b)) = submissions (snd (m b))"
proof (cases "m b")
  case (Pair r b')
  have "sent (snd (k a b')) = sent b'" for a by (rule evolves_same [OF assms])
  then show ?thesis by (cases r) (simp_all add: Pair bindM_app sent_def)
qed

lemma poll_status_sent: "evolves (same sent) (poll_status n hash resp)"
proof (induction n arbitrary: resp)
  case 0
  show ?case by (simp add: same.ret_evolves)
next
  case (Suc n)
  have "evolves (same sent) (pause 2000)" "evolves (same sent) (transaction_status hash)"
    by (simp_all add: pause_def transaction_status_def perform_sent)
  then show ?case by (simp add: Suc same.bindM_evolves same.thenM_evolves same.ret_evolves)
qed

definition sponsored_tail :: "string \<Rightarrow> bool \<Rightarrow> executed web" where
  "sponsored_tail signedXdr onState = bindM (submitSponsoredTransaction signedXdr) (\<lambda>result.
       bindM (prop_of result ''outerHash'') (\<lambda>hash.
       thenM (update onState ''pending'' hash None)
       (bindM (prop_of result ''returnValueXdr'') (\<lambda>xdr.
        bindM (decodeSponsoredReturnValue xdr) (\<lambda>v.
        ret \<lparr>ex_hash = hash, ex_returnValue = v, ex_sponsored = True\<rparr>)))))"

definition direct_tail :: "string \<Rightarrow> bool \<Rightarrow> executed web" where
  "direct_tail signedXdr onState = bindM (submitAndPoll signedXdr) (\<lambda>(hash, v).
       thenM (update onState ''pending'' (JStr hash) None)
       (ret \<lparr>ex_hash = JStr hash, ex_returnValue = v, ex_sponsored = False\<rparr>))"

lemma sponsored_tail_submits:
  "submissions (snd (sponsored_tail x onState b)) = submissions b @ [submission b True x]"
proof -
  have "submissions (snd (sponsored_tail x onState b)) = submissions (snd (submitSponsoredTransaction x b))"
    unfolding sponsored_tail_def
    by (intro bind_tail same.evolves_rules prop_sent update_sent decode_sent)
  also have "submissions (snd (submitSponsoredTransaction x b)) = submissions b @ [submission b True x]"
    unfolding submitSponsoredTransaction_def bindM_app [of "getsM w_services"] getsM_app
    by (simp add: bind_tail readResponse_sent) (simp add: fetch_def perform_app submissions_def submission_def)
  finally show ?thesis .
qed

lemma library_then: "f b = Inr v \<Longrightarrow> bindM (library f) k b = k v b"
  by (simp add: library_def bindM_app)

lemma direct_tail_submits:
  "submissions (snd (direct_tail x onState b)) = submissions b \<and> (\<exists>e. fst (direct_tail x onState b) = Inl e) \<or>
   submissions (snd (direct_tail x onState b)) = submissions b @ [submission b False x]"
proof (cases "w_fromXDR b x")
  case (Inl e)
  then show ?thesis by (simp add: direct_tail_def submitAndPoll_def library_def bindM_app)
next
  case (Inr tx)
  have "submissions (snd (direct_tail x onState b)) = submissions (snd (submitAndPoll x b))"
    unfolding direct_tail_def by (intro bind_tail) (auto intro!: same.evolves_rules update_sent split: prod.splits)
  also have "\<dots> = submissions (snd (perform (SendTx x) (\<lambda>b t. w_send b t x) b))"
    unfolding submitAndPoll_def library_then [of "\<lambda>b. w_fromXDR b x", OF Inr] raise_def
    by (rule bind_tail) (auto intro!: same.evolves_rules poll_status_sent perform_sent
        simp: transaction_status_def split: sent_response.split tx_status.split)
  finally show ?thesis by (simp add: perform_app submissions_def submission_def)
qed

lemma tails_mode:
  "fst (sponsored_tail x onState b) = Inr v \<Longrightarrow> ex_sponsored v"
  "fst (direct_tail x onState b) = Inr v \<Longrightarrow> \<not> ex_sponsored v"
  unfolding sponsored_tail_def direct_tail_def
  by (auto simp: bindM_app thenM_app ret_app split: prod.splits sum.splits)

text \<open>What the outcome of an execution from \<open>b\<close> must look like.\<close>

definition submitted_well :: "(string \<Rightarrow> bool \<Rightarrow> string web) \<Rightarrow> browser \<Rightarrow> (web_error + executed) \<times> browser \<Rightarrow> bool" where
  "submitted_well wallet b r \<longleftrightarrow> submissions (snd r) = submissions b \<and> (\<exists>e. fst r = Inl e) \<or>
    (\<exists>x u sp b1. fst (wallet u sp b1) = Inr x \<and> fst (selectMode b) = Inr (if sp then sponsored else direct)
      \<and> submissions (snd r) = submissions b @ [submission b sp x]
      \<and> ((\<exists>e. fst r = Inl e) \<or> (\<exists>v. fst r = Inr v \<and> ex_sponsored v = sp)))"

lemma stopped_well: "sent b' = sent b \<Longrightarrow> submitted_well wallet b (Inl e, b')"
  by (simp add: submitted_well_def sent_def)

lemma tails_well:
  assumes "fst (wallet u (mode = sponsored) b2) = Inr x" and "fst (selectMode b) = Inr mode" and "sent b3 = sent b"
  shows "submitted_well wallet b (if mode = sponsored then thenM (update onState ''sponsoring'' JNull None) (sponsored_tail x onState) b3
      else thenM (update onState ''submitting'' JNull None) (direct_tail x onState) b3)"
proof (cases "mode = sponsored")
  case True
  have "submitted_well wallet b (thenM (update onState ''sponsoring'' JNull None) (sponsored_tail x onState) b3)"
  proof (rule then_unsent [where Q = "submitted_well wallet b", OF update_sent])
    fix b' assume "sent b' = sent b3"
    then have "sent b' = sent b" using assms(3) by simp
    then show "submitted_well wallet b (sponsored_tail x onState b')"
      using assms(1,2) True sponsored_tail_submits [of x onState b'] tails_mode(1) [of x onState b']
      by (cases "fst (sponsored_tail x onState b')") (auto simp: submitted_well_def sent_def submission_def)
  qed (use stopped_well assms(3) in simp)
  then show ?thesis using True by simp
next
  case False
  then have "mode = direct" by (cases mode) simp_all
  have "submitted_well wallet b (thenM (update onState ''submitting'' JNull None) (direct_tail x onState) b3)"
  proof (rule then_unsent [where Q = "submitted_well wallet b", OF update_sent])
    fix b' assume "sent b' = sent b3"
    then have "sent b' = sent b" using assms(3) by simp
    then show "submitted_well wallet b (direct_tail x onState b')"
      using assms(1,2) \<open>mode = direct\<close> direct_tail_submits [of x onState b'] tails_mode(2) [of x onState b']
      by (cases "fst (direct_tail x onState b')") (auto simp: submitted_well_def sent_def submission_def)
  qed (use stopped_well assms(3) in simp)
  then show ?thesis using False by simp
qed

lemma execute_signed_well:
  assumes build: "\<And>m. evolves (same sent) (build m)" and signs: "\<And>x sp. evolves (same sent) (wallet x sp)"
  shows "submitted_well wallet b (execute_signed build wallet onState b)"
  unfolding execute_signed_def sponsored_tail_def [symmetric] direct_tail_def [symmetric]
proof (rule bind_unsent [where Q = "submitted_well wallet b", OF selectMode_sent])
  fix mode b1 assume 1: "selectMode b = (Inr mode, b1)" "sent b1 = sent b"
  show "submitted_well wallet b (thenM (update onState ''building'' JNull None)
   (bindM (build mode) (\<lambda>xdr. thenM (update onState ''awaiting-signature'' JNull None)
     (bindM (wallet xdr (mode = sponsored)) (\<lambda>x. if mode = sponsored
       then thenM (update onState ''sponsoring'' JNull None) (sponsored_tail x onState)
       else thenM (update onState ''submitting'' JNull None) (direct_tail x onState))))) b1)"
  proof (rule then_unsent [where Q = "submitted_well wallet b", OF update_sent], goal_cases)
    case (2 b2)
    show ?case
    proof (rule bind_unsent [where Q = "submitted_well wallet b", OF build], goal_cases)
      case (2 xdr b3)
      show ?case
      proof (rule then_unsent [where Q = "submitted_well wallet b", OF update_sent], goal_cases)
        case (2 b4)
        show ?case
        proof (rule bind_unsent [where Q = "submitted_well wallet b", OF signs], goal_cases)
          case (2 x b5)
          show ?case
            using tails_well [of wallet xdr mode b4 x b b5 onState] 1 2 \<open>sent b2 = _\<close> \<open>sent b3 = _\<close> \<open>sent b4 = _\<close>
            by (simp split: if_splits)
        qed (use stopped_well 1 \<open>sent b2 = _\<close> \<open>sent b3 = _\<close> \<open>sent b4 = _\<close> in simp)
      qed (use stopped_well 1 \<open>sent b2 = _\<close> \<open>sent b3 = _\<close> in simp)
    qed (use stopped_well 1 \<open>sent b2 = _\<close> in simp)
  qed (use stopped_well 1 in simp)
qed (use stopped_well in simp)

lemma executeTransaction_well:
  assumes "\<And>m. evolves (same sent) (build m)" "\<And>x sp. evolves (same sent) (wallet x sp)"
  shows "submitted_well wallet b (executeTransaction build wallet onState b)"
proof (cases "execute_signed build wallet onState b")
  case (Pair r b')
  have core: "submitted_well wallet b (execute_signed build wallet onState b)"
    by (rule execute_signed_well [OF assms])
  show ?thesis
  proof (cases r)
    case (Inl e)
    let ?k = "bindM (getsM (\<lambda>b. parseDikeError b e)) (\<lambda>m. thenM (update onState ''failed'' JNull (Some m)) (throw e))
      :: executed web"
    have "evolves (same sent) ?k" by (intro same.evolves_rules update_sent)
    then have "sent (snd (?k b')) = sent b'" by (rule evolves_same)
    moreover have "fst (?k b') = Inl e"
      by (simp add: io_simps update_def perform_app split: sum.split prod.split)
    ultimately show ?thesis using core Pair Inl
      by (auto simp: executeTransaction_def catchM_app submitted_well_def sent_def)
  next
    case (Inr v)
    then show ?thesis using core Pair by (simp add: executeTransaction_def catchM_app)
  qed
qed

text \<open>C4: an execution makes at most one submission: of the text the signer returned, to the sponsor exactly
  when the services report sponsorship as available, directly exactly when they report it as disabled; and it
  succeeds only after one.\<close>

lemma executes_once:
  assumes build: "\<And>m. evolves (same sent) (build m)" and signs: "\<And>x sp. evolves (same sent) (wallet x sp)"
  shows "(submissions (snd (executeTransaction build wallet onState b)) = submissions b
      \<and> (\<exists>e. fst (executeTransaction build wallet onState b) = Inl e)) \<or>
    (\<exists>x u sp b1. fst (wallet u sp b1) = Inr x
      \<and> fst (selectMode b) = Inr (if sp then sponsored else direct)
      \<and> submissions (snd (executeTransaction build wallet onState b)) = submissions b @ [submission b sp x]
      \<and> ((\<exists>e. fst (executeTransaction build wallet onState b) = Inl e) \<or>
         (\<exists>r. fst (executeTransaction build wallet onState b) = Inr r \<and> ex_sponsored r = sp)))"
  using executeTransaction_well [where b = b and onState = onState, OF assms] by (simp add: submitted_well_def)

section \<open>A concrete browser\<close>

text \<open>A testnet browser whose node accepts and confirms everything, whose wallet signs by appending a
  mark, and whose services answer \<open>answer\<close> to every request.\<close>

definition demo_browser :: "jsval \<Rightarrow> browser" where
  "demo_browser served = \<lparr>moves = 0, trace = [], w_passphrase = ''Test SDF Network ; September 2015'',
     w_label = ''Stellar Testnet'', w_configurationErrors = [], w_services = ''/api/proxy'',
     w_manifestNetwork = ''testnet'', w_contracts = [], w_collateral = ''USDC'', w_now = (\<lambda>_. 0),
     w_nativeToScVal = (\<lambda>v _. case v of JBigInt i \<Rightarrow> Inr (ScI128 i) | JStr s \<Rightarrow> Inr (ScString s)
       | JBuffer bs \<Rightarrow> Inr (ScBytes bs) | JBool c \<Rightarrow> Inr (ScBool c) | _ \<Rightarrow> Inr ScVoid),
     w_scValToNative = (\<lambda>v. case v of ScI128 i \<Rightarrow> Inr (JBigInt i) | ScString s \<Rightarrow> Inr (JStr s) | _ \<Rightarrow> Inr JNull),
     w_addressScVal = (\<lambda>a. Inr (ScAddress a)), w_newContract = (\<lambda>_. Inr ()),
     w_assemble = (\<lambda>tx _. Inr (x_method tx)), w_fromXDR = (\<lambda>_. Inr (Transaction ''2050000'' (Some ''50000''))),
     w_resultXdr = (\<lambda>_. None), w_scValXdr = (\<lambda>_. Inr ScVoid), w_account = (\<lambda>_ _. Inr ''1''),
     w_simulate = (\<lambda>_ _. Inr (SimulationSuccess (Some (ScI128 7)))), w_send = (\<lambda>_ _. Inr (SendAccepted ''hash'')),
     w_getTransaction = (\<lambda>_ _. Inr (SUCCESS None)),
     w_fetch = (\<lambda>_ _. Inr \<lparr>h_ok = True, h_status = 200, h_json = Some served\<rparr>),
     w_walletNetwork = (\<lambda>_. Inr ''Test SDF Network ; September 2015''), w_confirm = (\<lambda>_ _. True),
     w_sign = (\<lambda>_ x. Inr (x @ ''!'')), w_window = True, w_env_services = ''http://localhost:4000'', w_adminKey = None,
     w_local = [], w_session = None, w_random = (\<lambda>n. replicate 32 n), w_parse = (\<lambda>_. None),
     w_sha256 = (\<lambda>_. replicate 32 0), w_date = (\<lambda>_. NaN), w_kitReady = False, w_initKit = (\<lambda>_. Inr ()),
     w_kitConnect = (\<lambda>_. Inr ''GABC''), w_kitDisconnect = (\<lambda>_. Inr ()), w_kitAddress = (\<lambda>_. Inr ''GABC'')\<rparr>"

lemma demo_browser_simps [simp]:
  "moves (demo_browser v) = 0" "trace (demo_browser v) = []"
  "w_passphrase (demo_browser v) = ''Test SDF Network ; September 2015''"
  "w_configurationErrors (demo_browser v) = []" "w_services (demo_browser v) = ''/api/proxy''"
  "w_walletNetwork (demo_browser v) = (\<lambda>_. Inr ''Test SDF Network ; September 2015'')"
  "w_confirm (demo_browser v) = (\<lambda>_ _. True)" "w_sign (demo_browser v) = (\<lambda>_ x. Inr (x @ ''!''))"
  "w_fetch (demo_browser v) = (\<lambda>_ _. Inr \<lparr>h_ok = True, h_status = 200, h_json = Some v\<rparr>)"
  by (simp_all add: demo_browser_def)

lemma wallet_signs_reviewed_witness:
  "\<exists>ops. trace (snd (sign (Some ''GABC'') ''AAAA'' True None (demo_browser JNull))) = ops \<and>
    Sign ''AAAA'' \<in> set ops \<and> w_configurationErrors (demo_browser JNull) = []"
proof -
  let ?run = "sign (Some ''GABC'') ''AAAA'' True None (demo_browser JNull)"
  obtain msg where msg: "trace (snd ?run) = trace (demo_browser JNull) @ [AskNetwork, Confirm msg, Sign ''AAAA'']"
    by (simp add: sign_def assertValidConfiguration_def kitGetNetwork_def kitSign_def confirm_def perform_app io_simps)
  from wallet_signs_reviewed [OF this] show ?thesis using msg by simp
qed

definition available_status :: jsval where
  "available_status = JObj [(''enabled'', JBool True), (''available'', JBool True), (''outerHash'', JStr ''h'')]"

lemma executes_once_witness:
  "\<exists>x u sp b1. fst (kitSign u b1) = Inr x \<and>
     fst (selectMode (demo_browser available_status)) = Inr (if sp then sponsored else direct) \<and>
     submissions (snd (executeTransaction (\<lambda>_. ret ''tx'') (\<lambda>x _. kitSign x) True (demo_browser available_status))) =
       [submission (demo_browser available_status) sp x]"
proof -
  let ?b = "demo_browser available_status"
  let ?run = "executeTransaction (\<lambda>_. ret ''tx'') (\<lambda>x _. kitSign x) True ?b"
  have signs: "evolves (same sent) (kitSign x)" for x by (simp add: kitSign_def perform_sent)
  have "\<exists>r. fst ?run = Inr r"
    by (simp add: executeTransaction_def execute_signed_def selectMode_def getSponsorshipStatus_def fetch_def
        readResponse_def prop_of_def js_def update_def kitSign_def submitSponsoredTransaction_def
        decodeSponsoredReturnValue_def perform_app io_simps available_status_def js_field_def)
  moreover have "submissions ?b = []" by (simp add: submissions_def)
  ultimately show ?thesis
    using executes_once [of "\<lambda>_. ret ''tx''" "\<lambda>x _. kitSign x" True ?b, OF same.ret_evolves signs] by force
qed

end
