(* ===== verification/Web_Clients.thy ===== *)
theory Web_Clients imports Web_Execute "HOL-Library.List_Lexorder" "HOL-Library.Multiset" begin

text \<open>
  The contract calls of the web application (\<open>dike-web/lib/contracts/clients.ts\<close>) over the manifest's
  contract ids (\<open>lib/contracts/manifest.ts\<close>): one definition per builder and per read, with its contract,
  method and encoded arguments in the order of the code, and the quotes and struct encoding they need.
\<close>

section \<open>Contract ids\<close>

definition getContractId :: "string \<Rightarrow> string web" where
  "getContractId key = bindM (getsM (\<lambda>b. (or_else (map_of (w_contracts b) key) [], w_manifestNetwork b)))
     (\<lambda>(cid, network). if cid = [] then raise (''Contract \"'' @ key @ ''\" not found in manifest ('' @ network @ '')'')
       else ret cid)"

definition COLLATERAL_CONTRACT :: "string web" where
  "COLLATERAL_CONTRACT = getsM w_collateral"

section \<open>Arguments\<close>

record fee_config =
  tradingFeeBps :: js_num
  lpFeeShareBps :: js_num
  treasuryFeeShareBps :: js_num
  codFeeShareBps :: js_num
  councilReward :: string
  creationFee :: string

definition DEFAULT_FEE_CONFIG :: fee_config where
  "DEFAULT_FEE_CONFIG = \<lparr>tradingFeeBps = Fin 200, lpFeeShareBps = Fin 7000, treasuryFeeShareBps = Fin 2000,
     codFeeShareBps = Fin 1000, councilReward = ''0'', creationFee = ''0''\<rparr>"

definition amt :: "string \<Rightarrow> scval web" where
  "amt n = bindM (js (js_BigInt n)) toI128"

definition u64_of :: "js_num \<Rightarrow> scval web" where
  "u64_of n = bindM (js (js_BigInt_of_num n)) toU64"

definition deadline :: "js_num \<Rightarrow> scval web" where
  "deadline seconds = bindM (getsM (\<lambda>b. w_now b (moves b))) (\<lambda>now.
     u64_of (js_add (num_of_int (now div 1000)) seconds))"

definition id_val :: "string \<Rightarrow> scval web" where
  "id_val n = bindM (js (js_BigInt n)) toU64"

definition key_order :: "string \<Rightarrow> nat list" where
  "key_order k = map of_char k"

definition scvStruct :: "(string \<times> scval) list \<Rightarrow> scval" where
  "scvStruct kvs = ScMap (map (\<lambda>(k, v). (ScSymbol k, v)) (sort_key (\<lambda>(k, v). key_order k) kvs))"

text \<open>The values of a field list, computed in order.\<close>

definition fields_of :: "(string \<times> scval web) list \<Rightarrow> (string \<times> scval) list web" where
  "fields_of kvs = mapM (\<lambda>(k, m). bindM m (\<lambda>v. ret (k, v))) kvs"

definition feeConfigScVal :: "fee_config \<Rightarrow> scval web" where
  "feeConfigScVal fee = bindM (fields_of [
     (''cod_fee_share_bps'', toU32 (codFeeShareBps fee)),
     (''council_reward'', amt (councilReward fee)),
     (''creation_fee'', amt (creationFee fee)),
     (''lp_fee_share_bps'', toU32 (lpFeeShareBps fee)),
     (''trading_fee_bps'', toU32 (tradingFeeBps fee)),
     (''treasury_fee_share_bps'', toU32 (treasuryFeeShareBps fee))]) (\<lambda>fs. ret (scvStruct fs))"

section \<open>Calls\<close>

text \<open>A contract id and an argument array are evaluated before the call; no caller passes a fee mode.\<close>

definition build_call :: "string \<Rightarrow> string \<Rightarrow> string \<Rightarrow> scval web list \<Rightarrow> string web" where
  "build_call source key meth args = bindM (getContractId key) (\<lambda>cid.
     bindM (mapM (\<lambda>a. a) args) (\<lambda>vs. buildAndSimulate source cid meth vs direct))"

definition read_call :: "string \<Rightarrow> string \<Rightarrow> string \<Rightarrow> scval web list \<Rightarrow> scval web" where
  "read_call source key meth args = bindM (getContractId key) (\<lambda>cid.
     bindM (mapM (\<lambda>a. a) args) (\<lambda>vs. simulateRead source cid meth vs))"

definition read_amount :: "string \<Rightarrow> string \<Rightarrow> string \<Rightarrow> scval web list \<Rightarrow> string web" where
  "read_amount source key meth args = bindM (read_call source key meth args) (\<lambda>v.
     bindM (fromI128 v) (\<lambda>n. ret (int_str n)))"

section \<open>The market maker\<close>

definition buildAmmBuyYes :: "string \<Rightarrow> string \<Rightarrow> string \<Rightarrow> string \<Rightarrow> js_num \<Rightarrow> string web" where
  "buildAmmBuyYes trader poolId amountIn minOut deadlineSecs = build_call trader ''amm'' ''buy_yes''
     [toAddress trader, id_val poolId, amt amountIn, amt minOut, deadline deadlineSecs]"

definition buildAmmBuyNo :: "string \<Rightarrow> string \<Rightarrow> string \<Rightarrow> string \<Rightarrow> js_num \<Rightarrow> string web" where
  "buildAmmBuyNo trader poolId amountIn minOut deadlineSecs = build_call trader ''amm'' ''buy_no''
     [toAddress trader, id_val poolId, amt amountIn, amt minOut, deadline deadlineSecs]"

definition buildAmmSellYes :: "string \<Rightarrow> string \<Rightarrow> string \<Rightarrow> string \<Rightarrow> js_num \<Rightarrow> string web" where
  "buildAmmSellYes trader poolId amountIn minOut deadlineSecs = build_call trader ''amm'' ''sell_yes''
     [toAddress trader, id_val poolId, amt amountIn, amt minOut, deadline deadlineSecs]"

definition buildAmmSellNo :: "string \<Rightarrow> string \<Rightarrow> string \<Rightarrow> string \<Rightarrow> js_num \<Rightarrow> string web" where
  "buildAmmSellNo trader poolId amountIn minOut deadlineSecs = build_call trader ''amm'' ''sell_no''
     [toAddress trader, id_val poolId, amt amountIn, amt minOut, deadline deadlineSecs]"

definition buildAmmBuyChildYes :: "string \<Rightarrow> string \<Rightarrow> string \<Rightarrow> string \<Rightarrow> string \<Rightarrow> string \<Rightarrow> js_num \<Rightarrow> string web" where
  "buildAmmBuyChildYes trader parentMarketId parentOutcome poolId amountIn minOut deadlineSecs =
     build_call trader ''amm'' ''buy_child_yes'' [toAddress trader, id_val parentMarketId, toOutcomeVal parentOutcome,
       id_val poolId, amt amountIn, amt minOut, deadline deadlineSecs]"

definition buildAmmBuyChildNo :: "string \<Rightarrow> string \<Rightarrow> string \<Rightarrow> string \<Rightarrow> string \<Rightarrow> string \<Rightarrow> js_num \<Rightarrow> string web" where
  "buildAmmBuyChildNo trader parentMarketId parentOutcome poolId amountIn minOut deadlineSecs =
     build_call trader ''amm'' ''buy_child_no'' [toAddress trader, id_val parentMarketId, toOutcomeVal parentOutcome,
       id_val poolId, amt amountIn, amt minOut, deadline deadlineSecs]"

definition buildAmmAddLiquidity :: "string \<Rightarrow> string \<Rightarrow> string \<Rightarrow> string web" where
  "buildAmmAddLiquidity lp poolId amount = build_call lp ''amm'' ''add_liquidity''
     [toAddress lp, id_val poolId, amt amount]"

definition buildAmmRemoveLiquidity :: "string \<Rightarrow> string \<Rightarrow> string \<Rightarrow> string web" where
  "buildAmmRemoveLiquidity lp poolId shares = build_call lp ''amm'' ''remove_liquidity''
     [toAddress lp, id_val poolId, amt shares]"

definition buildAmmClaimLpFees :: "string \<Rightarrow> string \<Rightarrow> string web" where
  "buildAmmClaimLpFees lp poolId = build_call lp ''amm'' ''claim_lp_fees''
     [toAddress lp, id_val poolId]"

definition ammGetClaimableLpFees :: "string \<Rightarrow> string \<Rightarrow> string \<Rightarrow> string web" where
  "ammGetClaimableLpFees source lp poolId = read_amount source ''amm'' ''claimable_lp_fees''
     [id_val poolId, toAddress lp]"

definition ammGetLpBalance :: "string \<Rightarrow> string \<Rightarrow> string \<Rightarrow> string web" where
  "ammGetLpBalance source lp poolId = read_amount source ''amm'' ''lp_balance''
     [id_val poolId, toAddress lp]"

record pool_data =
  pd_poolId :: string
  pd_marketId :: string
  pd_yesReserve :: string
  pd_noReserve :: string
  pd_lpSupply :: string
  pd_feeBps :: js_num

text \<open>\<open>String(v.k ?? d)\<close> and \<open>Number(v.k ?? d)\<close>\<close>

definition string_prop :: "jsval \<Rightarrow> string \<Rightarrow> string \<Rightarrow> string web" where
  "string_prop v k d = bindM (prop_of v k) (\<lambda>x. ret (js_String (js_coalesce x (JStr d))))"

definition number_prop :: "jsval \<Rightarrow> string \<Rightarrow> js_num web" where
  "number_prop v k = bindM (prop_of v k) (\<lambda>x. ret (js_Number (js_coalesce x (jint 0))))"

definition ammGetPool :: "string \<Rightarrow> string \<Rightarrow> pool_data web" where
  "ammGetPool source poolId = bindM (read_call source ''amm'' ''pool'' [id_val poolId]) (\<lambda>val.
     bindM (fromScVal val) (\<lambda>native.
     bindM (string_prop native ''market_id'' []) (\<lambda>market.
     bindM (string_prop native ''yes_reserve'' ''0'') (\<lambda>yes.
     bindM (string_prop native ''no_reserve'' ''0'') (\<lambda>no.
     bindM (string_prop native ''total_lp_shares'' ''0'') (\<lambda>shares.
     bindM (number_prop native ''fee_bps'') (\<lambda>fee.
     ret \<lparr>pd_poolId = poolId, pd_marketId = market, pd_yesReserve = yes, pd_noReserve = no,
       pd_lpSupply = shares, pd_feeBps = fee\<rparr>)))))))"

record trade_quote =
  tq_amountIn :: string
  tq_amountOut :: string
  tq_priceImpactBps :: js_num
  tq_feeBps :: js_num

definition feeBpsFromQuote :: "int \<Rightarrow> int \<Rightarrow> js_num" where
  "feeBpsFromQuote fee grossAmount = (if grossAmount \<le> 0 then Fin 0
     else num_of_int (big_div (fee * 10000) grossAmount))"

definition js_abs :: "js_num \<Rightarrow> js_num" where
  "js_abs n = (if js_lt n (Fin 0) then js_neg n else n)"

definition priceImpactFromQuote :: "js_num \<Rightarrow> string \<Rightarrow> string \<Rightarrow> bool \<Rightarrow> exn + js_num" where
  "priceImpactFromQuote averagePriceBps yesReserve noReserve is_yes =
    (case impliedYesBps yesReserve noReserve of Inl e \<Rightarrow> Inl e
     | Inr yesSpot \<Rightarrow> (let spot = (if is_yes then yesSpot else js_add (Fin 10000) (js_neg yesSpot)) in
         Inr (js_abs (js_add averagePriceBps (js_neg spot)))))"

definition readQuote :: "string \<Rightarrow> string \<Rightarrow> string \<Rightarrow> string \<Rightarrow> bool \<Rightarrow> trade_quote web" where
  "readQuote source poolId meth amountIn is_yes =
    bindM (read_call source ''amm'' meth [id_val poolId, amt amountIn]) (\<lambda>val.
    bindM (ammGetPool source poolId) (\<lambda>pool.
    bindM (fromScVal val) (\<lambda>native.
    bindM (string_prop native ''fee'' ''0'') (\<lambda>fee_text. bindM (js (js_BigInt fee_text)) (\<lambda>fee.
    bindM (string_prop native ''net_in'' ''0'') (\<lambda>net_text. bindM (js (js_BigInt net_text)) (\<lambda>netIn.
    bindM (number_prop native ''average_price_bps'') (\<lambda>averagePriceBps.
    bindM (prop_of native ''amount_out'') (\<lambda>amountOut.
    bindM (js (priceImpactFromQuote averagePriceBps (pd_yesReserve pool) (pd_noReserve pool) is_yes)) (\<lambda>impact.
    ret \<lparr>tq_amountIn = amountIn, tq_amountOut = js_String amountOut, tq_priceImpactBps = impact,
      tq_feeBps = feeBpsFromQuote fee (fee + netIn)\<rparr>))))))))))"

definition ammQuoteBuyYes :: "string \<Rightarrow> string \<Rightarrow> string \<Rightarrow> trade_quote web" where
  "ammQuoteBuyYes source poolId amountIn = readQuote source poolId ''quote_buy_yes'' amountIn True"

definition ammQuoteBuyNo :: "string \<Rightarrow> string \<Rightarrow> string \<Rightarrow> trade_quote web" where
  "ammQuoteBuyNo source poolId amountIn = readQuote source poolId ''quote_buy_no'' amountIn False"

definition ammQuoteSellYes :: "string \<Rightarrow> string \<Rightarrow> string \<Rightarrow> trade_quote web" where
  "ammQuoteSellYes source poolId amountIn = readQuote source poolId ''quote_sell_yes'' amountIn True"

definition ammQuoteSellNo :: "string \<Rightarrow> string \<Rightarrow> string \<Rightarrow> trade_quote web" where
  "ammQuoteSellNo source poolId amountIn = readQuote source poolId ''quote_sell_no'' amountIn False"

section \<open>The vault\<close>

definition buildRedeemResolved :: "string \<Rightarrow> string \<Rightarrow> string \<Rightarrow> string \<Rightarrow> string web" where
  "buildRedeemResolved user marketId redeemedOutcome amount = build_call user ''collateral_vault'' ''redeem_resolved''
     [bindM COLLATERAL_CONTRACT toAddress, toAddress user, id_val marketId, toOutcomeVal redeemedOutcome, amt amount]"

definition buildRedeemCancelled :: "string \<Rightarrow> string \<Rightarrow> string \<Rightarrow> string \<Rightarrow> string web" where
  "buildRedeemCancelled user marketId redeemedOutcome amount = build_call user ''collateral_vault'' ''redeem_cancelled''
     [bindM COLLATERAL_CONTRACT toAddress, toAddress user, id_val marketId, toOutcomeVal redeemedOutcome, amt amount]"

definition vaultGetAccounting :: "string \<Rightarrow> string \<Rightarrow> (string \<times> string) web" where
  "vaultGetAccounting source marketId = bindM (read_call source ''collateral_vault'' ''accounting'' [id_val marketId]) (\<lambda>val.
     bindM (fromScVal val) (\<lambda>native. bindM (string_prop native ''protocol_fees'' ''0'') (\<lambda>p.
     bindM (string_prop native ''cod_fees'' ''0'') (\<lambda>c. ret (p, c)))))"

definition buildSweepProtocolFees :: "string \<Rightarrow> string \<Rightarrow> string web" where
  "buildSweepProtocolFees source marketId = build_call source ''collateral_vault'' ''sweep_protocol_fees''
     [bindM COLLATERAL_CONTRACT toAddress, id_val marketId]"

definition vaultGetUserDeposit :: "string \<Rightarrow> string \<Rightarrow> string \<Rightarrow> string web" where
  "vaultGetUserDeposit source user marketId = read_amount source ''collateral_vault'' ''user_deposit''
     [id_val marketId, toAddress user]"

definition vaultGetRootStake :: "string \<Rightarrow> string \<Rightarrow> string \<Rightarrow> string \<Rightarrow> string web" where
  "vaultGetRootStake source user marketId oc = read_amount source ''collateral_vault'' ''root_stake''
     [id_val marketId, toAddress user, toOutcomeVal oc]"

definition vaultGetChildAvail :: "string \<Rightarrow> string \<Rightarrow> string \<Rightarrow> string \<Rightarrow> string web" where
  "vaultGetChildAvail source user parentMarketId oc = read_amount source ''collateral_vault'' ''child_avail_for_outcome''
     [id_val parentMarketId, toAddress user, toOutcomeVal oc]"

definition vaultGetChildDebt :: "string \<Rightarrow> string \<Rightarrow> string \<Rightarrow> string web" where
  "vaultGetChildDebt source user childMarketId = read_amount source ''collateral_vault'' ''child_debt''
     [id_val childMarketId, toAddress user]"

definition vaultGetParentDebt :: "string \<Rightarrow> string \<Rightarrow> string \<Rightarrow> string \<Rightarrow> string web" where
  "vaultGetParentDebt source user parentMarketId oc = read_amount source ''collateral_vault'' ''parent_debt''
     [id_val parentMarketId, toAddress user, toOutcomeVal oc]"

definition vaultGetRedeemed :: "string \<Rightarrow> string \<Rightarrow> string \<Rightarrow> string \<Rightarrow> string web" where
  "vaultGetRedeemed source user marketId oc = read_amount source ''collateral_vault'' ''redeemed''
     [id_val marketId, toAddress user, toOutcomeVal oc]"

section \<open>Registry and tokens\<close>

definition registryGetMarket :: "string \<Rightarrow> string \<Rightarrow> jsval web" where
  "registryGetMarket source marketId = bindM (read_call source ''market_registry'' ''get_market'' [id_val marketId]) fromScVal"

definition registryIsTradeable :: "string \<Rightarrow> string \<Rightarrow> bool web" where
  "registryIsTradeable source marketId = bindM (read_call source ''market_registry'' ''is_tradeable'' [id_val marketId]) fromBool"

definition buildCloseTrading :: "string \<Rightarrow> string \<Rightarrow> string web" where
  "buildCloseTrading source marketId = build_call source ''market_registry'' ''close_trading''
     [id_val marketId]"

definition registryGetFinalOutcome :: "string \<Rightarrow> string \<Rightarrow> jsval web" where
  "registryGetFinalOutcome source marketId = catchM
     (bindM (read_call source ''market_registry'' ''get_final_outcome'' [id_val marketId]) fromScVal) (\<lambda>_. ret JNull)"

definition ctBalance :: "string \<Rightarrow> string \<Rightarrow> string \<Rightarrow> string \<Rightarrow> string web" where
  "ctBalance source account marketId oc = read_amount source ''conditional_tokens'' ''balance''
     [toAddress account, id_val marketId, toOutcomeVal oc]"

section \<open>The oracle and the council\<close>

definition buildRequestResolution :: "string \<Rightarrow> string \<Rightarrow> string \<Rightarrow> string \<Rightarrow> js_num \<Rightarrow> string \<Rightarrow> js_num \<Rightarrow> string web" where
  "buildRequestResolution requester marketId questionHash rulesUri expiry bondAmount disputeWindow = build_call requester ''cod_oracle'' ''request_resolution''
     [id_val marketId, toBytes questionHash, toStringVal rulesUri, u64_of expiry, amt bondAmount, u64_of disputeWindow]"

definition buildProposeOutcome :: "string \<Rightarrow> string \<Rightarrow> string \<Rightarrow> string \<Rightarrow> string web" where
  "buildProposeOutcome proposer requestId oc evidenceUri = build_call proposer ''cod_oracle'' ''propose_outcome''
     [toAddress proposer, id_val requestId, toOutcomeVal oc, toStringVal evidenceUri]"

definition buildDisputeOutcome :: "string \<Rightarrow> string \<Rightarrow> string \<Rightarrow> string \<Rightarrow> string web" where
  "buildDisputeOutcome disputer requestId counterOutcome evidenceUri = build_call disputer ''cod_oracle'' ''dispute_outcome''
     [toAddress disputer, id_val requestId, toOutcomeVal counterOutcome, toStringVal evidenceUri]"

definition buildFinalizeUndisputed :: "string \<Rightarrow> string \<Rightarrow> string web" where
  "buildFinalizeUndisputed caller requestId = build_call caller ''cod_oracle'' ''finalize_undisputed''
     [id_val requestId]"

definition buildEscalateToCouncil :: "string \<Rightarrow> string \<Rightarrow> string web" where
  "buildEscalateToCouncil caller requestId = build_call caller ''cod_oracle'' ''escalate_to_council''
     [id_val requestId]"

definition oracleGetRequest :: "string \<Rightarrow> string \<Rightarrow> jsval web" where
  "oracleGetRequest source requestId = bindM (read_call source ''cod_oracle'' ''request'' [id_val requestId]) fromScVal"

definition councilCalcCommitment :: "string \<Rightarrow> string \<Rightarrow> string \<Rightarrow> string \<Rightarrow> string \<Rightarrow> string web" where
  "councilCalcCommitment source caseId voter oc salt =
     bindM (read_call source ''council_of_dike'' ''vote_commitment''
       [id_val caseId, toAddress voter, toOutcomeVal oc, toBytes salt]) fromString"

definition buildCommitVote :: "string \<Rightarrow> string \<Rightarrow> string \<Rightarrow> string web" where
  "buildCommitVote voter caseId commitment = build_call voter ''council_of_dike'' ''commit_vote''
     [toAddress voter, id_val caseId, toBytes commitment]"

definition buildRevealVote :: "string \<Rightarrow> string \<Rightarrow> string \<Rightarrow> string \<Rightarrow> string web" where
  "buildRevealVote voter caseId oc salt = build_call voter ''council_of_dike'' ''reveal_vote''
     [toAddress voter, id_val caseId, toOutcomeVal oc, toBytes salt]"

definition buildFinalizeCase :: "string \<Rightarrow> string \<Rightarrow> string web" where
  "buildFinalizeCase caller caseId = build_call caller ''council_of_dike'' ''finalize_and_report_case''
     [id_val caseId]"

definition buildClaimReward :: "string \<Rightarrow> string \<Rightarrow> string web" where
  "buildClaimReward voter caseId = build_call voter ''council_of_dike'' ''claim_reward''
     [toAddress voter, id_val caseId]"

definition councilGetCase :: "string \<Rightarrow> string \<Rightarrow> jsval web" where
  "councilGetCase source caseId = bindM (read_call source ''council_of_dike'' ''case'' [id_val caseId]) fromScVal"

section \<open>Timelock, fees and the factory\<close>

definition buildTimelockExecute :: "string \<Rightarrow> string \<Rightarrow> string web" where
  "buildTimelockExecute caller actionId = build_call caller ''dike_timelock'' ''execute''
     [id_val actionId]"

definition feeManagerGetConfig :: "string \<Rightarrow> fee_config web" where
  "feeManagerGetConfig source = bindM (read_call source ''fee_manager'' ''config'' []) (\<lambda>val.
     bindM (fromScVal val) (\<lambda>native.
     bindM (number_prop native ''trading_fee_bps'') (\<lambda>t.
     bindM (number_prop native ''lp_fee_share_bps'') (\<lambda>l.
     bindM (number_prop native ''treasury_fee_share_bps'') (\<lambda>tr.
     bindM (number_prop native ''cod_fee_share_bps'') (\<lambda>c.
     bindM (string_prop native ''council_reward'' ''0'') (\<lambda>r.
     bindM (string_prop native ''creation_fee'' ''0'') (\<lambda>cf.
     ret \<lparr>tradingFeeBps = t, lpFeeShareBps = l, treasuryFeeShareBps = tr, codFeeShareBps = c,
       councilReward = r, creationFee = cf\<rparr>))))))))"

record create_market_params =
  cm_question :: string
  cm_questionHash :: string
  cm_rulesUri :: string
  cm_rulesHash :: string
  cm_category :: string
  cm_expiry :: js_num
  cm_collateral :: string
  cm_bondAmount :: string
  cm_disputeWindow :: js_num
  cm_feeConfig :: "fee_config option"

definition buildCreateMarket :: "string \<Rightarrow> create_market_params \<Rightarrow> string \<Rightarrow> js_num \<Rightarrow> string web" where
  "buildCreateMarket creator params initialLiquidity openingPriceBps =
    bindM (fields_of [
      (''bond_amount'', amt (cm_bondAmount params)),
      (''category'', toStringVal (cm_category params)),
      (''collateral'', toAddress (cm_collateral params)),
      (''creator'', toAddress creator),
      (''dispute_window'', u64_of (cm_disputeWindow params)),
      (''expiry'', u64_of (cm_expiry params)),
      (''fee_config'', feeConfigScVal (or_else (cm_feeConfig params) DEFAULT_FEE_CONFIG)),
      (''question'', toStringVal (cm_question params)),
      (''question_hash'', toBytes (cm_questionHash params)),
      (''rules_hash'', toBytes (cm_rulesHash params)),
      (''rules_uri'', toStringVal (cm_rulesUri params))]) (\<lambda>fs.
    build_call creator ''market_factory'' ''create_market''
      [ret (scvStruct fs), amt initialLiquidity, toU32 openingPriceBps])"

section \<open>Encoding touches nothing\<close>

named_theorems encoders "encoders leave the browser as it is"

abbreviation pure :: "'a web \<Rightarrow> bool" where
  "pure \<equiv> evolves (same (\<lambda>b. b))"

lemma library_pure [encoders]: "pure (library f)"
  by (simp add: library_def evolves_def same_def)

lemma js_pure [encoders]: "pure (js r)"
  unfolding js_def by (rule same.liftE_evolves)

lemma toAddress_pure [encoders]: "pure (toAddress a)"
  unfolding toAddress_def by (rule library_pure)

lemma native_pure [encoders]: "pure (nativeToScVal v type)"
  unfolding nativeToScVal_def by (rule library_pure)

lemma strings_pure [encoders]: "pure (toStringVal s)" "pure (toBytes s)" "pure (toU64 i)" "pure (toI128 i)"
  "pure (toU32 n)" "pure (toOutcomeVal s)"
  unfolding toStringVal_def toBytes_def toU64_def toI128_def toU32_def toOutcomeVal_def
  by (intro native_pure same.evolves_rules)+

lemma numbers_pure [encoders]: "pure (amt s)" "pure (id_val s)" "pure (u64_of n)" "pure (deadline n)"
  "pure (bindM COLLATERAL_CONTRACT toAddress)" "pure (ret v)"
  unfolding amt_def id_val_def u64_of_def deadline_def COLLATERAL_CONTRACT_def
  by (intro encoders same.evolves_rules)+

lemma fields_pure: "(\<And>k m. (k, m) \<in> set kvs \<Longrightarrow> pure m) \<Longrightarrow> pure (fields_of kvs)"
  unfolding fields_of_def by (intro same.mapM_evolves) (auto intro!: same.evolves_rules)

lemma feeConfig_pure [encoders]: "pure (feeConfigScVal fee)"
  unfolding feeConfigScVal_def by (intro same.bindM_evolves fields_pure same.ret_evolves) (auto intro: encoders)

lemma getContractId_pure: "pure (getContractId key)"
  unfolding getContractId_def raise_def by (auto intro!: same.evolves_rules split: prod.split)

lemma pure_state: "pure m \<Longrightarrow> snd (m b) = b"
  by (rule evolves_same [of "\<lambda>b. b"])

section \<open>What the application builds, the sponsor allows\<close>

text \<open>A call the sponsor's policy admits, declaring the application's inclusion fee; no submission.\<close>

fun sponsored_op :: "manifest \<Rightarrow> web_op \<Rightarrow> bool" where
  "sponsored_op m (Simulate tx) = (assertAllowedContractCall m (x_contract tx) (x_method tx) = Inr ()
     \<and> x_fee tx = INCLUSION_FEE_CEILING_STROOPS)"
| "sponsored_op m (AskAccount _) = True"
| "sponsored_op m _ = False"

definition builds_sponsored :: "manifest \<Rightarrow> string web \<Rightarrow> bool" where
  "builds_sponsored m prog \<longleftrightarrow> (\<forall>b. w_contracts b = m_contracts m \<longrightarrow>
     (\<exists>ops. trace (snd (prog b)) = trace b @ ops \<and> list_all (sponsored_op m) ops))"

definition unique_contracts :: "manifest \<Rightarrow> bool" where
  "unique_contracts m \<longleftrightarrow> inj_on (\<lambda>k. map_of (m_contracts m) k)
     {k. \<exists>c. map_of (m_contracts m) k = Some c \<and> c \<noteq> []}"

lemma sponsored_module_unique:
  assumes "unique_contracts m" "map_of (m_contracts m) key = Some cid" "cid \<noteq> []"
    and "key \<in> fst ` set SPONSORED_METHODS"
  shows "sponsored_module m cid = Some key"
proof -
  have unique: "map_of (m_contracts m) k = Some cid \<longleftrightarrow> k = key" for k
    using assms(1-3) inj_onD [of "map_of (m_contracts m)" _ k key] unfolding unique_contracts_def by auto
  then have found: "find (\<lambda>n. map_of (m_contracts m) n = Some cid) ks = (if key \<in> set ks then Some key else None)" for ks
    by (induction ks) auto
  show ?thesis using assms(4) by (simp add: sponsored_module_def found)
qed

lemma simulate_call_ops:
  "\<exists>ops. trace (snd (simulate_call a f c meth args b)) = trace b @ ops \<and>
    list_all (\<lambda>op. op = AskAccount a \<or> (\<exists>tx. op = Simulate tx \<and> x_contract tx = c \<and> x_method tx = meth \<and> x_fee tx = f)) ops"
proof (cases "w_account b (moves b) a")
  case (Inl e)
  then show ?thesis by (intro exI [of _ "[AskAccount a]"]) (simp add: simulate_call_app)
next
  case (Inr account)
  then show ?thesis
    by (cases "w_newContract b c")
      (simp_all add: simulate_call_app Let_def exI [of _ "[AskAccount a]"]
        exI [of _ "[AskAccount a, Simulate (call_tx b account f c meth args)]"] call_tx_def)
qed

lemma buildAndSimulate_state:
  "snd (buildAndSimulate a c meth args direct b)
   = snd (simulate_call a INCLUSION_FEE_CEILING_STROOPS c meth args b)"
proof (cases "simulate_call a INCLUSION_FEE_CEILING_STROOPS c meth args b")
  case (Pair r b')
  then show ?thesis by (cases r)
      (auto simp: buildAndSimulate_def raise_def library_def io_simps split: simulation.split)
qed

lemma build_call_sponsored:
  assumes "unique_contracts m" "meth \<in> set (or_else (map_of SPONSORED_METHODS key) [])"
    and "\<And>a. a \<in> set args \<Longrightarrow> pure a"
  shows "builds_sponsored m (build_call source key meth args)"
  unfolding builds_sponsored_def
proof (intro allI impI)
  fix b :: browser assume ids: "w_contracts b = m_contracts m"
  have key: "key \<in> fst ` set SPONSORED_METHODS"
    using assms(2) by (cases "map_of SPONSORED_METHODS key") (auto dest: map_of_SomeD intro: rev_image_eqI)
  have args: "pure (mapM (\<lambda>a. a) args)" by (rule same.mapM_evolves) (rule assms(3))
  show "\<exists>ops. trace (snd (build_call source key meth args b)) = trace b @ ops \<and> list_all (sponsored_op m) ops"
  proof (cases "getContractId key b")
    case (Pair r b1)
    then have b1: "b1 = b" using pure_state [OF getContractId_pure, of key b] by simp
    show ?thesis
    proof (cases "\<exists>cid vs. r = Inr cid \<and> mapM (\<lambda>a. a) args b = (Inr vs, b)")
      case False
      then have "snd (build_call source key meth args b) = b"
        using pure_state [OF args, of b] Pair b1
        by (cases r; cases "mapM (\<lambda>a. a) args b"; cases "fst (mapM (\<lambda>a. a) args b)")
          (auto simp: build_call_def bindM_app)
      then show ?thesis by (intro exI [of _ "[]"]) simp
    next
      case True
      then obtain cid vs where cid: "r = Inr cid" "mapM (\<lambda>a. a) args b = (Inr vs, b)" by blast
      have "map_of (m_contracts m) key = Some cid \<and> cid \<noteq> []"
        using Pair cid(1) ids by (cases "map_of (m_contracts m) key")
          (auto simp: getContractId_def raise_def io_simps split: if_splits)
      then have allowed: "assertAllowedContractCall m cid meth = Inr ()"
        using sponsored_module_unique [OF assms(1) _ _ key] assms(2) by (auto simp: assertAllowedContractCall_def)
      obtain ops where ops: "trace (snd (simulate_call source INCLUSION_FEE_CEILING_STROOPS cid meth vs b)) = trace b @ ops"
        "list_all (\<lambda>op. op = AskAccount source \<or> (\<exists>tx. op = Simulate tx \<and> x_contract tx = cid \<and> x_method tx = meth
          \<and> x_fee tx = INCLUSION_FEE_CEILING_STROOPS)) ops"
        using simulate_call_ops by blast
      have "list_all (sponsored_op m) ops"
        using ops(2) allowed by (auto simp: list_all_iff)
      moreover have "snd (build_call source key meth args b)
          = snd (simulate_call source INCLUSION_FEE_CEILING_STROOPS cid meth vs b)"
        using Pair b1 cid by (simp add: build_call_def bindM_app buildAndSimulate_state)
      ultimately show ?thesis using ops(1) by (intro exI [of _ ops]) simp
    qed
  qed
qed

lemma bind_builds:
  assumes "pure m" "\<And>v. builds_sponsored mf (k v)"
  shows "builds_sponsored mf (bindM m k)"
  unfolding builds_sponsored_def
proof (intro allI impI)
  fix b :: browser assume "w_contracts b = m_contracts mf"
  with assms(2) pure_state [OF assms(1), of b]
  show "\<exists>ops. trace (snd (bindM m k b)) = trace b @ ops \<and> list_all (sponsored_op mf) ops"
    by (cases "m b"; cases "fst (m b)") (auto simp: bindM_app builds_sponsored_def intro: exI [of _ "[]"])
qed

lemmas builders = buildAmmBuyYes_def buildAmmBuyNo_def buildAmmSellYes_def buildAmmSellNo_def
  buildAmmBuyChildYes_def buildAmmBuyChildNo_def buildAmmAddLiquidity_def buildAmmRemoveLiquidity_def
  buildAmmClaimLpFees_def buildRedeemResolved_def buildRedeemCancelled_def buildSweepProtocolFees_def
  buildCloseTrading_def buildRequestResolution_def buildProposeOutcome_def buildDisputeOutcome_def
  buildFinalizeUndisputed_def buildEscalateToCouncil_def buildCommitVote_def buildRevealVote_def
  buildFinalizeCase_def buildClaimReward_def buildTimelockExecute_def

text \<open>C9: whatever their arguments, the application's builders simulate only calls that the services'
  sponsorship policy allows on the same deployment, each declaring the application's inclusion fee, and
  submit nothing.\<close>

lemma web_builds_sponsored:
  assumes "unique_contracts m"
  shows "builds_sponsored m (buildAmmBuyYes a i n o' d) \<and> builds_sponsored m (buildAmmBuyNo a i n o' d)
    \<and> builds_sponsored m (buildAmmSellYes a i n o' d) \<and> builds_sponsored m (buildAmmSellNo a i n o' d)
    \<and> builds_sponsored m (buildAmmBuyChildYes a p oc i n o' d) \<and> builds_sponsored m (buildAmmBuyChildNo a p oc i n o' d)
    \<and> builds_sponsored m (buildAmmAddLiquidity a i n) \<and> builds_sponsored m (buildAmmRemoveLiquidity a i n)
    \<and> builds_sponsored m (buildAmmClaimLpFees a i) \<and> builds_sponsored m (buildRedeemResolved a i oc n)
    \<and> builds_sponsored m (buildRedeemCancelled a i oc n) \<and> builds_sponsored m (buildSweepProtocolFees a i)
    \<and> builds_sponsored m (buildCloseTrading a i) \<and> builds_sponsored m (buildRequestResolution a i h u e n w)
    \<and> builds_sponsored m (buildProposeOutcome a i oc u) \<and> builds_sponsored m (buildDisputeOutcome a i oc u)
    \<and> builds_sponsored m (buildFinalizeUndisputed a i) \<and> builds_sponsored m (buildEscalateToCouncil a i)
    \<and> builds_sponsored m (buildCommitVote a i h) \<and> builds_sponsored m (buildRevealVote a i oc h)
    \<and> builds_sponsored m (buildFinalizeCase a i) \<and> builds_sponsored m (buildClaimReward a i)
    \<and> builds_sponsored m (buildTimelockExecute a i) \<and> builds_sponsored m (buildCreateMarket a params n d)"
  unfolding builders buildCreateMarket_def
  by (intro conjI bind_builds fields_pure build_call_sponsored [OF assms])
    (auto simp: SPONSORED_METHODS_def intro: encoders)

text \<open>The testnet deployment.\<close>

definition testnet_manifest :: manifest where
  "testnet_manifest = \<lparr>m_network = ''testnet'', m_contracts = [
     (''mock_usdc'', ''''),
     (''dike_timelock'', ''CDUBAH7GWQND3MJ2MMRRZBCEGCJENEO4UE3NWDGJCKXBFQPGDBVOK2PY''),
     (''dike_governance'', ''CCYCYYXFW73UPL2F4LR27VCLMXMP6U3EGSAAAKCOOOCKDJQLUVBGEUVJ''),
     (''market_registry'', ''CBCNGGKCSGSYE4KXU5J2Q72ZWFNDEQ7T4TFQW27ZOLCIAL7ABB44EKDG''),
     (''conditional_tokens'', ''CAL4V3P3JSLTORMQOCP2RASGZNVXPULQEIY6SYERHS4BYI44WUF3OH7O''),
     (''collateral_vault'', ''CDNGIY5FVLU2ACIUTQA5MG3PMZTHODYLWF3L42R2MVZKMLNKZP3LWKJB''),
     (''amm'', ''CCRZLNUP6UMZM6ROWPDW2VBWRIUEYGAJ6U6DXZGIWSTXFZMI7KSHNVH5''),
     (''fee_manager'', ''CCM4K2TER5COYNLVPHEC3DFDBNOGJ6QJA32YIX5S6I6XCFRRVRGWFJPR''),
     (''cod_oracle'', ''CAD2DMTK6T3XZQ3KE5PJSE65TY2IJVGRDKFI3AOXNULAXELTQULSCGZV''),
     (''council_of_dike'', ''CCQ3AI7RXNJOOMZEDSI5UNSPRSZOQ7EPLJXAJIUZN5QZG5OZE6JXP7HY''),
     (''market_factory'', ''CDC2K4FJSY2OLUI4AREKXFEHUJ6SM4WJJFI6UKHAETX7BXDTBKVS4GQW'')], m_hash = [],
     m_admin = [], m_governance_authority = []\<rparr>"

lemma unique_contractsI:
  assumes "distinct (map fst (m_contracts m))" "distinct (map snd (m_contracts m))"
  shows "unique_contracts m"
  unfolding unique_contracts_def
proof (rule inj_onI)
  fix x y assume "x \<in> {k. \<exists>c. map_of (m_contracts m) k = Some c \<and> c \<noteq> []}"
    and eq: "map_of (m_contracts m) x = map_of (m_contracts m) y"
  then obtain c where "map_of (m_contracts m) x = Some c" "map_of (m_contracts m) y = Some c" by auto
  then have "(x, c) \<in> set (m_contracts m)" "(y, c) \<in> set (m_contracts m)" by (simp_all add: map_of_SomeD)
  then have "(x, c) = (y, c)" using assms(2)
    by (intro inj_onD [of snd "set (m_contracts m)"]) (simp_all add: distinct_map)
  then show "x = y" by simp
qed

lemma testnet_unique: "unique_contracts testnet_manifest"
  by (rule unique_contractsI) (simp_all add: testnet_manifest_def)

lemma web_builds_sponsored_witness:
  "builds_sponsored testnet_manifest (buildAmmBuyYes ''GABC'' ''7'' ''10000000'' ''1'' (Fin 300)) \<and>
   builds_sponsored testnet_manifest (buildRequestResolution ''GABC'' ''7'' ''0xff'' ''ipfs'' (Fin 1) ''5'' (Fin 60))"
  using web_builds_sponsored [OF testnet_unique] by blast

section \<open>Default fees\<close>

text \<open>With the default policy, the sponsor's quote admits a transaction that declares the application's
  inclusion fee exactly when its resource fee lies between 0 and 6000000 stroops, although the policy's own
  resource limit is 8000000: above that the total limit refuses it.\<close>

lemma default_policy_admits:
  "(\<exists>q. quoteSponsoredFee (2000000 + resource) resource default_policy = Inr q) \<longleftrightarrow> 0 \<le> resource \<and> resource \<le> 6000000"
  by (auto simp: quoteSponsoredFee_def bigint_of_def default_policy_def default_policy_values quote_fees_iff BASE_FEE_def)

section \<open>Structs\<close>

text \<open>A struct is encoded with its keys in strictly ascending order and each key with its value.\<close>

lemma struct_sorted:
  assumes "distinct (map fst kvs)"
  shows "\<exists>es. scvStruct kvs = ScMap (map (\<lambda>(k, v). (ScSymbol k, v)) es) \<and> mset es = mset kvs
    \<and> sorted_wrt (\<lambda>x y. key_order (fst x) < key_order (fst y)) es"
proof -
  let ?es = "sort_key (\<lambda>(k, v). key_order k) kvs"
  have inj: "key_order k = key_order k' \<longleftrightarrow> k = k'" for k k'
    unfolding key_order_def by (rule inj_map_eq_map) (rule inj_of_char)
  have "sorted (map (\<lambda>(k, v). key_order k) ?es)" by simp
  moreover have "distinct (map (\<lambda>(k, v). key_order k) ?es)"
    using assms by (auto simp: distinct_map inj_on_def inj split_beta)
  ultimately have "sorted_wrt (<) (map (\<lambda>(k, v). key_order k) ?es)" by (simp add: strict_sorted_iff)
  then have "sorted_wrt (\<lambda>x y. key_order (fst x) < key_order (fst y)) ?es"
    by (simp add: sorted_wrt_map split_beta')
  then show ?thesis by (intro exI [of _ ?es]) (simp add: scvStruct_def)
qed

section \<open>Council commitments\<close>

text \<open>Reads do not change the decoder.\<close>

lemma perform_decoder: "evolves (same w_scValToNative) (perform op f)"
  by (simp add: evolves_def same_def perform_app after_ops_def)

lemma pure_decoder: "pure m \<Longrightarrow> evolves (same w_scValToNative) m"
  by (simp add: evolves_def same_def)

lemma retries_decoder: "evolves (same w_scValToNative) m \<Longrightarrow> evolves (same w_scValToNative) (with_retries ds m)"
  by (induction ds) (auto intro!: same.evolves_rules simp: pause_def perform_decoder)

lemma read_call_decoder:
  assumes "\<And>a. a \<in> set args \<Longrightarrow> pure a"
  shows "evolves (same w_scValToNative) (read_call source key meth args)"
proof -
  have once: "evolves (same w_scValToNative) (simulateReadOnce a c m vs)" for a c m vs
    unfolding simulateReadOnce_def simulate_call_def raise_def
    by (auto intro!: same.evolves_rules perform_decoder pure_decoder [OF library_pure]
        split: simulation.split option.split)
  show ?thesis unfolding read_call_def simulateRead_def
    by (intro same.bindM_evolves pure_decoder getContractId_pure retries_decoder once same.mapM_evolves assms)
qed

text \<open>C39: the commitment the contract computes is bytes; read as text and encoded again as hexadecimal digits it is
  lost: whenever its first byte is not the code of a hexadecimal digit, the vote commits to no bytes at all.\<close>

lemma commitment_lost:
  assumes "fst (read_call source ''council_of_dike'' ''vote_commitment''
      [id_val caseId, toAddress voter, toOutcomeVal oc, toBytes salt] b) = Inr v"
    and "w_scValToNative b v = Inr (JBuffer (n # bs))" "radix_val 16 (char_of n) = None"
  shows "\<exists>t. fst (councilCalcCommitment source caseId voter oc salt b) = Inr t
    \<and> (\<forall>b'. toBytes t b' = nativeToScVal (JBuffer []) ''bytes'' b')"
proof -
  let ?t = "char_of n # map char_of bs"
  let ?read = "read_call source ''council_of_dike'' ''vote_commitment''
      [id_val caseId, toAddress voter, toOutcomeVal oc, toBytes salt]"
  have "radix_val 16 (CHR ''0'') = Some 0" by (simp add: radix_val_def)
  then have "char_of n \<noteq> CHR ''0''" using assms(3) by (metis option.distinct(1))
  then have "strip_0x ?t = ?t" by (cases bs) (simp_all add: strip_0x_def)
  moreover have "buffer_from_hex ?t = []" using assms(3) by (cases bs) simp_all
  ultimately have "toBytes ?t b' = nativeToScVal (JBuffer []) ''bytes'' b'" for b' by (simp add: toBytes_def)
  moreover have "w_scValToNative (snd (?read b)) = w_scValToNative b"
    by (rule evolves_same, rule read_call_decoder) (auto intro: encoders)
  then have "fst (councilCalcCommitment source caseId voter oc salt b) = Inr ?t" using assms(1,2)
    by (cases "?read b")
      (simp add: councilCalcCommitment_def bindM_app fromString_def fromScVal_def library_def ret_app)
  ultimately show ?thesis by blast
qed

definition council_browser :: browser where
  "council_browser = (demo_browser JNull)\<lparr>w_contracts := [(''council_of_dike'', ''CCQ3'')],
     w_simulate := (\<lambda>_ _. Inr (SimulationSuccess (Some (ScBytes [200, 1])))),
     w_scValToNative := (\<lambda>v. case v of ScBytes bs \<Rightarrow> Inr (JBuffer bs) | _ \<Rightarrow> Inr JNull)\<rparr>"

lemma commitment_lost_witness:
  "\<exists>t. fst (councilCalcCommitment ''GABC'' ''4'' ''GABC'' ''Yes'' ''00ff'' council_browser) = Inr t
    \<and> (\<forall>b'. toBytes t b' = nativeToScVal (JBuffer []) ''bytes'' b')"
proof -
  have four: "js_BigInt ''4'' = Inr 4"
    by (simp add: js_BigInt_digits all_digits_def is_digit_def digits_val_def digit_val_def)
  have "fst (read_call ''GABC'' ''council_of_dike'' ''vote_commitment''
      [id_val ''4'', toAddress ''GABC'', toOutcomeVal ''Yes'', toBytes ''00ff''] council_browser)
    = Inr (ScBytes [200, 1])"
    by (simp add: read_call_def getContractId_def id_val_def four js_def toU64_def toAddress_def toOutcomeVal_def
        toBytes_def nativeToScVal_def library_def simulateRead_def READ_RETRY_DELAYS_MS_def simulateReadOnce_def
        simulate_call_app Let_def io_simps council_browser_def demo_browser_def)
  from commitment_lost [OF this, of 200 "[1]"] show ?thesis
    by (simp add: council_browser_def radix_val_def)
qed

end
