(* ===== verification/Web_Data.thy ===== *)
theory Web_Data imports Web_Clients Config begin

text \<open>
  What the web application makes of the services' rows (\<open>dike-web/lib/api/normalizers.ts\<close>), the live
  refresh of a portfolio (\<open>lib/portfolio/live.ts\<close>), the check of reference links
  (\<open>lib/validation/reference-url.ts\<close>) and the public proxy (\<open>app/api/proxy\<close>).  The parser of \<open>URL\<close> and
  the upstream answers are parameters.
\<close>

section \<open>Field conversions\<close>

definition toStringValue :: "jsval \<Rightarrow> string \<Rightarrow> string" where
  "toStringValue v fallback = (case v of JStr s \<Rightarrow> s | _ \<Rightarrow> if js_nullish v then fallback else js_String v)"

definition is_finite :: "js_num \<Rightarrow> bool" where
  "is_finite n = (case n of Fin _ \<Rightarrow> True | _ \<Rightarrow> False)"

definition toNumberValue :: "jsval \<Rightarrow> js_num" where
  "toNumberValue v = (case v of
     JNum n \<Rightarrow> if is_finite n then n else Fin 0
   | JStr s \<Rightarrow> if s \<noteq> [] then js_Number_of_string s else Fin 0
   | _ \<Rightarrow> Fin 0)"

definition toNullableString :: "jsval \<Rightarrow> string option" where
  "toNullableString v = (if js_nullish v then None else
     let s = toStringValue v [] in if s \<noteq> [] then Some s else None)"

definition lower_char :: "char \<Rightarrow> char" where
  "lower_char c = (let n = (of_char c :: nat) in if 65 \<le> n \<and> n \<le> 90 then char_of (n + 32) else c)"

definition upper_char :: "char \<Rightarrow> char" where
  "upper_char c = (let n = (of_char c :: nat) in if 97 \<le> n \<and> n \<le> 122 then char_of (n - 32) else c)"

definition toBooleanValue :: "jsval \<Rightarrow> bool \<Rightarrow> bool" where
  "toBooleanValue v fallback = (case v of
     JBool b \<Rightarrow> b
   | JNum n \<Rightarrow> n \<noteq> Fin 0
   | JStr s \<Rightarrow> if s = ''true'' \<or> s = ''1'' \<or> map lower_char s = ''yes'' then True
       else if s = ''false'' \<or> s = ''0'' \<or> map lower_char s = ''no'' then False else fallback
   | _ \<Rightarrow> fallback)"

definition toOutcome :: "jsval \<Rightarrow> string option" where
  "toOutcome v = (case v of JStr s \<Rightarrow> if s \<in> {''Yes'', ''No'', ''Invalid''} then Some s else None | _ \<Rightarrow> None)"

definition MARKET_STATUSES :: "string list" where
  "MARKET_STATUSES = [''Created'', ''Live'', ''Paused'', ''TradingClosed'', ''ResolutionRequested'', ''Proposed'',
     ''Disputed'', ''CouncilVoting'', ''Resolved'', ''Cancelled'']"

definition toMarketStatus :: "jsval \<Rightarrow> string" where
  "toMarketStatus v = (let status = toStringValue v ''Created'' in
     if status \<in> set MARKET_STATUSES then status else ''Created'')"

text \<open>A text between double quotes, as it is.\<close>

definition in_quotes :: "string \<Rightarrow> string" where
  "in_quotes s = char_of (34 :: nat) # s @ [char_of (34 :: nat)]"

definition assertObservedNetwork :: "string \<Rightarrow> jsval \<Rightarrow> string \<Rightarrow> exn + unit" where
  "assertObservedNetwork network v source = (case v of
     JStr s \<Rightarrow> if s \<noteq> [] \<and> s \<noteq> network then Inl (NetworkMismatchError (source @ '' is serving '' @ in_quotes s @
         '' data, but this app is configured for '' @ in_quotes network @ ''.'')) else Inr ()
   | _ \<Rightarrow> Inr ())"

section \<open>Markets, requests and cases\<close>

record market_config =
  mc_question :: string
  mc_questionHash :: string
  mc_rulesUri :: string
  mc_rulesHash :: string
  mc_category :: string
  mc_expiry :: js_num
  mc_collateral :: string
  mc_bondAmount :: string
  mc_disputeWindow :: js_num
  mc_creator :: string

record market_data =
  md_marketId :: string
  md_config :: market_config
  md_status :: string
  md_finalOutcome :: "string option"
  md_requestId :: "string option"
  md_poolId :: "string option"
  md_yesReserve :: string
  md_noReserve :: string
  md_totalLpShares :: string
  md_createdAt :: js_num
  md_tradeable :: bool

definition normalizeMarketData :: "string \<Rightarrow> jsval \<Rightarrow> exn + market_data" where
  "normalizeMarketData network row = (case assertObservedNetwork network (js_field row ''network'') ''Dike services'' of
     Inl e \<Rightarrow> Inl e
   | Inr _ \<Rightarrow> (let poolId = toStringValue (js_coalesce (js_field row ''pool_id'') (JStr [])) [];
       str = (\<lambda>k d. toStringValue (js_field row k) d); num = (\<lambda>k. toNumberValue (js_field row k)) in
     Inr \<lparr>md_marketId = str ''market_id'' [],
       md_config = \<lparr>mc_question = str ''question'' [], mc_questionHash = str ''question_hash'' [],
         mc_rulesUri = str ''rules_uri'' [], mc_rulesHash = str ''rules_hash'' [],
         mc_category = str ''category'' ''General'', mc_expiry = num ''expiry'',
         mc_collateral = str ''collateral'' [], mc_bondAmount = str ''bond_amount'' ''0'',
         mc_disputeWindow = num ''dispute_window'', mc_creator = str ''creator'' []\<rparr>,
       md_status = toMarketStatus (js_field row ''status''),
       md_finalOutcome = (if js_truthy (js_field row ''has_final_outcome'')
         then toOutcome (js_field row ''final_outcome'') else None),
       md_requestId = (if js_truthy (js_field row ''has_request'') then Some (str ''request_id'' []) else None),
       md_poolId = (if poolId \<noteq> [] \<and> poolId \<noteq> ''0'' then Some poolId else None),
       md_yesReserve = str ''yes_reserve'' ''0'', md_noReserve = str ''no_reserve'' ''0'',
       md_totalLpShares = str ''total_lp_shares'' ''0'', md_createdAt = num ''created_at_unix'',
       md_tradeable = toBooleanValue (js_field row ''tradeable'')
         (toMarketStatus (js_field row ''status'') = ''Live'')\<rparr>))"

record resolution_request =
  rr_requestId :: string
  rr_marketId :: string
  rr_questionHash :: string
  rr_rulesUri :: string
  rr_expiry :: js_num
  rr_bondAmount :: string
  rr_disputeWindow :: js_num
  rr_status :: string
  rr_proposedOutcome :: "string option"
  rr_proposedAt :: "js_num option"
  rr_proposer :: "string option"
  rr_disputer :: "string option"
  rr_disputedOutcome :: "string option"
  rr_counterEvidenceUri :: "string option"
  rr_evidenceUri :: "string option"

definition normalizeResolutionRequest :: "jsval \<Rightarrow> resolution_request option" where
  "normalizeResolutionRequest row = (if js_nullish row then None else
    (let str = (\<lambda>k d. toStringValue (js_field row k) d);
       proposed = js_truthy (js_field row ''has_proposal''); disputed = js_truthy (js_field row ''has_dispute'') in
     Some \<lparr>rr_requestId = toStringValue (js_coalesce (js_field row ''request_id'') (js_field row ''id'')) [],
       rr_marketId = str ''market_id'' [], rr_questionHash = str ''question_hash'' [],
       rr_rulesUri = str ''rules_uri'' [], rr_expiry = toNumberValue (js_field row ''expiry''),
       rr_bondAmount = str ''bond_amount'' ''0'', rr_disputeWindow = toNumberValue (js_field row ''dispute_window''),
       rr_status = str ''status'' ''None'',
       rr_proposedOutcome = (if proposed then toOutcome (js_field row ''proposed_outcome'') else None),
       rr_proposedAt = (if js_nullish (js_field row ''proposed_at'') then None
         else Some (toNumberValue (js_field row ''proposed_at''))),
       rr_proposer = (if proposed then toNullableString (js_field row ''proposer'') else None),
       rr_disputer = (if disputed then toNullableString (js_field row ''disputer'') else None),
       rr_disputedOutcome = (if disputed then toOutcome (js_field row ''disputed_outcome'') else None),
       rr_counterEvidenceUri = (if disputed then toNullableString (js_field row ''dispute_evidence_uri'') else None),
       rr_evidenceUri = (if proposed then toNullableString (js_field row ''proposal_evidence_uri'') else None)\<rparr>))"

record council_case =
  cc_caseId :: string
  cc_requestId :: string
  cc_status :: string
  cc_proposedOutcome :: string
  cc_disputedOutcome :: string
  cc_commitEnd :: js_num
  cc_revealEnd :: js_num
  cc_finalOutcome :: "string option"
  cc_evidenceUri :: string

definition normalizeCouncilCase :: "jsval \<Rightarrow> council_case" where
  "normalizeCouncilCase row = (let str = (\<lambda>k d. toStringValue (js_field row k) d);
      proposer = str ''proposer_evidence_uri'' [] in
    \<lparr>cc_caseId = toStringValue (js_coalesce (js_field row ''case_id'') (js_field row ''id'')) [],
     cc_requestId = str ''request_id'' [], cc_status = str ''status'' ''Opened'',
     cc_proposedOutcome = or_else (toOutcome (js_field row ''proposer_outcome'')) ''Invalid'',
     cc_disputedOutcome = or_else (toOutcome (js_field row ''disputer_outcome'')) ''Invalid'',
     cc_commitEnd = toNumberValue (js_field row ''commit_end''), cc_revealEnd = toNumberValue (js_field row ''reveal_end''),
     cc_finalOutcome = (if js_truthy (js_field row ''has_final_outcome'')
       then toOutcome (js_field row ''final_outcome'') else None),
     cc_evidenceUri = (if proposer \<noteq> [] then proposer else str ''disputer_evidence_uri'' [])\<rparr>)"

section \<open>Portfolios\<close>

record user_position =
  up_marketId :: string
  up_poolId :: "string option"
  up_question :: string
  up_yesBalance :: string
  up_noBalance :: string
  up_lpShares :: string
  up_deposit :: string
  up_rootStakeYes :: string
  up_rootStakeNo :: string
  up_childCredit :: string
  up_childDebt :: string
  up_parentDebtYes :: string
  up_parentDebtNo :: string
  up_redeemedYes :: string
  up_redeemedNo :: string
  up_marketStatus :: string
  up_finalOutcome :: "string option"

text \<open>\<open>new Map(pairs)\<close>: the last pair of a key counts.\<close>

definition js_map :: "('k \<times> 'v) list \<Rightarrow> 'k \<Rightarrow> 'v option" where
  "js_map kvs = map_of (rev kvs)"

definition str_field :: "string \<Rightarrow> jsval \<Rightarrow> string" where
  "str_field k row = toStringValue (js_field row k) []"

fun observe_all :: "string \<Rightarrow> jsval list \<Rightarrow> exn + unit" where
  "observe_all network [] = Inr ()"
| "observe_all network (row # rows) = (case assertObservedNetwork network (js_field row ''network'') ''Dike services'' of
     Inl e \<Rightarrow> Inl e | Inr _ \<Rightarrow> observe_all network rows)"

definition portfolio_markets :: "jsval list \<Rightarrow> jsval list \<Rightarrow> jsval list \<Rightarrow> market_data list \<Rightarrow> string list" where
  "portfolio_markets positions lpPositions vaultState markets =
    filter (\<lambda>m. m \<noteq> []) (js_set (map (str_field ''market_id'') vaultState @ map (str_field ''market_id'') positions @
      concat (map (\<lambda>p. case find (\<lambda>m. md_poolId m = Some (str_field ''pool_id'' p)) markets of
        None \<Rightarrow> [] | Some m \<Rightarrow> [md_marketId m]) lpPositions)))"

definition position_of :: "jsval list \<Rightarrow> jsval list \<Rightarrow> jsval list \<Rightarrow> market_data list \<Rightarrow> string \<Rightarrow> user_position" where
  "position_of positions lpPositions vaultState markets marketId =
    (let market = js_map (map (\<lambda>m. (md_marketId m, m)) markets) marketId;
       vault = or_else (js_map (map (\<lambda>v. (str_field ''market_id'' v, v)) vaultState) marketId) (JObj []);
       positionMap = js_map (map (\<lambda>p. (str_field ''outcome'' p, toStringValue (js_field p ''balance'') ''0''))
         (filter (\<lambda>p. str_field ''market_id'' p = marketId) positions));
       lpByPool = js_map (map (\<lambda>p. (str_field ''pool_id'' p, p)) lpPositions);
       pool = (case market of None \<Rightarrow> None | Some m \<Rightarrow> md_poolId m);
       amount = (\<lambda>k. toStringValue (js_field vault k) ''0'') in
     \<lparr>up_marketId = marketId, up_poolId = pool,
      up_question = (case market of None \<Rightarrow> ''Market #'' @ marketId | Some m \<Rightarrow> mc_question (md_config m)),
      up_yesBalance = or_else (positionMap ''Yes'') ''0'', up_noBalance = or_else (positionMap ''No'') ''0'',
      up_lpShares = (case pool of None \<Rightarrow> ''0'' | Some p \<Rightarrow> if p = [] then ''0'' else (case lpByPool p of
         None \<Rightarrow> ''0'' | Some lp \<Rightarrow> toStringValue (js_field lp ''shares'') ''0'')),
      up_deposit = amount ''user_deposit'', up_rootStakeYes = amount ''root_stake_yes'',
      up_rootStakeNo = amount ''root_stake_no'', up_childCredit = amount ''child_used_total'',
      up_childDebt = amount ''child_debt'', up_parentDebtYes = amount ''parent_debt_yes'',
      up_parentDebtNo = amount ''parent_debt_no'', up_redeemedYes = amount ''redeemed_yes'',
      up_redeemedNo = amount ''redeemed_no'',
      up_marketStatus = (case market of None \<Rightarrow> ''Created'' | Some m \<Rightarrow> md_status m),
      up_finalOutcome = (case market of None \<Rightarrow> None | Some m \<Rightarrow> md_finalOutcome m)\<rparr>)"

definition normalizePortfolio :: "string \<Rightarrow> jsval list \<Rightarrow> jsval list \<Rightarrow> jsval list \<Rightarrow> market_data list \<Rightarrow>
    exn + user_position list" where
  "normalizePortfolio network positions lpPositions vaultState markets =
    (case observe_all network (positions @ lpPositions @ vaultState) of Inl e \<Rightarrow> Inl e
     | Inr _ \<Rightarrow> Inr (map (position_of positions lpPositions vaultState markets)
         (portfolio_markets positions lpPositions vaultState markets)))"

section \<open>Governance\<close>

record timelock_action =
  ta_actionId :: string
  ta_kind :: string
  ta_data :: string
  ta_payload :: jsval
  ta_eta :: js_num
  ta_queued :: bool
  ta_executed :: bool
  ta_cancelled :: bool

definition present :: "string option \<Rightarrow> string list" where
  "present v = (case v of None \<Rightarrow> [] | Some s \<Rightarrow> if s = [] then [] else [s])"

definition normalizeTimelockAction :: "jsval \<Rightarrow> timelock_action" where
  "normalizeTimelockAction row = (let f = js_field row;
      executed = toBooleanValue (f ''executed'') False; cancelled = toBooleanValue (f ''cancelled'') False;
      eta = toNumberValue (js_coalesce (f ''execute_after'') (f ''eta''));
      expiresAt = toNullableString (f ''expires_at'') in
    \<lparr>ta_actionId = toStringValue (js_coalesce (f ''action_id'') (f ''actionId'')) [],
     ta_kind = toStringValue (f ''kind'') ''Upgrade'',
     ta_data = js_join '' | '' (present (toNullableString (f ''target'')) @ present (toNullableString (f ''payload_hash''))
       @ present (case expiresAt of None \<Rightarrow> None | Some e \<Rightarrow> Some (''expires:'' @ e))),
     ta_payload = js_coalesce (f ''payload_json'') JNull, ta_eta = eta,
     ta_queued = (\<not> executed \<and> \<not> cancelled \<and> js_lt (Fin 0) eta),
     ta_executed = executed, ta_cancelled = cancelled\<rparr>)"

record admin_state =
  as_treasury :: string
  as_supportedCollaterals :: "string list"
  as_feeConfig :: fee_config
  as_moduleAddresses :: "(string \<times> string) list"
  as_approvedCreators :: "string list"
  as_councilMembers :: "string list"

text \<open>The em dash shown for an unknown treasury, as its UTF-8 bytes.\<close>

definition em_dash :: string where
  "em_dash = map char_of [226 :: nat, 128, 148]"

definition listed :: "string \<Rightarrow> jsval list \<Rightarrow> string list" where
  "listed kind entries = filter (\<lambda>a. a \<noteq> []) (map (str_field ''address'')
     (filter (\<lambda>e. str_field ''kind'' e = kind) entries))"

definition normalizeAdminState :: "jsval \<Rightarrow> jsval list \<Rightarrow> jsval list \<Rightarrow> admin_state" where
  "normalizeAdminState config entries modules = (let feeConfig = js_coalesce (optional config ''fee_config_json'') (JObj []);
      approved = filter (\<lambda>e. toBooleanValue (js_field e ''approved'') True) entries;
      num = (\<lambda>k. toNumberValue (js_field feeConfig k)) in
    \<lparr>as_treasury = toStringValue (optional config ''treasury'') em_dash,
     as_supportedCollaterals = listed ''collateral'' approved,
     as_feeConfig = \<lparr>tradingFeeBps = num ''trading_fee_bps'', lpFeeShareBps = num ''lp_fee_share_bps'',
       treasuryFeeShareBps = num ''treasury_fee_share_bps'', codFeeShareBps = num ''cod_fee_share_bps'',
       councilReward = toStringValue (js_field feeConfig ''council_reward'') ''0'',
       creationFee = toStringValue (js_field feeConfig ''creation_fee'') ''0''\<rparr>,
     as_moduleAddresses = spread [] (map (\<lambda>e. (str_field ''role'' e, str_field ''module_address'' e)) modules),
     as_approvedCreators = listed ''creator'' approved, as_councilMembers = listed ''member'' approved\<rparr>)"

record wallet_permissions =
  wp_address :: string
  wp_canCreate :: bool
  wp_canResolve :: bool
  wp_canCouncil :: bool
  wp_canAdmin :: bool
  wp_isApprovedCreator :: bool
  wp_isCouncilMember :: bool
  wp_isAdmin :: bool

definition normalizeWalletPermissions :: "jsval \<Rightarrow> wallet_permissions" where
  "normalizeWalletPermissions row = (let flag = (\<lambda>k d. toBooleanValue (js_field row k) d);
      creator = flag ''isApprovedCreator'' False; member = flag ''isCouncilMember'' False;
      admin = flag ''isAdmin'' False in
    \<lparr>wp_address = map upper_char (str_field ''address'' row), wp_canCreate = flag ''canCreate'' creator,
     wp_canResolve = flag ''canResolve'' False, wp_canCouncil = flag ''canCouncil'' member,
     wp_canAdmin = flag ''canAdmin'' admin, wp_isApprovedCreator = creator, wp_isCouncilMember = member,
     wp_isAdmin = admin\<rparr>)"

section \<open>Live balances\<close>

text \<open>\<open>read.catch(() => fallback)\<close>\<close>

definition or_shown :: "string web \<Rightarrow> string \<Rightarrow> string web" where
  "or_shown m shown = catchM m (\<lambda>_. ret shown)"

definition hydrate :: "string \<Rightarrow> user_position \<Rightarrow> user_position web" where
  "hydrate address p = (let a = address; m = up_marketId p in
    bindM (or_shown (ctBalance a a m ''Yes'') (up_yesBalance p)) (\<lambda>yesBalance.
    bindM (or_shown (ctBalance a a m ''No'') (up_noBalance p)) (\<lambda>noBalance.
    bindM (if or_else (up_poolId p) [] = [] then ret (up_lpShares p)
      else or_shown (ammGetLpBalance a a (or_else (up_poolId p) [])) (up_lpShares p)) (\<lambda>lpShares.
    bindM (or_shown (vaultGetUserDeposit a a m) (up_deposit p)) (\<lambda>deposit.
    bindM (or_shown (vaultGetRootStake a a m ''Yes'') (up_rootStakeYes p)) (\<lambda>rootStakeYes.
    bindM (or_shown (vaultGetRootStake a a m ''No'') (up_rootStakeNo p)) (\<lambda>rootStakeNo.
    bindM (or_shown (vaultGetChildDebt a a m) (up_childDebt p)) (\<lambda>childDebt.
    bindM (or_shown (vaultGetParentDebt a a m ''Yes'') (up_parentDebtYes p)) (\<lambda>parentDebtYes.
    bindM (or_shown (vaultGetParentDebt a a m ''No'') (up_parentDebtNo p)) (\<lambda>parentDebtNo.
    bindM (or_shown (vaultGetRedeemed a a m ''Yes'') (up_redeemedYes p)) (\<lambda>redeemedYes.
    bindM (or_shown (vaultGetRedeemed a a m ''No'') (up_redeemedNo p)) (\<lambda>redeemedNo.
    ret (p\<lparr>up_yesBalance := yesBalance, up_noBalance := noBalance, up_lpShares := lpShares,
      up_deposit := deposit, up_rootStakeYes := rootStakeYes, up_rootStakeNo := rootStakeNo,
      up_childDebt := childDebt, up_parentDebtYes := parentDebtYes, up_parentDebtNo := parentDebtNo,
      up_redeemedYes := redeemedYes, up_redeemedNo := redeemedNo\<rparr>)))))))))))))"

definition hydratePortfolioPositions :: "string \<Rightarrow> user_position list \<Rightarrow> user_position list web" where
  "hydratePortfolioPositions address positions = mapM (hydrate address) positions"

section \<open>Reference links\<close>

record url =
  url_protocol :: string
  url_hostname :: string
  url_username :: string
  url_password :: string

definition RESERVED_HOSTS :: "string list" where
  "RESERVED_HOSTS = [''localhost'', ''example.com'', ''www.example.com'']"

text \<open>\<open>s.split(".")\<close>\<close>

fun split_points :: "string \<Rightarrow> string list" where
  "split_points [] = [[]]"
| "split_points (c # cs) = (if c = CHR ''.'' then [] # split_points cs
     else (case split_points cs of p # ps \<Rightarrow> (c # p) # ps | [] \<Rightarrow> [[c]]))"

definition js_ge :: "js_num \<Rightarrow> js_num \<Rightarrow> bool" where
  "js_ge x y = js_le y x"

definition isPrivateIpv4 :: "string \<Rightarrow> bool" where
  "isPrivateIpv4 hostname = (case map js_Number_of_string (split_points hostname) of
     [a, b, c, d] \<Rightarrow> list_all js_is_integer [a, b, c, d] \<and>
       (a = Fin 10 \<or> a = Fin 127 \<or> a = Fin 169 \<and> b = Fin 254 \<or>
        a = Fin 172 \<and> js_ge b (Fin 16) \<and> js_le b (Fin 31) \<or> a = Fin 192 \<and> b = Fin 168)
   | _ \<Rightarrow> False)"

definition ends_with :: "string \<Rightarrow> string \<Rightarrow> bool" where
  "ends_with suffix s = starts_with (rev suffix) (rev s)"

definition getReferenceUrlError :: "(string \<Rightarrow> url option) \<Rightarrow> string \<Rightarrow> string \<Rightarrow> string option" where
  "getReferenceUrlError parse v label = (let trimmed = js_trim v in
     if trimmed = [] then Some (label @ '' is required'')
     else case parse trimmed of
       None \<Rightarrow> Some (label @ '' must be a valid HTTPS URL'')
     | Some u \<Rightarrow> (let hostname = map lower_char (url_hostname u) in
         if url_protocol u \<noteq> ''https:'' then Some (label @ '' must use HTTPS'')
         else if url_username u \<noteq> [] \<or> url_password u \<noteq> [] then Some (label @ '' must not contain credentials'')
         else if hostname \<in> set RESERVED_HOSTS \<or> ends_with ''.localhost'' hostname
           \<or> ends_with ''.example.com'' hostname \<or> hostname = ''::1'' \<or> isPrivateIpv4 hostname
           then Some (label @ '' must be publicly accessible'')
         else None))"

definition safeReferenceUrl :: "(string \<Rightarrow> url option) \<Rightarrow> string option \<Rightarrow> string option" where
  "safeReferenceUrl parse v = (case v of None \<Rightarrow> None
     | Some s \<Rightarrow> if s = [] \<or> getReferenceUrlError parse s ''URL'' \<noteq> None then None else Some (js_trim s))"

section \<open>The application's configuration\<close>

record web_config =
  wc_network :: string
  wc_explorerNetwork :: string
  wc_label :: string
  wc_rpcUrl :: string
  wc_horizonUrl :: string
  wc_networkPassphrase :: string
  wc_manifestNetwork :: string
  wc_servicesUrl :: string

definition rawNetwork :: "(string \<Rightarrow> string option) \<Rightarrow> string" where
  "rawNetwork p = or_else (p ''NEXT_PUBLIC_STELLAR_NETWORK'') ''testnet''"

definition expectedPassphrase :: "bool \<Rightarrow> string" where
  "expectedPassphrase main = NETWORK_PASSPHRASES (if main then mainnet else testnet)"

definition networkConfig :: "(string \<Rightarrow> string option) \<Rightarrow> web_config" where
  "networkConfig p = (let main = (rawNetwork p = ''mainnet''); net = (if main then ''mainnet'' else ''testnet'') in
    \<lparr>wc_network = net, wc_explorerNetwork = (if main then ''public'' else ''testnet''),
     wc_label = (if main then ''Stellar Mainnet'' else ''Stellar Testnet''),
     wc_rpcUrl = or_else (p ''NEXT_PUBLIC_STELLAR_RPC_URL'') (if main
       then ''https://soroban-rpc.mainnet.stellar.gateway.fm'' else ''https://soroban-testnet.stellar.org''),
     wc_horizonUrl = or_else (p ''NEXT_PUBLIC_STELLAR_HORIZON_URL'') (if main
       then ''https://horizon.stellar.org'' else ''https://horizon-testnet.stellar.org''),
     wc_networkPassphrase = or_else (p ''NEXT_PUBLIC_STELLAR_NETWORK_PASSPHRASE'') (expectedPassphrase main),
     wc_manifestNetwork = or_else (p ''NEXT_PUBLIC_DIKE_MANIFEST_NETWORK'') net,
     wc_servicesUrl = or_else (p ''NEXT_PUBLIC_DIKE_SERVICES_URL'') ''http://localhost:4000''\<rparr>)"

definition validHttpUrl :: "(string \<Rightarrow> url option) \<Rightarrow> string \<Rightarrow> bool" where
  "validHttpUrl parse v = (case parse v of None \<Rightarrow> False
     | Some u \<Rightarrow> url_protocol u = ''http:'' \<or> url_protocol u = ''https:'')"

definition configurationErrors :: "(string \<Rightarrow> url option) \<Rightarrow> (string \<Rightarrow> string option) \<Rightarrow> string list" where
  "configurationErrors parse p = (let raw = rawNetwork p; c = networkConfig p;
      check = (\<lambda>ok m. if ok then [] else [m]) in
     check (raw = ''testnet'' \<or> raw = ''mainnet'')
       (''NEXT_PUBLIC_STELLAR_NETWORK must be '' @ in_quotes ''testnet'' @ '' or '' @ in_quotes ''mainnet'' @
        '' (received '' @ in_quotes raw @ '').'')
     @ check (wc_manifestNetwork c = wc_network c) (''Manifest network '' @ in_quotes (wc_manifestNetwork c) @
        '' does not match Stellar network '' @ in_quotes (wc_network c) @ ''.'')
     @ check (wc_networkPassphrase c = expectedPassphrase (wc_network c = ''mainnet''))
        (''Network passphrase does not match '' @ wc_label c @ ''.'')
     @ check (validHttpUrl parse (wc_rpcUrl c)) ''Stellar RPC URL must be an HTTP(S) URL.''
     @ check (validHttpUrl parse (wc_horizonUrl c)) ''Horizon URL must be an HTTP(S) URL.''
     @ check (validHttpUrl parse (wc_servicesUrl c)) ''Dike services URL must be an HTTP(S) URL.'')"

section \<open>The public proxy\<close>

record proxied =
  px_method :: string
  px_url :: string
  px_accept :: string
  px_contentType :: "string option"
  px_body :: "nat list option"

record proxy_response =
  pr_status :: int
  pr_body :: string
  pr_contentType :: "string option"

text \<open>\<open>NextResponse.json({ error }, { status })\<close>\<close>

definition proxy_error :: "int \<Rightarrow> string \<Rightarrow> proxy_response" where
  "proxy_error status m = \<lparr>pr_status = status, pr_body = ''{\"error\":'' @ quote m @ ''}'',
     pr_contentType = Some ''application/json''\<rparr>"

definition SPONSORSHIP_BODY_LIMIT :: nat where
  "SPONSORSHIP_BODY_LIMIT = 200000"

definition joinUrl :: "string \<Rightarrow> string list \<Rightarrow> string \<Rightarrow> string" where
  "joinUrl services pathSegments search =
    (let base = (if ends_with ''/'' services then butlast services else services) in
     base @ ''/'' @ js_join ''/'' pathSegments @ search)"

definition relay :: "proxy_response option \<Rightarrow> proxy_response" where
  "relay upstream = (case upstream of
     None \<Rightarrow> proxy_error 503 ''dike-services unavailable''
   | Some r \<Rightarrow> r\<lparr>pr_contentType := Some (or_else (pr_contentType r) ''application/json; charset=utf-8'')\<rparr>)"

text \<open>The request sent to the services, if any, and the answer.\<close>

definition proxy_GET :: "string \<Rightarrow> (proxied \<Rightarrow> proxy_response option) \<Rightarrow> string list \<Rightarrow> string \<Rightarrow> string option \<Rightarrow>
    proxied option \<times> proxy_response" where
  "proxy_GET services upstream path search accept =
    (if path \<noteq> [] \<and> (hd path = ''admin'' \<or> hd path = ''metrics'')
     then (None, proxy_error 403 ''protected path unavailable through public proxy'')
     else let req = \<lparr>px_method = ''GET'', px_url = joinUrl services path search,
         px_accept = or_else accept ''application/json'', px_contentType = None, px_body = None\<rparr> in
       (Some req, relay (upstream req)))"

definition proxy_POST :: "string \<Rightarrow> (proxied \<Rightarrow> proxy_response option) \<Rightarrow> string list \<Rightarrow> string \<Rightarrow> string option \<Rightarrow>
    string option \<Rightarrow> nat list \<Rightarrow> proxied option \<times> proxy_response" where
  "proxy_POST services upstream path search accept contentType body =
    (if \<not> (length path = 2 \<and> path ! 0 = ''sponsorship'' \<and> path ! 1 = ''transactions'')
     then (None, proxy_error 403 ''path unavailable through public proxy'')
     else if SPONSORSHIP_BODY_LIMIT < length body
     then (None, proxy_error 413 ''request body too large'')
     else let req = \<lparr>px_method = ''POST'', px_url = joinUrl services path search,
         px_accept = or_else accept ''application/json'',
         px_contentType = Some (or_else contentType ''application/json''), px_body = Some body\<rparr> in
       (Some req, relay (upstream req)))"

section \<open>A portfolio misses nothing\<close>

lemma observe_all_iff: "observe_all network rows = Inr () \<longleftrightarrow>
    (\<forall>row \<in> set rows. assertObservedNetwork network (js_field row ''network'') ''Dike services'' = Inr ())"
  by (induction rows) (auto split: sum.split)

lemma position_market [simp]: "up_marketId (position_of positions lps vaults markets m) = m"
  by (simp add: position_of_def Let_def)

text \<open>A portfolio lists each market of the user's vault rows, token rows and pool shares exactly once, and
  no other; rows of another network make it fail.\<close>

lemma portfolio_complete:
  assumes "normalizePortfolio network positions lps vaults markets = Inr ps"
  shows "distinct (map up_marketId ps) \<and>
    set (map up_marketId ps) = {m. m \<noteq> [] \<and> (m \<in> str_field ''market_id'' ` (set vaults \<union> set positions) \<or>
      (\<exists>lp \<in> set lps. \<exists>mk. find (\<lambda>mk. md_poolId mk = Some (str_field ''pool_id'' lp)) markets = Some mk \<and> m = md_marketId mk))} \<and>
    (\<forall>row \<in> set positions \<union> set lps \<union> set vaults. \<forall>s. js_field row ''network'' = JStr s \<longrightarrow> s = [] \<or> s = network)"
proof (intro conjI)
  from assms have obs: "observe_all network (positions @ lps @ vaults) = Inr ()"
    and ps: "ps = map (position_of positions lps vaults markets) (portfolio_markets positions lps vaults markets)"
    by (auto simp: normalizePortfolio_def split: sum.splits)
  have ids: "map up_marketId ps = portfolio_markets positions lps vaults markets" by (simp add: ps o_def)
  show "distinct (map up_marketId ps)" by (simp add: ids portfolio_markets_def)
  have pools: "m \<in> set (concat (map (\<lambda>p. case find (\<lambda>mk. md_poolId mk = Some (str_field ''pool_id'' p)) markets of
        None \<Rightarrow> [] | Some mk \<Rightarrow> [md_marketId mk]) lps)) \<longleftrightarrow>
      (\<exists>lp \<in> set lps. \<exists>mk. find (\<lambda>mk. md_poolId mk = Some (str_field ''pool_id'' lp)) markets = Some mk \<and> m = md_marketId mk)" for m
    by (induction lps) (auto split: option.splits, metis)
  show "set (map up_marketId ps) = {m. m \<noteq> [] \<and> (m \<in> str_field ''market_id'' ` (set vaults \<union> set positions) \<or>
      (\<exists>lp \<in> set lps. \<exists>mk. find (\<lambda>mk. md_poolId mk = Some (str_field ''pool_id'' lp)) markets = Some mk \<and> m = md_marketId mk))}"
    unfolding ids portfolio_markets_def set_filter set_js_set set_append set_map Un_iff pools by blast
  show "\<forall>row \<in> set positions \<union> set lps \<union> set vaults. \<forall>s. js_field row ''network'' = JStr s \<longrightarrow> s = [] \<or> s = network"
    using obs by (force simp: observe_all_iff assertObservedNetwork_def split: if_splits)
qed

lemma portfolio_complete_witness:
  "\<exists>ps. normalizePortfolio ''testnet'' [JObj [(''market_id'', JStr ''3''), (''network'', JStr ''testnet'')]] []
      [JObj [(''market_id'', JStr ''5'')], JObj [(''market_id'', JStr ''3'')]] [] = Inr ps
    \<and> distinct (map up_marketId ps) \<and> set (map up_marketId ps) = {''3'', ''5''}"
proof -
  let ?rows = "[JObj [(''market_id'', JStr ''3''), (''network'', JStr ''testnet'')]]"
  let ?vaults = "[JObj [(''market_id'', JStr ''5'')], JObj [(''market_id'', JStr ''3'')]]"
  obtain ps where ps: "normalizePortfolio ''testnet'' ?rows [] ?vaults [] = Inr ps"
    by (simp add: normalizePortfolio_def assertObservedNetwork_def)
  from portfolio_complete [OF this] ps show ?thesis
    by (intro exI [of _ ps]) (auto simp: str_field_def toStringValue_def)
qed

section \<open>Reference links\<close>

text \<open>An accepted link is trimmed, an HTTPS address without credentials, and its host is not one of the private
  ranges in dotted form.\<close>

lemma safe_reference_urls:
  assumes "safeReferenceUrl parse (Some s) = Some t"
  shows "t = js_trim s \<and> (\<exists>u. parse t = Some u \<and> url_protocol u = ''https:'' \<and> url_username u = []
    \<and> url_password u = [] \<and> \<not> isPrivateIpv4 (map lower_char (url_hostname u)))"
  using assms by (auto simp: safeReferenceUrl_def getReferenceUrlError_def Let_def split: if_splits option.splits)

definition demo_url :: "string \<Rightarrow> string \<Rightarrow> url option" where
  "demo_url host = (\<lambda>_. Some \<lparr>url_protocol = ''https:'', url_hostname = host, url_username = [], url_password = []\<rparr>)"

lemma safe_reference_urls_witness:
  "\<exists>u. demo_url ''dike.xyz'' ''https://dike.xyz'' = Some u \<and> url_protocol u = ''https:''"
proof -
  have "safeReferenceUrl (demo_url ''dike.xyz'') (Some ''https://dike.xyz'') = Some ''https://dike.xyz''"
    by (simp add: safeReferenceUrl_def getReferenceUrlError_def demo_url_def js_trim_no_space is_space_def
        RESERVED_HOSTS_def ends_with_def starts_with_def isPrivateIpv4_def lower_char_def)
  from safe_reference_urls [OF this] show ?thesis by blast
qed

text \<open>The host text of an IPv6 address is bracketed, so the comparison with \<open>::1\<close> never refuses the loopback
  address.\<close>

lemma ipv6_loopback_accepted:
  "getReferenceUrlError (demo_url ''[::1]'') ''https://[::1]/'' label = None"
  by (simp add: getReferenceUrlError_def demo_url_def js_trim_no_space is_space_def
      RESERVED_HOSTS_def ends_with_def starts_with_def isPrivateIpv4_def lower_char_def)

section \<open>What the proxy lets through\<close>

text \<open>Through the public proxy only one kind of write reaches the services: a sponsorship submission of at most
  200000 bytes, whose body is passed on unchanged.\<close>

lemma proxy_writes:
  "fst (proxy_POST services up path search accept ct body) =
     (if path = [''sponsorship'', ''transactions''] \<and> length body \<le> 200000
      then Some \<lparr>px_method = ''POST'', px_url = joinUrl services path search, px_accept = or_else accept ''application/json'',
        px_contentType = Some (or_else ct ''application/json''), px_body = Some body\<rparr> else None)"
proof -
  have "length path = 2 \<and> path ! 0 = a \<and> path ! 1 = c \<longleftrightarrow> path = [a, c]" for a c
    by (cases path rule: list.exhaust; cases "tl path") auto
  then show ?thesis
    by (auto simp: proxy_POST_def SPONSORSHIP_BODY_LIMIT_def Let_def)
qed

text \<open>The protection of reads compares the first decoded segment only: one segment that carries an encoded slash
  passes, and the services are asked for the very path the proxy means to protect.\<close>

lemma proxy_encoded_slash:
  "fst (proxy_GET services up [''admin'', ''stats''] search accept) = None"
  "map_option px_url (fst (proxy_GET services up [''admin/stats''] search accept)) =
     Some (joinUrl services [''admin'', ''stats''] search)"
  by (simp_all add: proxy_GET_def Let_def joinUrl_def)

end
