(* ===== verification/Web_Api.thy ===== *)
theory Web_Api imports Web_Data begin

text \<open>
  The web application's reads of the services (\<open>dike-web/lib/api/client.ts\<close> and the wrappers of
  \<open>markets.ts\<close>, \<open>portfolio.ts\<close>, \<open>resolution.ts\<close>, \<open>council.ts\<close>, \<open>authz.ts\<close>, \<open>admin.ts\<close> and \<open>stats.ts\<close>), and
  the refresh of a page by pushed updates (\<open>lib/hooks/useLiveUpdates.ts\<close>,
  \<open>components/data-state/LiveRefresh.tsx\<close>).  \<open>w_services\<close> is the address the runtime of the page uses: the
  proxy in a window, the services themselves on the server.
\<close>

section \<open>Requests\<close>

definition unavailable :: "string \<Rightarrow> 'a web" where
  "unavailable path = bindM (getsM w_services) (\<lambda>url. throw (ServiceUnavailableError
     (''dike-services not reachable: GET '' @ path @ ''. Start the service at '' @ url @ ''.'')))"

text \<open>\<open>res.json()\<close>\<close>

definition response_json :: "http_response \<Rightarrow> jsval web" where
  "response_json res = (case h_json res of Some v \<Rightarrow> ret v
     | None \<Rightarrow> throw (JsError (SyntaxError ''Unexpected end of JSON input'')))"

definition apiGet :: "string \<Rightarrow> jsval web" where
  "apiGet path = bindM (getsM w_services) (\<lambda>url.
     bindM (catchM (fetch (HttpGet (url @ path))) (\<lambda>_. unavailable path)) (\<lambda>res.
     if \<not> h_ok res then (if h_status res = 404 then raise (''Not found: '' @ path)
       else raise (''API error '' @ int_str (h_status res) @ '': '' @ path))
     else response_json res))"

definition adminApiGet :: "string \<Rightarrow> jsval web" where
  "adminApiGet path = bindM (getsM (\<lambda>b. (w_window b, w_env_services b, w_adminKey b))) (\<lambda>(window, base, apiKey).
     if window then raise ''adminApiGet is server-only''
     else bindM (catchM (fetch (AdminGet (base @ path) (if or_else apiKey [] = [] then None else apiKey)))
         (\<lambda>_. unavailable path)) (\<lambda>res.
       if \<not> h_ok res then (if h_status res = 401 then raise ''API error 401: admin api key required''
         else if h_status res = 404 then raise (''Not found: '' @ path)
         else raise (''API error '' @ int_str (h_status res) @ '': '' @ path))
       else response_json res))"

section \<open>Reads\<close>

text \<open>\<open>v.map(f)\<close>, which fails when \<open>v\<close> has no such method.\<close>

definition js_array :: "jsval \<Rightarrow> jsval list web" where
  "js_array v = (case v of JArr xs \<Rightarrow> ret xs | _ \<Rightarrow> throw (JsError (TypeError ''not a function'')))"

definition fetchMarkets :: "string \<Rightarrow> market_data list web" where
  "fetchMarkets network = bindM (apiGet ''/markets'') (\<lambda>res.
     bindM (bindM (prop_of res ''items'') js_array) (mapM (\<lambda>item. js (normalizeMarketData network item))))"

text \<open>\<open>"k" in v\<close>\<close>

definition js_in :: "string \<Rightarrow> jsval \<Rightarrow> bool web" where
  "js_in k v = (case v of JObj kvs \<Rightarrow> ret (k \<in> fst ` set kvs) | JArr _ \<Rightarrow> ret (k = ''length'')
     | JBuffer _ \<Rightarrow> ret False | JDate _ \<Rightarrow> ret False
     | _ \<Rightarrow> throw (JsError (TypeError ''Cannot use in operator'')))"

text \<open>The entries an object spread copies; the rows of the services are objects.\<close>

definition spread_entries :: "jsval \<Rightarrow> (string \<times> jsval) list" where
  "spread_entries v = (case v of JObj kvs \<Rightarrow> kvs | _ \<Rightarrow> [])"

definition fetchMarket :: "string \<Rightarrow> string \<Rightarrow> market_data web" where
  "fetchMarket network i = bindM (apiGet (''/markets/'' @ i)) (\<lambda>res. bindM (js_in ''market'' res) (\<lambda>has.
     let market = js_field res ''market'' in
     if has \<and> js_truthy market then
       (let pool = (case js_field res ''liquidity'' of JArr (p # ps) \<Rightarrow> p | _ \<Rightarrow> JObj []) in
        js (normalizeMarketData network (JObj (spread (spread_entries market) (spread_entries pool)))))
     else js (normalizeMarketData network res)))"

definition fetchRawPortfolio :: "string \<Rightarrow> jsval web" where
  "fetchRawPortfolio address = apiGet (''/users/'' @ address @ ''/portfolio'')"

definition fetchPortfolio :: "string \<Rightarrow> string \<Rightarrow> user_position list web" where
  "fetchPortfolio network address =
    bindM (fetchRawPortfolio address) (\<lambda>portfolio. bindM (fetchMarkets network) (\<lambda>markets.
    bindM (bindM (prop_of portfolio ''positions'') js_array) (\<lambda>positions.
    bindM (bindM (prop_of portfolio ''lpPositions'') js_array) (\<lambda>lps.
    bindM (bindM (prop_of portfolio ''vaultState'') js_array) (\<lambda>vaults.
    js (normalizePortfolio network positions lps vaults markets))))))"

definition fetchMarketResolution :: "string \<Rightarrow> (string \<times> resolution_request option) web" where
  "fetchMarketResolution marketId = bindM (apiGet (''/markets/'' @ marketId @ ''/resolution'')) (\<lambda>res.
     bindM (js_in ''request'' res) (\<lambda>hasRequest. bindM (js_in ''market'' res) (\<lambda>hasMarket.
     if hasRequest \<or> hasMarket then
       (let marketRow = (if hasMarket \<and> js_truthy (js_field res ''market'') then js_field res ''market'' else JNull);
            i = optional marketRow ''market_id'' in
        ret (if js_nullish i then marketId else js_String i,
          normalizeResolutionRequest (if hasRequest then js_coalesce (js_field res ''request'') JNull else JNull)))
     else ret (js_String (js_field res ''marketId''), normalizeResolutionRequest (js_field res ''request'')))))"

definition fetchCouncilCases :: "council_case list web" where
  "fetchCouncilCases = bindM (apiGet ''/council/cases'') (\<lambda>res. bindM (js_array res) (\<lambda>items.
     ret (map normalizeCouncilCase items)))"

text \<open>\<open>encodeURIComponent\<close>, on texts whose characters are the code points below 256.\<close>

definition unreserved :: "char \<Rightarrow> bool" where
  "unreserved c = (let n = (of_char c :: nat) in is_digit c \<or> 65 \<le> n \<and> n \<le> 90 \<or> 97 \<le> n \<and> n \<le> 122
     \<or> c \<in> set ''-_.!~*()'' \<or> n = 39)"

definition percent :: "nat \<Rightarrow> string" where
  "percent n = CHR ''%'' # map upper_char [hex_digit (n div 16), hex_digit (n mod 16)]"

definition encode_char :: "char \<Rightarrow> string" where
  "encode_char c = (let n = (of_char c :: nat) in if unreserved c then [c]
     else if n < 128 then percent n else percent (192 + n div 64) @ percent (128 + n mod 64))"

definition encodeURIComponent :: "string \<Rightarrow> string" where
  "encodeURIComponent s = concat (map encode_char s)"

definition fetchWalletPermissions :: "string \<Rightarrow> wallet_permissions web" where
  "fetchWalletPermissions address = bindM (apiGet (''/authz/'' @ encodeURIComponent address)) (\<lambda>response.
     ret (normalizeWalletPermissions response))"

definition fetchGovernanceState :: "admin_state web" where
  "fetchGovernanceState = bindM (adminApiGet ''/admin/governance'') (\<lambda>response.
     bindM (prop_of response ''config'') (\<lambda>config.
     bindM (bindM (prop_of response ''lists'') js_array) (\<lambda>entries.
     bindM (bindM (prop_of response ''modules'') js_array) (\<lambda>modules.
     ret (normalizeAdminState config entries modules)))))"

definition fetchTimelockActions :: "timelock_action list web" where
  "fetchTimelockActions = bindM (adminApiGet ''/admin/timelock'') (\<lambda>response. bindM (js_array response) (\<lambda>items.
     ret (map normalizeTimelockAction items)))"

definition fetchProtocolStats :: "jsval web" where
  "fetchProtocolStats = adminApiGet ''/admin/stats''"

section \<open>Pushed updates\<close>

text \<open>The subscription calls its handler with the updates of the application's network; an update that does
  not parse, or whose parsed value has no properties, is dropped.\<close>

definition pushed :: "(string \<Rightarrow> jsval option) \<Rightarrow> string \<Rightarrow> string \<Rightarrow> jsval option" where
  "pushed parse network data = (case parse data of None \<Rightarrow> None
     | Some u \<Rightarrow> if js_nullish u then None else if js_field u ''network'' = JStr network then Some u else None)"

definition relevant_update :: "js_num option \<Rightarrow> jsval \<Rightarrow> bool" where
  "relevant_update marketId u = (case marketId of None \<Rightarrow> True
     | Some m \<Rightarrow> js_field u ''type'' = JStr ''governance'' \<or>
         js_field u ''type'' = JStr ''market'' \<and> js_field u ''marketId'' = JNum m \<and> m \<noteq> NaN)"

datatype live_event = Pushed string | Elapsed

text \<open>The state is whether a refresh is pending and the number of refreshes so far.\<close>

fun live_step :: "(string \<Rightarrow> jsval option) \<Rightarrow> string \<Rightarrow> js_num option \<Rightarrow> live_event \<Rightarrow> bool \<times> nat \<Rightarrow> bool \<times> nat" where
  "live_step parse network marketId (Pushed data) (waiting, n) = (case pushed parse network data of
     None \<Rightarrow> (waiting, n)
   | Some u \<Rightarrow> (waiting \<or> relevant_update marketId u, n))"
| "live_step parse network marketId Elapsed (waiting, n) = (if waiting then (False, Suc n) else (waiting, n))"

definition live_run :: "(string \<Rightarrow> jsval option) \<Rightarrow> string \<Rightarrow> js_num option \<Rightarrow> live_event list \<Rightarrow> bool \<times> nat \<Rightarrow> bool \<times> nat" where
  "live_run parse network marketId evs s = fold (live_step parse network marketId) evs s"

end
