(* ===== verification/Web_Trade.thy ===== *)
theory Web_Trade imports Web_Api begin

text \<open>
  The trading form of a market (\<open>dike-web/features/trading/TradeForm.tsx\<close>) as a machine over its React state:
  what the user enters, the balances and quotes that arrive later, the order that is placed.  A rendering
  recomputes what the form shows and restarts the effects whose dependencies changed; an answer arrives in one
  step, in which its reads are made.  Also the keys under which the forms keep answers, and the submission the
  forms share.
\<close>

section \<open>Answers kept under a key\<close>

text \<open>\<open>stored?.key === key ? stored : null\<close>\<close>

definition current :: "string \<Rightarrow> (string \<times> 'v) option \<Rightarrow> 'v option" where
  "current key stored = (case stored of None \<Rightarrow> None | Some (k, v) \<Rightarrow> if k = key then Some v else None)"

text \<open>A key that tells the inputs of interest apart: an answer shown for the current inputs was given to a
  request with exactly these inputs.\<close>

locale keyed =
  fixes key :: "'i \<Rightarrow> string" and proper :: "'i \<Rightarrow> bool"
  assumes key_inj: "proper i \<Longrightarrow> proper j \<Longrightarrow> key i = key j \<Longrightarrow> i = j"
begin

definition from_request :: "('i \<Rightarrow> 'v \<Rightarrow> bool) \<Rightarrow> (string \<times> 'v) option \<Rightarrow> bool" where
  "from_request P stored \<longleftrightarrow> (\<forall>k v. stored = Some (k, v) \<longrightarrow> (\<exists>i. proper i \<and> k = key i \<and> P i v))"

lemma current_request:
  assumes "from_request P stored" "proper i" "current (key i) stored = Some v"
  shows "P i v"
proof -
  from assms(3) have "stored = Some (key i, v)" by (auto simp: current_def split: option.splits if_splits)
  then obtain j where "proper j" "key i = key j" "P j v" using assms(1) by (auto simp: from_request_def)
  then show ?thesis using key_inj [OF assms(2)] by blast
qed

lemma from_request_simps: "from_request P None"
  "proper i \<Longrightarrow> P i v \<Longrightarrow> from_request P (Some (key i, v))"
  by (auto simp: from_request_def)

lemma from_request_mono: "from_request P stored \<Longrightarrow> (\<And>i v. P i v \<Longrightarrow> Q i v) \<Longrightarrow> from_request Q stored"
  by (fastforce simp: from_request_def)

end

definition no_colon :: "string \<Rightarrow> bool" where
  "no_colon s \<longleftrightarrow> CHR '':'' \<notin> set s"

lemma colon_split:
  assumes "no_colon a" "no_colon c" "a @ CHR '':'' # x = c @ CHR '':'' # y"
  shows "a = c \<and> x = y"
proof -
  have "takeWhile (\<lambda>z. z \<noteq> CHR '':'') (a @ CHR '':'' # x) = a"
    using assms(1) by (subst takeWhile_append2) (auto simp: no_colon_def)
  moreover have "takeWhile (\<lambda>z. z \<noteq> CHR '':'') (c @ CHR '':'' # y) = c"
    using assms(2) by (subst takeWhile_append2) (auto simp: no_colon_def)
  ultimately show ?thesis using assms(3) by simp
qed

section \<open>The submission of a form\<close>

definition DEFAULT_SLIPPAGE_BPS :: js_num where
  "DEFAULT_SLIPPAGE_BPS = Fin 50"

definition TRADE_DEADLINE_SECS :: js_num where
  "TRADE_DEADLINE_SECS = Fin 300"

text \<open>\<open>setSimulatedFee(formatFeeXlm(feeFromXdr(xdr)))\<close>\<close>

definition show_fee :: "string \<Rightarrow> unit web" where
  "show_fee xdr = bindM (feeFromXdr xdr) (\<lambda>fee. bindM (js (js_BigInt fee)) (\<lambda>n.
     perform (ShowFee (formatFeeXlm n)) (\<lambda>_ _. Inr ())))"

definition with_fee :: "string web \<Rightarrow> string web" where
  "with_fee build = bindM build (\<lambda>xdr. thenM (show_fee xdr) (ret xdr))"

text \<open>The executor's call of a form that shows the states: its builder, the wallet of the connected address,
  its method name.\<close>

definition submit_call :: "string option \<Rightarrow> string \<Rightarrow> string web \<Rightarrow> executed web" where
  "submit_call address meth build = executeTransaction (\<lambda>_. build) (\<lambda>xdr sp. sign address xdr sp (Some meth)) True"

definition idle :: tx_state where
  "idle = \<lparr>ts_status = ''idle'', ts_hash = JNull, ts_error = None\<rparr>"

definition success_state :: "executed \<Rightarrow> tx_state" where
  "success_state r = \<lparr>ts_status = ''success'', ts_hash = ex_hash r, ts_error = None\<rparr>"

definition failed_with :: "string \<Rightarrow> tx_state" where
  "failed_with m = \<lparr>ts_status = ''failed'', ts_hash = JNull, ts_error = Some m\<rparr>"

text \<open>The fee last shown by the operations since a browser state.\<close>

fun fee_of :: "web_op \<Rightarrow> string list" where
  "fee_of (ShowFee f) = [f]"
| "fee_of _ = []"

definition fee_shown :: "browser \<Rightarrow> browser \<Rightarrow> string option \<Rightarrow> string option" where
  "fee_shown b b' old = (case rev (concat (map fee_of (drop (length (trace b)) (trace b')))) of
     [] \<Rightarrow> old | f # _ \<Rightarrow> Some f)"

section \<open>\<open>parseFloat\<close>\<close>

definition signed_decimal :: "string \<Rightarrow> js_num" where
  "signed_decimal s = (case s of [] \<Rightarrow> NaN
     | c # cs \<Rightarrow> if c = CHR ''-'' then js_neg (unsigned_decimal cs) else if c = CHR ''+'' then unsigned_decimal cs
         else unsigned_decimal s)"

text \<open>The longest prefix that is a decimal literal.\<close>

definition js_parseFloat :: "string \<Rightarrow> js_num" where
  "js_parseFloat s = (let t = dropWhile is_space s in
     case find (\<lambda>p. signed_decimal p \<noteq> NaN) (map (\<lambda>n. take n t) (rev [0..<Suc (length t)])) of
       None \<Rightarrow> NaN | Some p \<Rightarrow> signed_decimal p)"

section \<open>The state of the form\<close>

datatype side = Buy | Sell
datatype token = YesToken | NoToken

fun side_text :: "side \<Rightarrow> string" where
  "side_text Buy = ''buy''" | "side_text Sell = ''sell''"

fun token_text :: "token \<Rightarrow> string" where
  "token_text YesToken = ''yes''" | "token_text NoToken = ''no''"

text \<open>What the effects and the handlers of one rendering see of the inputs.\<close>

record trade_input =
  ti_address :: "string option"
  ti_pool :: string
  ti_side :: side
  ti_token :: token
  ti_amount :: string

definition quoteKey :: "trade_input \<Rightarrow> string" where
  "quoteKey i = or_else (ti_address i) [] @ '':'' @ ti_pool i @ '':'' @ side_text (ti_side i) @ '':''
     @ token_text (ti_token i) @ '':'' @ ti_amount i"

record trade_form =
  tf_input :: trade_input
  tf_quote :: "(string \<times> trade_quote) option"
  tf_fee :: "string option"
  tf_quoting :: bool
  tf_tx :: tx_state
  tf_balances :: "(string \<times> string \<times> string) option"
  tf_balancesError :: "string option"
  tf_retry :: nat
  tf_loading :: "string option"
  tf_timer :: "trade_input option"
  tf_requests :: "trade_input list"
  tf_order :: "(trade_input \<times> trade_quote) option"
  tf_alive :: bool

text \<open>\<open>quote\<close>, \<open>balances\<close> and \<open>sellBalance\<close> of a rendering; a balance that is no integer makes it throw.\<close>

definition shown_quote :: "trade_form \<Rightarrow> trade_quote option" where
  "shown_quote s = current (quoteKey (tf_input s)) (tf_quote s)"

definition shown_balances :: "trade_form \<Rightarrow> (string \<times> string) option" where
  "shown_balances s = (case tf_balances s of None \<Rightarrow> None
     | Some (a, bs) \<Rightarrow> if ti_address (tf_input s) = Some a then Some bs else None)"

definition of_token :: "token \<Rightarrow> string \<times> string \<Rightarrow> string" where
  "of_token t bs = (case t of YesToken \<Rightarrow> fst bs | NoToken \<Rightarrow> snd bs)"

definition sellBalance :: "trade_form \<Rightarrow> exn + int option" where
  "sellBalance s = (case shown_balances s of None \<Rightarrow> Inr None
     | Some bs \<Rightarrow> (case js_BigInt (of_token (ti_token (tf_input s)) bs) of Inl e \<Rightarrow> Inl e | Inr n \<Rightarrow> Inr (Some n)))"

record trade_view =
  tv_balancesUnknown :: bool
  tv_noPosition :: bool
  tv_exceedsPosition :: bool

definition trade_view_of :: "trade_form \<Rightarrow> exn + trade_view" where
  "trade_view_of s = (case sellBalance s of Inl e \<Rightarrow> Inl e
   | Inr held \<Rightarrow> (let selling = ti_side (tf_input s) = Sell; amount = ti_amount (tf_input s);
         unknown = (selling \<and> tf_balancesError s = ti_address (tf_input s) \<and> held = None) in
       Inr \<lparr>tv_balancesUnknown = unknown,
         tv_noPosition = (selling \<and> \<not> unknown \<and> (held = None \<or> held = Some 0)),
         tv_exceedsPosition = (selling \<and> amount \<noteq> [] \<and> (case held of None \<Rightarrow> False
           | Some n \<Rightarrow> (case parseUsdc amount of Inl e \<Rightarrow> False | Inr raw \<Rightarrow> n < raw)))\<rparr>))"

definition isExecuting :: "trade_form \<Rightarrow> bool" where
  "isExecuting s \<longleftrightarrow> tf_order s \<noteq> None \<or> tf_quoting s"

definition canTrade :: "trade_form \<Rightarrow> trade_view \<Rightarrow> bool" where
  "canTrade s v \<longleftrightarrow> or_else (ti_address (tf_input s)) [] \<noteq> [] \<and> shown_quote s \<noteq> None \<and> ti_amount (tf_input s) \<noteq> []
     \<and> \<not> isExecuting s \<and> \<not> tv_noPosition v \<and> \<not> tv_exceedsPosition v \<and> \<not> tv_balancesUnknown v"

section \<open>Effects\<close>

definition quote_due :: "trade_form \<Rightarrow> trade_view \<Rightarrow> bool" where
  "quote_due s v \<longleftrightarrow> (let i = tf_input s in or_else (ti_address i) [] \<noteq> [] \<and> ti_amount i \<noteq> []
     \<and> \<not> js_le (js_parseFloat (ti_amount i)) (Fin 0)
     \<and> \<not> (ti_side i = Sell \<and> (tv_noPosition v \<or> tv_exceedsPosition v)))"

definition quote_deps :: "trade_form \<Rightarrow> trade_view \<Rightarrow> trade_input \<times> bool \<times> bool" where
  "quote_deps s v = (tf_input s, tv_noPosition v, tv_exceedsPosition v)"

definition balance_deps :: "trade_form \<Rightarrow> string option \<times> string \<times> nat" where
  "balance_deps s = (ti_address (tf_input s), ts_status (tf_tx s), tf_retry s)"

definition truthy_address :: "string option \<Rightarrow> string option" where
  "truthy_address a = (if or_else a [] = [] then None else a)"

definition rerender :: "trade_form \<Rightarrow> trade_form \<Rightarrow> trade_form" where
  "rerender old s = (case trade_view_of s of Inl e \<Rightarrow> s\<lparr>tf_alive := False\<rparr>
   | Inr v \<Rightarrow> (let same_deps = (case trade_view_of old of Inl _ \<Rightarrow> False | Inr u \<Rightarrow> quote_deps s v = quote_deps old u) in
       s\<lparr>tf_loading := (if balance_deps s = balance_deps old then tf_loading s
            else truthy_address (ti_address (tf_input s))),
         tf_timer := (if same_deps then tf_timer s else if quote_due s v then Some (tf_input s) else None)\<rparr>))"

section \<open>The programs of the form\<close>

definition position_text :: "jsval list \<Rightarrow> string \<Rightarrow> string \<Rightarrow> string" where
  "position_text positions marketId oc = js_String (js_coalesce
     (optional (or_else (find (\<lambda>p. js_String (js_field p ''market_id'') = marketId \<and> js_field p ''outcome'' = JStr oc)
       positions) JUndefined) ''balance'') (JStr ''0''))"

definition load_balances :: "string \<Rightarrow> string \<Rightarrow> (string \<times> string) web" where
  "load_balances marketId address = bindM (fetchRawPortfolio address) (\<lambda>portfolio.
     bindM (bindM (prop_of portfolio ''positions'') js_array) (\<lambda>positions.
     ret (position_text positions marketId ''Yes'', position_text positions marketId ''No'')))"

definition quote_program :: "trade_input \<Rightarrow> trade_quote web" where
  "quote_program i = bindM (js (parseUsdc (ti_amount i))) (\<lambda>n.
     let rawIn = int_str n; address = or_else (ti_address i) []; poolId = ti_pool i in
     if ti_side i = Buy then
       (if ti_token i = YesToken then ammQuoteBuyYes address poolId rawIn else ammQuoteBuyNo address poolId rawIn)
     else (if ti_token i = YesToken then ammQuoteSellYes address poolId rawIn else ammQuoteSellNo address poolId rawIn))"

definition trade_builder :: "trade_input \<Rightarrow> string \<Rightarrow> string \<Rightarrow> string web" where
  "trade_builder i rawIn minOut = (let address = or_else (ti_address i) []; poolId = ti_pool i in
     if ti_side i = Buy then
       (if ti_token i = YesToken then buildAmmBuyYes address poolId rawIn minOut TRADE_DEADLINE_SECS
        else buildAmmBuyNo address poolId rawIn minOut TRADE_DEADLINE_SECS)
     else (if ti_token i = YesToken then buildAmmSellYes address poolId rawIn minOut TRADE_DEADLINE_SECS
       else buildAmmSellNo address poolId rawIn minOut TRADE_DEADLINE_SECS))"

definition least_out :: "trade_quote \<Rightarrow> int web" where
  "least_out q = bindM (js (js_BigInt (tq_amountOut q))) (\<lambda>out. js (applySlippage out DEFAULT_SLIPPAGE_BPS))"

definition trade_program :: "trade_input \<Rightarrow> trade_quote \<Rightarrow> executed web" where
  "trade_program i q = bindM (js (parseUsdc (ti_amount i))) (\<lambda>n. bindM (least_out q) (\<lambda>minOut.
     submit_call (ti_address i) (side_text (ti_side i) @ ''_'' @ token_text (ti_token i))
       (with_fee (trade_builder i (int_str n) (int_str minOut)))))"

section \<open>Steps\<close>

datatype trade_event = SetSide side | SetToken token | TypeAmount string | ClickMax | WalletIs "string option"
  | ClickRetry | BalancesArrive | TimerFires | QuoteArrives nat | ClickTrade | OrderReports tx_state | OrderEnds

record trade_world =
  tw_form :: trade_form
  tw_browser :: browser

definition drop_at :: "nat \<Rightarrow> 'a list \<Rightarrow> 'a list" where
  "drop_at n xs = take n xs @ drop (Suc n) xs"

text \<open>What the handler or the answer of an event does to the state, before the form renders again.\<close>

fun trade_effect :: "string \<Rightarrow> trade_event \<Rightarrow> trade_view \<Rightarrow> trade_world \<Rightarrow> trade_world" where
  "trade_effect marketId (SetSide d) v w = w\<lparr>tw_form := (tw_form w)\<lparr>tf_input := (tf_input (tw_form w))\<lparr>ti_side := d\<rparr>, tf_quote := None\<rparr>\<rparr>"
| "trade_effect marketId (SetToken t) v w = w\<lparr>tw_form := (tw_form w)\<lparr>tf_input := (tf_input (tw_form w))\<lparr>ti_token := t\<rparr>, tf_quote := None\<rparr>\<rparr>"
| "trade_effect marketId (TypeAmount x) v w = (if tv_noPosition v then w
     else w\<lparr>tw_form := (tw_form w)\<lparr>tf_input := (tf_input (tw_form w))\<lparr>ti_amount := x\<rparr>\<rparr>\<rparr>)"
| "trade_effect marketId ClickMax v w = (let s = tw_form w in case (shown_balances s, sellBalance s) of
     (Some bs, Inr (Some n)) \<Rightarrow> if ti_side (tf_input s) = Sell \<and> of_token (ti_token (tf_input s)) bs \<noteq> ''0''
       then w\<lparr>tw_form := s\<lparr>tf_input := (tf_input s)\<lparr>ti_amount := formatUsdc n\<rparr>\<rparr>\<rparr> else w
   | _ \<Rightarrow> w)"
| "trade_effect marketId (WalletIs a) v w = w\<lparr>tw_form := (tw_form w)\<lparr>tf_input := (tf_input (tw_form w))\<lparr>ti_address := a\<rparr>\<rparr>\<rparr>"
| "trade_effect marketId ClickRetry v w = (if tv_balancesUnknown v
     then w\<lparr>tw_form := (tw_form w)\<lparr>tf_retry := Suc (tf_retry (tw_form w))\<rparr>\<rparr> else w)"
| "trade_effect marketId BalancesArrive v w = (let s = tw_form w in case tf_loading s of None \<Rightarrow> w
   | Some a \<Rightarrow> (case load_balances marketId a (tw_browser w) of
       (Inr bs, b) \<Rightarrow> \<lparr>tw_form = s\<lparr>tf_balances := Some (a, bs), tf_balancesError := None, tf_loading := None\<rparr>, tw_browser = b\<rparr>
     | (Inl e, b) \<Rightarrow> w\<lparr>tw_form := s\<lparr>tf_balancesError := Some a, tf_loading := None\<rparr>, tw_browser := b\<rparr>))"
| "trade_effect marketId TimerFires v w = (let s = tw_form w in case tf_timer s of None \<Rightarrow> w
   | Some i \<Rightarrow> w\<lparr>tw_form := s\<lparr>tf_timer := None, tf_quoting := True, tf_requests := tf_requests s @ [i]\<rparr>\<rparr>)"
| "trade_effect marketId (QuoteArrives n) v w = (let s = tw_form w in if n < length (tf_requests s) then
     (let i = tf_requests s ! n; rest = drop_at n (tf_requests s) in
      case quote_program i (tw_browser w) of
        (Inr q, b) \<Rightarrow> \<lparr>tw_form = s\<lparr>tf_quote := Some (quoteKey i, q), tf_quoting := False, tf_requests := rest\<rparr>,
          tw_browser = b\<rparr>
      | (Inl e, b) \<Rightarrow> w\<lparr>tw_form := s\<lparr>tf_quote := None, tf_fee := None, tf_tx := failed_with (parseDikeError b e),
          tf_quoting := False, tf_requests := rest\<rparr>, tw_browser := b\<rparr>)
     else w)"
| "trade_effect marketId ClickTrade v w = (let s = tw_form w in case shown_quote s of None \<Rightarrow> w
   | Some q \<Rightarrow> if canTrade s v then w\<lparr>tw_form := s\<lparr>tf_order := Some (tf_input s, q)\<rparr>\<rparr> else w)"
| "trade_effect marketId (OrderReports t) v w = (if tf_order (tw_form w) = None then w
     else w\<lparr>tw_form := (tw_form w)\<lparr>tf_tx := t\<rparr>\<rparr>)"
| "trade_effect marketId OrderEnds v w = (let s = tw_form w in case tf_order s of None \<Rightarrow> w
   | Some (i, q) \<Rightarrow> (case trade_program i q (tw_browser w) of
       (Inr r, b) \<Rightarrow> w\<lparr>tw_form := s\<lparr>tf_order := None, tf_fee := fee_shown (tw_browser w) b (tf_fee s),
         tf_tx := success_state r, tf_input := (tf_input s)\<lparr>ti_amount := []\<rparr>, tf_quote := None\<rparr>, tw_browser := b\<rparr>
     | (Inl e, b) \<Rightarrow> w\<lparr>tw_form := s\<lparr>tf_order := None, tf_fee := fee_shown (tw_browser w) b (tf_fee s),
         tf_tx := failed_with (parseDikeError b e)\<rparr>, tw_browser := b\<rparr>))"

definition trade_step :: "string \<Rightarrow> trade_event \<Rightarrow> trade_world \<Rightarrow> trade_world" where
  "trade_step marketId ev w = (case trade_view_of (tw_form w) of Inl e \<Rightarrow> w
   | Inr v \<Rightarrow> if tf_alive (tw_form w)
       then (let w' = trade_effect marketId ev v w in w'\<lparr>tw_form := rerender (tw_form w) (tw_form w')\<rparr>) else w)"

definition trade_run :: "string \<Rightarrow> trade_event list \<Rightarrow> trade_world \<Rightarrow> trade_world" where
  "trade_run marketId evs w = fold (trade_step marketId) evs w"

definition trade_mounted :: "string option \<Rightarrow> string \<Rightarrow> browser \<Rightarrow> trade_world" where
  "trade_mounted address pool b = \<lparr>tw_form = \<lparr>tf_input = \<lparr>ti_address = address, ti_pool = pool, ti_side = Buy,
       ti_token = YesToken, ti_amount = []\<rparr>, tf_quote = None, tf_fee = None, tf_quoting = False, tf_tx = idle,
     tf_balances = None, tf_balancesError = None, tf_retry = 0, tf_loading = truthy_address address, tf_timer = None,
     tf_requests = [], tf_order = None, tf_alive = True\<rparr>, tw_browser = b\<rparr>"

section \<open>Where an order comes from\<close>

text \<open>\<open>quoted_by\<close>: some event of the history was the answer to a request with exactly the inputs \<open>i\<close>, and its
  reads, made then, returned \<open>q\<close>.  \<open>held_by\<close>: some event was the answer to the balances of \<open>a\<close>, returning \<open>bs\<close>.\<close>

definition quoted_by :: "string \<Rightarrow> trade_world \<Rightarrow> trade_event list \<Rightarrow> trade_input \<Rightarrow> trade_quote \<Rightarrow> bool" where
  "quoted_by m w0 evs i q \<longleftrightarrow> (\<exists>pre n post. evs = pre @ QuoteArrives n # post
     \<and> n < length (tf_requests (tw_form (trade_run m pre w0))) \<and> tf_requests (tw_form (trade_run m pre w0)) ! n = i
     \<and> fst (quote_program i (tw_browser (trade_run m pre w0))) = Inr q)"

definition held_by :: "string \<Rightarrow> trade_world \<Rightarrow> trade_event list \<Rightarrow> string \<Rightarrow> string \<times> string \<Rightarrow> bool" where
  "held_by m w0 evs a bs \<longleftrightarrow> (\<exists>pre post. evs = pre @ BalancesArrive # post
     \<and> tf_loading (tw_form (trade_run m pre w0)) = Some a
     \<and> fst (load_balances m a (tw_browser (trade_run m pre w0))) = Inr bs)"

text \<open>A sale stays within the balance that was read for the seller and the token.\<close>

definition sale_backed :: "string \<Rightarrow> trade_world \<Rightarrow> trade_event list \<Rightarrow> trade_input \<Rightarrow> bool" where
  "sale_backed m w0 evs i \<longleftrightarrow> ti_side i = Buy \<or> (\<exists>a bs n. ti_address i = Some a \<and> held_by m w0 evs a bs
     \<and> js_BigInt (of_token (ti_token i) bs) = Inr n \<and> n \<noteq> 0
     \<and> (case parseUsdc (ti_amount i) of Inl e \<Rightarrow> True | Inr raw \<Rightarrow> raw \<le> n))"

lemma trade_run_snoc [simp]: "trade_run m (evs @ [ev]) w = trade_step m ev (trade_run m evs w)"
  by (simp add: trade_run_def)

lemma quoted_by_snoc: "quoted_by m w0 evs i q \<Longrightarrow> quoted_by m w0 (evs @ [ev]) i q"
  unfolding quoted_by_def by (metis append.assoc append_Cons)

lemma held_by_snoc: "held_by m w0 evs a bs \<Longrightarrow> held_by m w0 (evs @ [ev]) a bs"
  unfolding held_by_def by (metis append.assoc append_Cons)

lemma sale_backed_snoc: "sale_backed m w0 evs i \<Longrightarrow> sale_backed m w0 (evs @ [ev]) i"
  unfolding sale_backed_def using held_by_snoc by blast

section \<open>The keys of the quotes\<close>

definition plain :: "trade_input \<Rightarrow> bool" where
  "plain i \<longleftrightarrow> no_colon (or_else (ti_address i) []) \<and> no_colon (ti_pool i)"

definition askable :: "trade_input \<Rightarrow> bool" where
  "askable i \<longleftrightarrow> plain i \<and> or_else (ti_address i) [] \<noteq> []"

lemma texts_no_colon: "no_colon (side_text d)" "no_colon (token_text t)"
  by (cases d; cases t; simp add: no_colon_def)+

lemma side_text_eq [simp]: "side_text d = side_text d' \<longleftrightarrow> d = d'"
  by (cases d; cases d') simp_all

lemma token_text_eq [simp]: "token_text t = token_text t' \<longleftrightarrow> t = t'"
  by (cases t; cases t') simp_all

interpretation quotes: keyed quoteKey askable
proof
  fix i j :: trade_input
  assume ok: "askable i" "askable j" and "quoteKey i = quoteKey j"
  then have "or_else (ti_address i) [] @ CHR '':'' # ti_pool i @ CHR '':'' # side_text (ti_side i) @ CHR '':''
      # token_text (ti_token i) @ CHR '':'' # ti_amount i
    = or_else (ti_address j) [] @ CHR '':'' # ti_pool j @ CHR '':'' # side_text (ti_side j) @ CHR '':''
      # token_text (ti_token j) @ CHR '':'' # ti_amount j" by (simp add: quoteKey_def)
  note parts = this
  have addr: "or_else (ti_address i) [] = or_else (ti_address j) []" and r1: "ti_pool i @ CHR '':'' # side_text (ti_side i) @ CHR '':''
      # token_text (ti_token i) @ CHR '':'' # ti_amount i = ti_pool j @ CHR '':'' # side_text (ti_side j) @ CHR '':''
      # token_text (ti_token j) @ CHR '':'' # ti_amount j"
    using colon_split [OF _ _ parts] ok by (simp_all add: askable_def plain_def)
  have pool: "ti_pool i = ti_pool j" and r2: "side_text (ti_side i) @ CHR '':'' # token_text (ti_token i) @ CHR '':'' # ti_amount i
      = side_text (ti_side j) @ CHR '':'' # token_text (ti_token j) @ CHR '':'' # ti_amount j"
    using colon_split [OF _ _ r1] ok by (simp_all add: askable_def plain_def)
  note r3 = colon_split [OF texts_no_colon(1) texts_no_colon(1) r2]
  note r4 = colon_split [OF texts_no_colon(2) texts_no_colon(2) conjunct2 [OF r3]]
  note eqs = addr pool conjunct1 [OF r3] conjunct1 [OF r4] conjunct2 [OF r4]
  have "ti_address i = ti_address j" using addr ok by (cases "ti_address i"; cases "ti_address j") (auto simp: askable_def)
  with eqs show "i = j" by (simp add: side_text_eq token_text_eq)
qed

section \<open>The invariant\<close>

definition trade_inv :: "string \<Rightarrow> trade_world \<Rightarrow> trade_event list \<Rightarrow> trade_form \<Rightarrow> bool" where
  "trade_inv m w0 evs s \<longleftrightarrow> plain (tf_input s)
     \<and> (\<forall>i. tf_timer s = Some i \<longrightarrow> askable i) \<and> (\<forall>i \<in> set (tf_requests s). askable i)
     \<and> quotes.from_request (quoted_by m w0 evs) (tf_quote s)
     \<and> (\<forall>a bs. tf_balances s = Some (a, bs) \<longrightarrow> held_by m w0 evs a bs)
     \<and> (\<forall>i q. tf_order s = Some (i, q) \<longrightarrow> quoted_by m w0 evs i q \<and> sale_backed m w0 evs i)"

lemma trade_inv_snoc:
  assumes "trade_inv m w0 evs s"
  shows "trade_inv m w0 (evs @ [ev]) s"
proof -
  have quote: "quotes.from_request (quoted_by m w0 (evs @ [ev])) (tf_quote s)"
    using assms quoted_by_snoc [of m w0 evs _ _ ev]
    by (intro quotes.from_request_mono [where P = "quoted_by m w0 evs" and Q = "quoted_by m w0 (evs @ [ev])"])
      (simp_all add: trade_inv_def)
  have order: "quoted_by m w0 (evs @ [ev]) i q \<and> sale_backed m w0 (evs @ [ev]) i" if "tf_order s = Some (i, q)" for i q
  proof -
    have "quoted_by m w0 evs i q \<and> sale_backed m w0 evs i" using assms that by (simp add: trade_inv_def)
    then show ?thesis by (simp add: quoted_by_snoc sale_backed_snoc)
  qed
  have balances: "held_by m w0 (evs @ [ev]) a bs" if "tf_balances s = Some (a, bs)" for a bs
  proof -
    have "held_by m w0 evs a bs" using assms that by (cases bs) (simp add: trade_inv_def)
    then show ?thesis by (rule held_by_snoc)
  qed
  show ?thesis unfolding trade_inv_def
    by (intro conjI allI impI quote order balances) (use assms in \<open>simp_all add: trade_inv_def\<close>)
qed

lemma rerender_inv: "trade_inv m w0 evs s \<Longrightarrow> trade_inv m w0 evs (rerender old s)"
  by (auto simp: trade_inv_def rerender_def Let_def quote_due_def askable_def split: sum.split)

lemma order_backed:
  assumes inv: "trade_inv m w0 evs s" and view: "trade_view_of s = Inr v" and can: "canTrade s v"
    and quote: "shown_quote s = Some q"
  shows "quoted_by m w0 evs (tf_input s) q \<and> sale_backed m w0 evs (tf_input s)"
proof
  have ask: "askable (tf_input s)" using inv can by (simp add: trade_inv_def askable_def canTrade_def)
  show "quoted_by m w0 evs (tf_input s) q"
    using quotes.current_request [OF _ ask, of "quoted_by m w0 evs" "tf_quote s" q] inv quote
    by (simp add: trade_inv_def shown_quote_def)
  show "sale_backed m w0 evs (tf_input s)"
  proof (cases "ti_side (tf_input s)")
    case Sell
    obtain held where held: "sellBalance s = Inr held" using view by (cases "sellBalance s") (simp_all add: trade_view_of_def)
    then obtain n where n: "held = Some n" "n \<noteq> 0" using view can Sell
      by (cases held) (auto simp: trade_view_of_def canTrade_def)
    then obtain a bs where bs: "tf_balances s = Some (a, bs)" "ti_address (tf_input s) = Some a"
      "js_BigInt (of_token (ti_token (tf_input s)) bs) = Inr n"
      using held by (auto simp: sellBalance_def shown_balances_def split: option.splits sum.splits if_splits)
    have "case parseUsdc (ti_amount (tf_input s)) of Inl e \<Rightarrow> True | Inr raw \<Rightarrow> raw \<le> n"
      using view can Sell held n by (auto simp: trade_view_of_def canTrade_def split: sum.split)
    moreover have "held_by m w0 evs a bs" using inv bs(1) by (cases bs) (simp add: trade_inv_def)
    ultimately show ?thesis using bs n unfolding sale_backed_def
      by (intro disjI2 exI [of _ a] exI [of _ bs] exI [of _ n]) simp
  qed (simp add: sale_backed_def)
qed

lemma plain_simps [simp]: "plain (i\<lparr>ti_side := d\<rparr>) = plain i" "plain (i\<lparr>ti_token := t\<rparr>) = plain i"
  "plain (i\<lparr>ti_amount := x\<rparr>) = plain i"
  by (simp_all add: plain_def)

lemma set_drop_at: "set (drop_at n xs) \<subseteq> set xs"
  by (auto simp: drop_at_def dest: in_set_takeD in_set_dropD)

lemma quoted_now:
  assumes "n < length (tf_requests (tw_form (trade_run m evs w0)))"
    "fst (quote_program (tf_requests (tw_form (trade_run m evs w0)) ! n) (tw_browser (trade_run m evs w0))) = Inr q"
  shows "quoted_by m w0 (evs @ [QuoteArrives n]) (tf_requests (tw_form (trade_run m evs w0)) ! n) q"
  using assms unfolding quoted_by_def by blast

lemma held_now:
  assumes "tf_loading (tw_form (trade_run m evs w0)) = Some a"
    "fst (load_balances m a (tw_browser (trade_run m evs w0))) = Inr bs"
  shows "held_by m w0 (evs @ [BalancesArrive]) a bs"
  using assms unfolding held_by_def by blast

text \<open>What each kind of event keeps of the invariant; \<open>w\<close> is the world the history leads to.\<close>

lemma effect_inv:
  assumes w: "w = trade_run m evs w0" and inv: "trade_inv m w0 evs (tw_form w)" and view: "trade_view_of (tw_form w) = Inr v"
    and wallet: "\<And>a. ev = WalletIs (Some a) \<Longrightarrow> no_colon a"
  shows "trade_inv m w0 (evs @ [ev]) (tw_form (trade_effect m ev v w))"
proof -
  have base: "trade_inv m w0 (evs @ [ev]) (tw_form w)" by (rule trade_inv_snoc [OF inv])
  show ?thesis
  proof (cases ev)
    case (WalletIs a)
    then show ?thesis using base wallet by (cases a) (auto simp: trade_inv_def plain_def no_colon_def)
  next
    case BalancesArrive
    show ?thesis
    proof (cases "tf_loading (tw_form w)")
      case (Some a)
      obtain r b where run: "load_balances m a (tw_browser w) = (r, b)" by (cases "load_balances m a (tw_browser w)")
      show ?thesis
      proof (cases r)
        case (Inr bs)
        have "held_by m w0 (evs @ [ev]) a bs" using held_now [of m evs w0 a bs] Some run Inr w BalancesArrive by simp
        then show ?thesis using base Some run Inr BalancesArrive by (cases bs) (simp add: trade_inv_def)
      qed (use base Some run BalancesArrive in \<open>simp add: trade_inv_def\<close>)
    qed (use base BalancesArrive in simp)
  next
    case (QuoteArrives n)
    show ?thesis
    proof (cases "n < length (tf_requests (tw_form w))")
      case True
      let ?i = "tf_requests (tw_form w) ! n"
      have ask: "askable ?i" using inv True by (simp add: trade_inv_def)
      obtain r b where run: "quote_program ?i (tw_browser w) = (r, b)" by (cases "quote_program ?i (tw_browser w)")
      have rest: "\<forall>i \<in> set (drop_at n (tf_requests (tw_form w))). askable i"
        using inv set_drop_at [of n "tf_requests (tw_form w)"] by (auto simp: trade_inv_def)
      show ?thesis
      proof (cases r)
        case (Inr q)
        have "quoted_by m w0 (evs @ [ev]) ?i q" using quoted_now [of n m evs w0 q] True run Inr w QuoteArrives by simp
        then show ?thesis using base True run Inr QuoteArrives rest quotes.from_request_simps(2) [OF ask, of "quoted_by m w0 (evs @ [ev])" q]
          by (simp add: trade_inv_def Let_def)
      qed (use base True run QuoteArrives rest in \<open>simp add: trade_inv_def Let_def quotes.from_request_simps\<close>)
    qed (use base QuoteArrives in simp)
  next
    case ClickTrade
    show ?thesis
    proof (cases "\<exists>q. shown_quote (tw_form w) = Some q \<and> canTrade (tw_form w) v")
      case True
      then obtain q where "shown_quote (tw_form w) = Some q" "canTrade (tw_form w) v" by blast
      with order_backed [OF base view] base ClickTrade show ?thesis by (simp add: trade_inv_def Let_def)
    qed (use base ClickTrade in \<open>auto simp: Let_def split: option.split\<close>)
  next
    case OrderEnds
    then show ?thesis using base
      by (auto simp: Let_def trade_inv_def quotes.from_request_simps split: option.split prod.split sum.split)
  qed (use base in \<open>auto simp: Let_def trade_inv_def quotes.from_request_simps split: option.split sum.split\<close>)
qed

lemma trade_run_inv:
  assumes "no_colon pool" "\<And>a. address = Some a \<or> WalletIs (Some a) \<in> set evs \<Longrightarrow> no_colon a"
  shows "trade_inv m (trade_mounted address pool b) evs (tw_form (trade_run m evs (trade_mounted address pool b)))"
  using assms(2)
proof (induction evs rule: rev_induct)
  case Nil
  have "plain (tf_input (tw_form (trade_mounted address pool b)))" using assms(1) Nil
    by (cases address) (auto simp: trade_mounted_def plain_def no_colon_def)
  then show ?case by (simp add: trade_run_def trade_inv_def trade_mounted_def quotes.from_request_simps)
next
  case (snoc ev evs)
  let ?start = "trade_mounted address pool b"
  let ?w = "trade_run m evs ?start"
  have IH: "trade_inv m ?start evs (tw_form ?w)" by (rule snoc.IH) (use snoc.prems in auto)
  have wallet: "no_colon a" if "ev = WalletIs (Some a)" for a using snoc.prems that by simp
  show ?case
    using trade_inv_snoc [OF IH, of ev] rerender_inv [OF effect_inv [OF refl IH _ wallet]]
    by (simp add: trade_step_def Let_def split: sum.split)
qed

text \<open>C5: an order in flight was placed on a quote that the reads for exactly its inputs returned (the same address,
  pool, side, token and amount), and a sale on top of that does not exceed a balance read for the seller and the
  token.  Answers may arrive in any order and inputs may change at any time.\<close>

lemma trade_order_backed:
  assumes "no_colon pool" "\<And>a. address = Some a \<or> WalletIs (Some a) \<in> set evs \<Longrightarrow> no_colon a"
    and "tf_order (tw_form (trade_run m evs (trade_mounted address pool b))) = Some (i, q)"
  shows "quoted_by m (trade_mounted address pool b) evs i q \<and> sale_backed m (trade_mounted address pool b) evs i"
  using trade_run_inv [of pool address evs m b, OF assms(1,2)] assms(3) by (simp add: trade_inv_def)

text \<open>A node that answers every read of the market maker with the same quote and pool.\<close>

definition quoting_browser :: browser where
  "quoting_browser = (demo_browser JNull)\<lparr>w_contracts := [(''amm'', ''CCRZ'')],
     w_scValToNative := (\<lambda>_. Inr (JObj [(''amount_out'', JStr ''900''), (''yes_reserve'', JStr ''0''), (''no_reserve'', JStr ''0'')]))\<rparr>"

definition buy_one :: trade_input where
  "buy_one = \<lparr>ti_address = Some ''GABC'', ti_pool = ''7'', ti_side = Buy, ti_token = YesToken, ti_amount = ''1''\<rparr>"

lemma one_digit: "parseUsdc ''1'' = Inr 10000000" "js_parseFloat ''1'' = Fin 1" "js_BigInt ''7'' = Inr 7"
  "js_BigInt ''0'' = Inr 0"
proof -
  have d: "all_digits ''1''" "all_digits ''7''" "all_digits ''0''" "all_digits ''0000000''"
    by (simp_all add: all_digits_def is_digit_def)
  show "js_BigInt ''7'' = Inr 7" "js_BigInt ''0'' = Inr 0" using d
    by (simp_all add: js_BigInt_digits digits_val_def digit_val_def)
  have "js_BigInt (replicate 7 (CHR ''0'')) = Inr 0"
    by (simp add: js_BigInt_digits all_digits_def list_all_iff is_digit_def)
  then show "parseUsdc ''1'' = Inr 10000000" using d
    by (simp add: parseUsdc_def before_point_def after_point_def pad_right_def js_BigInt_digits digits_val_def digit_val_def)
  have "unsigned_decimal ''1'' = Fin 1" using d num_of_int_exact [of 1]
    by (simp add: unsigned_decimal_digits digits_val_def digit_val_def)
  then show "js_parseFloat ''1'' = Fin 1"
    by (simp add: js_parseFloat_def is_space_def signed_decimal_def)
qed

lemma buy_one_quoted: "\<exists>q b. quote_program buy_one quoting_browser = (Inr q, b)"
  by (simp add: quote_program_def buy_one_def one_digit js_def ammQuoteBuyYes_def readQuote_def read_call_def getContractId_def
      id_val_def amt_def toU64_def toI128_def nativeToScVal_def library_def simulateRead_def READ_RETRY_DELAYS_MS_def
      simulateReadOnce_def simulate_call_app Let_def io_simps quoting_browser_def demo_browser_def ammGetPool_def fromScVal_def
      string_prop_def number_prop_def prop_of_def js_prop_def js_field_def priceImpactFromQuote_def impliedYesBps_def
      after_ops_def js_nullish_def js_coalesce_def)

lemma buy_one_simps [simp]: "ti_address buy_one = Some ''GABC''" "ti_pool buy_one = ''7''" "ti_side buy_one = Buy"
  "ti_token buy_one = YesToken" "ti_amount buy_one = ''1''"
  by (simp_all add: buy_one_def)

text \<open>The form with the inputs \<open>buy_one\<close>.\<close>

definition buying :: "trade_input option \<Rightarrow> trade_input list \<Rightarrow> (string \<times> trade_quote) option \<Rightarrow>
    (trade_input \<times> trade_quote) option \<Rightarrow> trade_form" where
  "buying timer requests kept_quote order = (tw_form (trade_mounted (Some ''GABC'') ''7'' quoting_browser))
     \<lparr>tf_input := buy_one, tf_timer := timer, tf_requests := requests, tf_quoting := requests \<noteq> [], tf_quote := kept_quote,
      tf_order := order\<rparr>"

lemma buying_simps [simp]:
  "tf_input (buying t r k c) = buy_one" "tf_timer (buying t r k c) = t" "tf_requests (buying t r k c) = r"
  "tf_quote (buying t r k c) = k" "tf_order (buying t r k c) = c" "tf_quoting (buying t r k c) = (r \<noteq> [])"
  "tf_balances (buying t r k c) = None" "tf_alive (buying t r k c)" "tf_tx (buying t r k c) = idle"
  "tf_retry (buying t r k c) = 0"
  by (simp_all add: buying_def trade_mounted_def)

lemma buying_view [simp]: "trade_view_of (buying t r k c) =
    Inr \<lparr>tv_balancesUnknown = False, tv_noPosition = False, tv_exceedsPosition = False\<rparr>"
  by (simp add: trade_view_of_def sellBalance_def shown_balances_def Let_def)

lemma rerender_buying [simp]: "rerender (buying t r k c) (buying t' r' k' c') = buying t' r' k' c'"
  by (simp add: rerender_def balance_deps_def quote_deps_def)

lemma buying_steps:
  "trade_step m (TypeAmount ''1'') (trade_mounted (Some ''GABC'') ''7'' b)
    = \<lparr>tw_form = buying (Some buy_one) [] None None, tw_browser = b\<rparr>"
  "trade_step m TimerFires \<lparr>tw_form = buying (Some buy_one) [] None None, tw_browser = b\<rparr>
    = \<lparr>tw_form = buying None [buy_one] None None, tw_browser = b\<rparr>"
  "quote_program buy_one b = (Inr q, b') \<Longrightarrow>
    trade_step m (QuoteArrives 0) \<lparr>tw_form = buying None [buy_one] None None, tw_browser = b\<rparr>
    = \<lparr>tw_form = buying None [] (Some (quoteKey buy_one, q)) None, tw_browser = b'\<rparr>"
  "trade_step m ClickTrade \<lparr>tw_form = buying None [] (Some (quoteKey buy_one, q)) None, tw_browser = b\<rparr>
    = \<lparr>tw_form = buying None [] (Some (quoteKey buy_one, q)) (Some (buy_one, q)), tw_browser = b\<rparr>"
proof -
  have moved: "(buying t r k c)\<lparr>tf_timer := None, tf_quoting := True, tf_requests := [i]\<rparr> = buying None [i] k c"
    "(buying t r k c)\<lparr>tf_quote := k', tf_quoting := False, tf_requests := []\<rparr> = buying t [] k' c"
    "(buying t r k c)\<lparr>tf_order := c'\<rparr> = buying t r k c'" for t r k c i k' c'
    by (simp_all add: buying_def)
  show "trade_step m (TypeAmount ''1'') (trade_mounted (Some ''GABC'') ''7'' b)
    = \<lparr>tw_form = buying (Some buy_one) [] None None, tw_browser = b\<rparr>"
    using one_digit by (simp add: trade_step_def trade_mounted_def trade_view_of_def sellBalance_def shown_balances_def
        rerender_def balance_deps_def quote_deps_def quote_due_def js_le_def js_num_eq_def Let_def buying_def buy_one_def)
  show "trade_step m TimerFires \<lparr>tw_form = buying (Some buy_one) [] None None, tw_browser = b\<rparr>
    = \<lparr>tw_form = buying None [buy_one] None None, tw_browser = b\<rparr>"
    by (simp add: trade_step_def Let_def moved)
  show "trade_step m (QuoteArrives 0) \<lparr>tw_form = buying None [buy_one] None None, tw_browser = b\<rparr>
    = \<lparr>tw_form = buying None [] (Some (quoteKey buy_one, q)) None, tw_browser = b'\<rparr>"
    if "quote_program buy_one b = (Inr q, b')"
    using that by (simp add: trade_step_def Let_def moved drop_at_def)
  show "trade_step m ClickTrade \<lparr>tw_form = buying None [] (Some (quoteKey buy_one, q)) None, tw_browser = b\<rparr>
    = \<lparr>tw_form = buying None [] (Some (quoteKey buy_one, q)) (Some (buy_one, q)), tw_browser = b\<rparr>"
    by (simp add: trade_step_def Let_def moved shown_quote_def current_def canTrade_def isExecuting_def)
qed

lemma trade_order_backed_witness:
  "\<exists>q. quoted_by ''3'' (trade_mounted (Some ''GABC'') ''7'' quoting_browser)
    [TypeAmount ''1'', TimerFires, QuoteArrives 0, ClickTrade] buy_one q"
proof -
  obtain q b where answer: "quote_program buy_one quoting_browser = (Inr q, b)" using buy_one_quoted by blast
  have "tf_order (tw_form (trade_run ''3'' [TypeAmount ''1'', TimerFires, QuoteArrives 0, ClickTrade]
      (trade_mounted (Some ''GABC'') ''7'' quoting_browser))) = Some (buy_one, q)"
    by (simp add: trade_run_def buying_steps buying_steps(3) [OF answer])
  from trade_order_backed [OF _ _ this] show ?thesis by (auto simp: no_colon_def)
qed

end
