(* ===== verification/Web_Child_Trade.thy ===== *)
theory Web_Child_Trade imports Web_Trade begin

text \<open>
  The form that buys with the credit of a parent position (\<open>dike-web/features/trading/ChildTradeForm.tsx\<close>), as a
  machine like that of Web_Trade: the markets the user holds, the credit of the chosen parent and the quote arrive
  later and are kept under keys of the inputs they were asked for.
\<close>

section \<open>The state of the form\<close>

record child_input =
  ci_address :: "string option"
  ci_pool :: string
  ci_token :: token
  ci_amount :: string

record credit_input =
  cr_address :: "string option"
  cr_parent :: string
  cr_outcome :: string

definition childQuoteKey :: "child_input \<Rightarrow> string" where
  "childQuoteKey i = or_else (ci_address i) [] @ '':'' @ ci_pool i @ '':'' @ token_text (ci_token i) @ '':'' @ ci_amount i"

definition creditKey :: "credit_input \<Rightarrow> string" where
  "creditKey i = or_else (cr_address i) [] @ '':'' @ cr_parent i @ '':'' @ cr_outcome i"

definition marketsKey :: "string option \<Rightarrow> string \<Rightarrow> string" where
  "marketsKey address currentMarketId = or_else address [] @ '':'' @ currentMarketId"

record child_order =
  co_input :: child_input
  co_parent :: credit_input
  co_quote :: trade_quote
  co_credit :: "string option"

record child_form =
  cf_input :: child_input
  cf_expanded :: bool
  cf_markets :: "market_data list"
  cf_loadedKey :: "string option"
  cf_stakes :: "(string \<times> string \<times> string) list"
  cf_parent :: string
  cf_outcome :: string
  cf_credit :: "(string \<times> string option) option"
  cf_quote :: "(string \<times> trade_quote) option"
  cf_fee :: "string option"
  cf_quoting :: bool
  cf_tx :: tx_state
  cf_loading :: "string option"
  cf_creditTimer :: "credit_input option"
  cf_creditRequests :: "credit_input list"
  cf_quoteTimer :: "child_input option"
  cf_quoteRequests :: "child_input list"
  cf_order :: "child_order option"

definition parent_input :: "child_form \<Rightarrow> credit_input" where
  "parent_input s = \<lparr>cr_address = ci_address (cf_input s), cr_parent = cf_parent s, cr_outcome = cf_outcome s\<rparr>"

definition availableCredit :: "child_form \<Rightarrow> string option" where
  "availableCredit s = or_else (current (creditKey (parent_input s)) (cf_credit s)) None"

definition child_quote :: "child_form \<Rightarrow> trade_quote option" where
  "child_quote s = current (childQuoteKey (cf_input s)) (cf_quote s)"

definition marketsLoading :: "string \<Rightarrow> child_form \<Rightarrow> bool" where
  "marketsLoading m s \<longleftrightarrow> cf_expanded s \<and> or_else (ci_address (cf_input s)) [] \<noteq> []
     \<and> cf_loadedKey s \<noteq> Some (marketsKey (ci_address (cf_input s)) m)"

definition exceedsCredit :: "child_form \<Rightarrow> bool" where
  "exceedsCredit s \<longleftrightarrow> ci_amount (cf_input s) \<noteq> [] \<and> (case availableCredit s of None \<Rightarrow> False
     | Some c \<Rightarrow> (case (parseUsdc (ci_amount (cf_input s)), js_BigInt c) of (Inr raw, Inr n) \<Rightarrow> n < raw | _ \<Rightarrow> False))"

definition canBuy :: "child_form \<Rightarrow> bool" where
  "canBuy s \<longleftrightarrow> child_quote s \<noteq> None \<and> ci_amount (cf_input s) \<noteq> [] \<and> cf_parent s \<noteq> [] \<and> cf_order s = None
     \<and> \<not> cf_quoting s \<and> \<not> exceedsCredit s"

section \<open>The programs of the form\<close>

text \<open>The other live markets the user holds a stake in, with the two stakes.\<close>

definition stake_text :: "jsval list \<Rightarrow> string \<Rightarrow> string \<Rightarrow> string" where
  "stake_text vaults marketId k = js_String (js_coalesce
     (optional (or_else (js_map (map (\<lambda>v. (js_String (js_field v ''market_id''), v)) vaults) marketId) JUndefined) k) (JStr ''0''))"

fun held_markets :: "jsval list \<Rightarrow> market_data list \<Rightarrow> exn + (market_data \<times> string \<times> string) list" where
  "held_markets vaults [] = Inr []"
| "held_markets vaults (m # ms) = (let yes = stake_text vaults (md_marketId m) ''root_stake_yes'';
      no = stake_text vaults (md_marketId m) ''root_stake_no'' in
    case js_BigInt yes of Inl e \<Rightarrow> Inl e
    | Inr y \<Rightarrow> (case (if 0 < y then Inr True else case js_BigInt no of Inl e \<Rightarrow> Inl e | Inr n \<Rightarrow> Inr (0 < n)) of
        Inl e \<Rightarrow> Inl e
      | Inr held \<Rightarrow> (case held_markets vaults ms of Inl e \<Rightarrow> Inl e
          | Inr rest \<Rightarrow> Inr (if held then (m, yes, no) # rest else rest))))"

definition load_held :: "string \<Rightarrow> string \<Rightarrow> string \<Rightarrow> (market_data \<times> string \<times> string) list web" where
  "load_held network currentMarketId address = bindM (apiGet ''/markets'') (\<lambda>res. bindM (fetchRawPortfolio address) (\<lambda>portfolio.
     bindM (bindM (prop_of res ''items'') js_array) (\<lambda>items.
     bindM (mapM (\<lambda>r. js (normalizeMarketData network r)) items) (\<lambda>markets.
     bindM (bindM (prop_of portfolio ''vaultState'') js_array) (\<lambda>vaults.
     js (held_markets vaults (filter (\<lambda>m. md_status m = ''Live'' \<and> md_marketId m \<noteq> currentMarketId) markets)))))))"

definition credit_program :: "credit_input \<Rightarrow> string web" where
  "credit_program i = (let address = or_else (cr_address i) [] in
     vaultGetChildAvail address address (cr_parent i) (cr_outcome i))"

definition child_quote_program :: "child_input \<Rightarrow> trade_quote web" where
  "child_quote_program i = bindM (js (parseUsdc (ci_amount i))) (\<lambda>n.
     let rawIn = int_str n; address = or_else (ci_address i) [] in
     if ci_token i = YesToken then ammQuoteBuyYes address (ci_pool i) rawIn else ammQuoteBuyNo address (ci_pool i) rawIn)"

definition child_builder :: "child_order \<Rightarrow> string \<Rightarrow> string \<Rightarrow> string web" where
  "child_builder c rawIn minOut = (let i = co_input c; p = co_parent c; address = or_else (ci_address i) [] in
     if ci_token i = YesToken
     then buildAmmBuyChildYes address (cr_parent p) (cr_outcome p) (ci_pool i) rawIn minOut TRADE_DEADLINE_SECS
     else buildAmmBuyChildNo address (cr_parent p) (cr_outcome p) (ci_pool i) rawIn minOut TRADE_DEADLINE_SECS)"

definition within_credit :: "string option \<Rightarrow> int \<Rightarrow> unit web" where
  "within_credit credit raw = (case credit of None \<Rightarrow> ret () | Some c \<Rightarrow> bindM (js (js_BigInt c)) (\<lambda>n.
     if n < raw then raise ''Requested amount exceeds available parent credit.'' else ret ()))"

definition buy_program :: "child_order \<Rightarrow> executed web" where
  "buy_program c = bindM (js (parseUsdc (ci_amount (co_input c)))) (\<lambda>n. thenM (within_credit (co_credit c) n)
     (bindM (least_out (co_quote c)) (\<lambda>minOut. submit_call (ci_address (co_input c))
       (if ci_token (co_input c) = YesToken then ''buy_child_yes'' else ''buy_child_no'')
       (with_fee (child_builder c (int_str n) (int_str minOut))))))"

definition child_error :: "string \<Rightarrow> string" where
  "child_error code = (if code = ''InvalidStatus''
     then ''Parent market is no longer live (resolved, cancelled, or paused) '' @ em_dash @ '' child credit can't be opened against it.''
     else code)"

section \<open>Steps\<close>

datatype child_event = Toggle | PickParent string | PickOutcome string | PickToken token | TypeCredit string | MaxCredit
  | ChildWallet "string option" | HeldArrive | CreditTimer | CreditArrives nat | ChildTimer | ChildQuoteArrives nat
  | ClickBuy | ChildReports tx_state | ChildEnds

record child_world =
  cw_form :: child_form
  cw_browser :: browser

definition stake_of :: "child_form \<Rightarrow> (string \<times> string) option" where
  "stake_of s = map_of (cf_stakes s) (cf_parent s)"

text \<open>The loaded stakes, their keys and the loaded key; stakes are integers by construction.\<close>

definition held_loaded :: "string \<Rightarrow> (market_data \<times> string \<times> string) list \<Rightarrow> child_form \<Rightarrow> child_form" where
  "held_loaded key held s = s\<lparr>cf_markets := map fst held, cf_stakes := map (\<lambda>(m, st). (md_marketId m, st)) (rev held),
     cf_loadedKey := Some key, cf_loading := None\<rparr>"

fun child_effect :: "string \<Rightarrow> string \<Rightarrow> child_event \<Rightarrow> child_world \<Rightarrow> child_world" where
  "child_effect net m Toggle w = w\<lparr>cw_form := (cw_form w)\<lparr>cf_expanded := \<not> cf_expanded (cw_form w)\<rparr>\<rparr>"
| "child_effect net m (PickParent p) w = (let s = (cw_form w)\<lparr>cf_parent := p\<rparr> in
     w\<lparr>cw_form := (case map_of (cf_stakes s) p of None \<Rightarrow> s
       | Some (yes, no) \<Rightarrow> s\<lparr>cf_outcome := (case js_BigInt yes of Inr n \<Rightarrow> if 0 < n then ''Yes'' else ''No'' | Inl e \<Rightarrow> cf_outcome s)\<rparr>)\<rparr>)"
| "child_effect net m (PickOutcome oc) w = (let s = cw_form w; stake = (case stake_of s of None \<Rightarrow> ''0''
       | Some (yes, no) \<Rightarrow> if oc = ''Yes'' then yes else no) in
     if oc \<in> {''Yes'', ''No''} \<and> cf_parent s \<noteq> [] \<and> (case js_BigInt stake of Inl e \<Rightarrow> False | Inr n \<Rightarrow> 0 < n)
     then w\<lparr>cw_form := s\<lparr>cf_outcome := oc\<rparr>\<rparr> else w)"
| "child_effect net m (PickToken t) w = w\<lparr>cw_form := (cw_form w)\<lparr>cf_input := (cf_input (cw_form w))\<lparr>ci_token := t\<rparr>\<rparr>\<rparr>"
| "child_effect net m (TypeCredit x) w = w\<lparr>cw_form := (cw_form w)\<lparr>cf_input := (cf_input (cw_form w))\<lparr>ci_amount := x\<rparr>\<rparr>\<rparr>"
| "child_effect net m MaxCredit w = (case availableCredit (cw_form w) of None \<Rightarrow> w
   | Some c \<Rightarrow> (case js_BigInt c of Inl e \<Rightarrow> w
     | Inr n \<Rightarrow> if c = ''0'' then w
         else w\<lparr>cw_form := (cw_form w)\<lparr>cf_input := (cf_input (cw_form w))\<lparr>ci_amount := formatUsdc n\<rparr>\<rparr>\<rparr>))"
| "child_effect net m (ChildWallet a) w = w\<lparr>cw_form := (cw_form w)\<lparr>cf_input := (cf_input (cw_form w))\<lparr>ci_address := a\<rparr>\<rparr>\<rparr>"
| "child_effect net m HeldArrive w = (let s = cw_form w in case cf_loading s of None \<Rightarrow> w
   | Some a \<Rightarrow> (case load_held net m a (cw_browser w) of
       (Inr held, b) \<Rightarrow> w\<lparr>cw_form := held_loaded (marketsKey (Some a) m) held s, cw_browser := b\<rparr>
     | (Inl e, b) \<Rightarrow> w\<lparr>cw_form := held_loaded (marketsKey (Some a) m) [] s, cw_browser := b\<rparr>))"
| "child_effect net m CreditTimer w = (let s = cw_form w in case cf_creditTimer s of None \<Rightarrow> w
   | Some i \<Rightarrow> w\<lparr>cw_form := s\<lparr>cf_creditTimer := None, cf_creditRequests := cf_creditRequests s @ [i]\<rparr>\<rparr>)"
| "child_effect net m (CreditArrives n) w = (let s = cw_form w in if n < length (cf_creditRequests s) then
     (let i = cf_creditRequests s ! n; s' = s\<lparr>cf_creditRequests := drop_at n (cf_creditRequests s)\<rparr> in
      case credit_program i (cw_browser w) of
        (Inr c, b) \<Rightarrow> w\<lparr>cw_form := s'\<lparr>cf_credit := Some (creditKey i, Some c)\<rparr>, cw_browser := b\<rparr>
      | (Inl e, b) \<Rightarrow> w\<lparr>cw_form := s'\<lparr>cf_credit := Some (creditKey i, None)\<rparr>, cw_browser := b\<rparr>)
     else w)"
| "child_effect net m ChildTimer w = (let s = cw_form w in case cf_quoteTimer s of None \<Rightarrow> w
   | Some i \<Rightarrow> w\<lparr>cw_form := s\<lparr>cf_quoteTimer := None, cf_quoting := True, cf_quoteRequests := cf_quoteRequests s @ [i]\<rparr>\<rparr>)"
| "child_effect net m (ChildQuoteArrives n) w = (let s = cw_form w in if n < length (cf_quoteRequests s) then
     (let i = cf_quoteRequests s ! n; s' = s\<lparr>cf_quoteRequests := drop_at n (cf_quoteRequests s), cf_quoting := False\<rparr> in
      case child_quote_program i (cw_browser w) of
        (Inr q, b) \<Rightarrow> w\<lparr>cw_form := s'\<lparr>cf_quote := Some (childQuoteKey i, q)\<rparr>, cw_browser := b\<rparr>
      | (Inl e, b) \<Rightarrow> w\<lparr>cw_form := s'\<lparr>cf_quote := None, cf_fee := None\<rparr>, cw_browser := b\<rparr>)
     else w)"
| "child_effect net m ClickBuy w = (let s = cw_form w in case child_quote s of None \<Rightarrow> w
   | Some q \<Rightarrow> if canBuy s \<and> or_else (ci_address (cf_input s)) [] \<noteq> []
       then w\<lparr>cw_form := s\<lparr>cf_order := Some \<lparr>co_input = cf_input s, co_parent = parent_input s, co_quote = q,
         co_credit = availableCredit s\<rparr>\<rparr>\<rparr> else w)"
| "child_effect net m (ChildReports t) w = (if cf_order (cw_form w) = None then w
     else w\<lparr>cw_form := (cw_form w)\<lparr>cf_tx := t\<rparr>\<rparr>)"
| "child_effect net m ChildEnds w = (let s = cw_form w in case cf_order s of None \<Rightarrow> w
   | Some c \<Rightarrow> (case buy_program c (cw_browser w) of
       (Inr r, b) \<Rightarrow> w\<lparr>cw_form := s\<lparr>cf_order := None, cf_fee := fee_shown (cw_browser w) b (cf_fee s),
         cf_tx := success_state r, cf_input := (cf_input s)\<lparr>ci_amount := []\<rparr>, cf_quote := None, cf_credit := None\<rparr>,
         cw_browser := b\<rparr>
     | (Inl e, b) \<Rightarrow> w\<lparr>cw_form := s\<lparr>cf_order := None, cf_fee := fee_shown (cw_browser w) b (cf_fee s),
         cf_tx := failed_with (child_error (parseDikeError b e))\<rparr>, cw_browser := b\<rparr>))"

section \<open>Effects\<close>

definition child_quote_due :: "child_form \<Rightarrow> bool" where
  "child_quote_due s \<longleftrightarrow> (let i = cf_input s in or_else (ci_address i) [] \<noteq> [] \<and> ci_amount i \<noteq> []
     \<and> \<not> js_le (js_parseFloat (ci_amount i)) (Fin 0))"

definition credit_due :: "child_form \<Rightarrow> bool" where
  "credit_due s \<longleftrightarrow> or_else (ci_address (cf_input s)) [] \<noteq> [] \<and> cf_parent s \<noteq> []"

definition child_rerender :: "child_form \<Rightarrow> child_form \<Rightarrow> child_form" where
  "child_rerender old s = s\<lparr>
     cf_loading := (if (cf_expanded s, ci_address (cf_input s)) = (cf_expanded old, ci_address (cf_input old)) then cf_loading s
       else if cf_expanded s then truthy_address (ci_address (cf_input s)) else None),
     cf_creditTimer := (if parent_input s = parent_input old then cf_creditTimer s
       else if credit_due s then Some (parent_input s) else None),
     cf_quoteTimer := (if cf_input s = cf_input old then cf_quoteTimer s
       else if child_quote_due s then Some (cf_input s) else None)\<rparr>"

definition child_step :: "string \<Rightarrow> string \<Rightarrow> child_event \<Rightarrow> child_world \<Rightarrow> child_world" where
  "child_step net m ev w = (let w' = child_effect net m ev w in
     w'\<lparr>cw_form := child_rerender (cw_form w) (cw_form w')\<rparr>)"

definition child_run :: "string \<Rightarrow> string \<Rightarrow> child_event list \<Rightarrow> child_world \<Rightarrow> child_world" where
  "child_run net m evs w = fold (child_step net m) evs w"

definition child_mounted :: "string option \<Rightarrow> string \<Rightarrow> browser \<Rightarrow> child_world" where
  "child_mounted address pool b = \<lparr>cw_form = \<lparr>cf_input = \<lparr>ci_address = address, ci_pool = pool, ci_token = YesToken,
       ci_amount = []\<rparr>, cf_expanded = False, cf_markets = [], cf_loadedKey = None, cf_stakes = [], cf_parent = [],
     cf_outcome = ''Yes'', cf_credit = None, cf_quote = None, cf_fee = None, cf_quoting = False, cf_tx = idle,
     cf_loading = None, cf_creditTimer = None, cf_creditRequests = [], cf_quoteTimer = None, cf_quoteRequests = [],
     cf_order = None\<rparr>, cw_browser = b\<rparr>"

section \<open>Where an order comes from\<close>

definition child_quoted_by :: "string \<Rightarrow> string \<Rightarrow> child_world \<Rightarrow> child_event list \<Rightarrow> child_input \<Rightarrow> trade_quote \<Rightarrow> bool" where
  "child_quoted_by net m w0 evs i q \<longleftrightarrow> (\<exists>pre n post. evs = pre @ ChildQuoteArrives n # post
     \<and> n < length (cf_quoteRequests (cw_form (child_run net m pre w0)))
     \<and> cf_quoteRequests (cw_form (child_run net m pre w0)) ! n = i
     \<and> fst (child_quote_program i (cw_browser (child_run net m pre w0))) = Inr q)"

definition credited_by :: "string \<Rightarrow> string \<Rightarrow> child_world \<Rightarrow> child_event list \<Rightarrow> credit_input \<Rightarrow> string \<Rightarrow> bool" where
  "credited_by net m w0 evs i c \<longleftrightarrow> (\<exists>pre n post. evs = pre @ CreditArrives n # post
     \<and> n < length (cf_creditRequests (cw_form (child_run net m pre w0)))
     \<and> cf_creditRequests (cw_form (child_run net m pre w0)) ! n = i
     \<and> fst (credit_program i (cw_browser (child_run net m pre w0))) = Inr c)"

text \<open>An order whose credit was known stays within it.\<close>

definition credit_backed :: "string \<Rightarrow> string \<Rightarrow> child_world \<Rightarrow> child_event list \<Rightarrow> child_order \<Rightarrow> bool" where
  "credit_backed net m w0 evs c \<longleftrightarrow> (case co_credit c of None \<Rightarrow> True
     | Some t \<Rightarrow> credited_by net m w0 evs (co_parent c) t
         \<and> (case (parseUsdc (ci_amount (co_input c)), js_BigInt t) of (Inr raw, Inr n) \<Rightarrow> raw \<le> n | _ \<Rightarrow> True))"

lemma child_run_snoc [simp]: "child_run net m (evs @ [ev]) w = child_step net m ev (child_run net m evs w)"
  by (simp add: child_run_def)

lemma child_quoted_by_snoc: "child_quoted_by net m w0 evs i q \<Longrightarrow> child_quoted_by net m w0 (evs @ [ev]) i q"
  unfolding child_quoted_by_def by (metis append.assoc append_Cons)

lemma credited_by_snoc: "credited_by net m w0 evs i c \<Longrightarrow> credited_by net m w0 (evs @ [ev]) i c"
  unfolding credited_by_def by (metis append.assoc append_Cons)

lemma credit_backed_snoc: "credit_backed net m w0 evs c \<Longrightarrow> credit_backed net m w0 (evs @ [ev]) c"
  by (auto simp: credit_backed_def credited_by_snoc split: option.splits)

definition child_plain :: "child_input \<Rightarrow> bool" where
  "child_plain i \<longleftrightarrow> no_colon (or_else (ci_address i) []) \<and> no_colon (ci_pool i)"

definition child_askable :: "child_input \<Rightarrow> bool" where
  "child_askable i \<longleftrightarrow> child_plain i \<and> or_else (ci_address i) [] \<noteq> []"

definition credit_askable :: "credit_input \<Rightarrow> bool" where
  "credit_askable i \<longleftrightarrow> no_colon (or_else (cr_address i) []) \<and> no_colon (cr_parent i) \<and> or_else (cr_address i) [] \<noteq> []"

interpretation child_quotes: keyed childQuoteKey child_askable
proof
  fix i j :: child_input
  assume ok: "child_askable i" "child_askable j" and "childQuoteKey i = childQuoteKey j"
  then have r: "or_else (ci_address i) [] @ CHR '':'' # ci_pool i @ CHR '':'' # token_text (ci_token i) @ CHR '':'' # ci_amount i
    = or_else (ci_address j) [] @ CHR '':'' # ci_pool j @ CHR '':'' # token_text (ci_token j) @ CHR '':'' # ci_amount j"
    by (simp add: childQuoteKey_def)
  have c: "no_colon (or_else (ci_address i) [])" "no_colon (or_else (ci_address j) [])" "no_colon (ci_pool i)" "no_colon (ci_pool j)"
    using ok by (simp_all add: child_askable_def child_plain_def)
  note r1 = colon_split [OF c(1,2) r] and r2 = colon_split [OF c(3,4) conjunct2 [OF colon_split [OF c(1,2) r]]]
  note r3 = colon_split [OF texts_no_colon(2) texts_no_colon(2) conjunct2 [OF r2]]
  have "ci_address i = ci_address j" using conjunct1 [OF r1] ok
    by (cases "ci_address i"; cases "ci_address j") (auto simp: child_askable_def)
  then show "i = j" using r2 r3 by simp
qed

interpretation credits: keyed creditKey credit_askable
proof
  fix i j :: credit_input
  assume ok: "credit_askable i" "credit_askable j" and "creditKey i = creditKey j"
  then have r: "or_else (cr_address i) [] @ CHR '':'' # cr_parent i @ CHR '':'' # cr_outcome i
    = or_else (cr_address j) [] @ CHR '':'' # cr_parent j @ CHR '':'' # cr_outcome j" by (simp add: creditKey_def)
  have c: "no_colon (or_else (cr_address i) [])" "no_colon (or_else (cr_address j) [])" "no_colon (cr_parent i)" "no_colon (cr_parent j)"
    using ok by (simp_all add: credit_askable_def)
  note r1 = colon_split [OF c(1,2) r] and r2 = colon_split [OF c(3,4) conjunct2 [OF colon_split [OF c(1,2) r]]]
  have "cr_address i = cr_address j" using conjunct1 [OF r1] ok
    by (cases "cr_address i"; cases "cr_address j") (auto simp: credit_askable_def)
  then show "i = j" using r2 by simp
qed

definition credit_known :: "string \<Rightarrow> string \<Rightarrow> child_world \<Rightarrow> child_event list \<Rightarrow> credit_input \<Rightarrow> string option \<Rightarrow> bool" where
  "credit_known net m w0 evs i v \<longleftrightarrow> (case v of None \<Rightarrow> True | Some c \<Rightarrow> credited_by net m w0 evs i c)"

lemma credit_known_snoc: "credit_known net m w0 evs i v \<Longrightarrow> credit_known net m w0 (evs @ [ev]) i v"
  by (cases v) (simp_all add: credit_known_def credited_by_snoc)

definition child_inv :: "string \<Rightarrow> string \<Rightarrow> child_world \<Rightarrow> child_event list \<Rightarrow> child_form \<Rightarrow> bool" where
  "child_inv net m w0 evs s \<longleftrightarrow> child_plain (cf_input s) \<and> no_colon (cf_parent s)
     \<and> (\<forall>i. cf_quoteTimer s = Some i \<longrightarrow> child_askable i) \<and> (\<forall>i \<in> set (cf_quoteRequests s). child_askable i)
     \<and> (\<forall>i. cf_creditTimer s = Some i \<longrightarrow> credit_askable i) \<and> (\<forall>i \<in> set (cf_creditRequests s). credit_askable i)
     \<and> child_quotes.from_request (child_quoted_by net m w0 evs) (cf_quote s)
     \<and> credits.from_request (credit_known net m w0 evs) (cf_credit s)
     \<and> (\<forall>c. cf_order s = Some c \<longrightarrow> child_quoted_by net m w0 evs (co_input c) (co_quote c) \<and> credit_backed net m w0 evs c)"

lemma child_inv_snoc:
  assumes "child_inv net m w0 evs s"
  shows "child_inv net m w0 (evs @ [ev]) s"
proof -
  have shown: "child_quotes.from_request (child_quoted_by net m w0 (evs @ [ev])) (cf_quote s)"
    by (rule child_quotes.from_request_mono [where P = "child_quoted_by net m w0 evs"])
      (use assms in \<open>simp_all add: child_inv_def child_quoted_by_snoc\<close>)
  have credit: "credits.from_request (credit_known net m w0 (evs @ [ev])) (cf_credit s)"
    by (rule credits.from_request_mono [where P = "credit_known net m w0 evs"])
      (use assms in \<open>simp_all add: child_inv_def credit_known_snoc\<close>)
  have order: "child_quoted_by net m w0 (evs @ [ev]) (co_input c) (co_quote c) \<and> credit_backed net m w0 (evs @ [ev]) c"
    if "cf_order s = Some c" for c
  proof -
    have "child_quoted_by net m w0 evs (co_input c) (co_quote c) \<and> credit_backed net m w0 evs c"
      using assms that by (simp add: child_inv_def)
    then show ?thesis by (simp add: child_quoted_by_snoc credit_backed_snoc)
  qed
  show ?thesis unfolding child_inv_def
    by (intro conjI allI impI shown credit order) (use assms in \<open>simp_all add: child_inv_def\<close>)
qed

lemma child_rerender_inv: "child_inv net m w0 evs s \<Longrightarrow> child_inv net m w0 evs (child_rerender old s)"
  by (auto simp: child_inv_def child_rerender_def child_quote_due_def credit_due_def child_askable_def credit_askable_def
      child_plain_def parent_input_def Let_def)

lemma child_order_at_click:
  assumes inv: "child_inv net m w0 evs s" and can: "canBuy s" "or_else (ci_address (cf_input s)) [] \<noteq> []"
    and shown: "child_quote s = Some q"
  shows "child_quoted_by net m w0 evs (cf_input s) q \<and>
    credit_backed net m w0 evs \<lparr>co_input = cf_input s, co_parent = parent_input s, co_quote = q, co_credit = availableCredit s\<rparr>"
proof
  have ask: "child_askable (cf_input s)" "credit_askable (parent_input s)" using inv can
    by (simp_all add: child_inv_def child_askable_def credit_askable_def child_plain_def parent_input_def)
  show "child_quoted_by net m w0 evs (cf_input s) q"
    using child_quotes.current_request [OF _ ask(1), of "child_quoted_by net m w0 evs" "cf_quote s" q] inv shown
    by (simp add: child_inv_def child_quote_def)
  show "credit_backed net m w0 evs \<lparr>co_input = cf_input s, co_parent = parent_input s, co_quote = q, co_credit = availableCredit s\<rparr>"
  proof (cases "availableCredit s")
    case (Some t)
    then have cur: "current (creditKey (parent_input s)) (cf_credit s) = Some (Some t)"
      by (cases "current (creditKey (parent_input s)) (cf_credit s)") (simp_all add: availableCredit_def)
    have "credited_by net m w0 evs (parent_input s) t"
      using credits.current_request [OF _ ask(2) cur, of "credit_known net m w0 evs"] inv
      by (simp add: child_inv_def credit_known_def)
    then show ?thesis using Some can(1)
      by (auto simp: credit_backed_def canBuy_def exceedsCredit_def split: sum.splits)
  qed (simp add: credit_backed_def)
qed

lemma child_plain_simps [simp]: "child_plain (i\<lparr>ci_token := t\<rparr>) = child_plain i"
  "child_plain (i\<lparr>ci_amount := x\<rparr>) = child_plain i"
  by (simp_all add: child_plain_def)

lemma child_quoted_now:
  assumes "n < length (cf_quoteRequests (cw_form (child_run net m evs w0)))"
    "fst (child_quote_program (cf_quoteRequests (cw_form (child_run net m evs w0)) ! n) (cw_browser (child_run net m evs w0))) = Inr q"
  shows "child_quoted_by net m w0 (evs @ [ChildQuoteArrives n]) (cf_quoteRequests (cw_form (child_run net m evs w0)) ! n) q"
  using assms unfolding child_quoted_by_def by blast

lemma credited_now:
  assumes "n < length (cf_creditRequests (cw_form (child_run net m evs w0)))"
    "fst (credit_program (cf_creditRequests (cw_form (child_run net m evs w0)) ! n) (cw_browser (child_run net m evs w0))) = Inr c"
  shows "credited_by net m w0 (evs @ [CreditArrives n]) (cf_creditRequests (cw_form (child_run net m evs w0)) ! n) c"
  using assms unfolding credited_by_def by blast

lemma child_effect_inv:
  assumes w: "w = child_run net m evs w0" and inv: "child_inv net m w0 evs (cw_form w)"
    and wallet: "\<And>a. ev = ChildWallet (Some a) \<Longrightarrow> no_colon a" and parent: "\<And>p. ev = PickParent p \<Longrightarrow> no_colon p"
  shows "child_inv net m w0 (evs @ [ev]) (cw_form (child_effect net m ev w))"
proof -
  have base: "child_inv net m w0 (evs @ [ev]) (cw_form w)" by (rule child_inv_snoc [OF inv])
  have rest: "set (drop_at n xs) \<subseteq> set xs" for n and xs :: "'a list" by (rule set_drop_at)
  show ?thesis
  proof (cases ev)
    case (ChildWallet a)
    then show ?thesis using base wallet by (cases a) (auto simp: child_inv_def child_plain_def no_colon_def)
  next
    case (PickParent p)
    then show ?thesis using base parent by (auto simp: child_inv_def Let_def split: option.split)
  next
    case (CreditArrives n)
    show ?thesis
    proof (cases "n < length (cf_creditRequests (cw_form w))")
      case True
      let ?i = "cf_creditRequests (cw_form w) ! n"
      have ask: "credit_askable ?i" using inv True by (simp add: child_inv_def)
      obtain r b where run: "credit_program ?i (cw_browser w) = (r, b)" by (cases "credit_program ?i (cw_browser w)")
      have known: "credit_known net m w0 (evs @ [ev]) ?i (case r of Inl _ \<Rightarrow> None | Inr c \<Rightarrow> Some c)"
        using credited_now [of n net m evs w0] True run w CreditArrives by (cases r) (simp_all add: credit_known_def)
      show ?thesis using base True run CreditArrives rest [of n "cf_creditRequests (cw_form w)"]
          credits.from_request_simps(2) [where P = "credit_known net m w0 (evs @ [ev])", OF ask known]
        by (cases r) (auto simp: child_inv_def Let_def)
    qed (use base CreditArrives in simp)
  next
    case (ChildQuoteArrives n)
    show ?thesis
    proof (cases "n < length (cf_quoteRequests (cw_form w))")
      case True
      let ?i = "cf_quoteRequests (cw_form w) ! n"
      have ask: "child_askable ?i" using inv True by (simp add: child_inv_def)
      obtain r b where run: "child_quote_program ?i (cw_browser w) = (r, b)" by (cases "child_quote_program ?i (cw_browser w)")
      have "child_quoted_by net m w0 (evs @ [ev]) ?i q" if "r = Inr q" for q
        using child_quoted_now [of n net m evs w0 q] True run w ChildQuoteArrives that by simp
      then show ?thesis using base True run ChildQuoteArrives rest [of n "cf_quoteRequests (cw_form w)"]
          child_quotes.from_request_simps(2) [where P = "child_quoted_by net m w0 (evs @ [ev])", OF ask]
        by (cases r) (auto simp: child_inv_def Let_def child_quotes.from_request_simps(1))
    qed (use base ChildQuoteArrives in simp)
  next
    case ClickBuy
    show ?thesis
    proof (cases "\<exists>q. child_quote (cw_form w) = Some q \<and> canBuy (cw_form w) \<and> or_else (ci_address (cf_input (cw_form w))) [] \<noteq> []")
      case True
      then obtain q where q: "child_quote (cw_form w) = Some q" "canBuy (cw_form w)" "or_else (ci_address (cf_input (cw_form w))) [] \<noteq> []"
        by blast
      show ?thesis using child_order_at_click [OF base q(2,3,1)] base ClickBuy q by (simp add: child_inv_def Let_def)
    qed (use base ClickBuy in \<open>auto simp: Let_def split: option.split\<close>)
  qed (use base in \<open>auto simp: Let_def child_inv_def held_loaded_def child_quotes.from_request_simps credits.from_request_simps
      split: option.split sum.split prod.split\<close>)
qed

lemma child_run_inv:
  assumes "no_colon pool" "\<And>a. address = Some a \<or> ChildWallet (Some a) \<in> set evs \<Longrightarrow> no_colon a"
    "\<And>p. PickParent p \<in> set evs \<Longrightarrow> no_colon p"
  shows "child_inv net m (child_mounted address pool b) evs (cw_form (child_run net m evs (child_mounted address pool b)))"
  using assms(2,3)
proof (induction evs rule: rev_induct)
  case Nil
  have "child_plain (cf_input (cw_form (child_mounted address pool b)))" using assms(1) Nil
    by (cases address) (auto simp: child_mounted_def child_plain_def no_colon_def)
  then show ?case by (simp add: child_run_def child_inv_def child_mounted_def child_quotes.from_request_simps
        credits.from_request_simps no_colon_def)
next
  case (snoc ev evs)
  let ?start = "child_mounted address pool b"
  have IH: "child_inv net m ?start evs (cw_form (child_run net m evs ?start))" by (rule snoc.IH) (use snoc.prems in auto)
  have "no_colon a" if "ev = ChildWallet (Some a)" for a using snoc.prems that by simp
  moreover have "no_colon p" if "ev = PickParent p" for p using snoc.prems that by simp
  ultimately show ?case using child_rerender_inv [OF child_effect_inv [OF refl IH]]
    by (simp add: child_step_def Let_def)
qed

text \<open>C6: an order in flight was placed on a quote read for exactly its address, pool, token and amount; and when
  the credit of the parent was known, that credit was read for exactly the order's address, parent market and
  outcome and covers the amount.\<close>

lemma child_order_backed:
  assumes "no_colon pool" "\<And>a. address = Some a \<or> ChildWallet (Some a) \<in> set evs \<Longrightarrow> no_colon a"
    and "\<And>p. PickParent p \<in> set evs \<Longrightarrow> no_colon p"
    and "cf_order (cw_form (child_run net m evs (child_mounted address pool b))) = Some c"
  shows "child_quoted_by net m (child_mounted address pool b) evs (co_input c) (co_quote c)
    \<and> credit_backed net m (child_mounted address pool b) evs c"
  using child_run_inv [of pool address evs net m b, OF assms(1-3)] assms(4) by (simp add: child_inv_def)

section \<open>The credit after an order\<close>

text \<open>The user leaves the wallet, the parent and its outcome as they are.\<close>

fun same_parent :: "child_event \<Rightarrow> bool" where
  "same_parent (PickParent _) = False"
| "same_parent (PickOutcome _) = False"
| "same_parent (ChildWallet _) = False"
| "same_parent _ = True"

definition credit_forgotten :: "child_form \<Rightarrow> bool" where
  "credit_forgotten s \<longleftrightarrow> cf_credit s = None \<and> cf_creditTimer s = None \<and> cf_creditRequests s = []"

lemma same_parent_step:
  assumes "same_parent ev"
  shows "parent_input (cw_form (child_effect net m ev w)) = parent_input (cw_form w)"
  using assms by (cases ev) (auto simp: parent_input_def Let_def held_loaded_def split: option.split sum.split prod.split)

lemma child_rerender_simps [simp]: "parent_input (child_rerender old s) = parent_input s"
  "cf_credit (child_rerender old s) = cf_credit s" "cf_creditRequests (child_rerender old s) = cf_creditRequests s"
  "cf_creditTimer (child_rerender old s) = (if parent_input s = parent_input old then cf_creditTimer s
     else if credit_due s then Some (parent_input s) else None)"
  by (simp_all add: child_rerender_def parent_input_def)

lemma forgotten_step:
  assumes "same_parent ev" "credit_forgotten (cw_form w)"
  shows "credit_forgotten (cw_form (child_step net m ev w)) \<and> parent_input (cw_form (child_step net m ev w)) = parent_input (cw_form w)"
proof -
  let ?f = "cw_form (child_effect net m ev w)"
  have "credit_forgotten ?f" using assms
    by (cases ev) (auto simp: credit_forgotten_def Let_def held_loaded_def split: option.split sum.split prod.split)
  moreover have "parent_input ?f = parent_input (cw_form w)" by (rule same_parent_step [OF assms(1)])
  ultimately show ?thesis by (simp add: child_step_def Let_def credit_forgotten_def)
qed

text \<open>After a successful order the credit is forgotten and, as long as the user changes neither wallet nor
  parent, it is never read again: the form keeps showing the credit as loading, and an order with any amount
  passes its credit check.\<close>

lemma child_credit_lost:
  assumes order: "cf_order (cw_form w) = Some c" and bought: "fst (buy_program c (cw_browser w)) = Inr r"
    and settled: "cf_creditTimer (cw_form w) = None" "cf_creditRequests (cw_form w) = []"
    and evs: "list_all same_parent evs" and w': "w' = child_run net m evs (child_step net m ChildEnds w)"
  shows "availableCredit (cw_form w') = None \<and> \<not> exceedsCredit (cw_form w')
    \<and> parent_input (cw_form w') = parent_input (cw_form w) \<and> within_credit (availableCredit (cw_form w')) n = ret ()"
proof -
  have start: "credit_forgotten (cw_form (child_step net m ChildEnds w))
      \<and> parent_input (cw_form (child_step net m ChildEnds w)) = parent_input (cw_form w)"
    using order bought settled
    by (auto simp: child_step_def Let_def credit_forgotten_def split: prod.split sum.split)
      (simp_all add: parent_input_def)
  have "credit_forgotten (cw_form (child_run net m es u)) \<and> parent_input (cw_form (child_run net m es u)) = parent_input (cw_form u)"
    if "list_all same_parent es" "credit_forgotten (cw_form u)" for es u
    using that by (induction es arbitrary: u) (simp_all add: child_run_def forgotten_step)
  then have "credit_forgotten (cw_form w')" "parent_input (cw_form w') = parent_input (cw_form w)"
    using start evs w' by auto
  then show ?thesis by (simp add: availableCredit_def exceedsCredit_def credit_forgotten_def current_def within_credit_def)
qed

section \<open>A concrete order\<close>

definition child_one :: child_input where
  "child_one = \<lparr>ci_address = Some ''GABC'', ci_pool = ''7'', ci_token = YesToken, ci_amount = ''1''\<rparr>"

lemma child_one_simps [simp]: "ci_address child_one = Some ''GABC''" "ci_pool child_one = ''7''"
  "ci_token child_one = YesToken" "ci_amount child_one = ''1''"
  by (simp_all add: child_one_def)

lemma child_one_program: "child_quote_program child_one = quote_program buy_one"
  by (simp add: child_quote_program_def quote_program_def Let_def)

text \<open>The form with parent 2 and its credit asked for, then with the inputs \<open>child_one\<close>.\<close>

definition child_at :: "child_input \<Rightarrow> child_input option \<Rightarrow> child_input list \<Rightarrow> (string \<times> trade_quote) option \<Rightarrow>
    child_order option \<Rightarrow> child_form" where
  "child_at i timer requests kept_quote order = (cw_form (child_mounted (Some ''GABC'') ''7'' quoting_browser))
     \<lparr>cf_parent := ''2'', cf_creditTimer := Some \<lparr>cr_address = Some ''GABC'', cr_parent = ''2'', cr_outcome = ''Yes''\<rparr>,
      cf_input := i, cf_quoteTimer := timer, cf_quoteRequests := requests, cf_quoting := requests \<noteq> [], cf_quote := kept_quote,
      cf_order := order\<rparr>"

lemma child_at_simps [simp]:
  "cf_input (child_at i t r k c) = i" "cf_quoteTimer (child_at i t r k c) = t" "cf_quoteRequests (child_at i t r k c) = r"
  "cf_quote (child_at i t r k c) = k" "cf_order (child_at i t r k c) = c" "cf_quoting (child_at i t r k c) = (r \<noteq> [])"
  "cf_parent (child_at i t r k c) = ''2''" "cf_credit (child_at i t r k c) = None"
  by (simp_all add: child_at_def child_mounted_def)

lemma child_rerender_at [simp]: "child_rerender (child_at child_one t r k c) (child_at child_one t' r' k' c') = child_at child_one t' r' k' c'"
  by (simp add: child_rerender_def parent_input_def child_at_def)

definition order_one :: "trade_quote \<Rightarrow> child_order" where
  "order_one q = \<lparr>co_input = child_one, co_parent = \<lparr>cr_address = Some ''GABC'', cr_parent = ''2'', cr_outcome = ''Yes''\<rparr>,
     co_quote = q, co_credit = None\<rparr>"

lemma child_steps:
  "child_step net m (TypeCredit ''1'') (child_step net m (PickParent ''2'') (child_mounted (Some ''GABC'') ''7'' b))
    = \<lparr>cw_form = child_at child_one (Some child_one) [] None None, cw_browser = b\<rparr>"
  "child_step net m ChildTimer \<lparr>cw_form = child_at child_one (Some child_one) [] None None, cw_browser = b\<rparr>
    = \<lparr>cw_form = child_at child_one None [child_one] None None, cw_browser = b\<rparr>"
  "quote_program buy_one b = (Inr q, b') \<Longrightarrow>
    child_step net m (ChildQuoteArrives 0) \<lparr>cw_form = child_at child_one None [child_one] None None, cw_browser = b\<rparr>
    = \<lparr>cw_form = child_at child_one None [] (Some (childQuoteKey child_one, q)) None, cw_browser = b'\<rparr>"
  "child_step net m ClickBuy \<lparr>cw_form = child_at child_one None [] (Some (childQuoteKey child_one, q)) None, cw_browser = b\<rparr>
    = \<lparr>cw_form = child_at child_one None [] (Some (childQuoteKey child_one, q)) (Some (order_one q)), cw_browser = b\<rparr>"
proof -
  have moved: "(child_at i t r k c)\<lparr>cf_quoteTimer := None, cf_quoting := True, cf_quoteRequests := [j]\<rparr> = child_at i None [j] k c"
    "(child_at i t r k c)\<lparr>cf_quote := k', cf_quoteRequests := [], cf_quoting := False\<rparr> = child_at i t [] k' c"
    "(child_at i t r k c)\<lparr>cf_quoteRequests := [], cf_quoting := False, cf_quote := k'\<rparr> = child_at i t [] k' c"
    "(child_at i t r k c)\<lparr>cf_order := c'\<rparr> = child_at i t r k c'" for i t r k c j k' c'
    by (simp_all add: child_at_def)
  show "child_step net m (TypeCredit ''1'') (child_step net m (PickParent ''2'') (child_mounted (Some ''GABC'') ''7'' b))
    = \<lparr>cw_form = child_at child_one (Some child_one) [] None None, cw_browser = b\<rparr>"
    using one_digit by (simp add: child_step_def Let_def child_mounted_def child_rerender_def parent_input_def credit_due_def
        child_quote_due_def js_le_def js_num_eq_def child_at_def child_one_def)
  show "child_step net m ChildTimer \<lparr>cw_form = child_at child_one (Some child_one) [] None None, cw_browser = b\<rparr>
    = \<lparr>cw_form = child_at child_one None [child_one] None None, cw_browser = b\<rparr>"
    by (simp add: child_step_def Let_def moved)
  show "child_step net m (ChildQuoteArrives 0) \<lparr>cw_form = child_at child_one None [child_one] None None, cw_browser = b\<rparr>
    = \<lparr>cw_form = child_at child_one None [] (Some (childQuoteKey child_one, q)) None, cw_browser = b'\<rparr>"
    if "quote_program buy_one b = (Inr q, b')"
    using that by (simp add: child_step_def Let_def moved drop_at_def child_one_program)
  have credit: "availableCredit (child_at i t r k c) = None" for i t r k c by (simp add: availableCredit_def current_def)
  have parent: "parent_input (child_at child_one t r k c) = \<lparr>cr_address = Some ''GABC'', cr_parent = ''2'', cr_outcome = ''Yes''\<rparr>"
    for t r k c by (simp add: parent_input_def child_at_def child_mounted_def)
  show "child_step net m ClickBuy \<lparr>cw_form = child_at child_one None [] (Some (childQuoteKey child_one, q)) None, cw_browser = b\<rparr>
    = \<lparr>cw_form = child_at child_one None [] (Some (childQuoteKey child_one, q)) (Some (order_one q)), cw_browser = b\<rparr>"
    by (simp add: child_step_def Let_def moved child_quote_def current_def canBuy_def exceedsCredit_def credit parent order_one_def)
qed

lemma child_order_backed_witness:
  "\<exists>q. child_quoted_by ''testnet'' ''3'' (child_mounted (Some ''GABC'') ''7'' quoting_browser)
    [PickParent ''2'', TypeCredit ''1'', ChildTimer, ChildQuoteArrives 0, ClickBuy] child_one q"
proof -
  obtain q b where answer: "quote_program buy_one quoting_browser = (Inr q, b)" using buy_one_quoted by blast
  have "cf_order (cw_form (child_run ''testnet'' ''3'' [PickParent ''2'', TypeCredit ''1'', ChildTimer, ChildQuoteArrives 0, ClickBuy]
      (child_mounted (Some ''GABC'') ''7'' quoting_browser))) = Some (order_one q)"
    by (simp add: child_run_def child_steps child_steps(3) [OF answer])
  from child_order_backed [OF _ _ _ this] show ?thesis by (auto simp: no_colon_def order_one_def)
qed

text \<open>A browser whose sponsor takes and confirms every transaction.\<close>

definition paying_browser :: browser where
  "paying_browser = (demo_browser available_status)\<lparr>w_contracts := [(''amm'', ''CCRZ''),
     (''conditional_tokens'', ''CAL4''), (''collateral_vault'', ''CDNG'')]\<rparr>"

lemma paying_simps [simp]:
  "w_contracts paying_browser = [(''amm'', ''CCRZ''), (''conditional_tokens'', ''CAL4''), (''collateral_vault'', ''CDNG'')]"
  "w_collateral paying_browser = ''USDC''" "w_scValToNative paying_browser = w_scValToNative (demo_browser JNull)"
  "w_addressScVal paying_browser = (\<lambda>a. Inr (ScAddress a))"
  "w_nativeToScVal paying_browser = w_nativeToScVal (demo_browser JNull)" "w_newContract paying_browser = (\<lambda>_. Inr ())"
  "w_account paying_browser = (\<lambda>_ _. Inr ''1'')" "w_simulate paying_browser = (\<lambda>_ _. Inr (SimulationSuccess (Some (ScI128 7))))"
  "w_assemble paying_browser = (\<lambda>tx _. Inr (x_method tx))" "w_now paying_browser = (\<lambda>_. 0)"
  "w_fromXDR paying_browser = (\<lambda>_. Inr (Transaction ''2050000'' (Some ''50000'')))"
  "w_services paying_browser = ''/api/proxy''" "w_configurationErrors paying_browser = []"
  "w_passphrase paying_browser = ''Test SDF Network ; September 2015''"
  "w_walletNetwork paying_browser = (\<lambda>_. Inr ''Test SDF Network ; September 2015'')"
  "w_confirm paying_browser = (\<lambda>_ _. True)" "w_sign paying_browser = (\<lambda>_ x. Inr (x @ ''!''))"
  "w_fetch paying_browser = (\<lambda>_ _. Inr \<lparr>h_ok = True, h_status = 200, h_json = Some available_status\<rparr>)"
  by (simp_all add: paying_browser_def demo_browser_def)

lemma paying_native [simp]: "w_nativeToScVal (demo_browser v) (JBigInt i) ty = Inr (ScI128 i)"
  "w_nativeToScVal (demo_browser v) (JStr s) ty = Inr (ScString s)"
  "w_scValToNative (demo_browser v) (ScI128 i) = Inr (JBigInt i)"
  by (simp_all add: demo_browser_def)

definition quote_900 :: trade_quote where
  "quote_900 = \<lparr>tq_amountIn = ''10000000'', tq_amountOut = ''900'', tq_priceImpactBps = Fin 0, tq_feeBps = Fin 0\<rparr>"

lemma digits_900: "js_BigInt ''900'' = Inr 900" "js_BigInt ''2'' = Inr 2" "js_BigInt ''2050000'' = Inr 2050000"
  by (simp_all add: js_BigInt_digits all_digits_def is_digit_def digits_val_def digit_val_def)

lemma deadline_300: "js_BigInt_of_num (js_add (num_of_int 0) TRADE_DEADLINE_SECS) = Inr 300"
  using num_of_int_exact [of 0] fround_of_int [of 300] BigInt_of_int [of 300] by (simp add: TRADE_DEADLINE_SECS_def)

lemma least_out_900: "\<exists>n. least_out quote_900 b = (Inr n, b)"
  using apply_slippage_bound [of 900 50]
  by (auto simp: least_out_def quote_900_def digits_900 js_def DEFAULT_SLIPPAGE_BPS_def io_simps)

lemma child_builds: "\<exists>x ops. with_fee (child_builder (order_one quote_900) (int_str k) (int_str n)) (after_ops pre paying_browser)
    = (Inr x, after_ops (pre @ ops) paying_browser)"
  by (simp add: with_fee_def child_builder_def order_one_def Let_def buildAmmBuyChildYes_def build_call_def getContractId_def
      toAddress_def id_val_def amt_def toOutcomeVal_def toU64_def toI128_def nativeToScVal_def deadline_def u64_of_def library_def js_def
      one_digit digits_900 deadline_300 buildAndSimulate_def simulate_call_app show_fee_def feeFromXdr_def
      perform_app io_simps)
    (rule exI, rule refl)

lemma wallet_pays:
  assumes "\<And>pre. \<exists>x ops. build (after_ops pre paying_browser) = (Inr x, after_ops (pre @ ops) paying_browser)"
  shows "\<exists>r b x. submit_call (Some ''GABC'') meth build (after_ops first paying_browser) = (Inr r, b) \<and> Sign x \<in> set (trace b)"
proof -
  let ?pre = "first @ [Fetch (HttpGet ''/api/proxy/sponsorship/status''), Show \<lparr>ts_status = ''building'', ts_hash = JNull, ts_error = None\<rparr>]"
  obtain x ops where built: "build (after_ops ?pre paying_browser) = (Inr x, after_ops (?pre @ ops) paying_browser)"
    using assms by blast
  show ?thesis
    using built
    by (simp add: submit_call_def executeTransaction_def execute_signed_def selectMode_def getSponsorshipStatus_def fetch_def
        readResponse_def prop_of_def js_def update_def submitSponsoredTransaction_def decodeSponsoredReturnValue_def
        perform_app io_simps available_status_def js_field_def sign_def assertValidConfiguration_def kitGetNetwork_def
        confirm_def kitSign_def) (rule exI [of _ x], simp)
qed

lemma order_one_bought: "\<exists>r. fst (buy_program (order_one quote_900) paying_browser) = Inr r"
proof -
  obtain n where least: "least_out quote_900 paying_browser = (Inr n, paying_browser)" using least_out_900 by blast
  obtain r b where "submit_call (Some ''GABC'') ''buy_child_yes''
      (with_fee (child_builder (order_one quote_900) (int_str 10000000) (int_str n))) paying_browser = (Inr r, b)"
    using wallet_pays [where build = "with_fee (child_builder (order_one quote_900) (int_str 10000000) (int_str n))", OF child_builds [where n = n], where first = "[]" and meth = "''buy_child_yes''"]
    by auto
  with least show ?thesis
    by (simp add: buy_program_def order_one_def one_digit js_def within_credit_def io_simps)
qed

lemma child_credit_lost_witness:
  "\<not> exceedsCredit (cw_form (child_run ''testnet'' ''3'' [TypeCredit ''999''] (child_step ''testnet'' ''3'' ChildEnds
     \<lparr>cw_form = (child_at child_one None [] None (Some (order_one quote_900)))\<lparr>cf_creditTimer := None\<rparr>,
      cw_browser = paying_browser\<rparr>)))"
proof -
  let ?w = "\<lparr>cw_form = (child_at child_one None [] None (Some (order_one quote_900)))\<lparr>cf_creditTimer := None\<rparr>,
      cw_browser = paying_browser\<rparr>"
  obtain r where "fst (buy_program (order_one quote_900) paying_browser) = Inr r" using order_one_bought by blast
  then show ?thesis
    using child_credit_lost [of ?w "order_one quote_900" r "[TypeCredit ''999'']"] by (simp add: child_at_def child_mounted_def)
qed

end
