(* ===== verification/Web_Panels.thy ===== *)
theory Web_Panels imports Web_Child_Trade begin

text \<open>
  The panels of the application that send one contract call per click: closing of trading, sweeping of fees,
  the timelock (\<open>dike-web/features/market/CloseTradingButton.tsx\<close>, \<open>SweepProtocolFeesPanel.tsx\<close>,
  \<open>features/admin/GovernancePanel.tsx\<close>), liquidity (\<open>features/trading/LiquidityForm.tsx\<close>), redemption
  (\<open>features/portfolio/RedeemForm.tsx\<close>), resolution (\<open>features/resolution/ResolutionPanel.tsx\<close>) and council
  votes (\<open>features/council/VoteForm.tsx\<close>).  A handler is a program of the browser; the states it shows are
  operations of the trace.
\<close>

section \<open>One call\<close>

definition show_state :: "tx_state \<Rightarrow> unit web" where
  "show_state t = perform (Show t) (\<lambda>_ _. Inr ())"

text \<open>\<open>try { ...; setTxState(success) } catch (e) { setTxState(failed) }\<close>\<close>

definition shown :: "executed web \<Rightarrow> executed option web" where
  "shown run = catchM (bindM run (\<lambda>r. thenM (show_state (success_state r)) (ret (Some r)))) (\<lambda>e.
     bindM (getsM (\<lambda>b. parseDikeError b e)) (\<lambda>m. thenM (show_state (failed_with m)) (ret None)))"

definition exec_call :: "string option \<Rightarrow> string \<Rightarrow> string web \<Rightarrow> executed option web" where
  "exec_call address meth build = (if or_else address [] = [] then ret None else shown (submit_call address meth build))"

definition caller :: "string option \<Rightarrow> string" where
  "caller address = or_else address []"

section \<open>Closing, sweeping and the timelock\<close>

definition close_visible :: "bool \<Rightarrow> wallet_permissions option \<Rightarrow> bool" where
  "close_visible isExpired perms \<longleftrightarrow> isExpired \<and> (case perms of None \<Rightarrow> False | Some p \<Rightarrow> wp_canAdmin p)"

definition handleClose :: "string option \<Rightarrow> string \<Rightarrow> executed option web" where
  "handleClose address marketId = exec_call address ''close_trading''
     (with_fee (buildCloseTrading (caller address) marketId))"

datatype sweep_variant = AdminVariant | CouncilVariant

definition sweep_visible :: "sweep_variant \<Rightarrow> wallet_permissions option \<Rightarrow> bool" where
  "sweep_visible v perms \<longleftrightarrow> (case perms of None \<Rightarrow> False
     | Some p \<Rightarrow> if v = AdminVariant then wp_canAdmin p else wp_canCouncil p)"

record market_fees =
  mf_marketId :: string
  mf_question :: string
  mf_protocolFees :: string
  mf_codFees :: string

definition market_fees_of :: "string \<Rightarrow> market_data \<Rightarrow> market_fees web" where
  "market_fees_of address m = bindM (catchM (vaultGetAccounting address (md_marketId m)) (\<lambda>_. ret (''0'', ''0''))) (\<lambda>(p, c).
     ret \<lparr>mf_marketId = md_marketId m, mf_question = mc_question (md_config m), mf_protocolFees = p, mf_codFees = c\<rparr>)"

definition loadFees :: "string \<Rightarrow> sweep_variant \<Rightarrow> string option \<Rightarrow> market_fees list web" where
  "loadFees network v address = (if caller address = [] then ret [] else
     bindM (fetchMarkets network) (\<lambda>markets. bindM (mapM (market_fees_of (caller address)) markets) (\<lambda>rows.
     ret (filter (\<lambda>r. if v = AdminVariant then mf_protocolFees r \<noteq> ''0'' \<or> mf_codFees r \<noteq> ''0'' else mf_codFees r \<noteq> ''0'') rows))))"

text \<open>After a sweep the fees are read again inside the same \<open>try\<close>.\<close>

definition handleSweep :: "string \<Rightarrow> sweep_variant \<Rightarrow> string option \<Rightarrow> string \<Rightarrow> market_fees list option web" where
  "handleSweep network v address marketId = (if caller address = [] then ret None else
     catchM (bindM (submit_call address ''sweep_protocol_fees'' (with_fee (buildSweepProtocolFees (caller address) marketId))) (\<lambda>r.
       thenM (show_state (success_state r)) (bindM (loadFees network v address) (\<lambda>fees. ret (Some fees))))) (\<lambda>e.
     bindM (getsM (\<lambda>b. parseDikeError b e)) (\<lambda>m. thenM (show_state (failed_with m)) (ret None))))"

definition queued_actions :: "timelock_action list \<Rightarrow> timelock_action list" where
  "queued_actions actions = filter (\<lambda>a. ta_queued a \<and> \<not> ta_executed a \<and> \<not> ta_cancelled a) actions"

definition timelock_ready :: "timelock_action \<Rightarrow> js_num option \<Rightarrow> bool" where
  "timelock_ready a now \<longleftrightarrow> (case now of None \<Rightarrow> False | Some n \<Rightarrow> js_le (ta_eta a) n)"

text \<open>An outcome of a click: nothing, the mark \<open>Executed\<close>, or the error shown.\<close>

datatype timelock_outcome = Unchanged | Executed | TimelockError string

definition ellipsis :: string where
  "ellipsis = map char_of [226 :: nat, 128, 166]"

definition handleExecute :: "string option \<Rightarrow> timelock_action \<Rightarrow> timelock_outcome web" where
  "handleExecute address a = (if caller address = [] then ret Unchanged else
     bindM (confirm (''Execute timelock action '' @ take 8 (ta_actionId a) @ ellipsis @ '' now? This is irreversible.'')) (\<lambda>ok.
     if \<not> ok then ret Unchanged else
     catchM (thenM (executeTransaction (\<lambda>_. buildTimelockExecute (caller address) (ta_actionId a))
         (\<lambda>xdr sp. sign address xdr sp (Some ''execute'')) False) (ret Executed)) (\<lambda>e.
       bindM (getsM (\<lambda>b. parseDikeError b e)) (\<lambda>m. ret (TimelockError m)))))"

section \<open>Liquidity\<close>

datatype lp_mode = AddMode | RemoveMode

text \<open>\<open>expectedLpShares\<close>: what an addition would mint, when everything parses and is positive.\<close>

definition shares_for :: "int \<Rightarrow> int \<Rightarrow> int \<Rightarrow> int \<Rightarrow> int option" where
  "shares_for amount supply yes no = (if 0 < amount \<and> 0 < supply \<and> 0 < yes \<and> 0 < no
     then Some (min (big_div (supply * amount) yes) (big_div (supply * amount) no)) else None)"

definition expectedLpShares :: "lp_mode \<Rightarrow> string \<Rightarrow> string \<Rightarrow> string \<Rightarrow> string \<Rightarrow> int option" where
  "expectedLpShares mode amountInput totalLpShares yesReserve noReserve =
    (if mode = AddMode \<and> amountInput \<noteq> [] then
      (case (parseUsdc amountInput, js_BigInt totalLpShares, js_BigInt yesReserve, js_BigInt noReserve) of
        (Inr amount, Inr supply, Inr yes, Inr no) \<Rightarrow> shares_for amount supply yes no | _ \<Rightarrow> None)
     else None)"

text \<open>The shares held and the fees to claim, each \<open>None\<close> when its read fails; both reads start in the code's order.\<close>

definition lp_shares :: "string \<Rightarrow> string \<Rightarrow> string web" where
  "lp_shares address poolId = bindM (fetchRawPortfolio address) (\<lambda>portfolio.
     bindM (bindM (prop_of portfolio ''lpPositions'') js_array) (\<lambda>lps.
     ret (js_String (js_coalesce (optional (or_else (find (\<lambda>p. js_String (js_field p ''pool_id'') = poolId) lps) JUndefined) ''shares'')
       (JStr ''0'')))))"

definition refreshLpState :: "string \<Rightarrow> string \<Rightarrow> (string option \<times> string option) web" where
  "refreshLpState address poolId =
     bindM (catchM (bindM (lp_shares address poolId) (\<lambda>s. ret (Some s))) (\<lambda>_. ret None)) (\<lambda>s.
     bindM (catchM (bindM (ammGetClaimableLpFees address address poolId) (\<lambda>f. ret (Some f))) (\<lambda>_. ret None)) (\<lambda>f.
     ret (s, f)))"

definition handleClaimFees :: "string option \<Rightarrow> string \<Rightarrow> executed option web" where
  "handleClaimFees address poolId = exec_call address ''claim_lp_fees''
     (with_fee (buildAmmClaimLpFees (caller address) poolId))"

definition handleLiquidity :: "string option \<Rightarrow> string \<Rightarrow> lp_mode \<Rightarrow> string \<Rightarrow> executed option web" where
  "handleLiquidity address poolId mode amountInput = (if caller address = [] \<or> amountInput = [] then ret None else
     shown (bindM (js (parseUsdc amountInput)) (\<lambda>n.
       submit_call address (if mode = AddMode then ''add_liquidity'' else ''remove_liquidity'')
         (with_fee (if mode = AddMode then buildAmmAddLiquidity (caller address) poolId (int_str n)
           else buildAmmRemoveLiquidity (caller address) poolId (int_str n))))))"

section \<open>Redemption\<close>

definition redeemable :: "user_position \<Rightarrow> bool" where
  "redeemable p \<longleftrightarrow> up_marketStatus p = ''Resolved'' \<or> up_marketStatus p = ''Cancelled''"

text \<open>The payout shown on the button of an outcome with the given balance.\<close>

definition shown_payout :: "user_position \<Rightarrow> string \<Rightarrow> int \<Rightarrow> int" where
  "shown_payout p oc balance = (if up_marketStatus p = ''Resolved''
     then (if up_finalOutcome p = Some oc then balance else 0) else balance)"

definition redeem_question :: "int \<Rightarrow> string \<Rightarrow> string" where
  "redeem_question n oc = ''Redeem '' @ formatUsdc n @ '' '' @ map upper_char oc @ '' from this market? This cannot be undone.''"

definition redeem_builder :: "user_position \<Rightarrow> string \<Rightarrow> string \<Rightarrow> string \<Rightarrow> string web" where
  "redeem_builder p address oc amount = (if up_marketStatus p = ''Resolved''
     then buildRedeemResolved address (up_marketId p) oc amount else buildRedeemCancelled address (up_marketId p) oc amount)"

definition redeem_method :: "user_position \<Rightarrow> string" where
  "redeem_method p = (if up_marketStatus p = ''Resolved'' then ''redeem_resolved'' else ''redeem_cancelled'')"

definition redeem_run :: "user_position \<Rightarrow> string option \<Rightarrow> string \<Rightarrow> executed option web" where
  "redeem_run p address oc = bindM (ctBalance (caller address) (caller address) (up_marketId p) oc) (\<lambda>live.
     bindM (js (js_BigInt live)) (\<lambda>n.
     if n \<le> 0 then raise (''No live '' @ map upper_char oc @ '' balance available to redeem.'')
     else bindM (confirm (redeem_question n oc)) (\<lambda>ok. if \<not> ok then ret None else
       bindM (submit_call address (redeem_method p) (with_fee (redeem_builder p (caller address) oc live))) (\<lambda>r.
       thenM (show_state (success_state r)) (ret (Some r))))))"

definition handleRedeem :: "user_position \<Rightarrow> string option \<Rightarrow> string \<Rightarrow> executed option web" where
  "handleRedeem p address oc = (if \<not> redeemable p \<or> caller address = [] then ret None else
     catchM (redeem_run p address oc) (\<lambda>e.
       bindM (getsM (\<lambda>b. parseDikeError b e)) (\<lambda>m. thenM (show_state (failed_with m)) (ret None))))"

section \<open>Resolution\<close>

text \<open>The calls whose buttons the panel shows at a time, in the order of the code.\<close>

definition panel_actions :: "market_data \<Rightarrow> resolution_request option \<Rightarrow> js_num \<Rightarrow> string list" where
  "panel_actions market request now =
    (if md_status market = ''TradingClosed'' \<and> request = None \<and> js_lt (mc_expiry (md_config market)) now
      then [''request_resolution''] else []) @
    (case request of None \<Rightarrow> [] | Some r \<Rightarrow>
      (if rr_status r = ''Requested'' then [''propose_outcome''] else []) @
      (case rr_proposedAt r of None \<Rightarrow> [] | Some t \<Rightarrow> if rr_status r = ''Proposed'' \<and> num_truthy t
         then (if js_lt now (js_add t (mc_disputeWindow (md_config market))) then [''dispute_outcome'']
           else [''finalize_undisputed'']) else []) @
      (if rr_status r = ''Disputed'' then [''escalate_to_council''] else []))"

definition evidenceError :: "(string \<Rightarrow> url option) \<Rightarrow> string \<Rightarrow> string option" where
  "evidenceError parse evidenceUri = (if evidenceUri \<noteq> [] then getReferenceUrlError parse evidenceUri ''Evidence URL''
     else Some ''Evidence URL is required'')"

definition request_id :: "resolution_request option \<Rightarrow> string" where
  "request_id request = (case request of None \<Rightarrow> [] | Some r \<Rightarrow> rr_requestId r)"

definition panel_builder :: "market_data \<Rightarrow> resolution_request option \<Rightarrow> string \<Rightarrow> string \<Rightarrow> string \<Rightarrow> string \<Rightarrow> string web" where
  "panel_builder market request address selected evidenceUri meth = (let config = md_config market; i = request_id request in
     if meth = ''request_resolution'' then buildRequestResolution address (md_marketId market) (mc_questionHash config)
       (mc_rulesUri config) (mc_expiry config) (mc_bondAmount config) (mc_disputeWindow config)
     else if meth = ''propose_outcome'' then buildProposeOutcome address i selected evidenceUri
     else if meth = ''dispute_outcome'' then buildDisputeOutcome address i selected evidenceUri
     else if meth = ''finalize_undisputed'' then buildFinalizeUndisputed address i
     else buildEscalateToCouncil address i)"

definition panel_question :: "string \<Rightarrow> string option" where
  "panel_question meth = (if meth = ''finalize_undisputed''
       then Some ''Finalize this undisputed outcome? This action is irreversible.''
     else if meth = ''escalate_to_council''
       then Some ''Escalate this disputed market to Council of Dike? This cannot be undone.''
     else None)"

definition panel_click :: "(string \<Rightarrow> url option) \<Rightarrow> market_data \<Rightarrow> resolution_request option \<Rightarrow> string option \<Rightarrow> js_num \<Rightarrow>
    string \<Rightarrow> string \<Rightarrow> string \<Rightarrow> executed option web" where
  "panel_click parse market request address now selected evidenceUri meth =
    (if caller address = [] \<or> meth \<notin> set (panel_actions market request now)
       \<or> meth \<in> {''propose_outcome'', ''dispute_outcome''} \<and> evidenceError parse evidenceUri \<noteq> None then ret None
     else bindM (case panel_question meth of None \<Rightarrow> ret True | Some q \<Rightarrow> confirm q) (\<lambda>ok.
       if ok then exec_call address meth (panel_builder market request (caller address) selected evidenceUri meth)
       else ret None))"

section \<open>Council votes\<close>

definition PENDING_KEY :: "string \<Rightarrow> string \<Rightarrow> string" where
  "PENDING_KEY address caseId = ''dike:council:pending:'' @ address @ '':'' @ caseId"

definition genSalt :: "string web" where
  "genSalt = getsM (\<lambda>b. hex_of_bytes (w_random b (moves b)))"

definition inCommitPhase :: "council_case \<Rightarrow> js_num \<Rightarrow> bool" where
  "inCommitPhase c now \<longleftrightarrow> cc_status c = ''CommitPhase'' \<and> js_lt now (cc_commitEnd c)"

definition inRevealPhase :: "council_case \<Rightarrow> js_num \<Rightarrow> bool" where
  "inRevealPhase c now \<longleftrightarrow> cc_status c = ''RevealPhase'' \<and> js_le (cc_commitEnd c) now \<and> js_lt now (cc_revealEnd c)"

text \<open>\<open>localStorage.setItem\<close> and \<open>getItem\<close>\<close>

definition store_item :: "string \<Rightarrow> string \<Rightarrow> unit web" where
  "store_item k v = thenM (perform (StoreItem k v) (\<lambda>_ _. Inr ())) (modifyM (\<lambda>b. b\<lparr>w_local := set_key k v (w_local b)\<rparr>))"

definition pending_vote :: "string \<Rightarrow> string \<Rightarrow> string \<Rightarrow> string \<Rightarrow> jsval" where
  "pending_vote oc salt commitment caseId = JObj [(''outcome'', JStr oc), (''salt'', JStr salt),
     (''commitment'', JStr commitment), (''caseId'', JStr caseId)]"

definition commit_run :: "string option \<Rightarrow> council_case \<Rightarrow> string \<Rightarrow> string \<Rightarrow> executed option web" where
  "commit_run address c selected salt = (let a = caller address; i = cc_caseId c in
     bindM (councilCalcCommitment a i a selected salt) (\<lambda>commitment.
     thenM (store_item (PENDING_KEY a i) (json_text (pending_vote selected salt commitment i)))
       (exec_call address ''commit_vote'' (with_fee (buildCommitVote a i commitment)))))"

definition handleCommit :: "string option \<Rightarrow> council_case \<Rightarrow> string \<Rightarrow> executed option web" where
  "handleCommit address c selected = (if caller address = [] then ret None else
     bindM genSalt (commit_run address c selected))"

definition handleReveal :: "string option \<Rightarrow> council_case \<Rightarrow> string \<Rightarrow> string \<Rightarrow> executed option web" where
  "handleReveal address c selected revealSalt = (if revealSalt = [] then ret None else
     exec_call address ''reveal_vote'' (with_fee (buildRevealVote (caller address) (cc_caseId c) selected revealSalt)))"

definition handleFinalizeCase :: "string option \<Rightarrow> council_case \<Rightarrow> executed option web" where
  "handleFinalizeCase address c = exec_call address ''finalize_and_report_case''
     (with_fee (buildFinalizeCase (caller address) (cc_caseId c)))"

text \<open>\<open>const [correct, payout] = v\<close>\<close>

definition js_pair :: "jsval \<Rightarrow> (jsval \<times> jsval) web" where
  "js_pair v = (case v of JArr xs \<Rightarrow> ret (js_at xs 0, js_at xs 1)
     | JStr s \<Rightarrow> ret (js_at (map (\<lambda>c. JStr [c]) s) 0, js_at (map (\<lambda>c. JStr [c]) s) 1)
     | _ \<Rightarrow> throw (JsError (TypeError ''object is not iterable'')))"

text \<open>The reward shown after a claim: whether the vote was correct and the payout.\<close>

definition handleClaimReward :: "string option \<Rightarrow> council_case \<Rightarrow> (jsval \<times> string) option web" where
  "handleClaimReward address c = (if caller address = [] then ret None else
     catchM (bindM (submit_call address ''claim_reward'' (buildClaimReward (caller address) (cc_caseId c))) (\<lambda>r.
       thenM (show_state (success_state r)) (case ex_returnValue r of None \<Rightarrow> ret None
         | Some v \<Rightarrow> bindM (bindM (fromScVal v) js_pair) (\<lambda>(correct, payout). ret (Some (correct, js_String payout)))))) (\<lambda>e.
     bindM (getsM (\<lambda>b. parseDikeError b e)) (\<lambda>m. thenM (show_state (failed_with m)) (ret None))))"

text \<open>The outcome and the salt the form takes from the storage, if anything is stored and it parses.\<close>

definition loadStoredReveal :: "string option \<Rightarrow> council_case \<Rightarrow> (jsval \<times> jsval) option web" where
  "loadStoredReveal address c = (if caller address = [] then ret None else
     bindM (getsM (\<lambda>b. (map_of (w_local b) (PENDING_KEY (caller address) (cc_caseId c)), w_parse b))) (\<lambda>(stored, parse).
     if or_else stored [] = [] then ret None else (case parse (or_else stored []) of None \<Rightarrow> ret None
       | Some v \<Rightarrow> ret (if js_nullish v then None else Some (js_field v ''outcome'', js_field v ''salt'')))))"

text \<open>The steps the form offers.\<close>

definition vote_steps :: "council_case \<Rightarrow> js_num \<Rightarrow> string list" where
  "vote_steps c now = (if inCommitPhase c now then [''commit_vote''] else []) @
     (if inRevealPhase c now then [''reveal_vote''] else []) @
     (if cc_status c = ''ReadyToFinalize'' then [''finalize_and_report_case''] else []) @
     (if cc_status c = ''Finalized'' then [''claim_reward''] else [])"

end
