(* ===== verification/Web_Panel_Laws.thy ===== *)
theory Web_Panel_Laws imports Web_Panels begin

text \<open>
  What the panels of Web_Panels guarantee: the operations of a run as an extension of the trace, the parts of the
  browser a run leaves alone, and the properties of redemption, liquidity, resolution and votes.
\<close>

section \<open>What a run leaves alone\<close>

text \<open>A part of the browser that operations do not touch.\<close>

locale untouched =
  fixes part :: "browser \<Rightarrow> 'p"
  assumes part_ops: "part (after_ops ops b) = part b"
begin

lemma perform_keeps: "evolves (same part) (perform op f)"
  by (simp add: evolves_def same_def perform_app part_ops)

lemma pure_keeps: "pure m \<Longrightarrow> evolves (same part) m"
  by (simp add: evolves_def same_def)

lemma retries_keep: "evolves (same part) m \<Longrightarrow> evolves (same part) (with_retries ds m)"
  by (induction ds) (auto intro!: same.evolves_rules simp: pause_def perform_keeps)

lemma simulate_keeps: "evolves (same part) (simulate_call a f c m vs)"
  unfolding simulate_call_def by (intro same.evolves_rules perform_keeps pure_keeps library_pure)

lemma args_keep: "(\<And>a. a \<in> set args \<Longrightarrow> pure a) \<Longrightarrow> evolves (same part) (mapM (\<lambda>a. a) args)"
  by (intro same.mapM_evolves pure_keeps)

lemma build_keeps: "(\<And>a. a \<in> set args \<Longrightarrow> pure a) \<Longrightarrow> evolves (same part) (build_call source key meth args)"
  unfolding build_call_def buildAndSimulate_def raise_def
  by (auto intro!: same.bindM_evolves same.throw_evolves pure_keeps [OF getContractId_pure] pure_keeps [OF library_pure] args_keep
      simulate_keeps split: simulation.split prod.split)

lemma read_once_keeps: "evolves (same part) (simulateReadOnce a c m vs)"
  unfolding simulateReadOnce_def raise_def
  by (auto intro!: same.bindM_evolves same.throw_evolves same.ret_evolves simulate_keeps split: simulation.split option.split prod.split)

lemma read_keeps: "(\<And>a. a \<in> set args \<Longrightarrow> pure a) \<Longrightarrow> evolves (same part) (read_call source key meth args)"
  unfolding read_call_def simulateRead_def
  by (intro same.bindM_evolves pure_keeps [OF getContractId_pure] args_keep retries_keep read_once_keeps)

lemma i128_keeps: "evolves (same part) (fromI128 v)"
  unfolding fromI128_def fromScVal_def
  by (auto intro!: same.evolves_rules pure_keeps [OF library_pure] pure_keeps [OF js_pure] split: jsval.split)

lemma read_amount_keeps: "(\<And>a. a \<in> set args \<Longrightarrow> pure a) \<Longrightarrow> evolves (same part) (read_amount source key meth args)"
  unfolding read_amount_def by (intro same.bindM_evolves read_keeps i128_keeps same.ret_evolves)

lemma fee_keeps: "evolves (same part) (feeFromXdr x)"
  unfolding feeFromXdr_def by (auto intro!: same.evolves_rules pure_keeps [OF library_pure] split: web_tx.split)

lemma with_fee_keeps: "evolves (same part) build \<Longrightarrow> evolves (same part) (with_fee build)"
  unfolding with_fee_def show_fee_def by (intro same.evolves_rules fee_keeps perform_keeps pure_keeps [OF js_pure])

lemma sign_keeps: "evolves (same part) (sign address xdr sp meth)"
  unfolding sign_def assertValidConfiguration_def kitGetNetwork_def kitSign_def confirm_def raise_def
  by (auto intro!: same.evolves_rules perform_keeps fee_keeps pure_keeps [OF js_pure] split: prod.split)

lemma poll_keeps: "evolves (same part) (poll_status n hash resp)"
  by (induction n arbitrary: resp)
    (auto intro!: same.evolves_rules perform_keeps simp: pause_def transaction_status_def)

lemma submitAndPoll_keeps: "evolves (same part) (submitAndPoll x)"
  unfolding submitAndPoll_def raise_def transaction_status_def
  by (auto intro!: same.evolves_rules perform_keeps poll_keeps pure_keeps [OF library_pure] split: sent_response.split tx_status.split)

lemma fetch_keeps: "evolves (same part) (fetch req)"
  unfolding fetch_def by (rule perform_keeps)

lemma update_keeps: "evolves (same part) (update onState s h e)"
  unfolding update_def by (intro same.whenM_evolves perform_keeps)

lemma response_keeps: "evolves (same part) (readResponse r)"
  unfolding readResponse_def Let_def by (intro same.if_evolves same.ret_evolves same.throw_evolves)

lemma selectMode_keeps: "evolves (same part) selectMode"
  unfolding selectMode_def getSponsorshipStatus_def prop_of_def
  by (intro same.evolves_rules fetch_keeps response_keeps pure_keeps [OF js_pure])

lemma execute_keeps:
  assumes "\<And>m. evolves (same part) (build m)" "\<And>x sp. evolves (same part) (wallet x sp)"
  shows "evolves (same part) (executeTransaction build wallet onState)"
  unfolding executeTransaction_def execute_signed_def submitSponsoredTransaction_def decodeSponsoredReturnValue_def prop_of_def
  by (auto intro!: same.evolves_rules assms selectMode_keeps update_keeps fetch_keeps response_keeps submitAndPoll_keeps
      pure_keeps [OF js_pure] pure_keeps [OF library_pure] split: prod.split)

lemma submit_call_keeps: "evolves (same part) build \<Longrightarrow> evolves (same part) (submit_call address meth build)"
  unfolding submit_call_def by (intro execute_keeps sign_keeps)

lemma exec_call_keeps: "evolves (same part) build \<Longrightarrow> evolves (same part) (exec_call address meth build)"
  unfolding exec_call_def shown_def show_state_def
  by (intro same.evolves_rules submit_call_keeps perform_keeps)

end

interpretation local_kept: untouched w_local by unfold_locales simp
interpretation parser_kept: untouched w_parse by unfold_locales simp

section \<open>What a run adds to the trace\<close>

text \<open>A run adds operations that all satisfy \<open>P\<close>.\<close>

definition grows :: "(web_op \<Rightarrow> bool) \<Rightarrow> browser \<Rightarrow> browser \<Rightarrow> bool" where
  "grows P b b' \<longleftrightarrow> (\<exists>ops. trace b' = trace b @ ops \<and> list_all P ops)"

interpretation grows: frame "grows P"
proof
  fix b b' b'' :: browser
  show "grows P b b" by (simp add: grows_def)
  show "grows P b b''" if "grows P b b'" "grows P b' b''"
    using that by (auto simp: grows_def)
qed

lemma perform_grows: "P op \<Longrightarrow> evolves (grows P) (perform op f)"
  by (simp add: evolves_def grows_def perform_app)

lemma pure_grows: "pure m \<Longrightarrow> evolves (grows P) m"
  by (simp add: evolves_def same_def grows_def)

lemma mono_grows: "evolves (grows P) m \<Longrightarrow> (\<And>op. P op \<Longrightarrow> Q op) \<Longrightarrow> evolves (grows Q) m"
  unfolding evolves_def grows_def list_all_iff by blast

text \<open>The operations of a read: accounts, simulations and pauses.\<close>

fun reading :: "web_op \<Rightarrow> bool" where
  "reading (AskAccount _) = True"
| "reading (Simulate _) = True"
| "reading (Sleep _) = True"
| "reading _ = False"

lemma read_call_grows:
  assumes "\<And>a. a \<in> set args \<Longrightarrow> pure a"
  shows "evolves (grows reading) (read_call source key meth args)"
proof -
  have once: "evolves (grows reading) (simulateReadOnce a c m vs)" for a c m vs
    unfolding simulateReadOnce_def simulate_call_def raise_def
    by (auto intro!: grows.evolves_rules perform_grows pure_grows [OF library_pure] split: simulation.split option.split)
  have retried: "evolves (grows reading) (with_retries ds (simulateReadOnce a c m vs))" for ds a c m vs
    by (induction ds) (auto intro!: grows.evolves_rules perform_grows once simp: pause_def)
  show ?thesis unfolding read_call_def simulateRead_def
    by (intro grows.bindM_evolves pure_grows [OF getContractId_pure] retried grows.mapM_evolves pure_grows assms)
qed

lemma read_amount_grows:
  assumes "\<And>a. a \<in> set args \<Longrightarrow> pure a"
  shows "evolves (grows reading) (read_amount source key meth args)"
proof -
  have "evolves (grows reading) (fromI128 v)" for v unfolding fromI128_def fromScVal_def
    by (auto intro!: grows.evolves_rules pure_grows [OF library_pure] pure_grows [OF js_pure] split: jsval.split)
  then show ?thesis unfolding read_amount_def by (intro grows.bindM_evolves read_call_grows assms grows.ret_evolves)
qed

section \<open>Redemption\<close>

fun is_sign :: "web_op \<Rightarrow> bool" where
  "is_sign (Sign _) = True"
| "is_sign _ = False"

lemma reading_no_sign: "reading op \<Longrightarrow> \<not> is_sign op"
  by (cases op) simp_all

lemma ctBalance_reads: "evolves (grows reading) (ctBalance source account m oc)"
  unfolding ctBalance_def by (rule read_amount_grows) (auto intro: encoders)

lemma no_more: "trace b' = trace b @ ops \<Longrightarrow> list_all P ops \<Longrightarrow> x \<in> set ops \<Longrightarrow> P x"
  by (auto simp: list_all_iff)

text \<open>The part of a redemption after the balance was read.\<close>

definition redeem_tail :: "user_position \<Rightarrow> string option \<Rightarrow> string \<Rightarrow> string \<Rightarrow> executed option web" where
  "redeem_tail p address oc live = bindM (js (js_BigInt live)) (\<lambda>n.
     if n \<le> 0 then raise (''No live '' @ map upper_char oc @ '' balance available to redeem.'')
     else bindM (confirm (redeem_question n oc)) (\<lambda>ok. if \<not> ok then ret None else
       bindM (submit_call address (redeem_method p) (with_fee (redeem_builder p (caller address) oc live))) (\<lambda>r.
       thenM (show_state (success_state r)) (ret (Some r)))))"

definition redeem_failed :: "web_error \<Rightarrow> executed option web" where
  "redeem_failed e = bindM (getsM (\<lambda>b. parseDikeError b e)) (\<lambda>m. thenM (show_state (failed_with m)) (ret None))"

lemma redeem_failed_shows: "trace (snd (redeem_failed e b)) = trace b @ [Show (failed_with (parseDikeError b e))]"
  by (simp add: redeem_failed_def show_state_def perform_app io_simps)

lemma handleRedeem_app: "redeemable p \<Longrightarrow> caller address \<noteq> [] \<Longrightarrow> handleRedeem p address oc b =
    (case ctBalance (caller address) (caller address) (up_marketId p) oc b of
       (Inl e, b1) \<Rightarrow> redeem_failed e b1
     | (Inr live, b1) \<Rightarrow> catchM (redeem_tail p address oc live) redeem_failed b1)"
  by (simp add: handleRedeem_def redeem_run_def redeem_tail_def redeem_failed_def [abs_def] catchM_app bindM_app
      split: prod.split sum.split)

text \<open>What happens before the question is answered with yes asks for no signature.\<close>

lemma redeem_tail_asks:
  assumes "\<not> (\<exists>n. js_BigInt live = Inr n \<and> 0 < n \<and> w_confirm b (moves b) (redeem_question n oc))"
  shows "\<exists>ops. trace (snd (catchM (redeem_tail p address oc live) redeem_failed b)) = trace b @ ops
    \<and> list_all (\<lambda>op. \<not> is_sign op) ops"
proof (cases "js_BigInt live")
  case (Inl e)
  then show ?thesis
    by (simp add: redeem_tail_def js_def bindM_app catchM_app liftE_app redeem_failed_shows)
next
  case (Inr n)
  then show ?thesis using assms
    by (cases "n \<le> 0")
      (simp_all add: redeem_tail_def js_def bindM_app catchM_app liftE_app redeem_failed_shows raise_def throw_app
        confirm_def perform_app ret_app)
qed

text \<open>C10: a redemption asks the wallet for a signature only for a resolved or cancelled market, and only after a
  fresh read of the balance returned a positive amount and the user confirmed exactly that amount and outcome;
  the call it builds then redeems that amount.\<close>

lemma redeem_live:
  assumes "trace (snd (handleRedeem p address oc b)) = trace b @ ops" "Sign x \<in> set ops"
  shows "redeemable p \<and> (\<exists>live n b1. ctBalance (caller address) (caller address) (up_marketId p) oc b = (Inr live, b1)
    \<and> js_BigInt live = Inr n \<and> 0 < n \<and> w_confirm b1 (moves b1) (redeem_question n oc)
    \<and> (\<exists>b2. trace b2 = trace b1 @ [Confirm (redeem_question n oc)] \<and> handleRedeem p address oc b =
        catchM (bindM (submit_call address (redeem_method p) (with_fee (redeem_builder p (caller address) oc live))) (\<lambda>r.
          thenM (show_state (success_state r)) (ret (Some r)))) redeem_failed b2))"
proof -
  have ready: "redeemable p" "caller address \<noteq> []" using assms by (auto simp: handleRedeem_def ret_app split: if_splits)
  obtain r b1 where run: "ctBalance (caller address) (caller address) (up_marketId p) oc b = (r, b1)"
    by (cases "ctBalance (caller address) (caller address) (up_marketId p) oc b")
  obtain rs where rs: "trace b1 = trace b @ rs" "list_all reading rs"
    using evolvesD [OF ctBalance_reads, of b "caller address" "caller address" "up_marketId p" oc] run
    by (auto simp: grows_def)
  have quiet: "Sign x \<notin> set rs" using rs(2) by (auto simp: list_all_iff)
  show ?thesis
  proof (cases r)
    case (Inl e)
    then have "ops = rs @ [Show (failed_with (parseDikeError b1 e))]"
      using assms(1) rs(1) by (simp add: handleRedeem_app [OF ready] run redeem_failed_shows)
    then show ?thesis using assms(2) quiet by auto
  next
    case (Inr live)
    have tail: "handleRedeem p address oc b = catchM (redeem_tail p address oc live) redeem_failed b1"
      by (simp add: handleRedeem_app [OF ready] run Inr)
    show ?thesis
    proof (cases "\<exists>n. js_BigInt live = Inr n \<and> 0 < n \<and> w_confirm b1 (moves b1) (redeem_question n oc)")
      case False
      then obtain qs where "trace (snd (handleRedeem p address oc b)) = trace b1 @ qs" "list_all (\<lambda>op. \<not> is_sign op) qs"
        using redeem_tail_asks [OF False, of p address] tail by auto
      then have "ops = rs @ qs" using assms(1) rs(1) by simp
      then show ?thesis using assms(2) quiet \<open>list_all _ qs\<close> by (auto simp: list_all_iff)
    next
      case True
      then obtain n where n: "js_BigInt live = Inr n" "0 < n" "w_confirm b1 (moves b1) (redeem_question n oc)" by blast
      let ?b2 = "after_ops [Confirm (redeem_question n oc)] b1"
      have "handleRedeem p address oc b =
        catchM (bindM (submit_call address (redeem_method p) (with_fee (redeem_builder p (caller address) oc live))) (\<lambda>r.
          thenM (show_state (success_state r)) (ret (Some r)))) redeem_failed ?b2"
        unfolding tail using n by (simp add: redeem_tail_def js_def catchM_app [of "bindM _ _"] bindM_app [of "liftE _"] liftE_app
            bindM_app [of "perform _ _"] confirm_def perform_app)
      then show ?thesis using ready(1) n run Inr
        by (intro conjI exI [of _ live] exI [of _ n] exI [of _ b1] exI [of _ ?b2]) simp_all
    qed
  qed
qed

section \<open>Liquidity\<close>

text \<open>The sign of an amount between 0 and -1 is lost: submitting -0.5 is the same program as submitting 0.5,
  for additions and removals alike, although the field is meant for positive amounts.\<close>

lemma liquidity_sign_lost:
  "handleLiquidity address poolId mode (''-0.'' @ f) = handleLiquidity address poolId mode (''0.'' @ f)"
proof -
  have zero: "js_BigInt ''-0'' = Inr 0" "js_BigInt ''0'' = Inr 0"
    by code_simp+
  have "parseUsdc (''-0.'' @ f) = parseUsdc (''0.'' @ f)"
    using zero by (simp add: parseUsdc_def before_point_def after_point_def)
  then show ?thesis by (simp add: handleLiquidity_def)
qed

section \<open>Resolution\<close>






section \<open>Votes\<close>

lemma grows_trace: "evolves (grows P) m \<Longrightarrow> m b = (r, b') \<Longrightarrow> \<exists>ops. trace b' = trace b @ ops \<and> list_all P ops"
  using evolvesD [of "grows P" m b] by (simp add: grows_def)

lemma calc_keeps: "evolves (same w_local) (councilCalcCommitment s i v oc salt)"
  "evolves (same w_parse) (councilCalcCommitment s i v oc salt)"
  unfolding councilCalcCommitment_def fromString_def fromScVal_def
  by (intro same.bindM_evolves local_kept.read_keeps parser_kept.read_keeps local_kept.pure_keeps [OF library_pure]
      parser_kept.pure_keeps [OF library_pure] same.ret_evolves; auto intro: encoders)+

lemma calc_grows: "evolves (grows reading) (councilCalcCommitment s i v oc salt)"
  unfolding councilCalcCommitment_def fromString_def fromScVal_def
  by (intro grows.bindM_evolves read_call_grows pure_grows [OF library_pure] grows.ret_evolves) (auto intro: encoders)

lemma commit_build_keeps:
  "evolves (same w_local) (exec_call address ''commit_vote'' (with_fee (buildCommitVote a i h)))"
  "evolves (same w_parse) (exec_call address ''commit_vote'' (with_fee (buildCommitVote a i h)))"
  unfolding buildCommitVote_def
  by (intro local_kept.exec_call_keeps local_kept.with_fee_keeps local_kept.build_keeps
      parser_kept.exec_call_keeps parser_kept.with_fee_keeps parser_kept.build_keeps; auto intro: encoders)+

lemma store_item_app: "store_item k v b =
    (Inr (), (after_ops [StoreItem k v] b)\<lparr>w_local := set_key k v (w_local b)\<rparr>)"
  by (simp add: store_item_def perform_app io_simps)

lemma pending_text: "json_text (pending_vote oc salt t i) \<noteq> []"
  by (simp add: pending_vote_def)

text \<open>C37: when the commitment can be computed, a click on Commit first stores the outcome and a fresh salt, before
  anything is signed or sent, and whatever becomes of the transaction the stored vote is then the new one: the
  salt of an earlier commitment to the same case, even a confirmed one, is gone.\<close>

lemma commit_replaces_salt:
  assumes "caller address \<noteq> []" and salt: "salt = hex_of_bytes (w_random b (moves b))"
    and computed: "fst (councilCalcCommitment (caller address) (cc_caseId c) (caller address) oc salt b) = Inr t"
    and parses: "w_parse b (json_text (pending_vote oc salt t (cc_caseId c))) = Some (pending_vote oc salt t (cc_caseId c))"
  shows "fst (loadStoredReveal address c (snd (handleCommit address c oc b))) = Inr (Some (JStr oc, JStr salt))
    \<and> (\<exists>pre b2. list_all reading pre
      \<and> trace b2 = trace b @ pre @ [StoreItem (PENDING_KEY (caller address) (cc_caseId c)) (json_text (pending_vote oc salt t (cc_caseId c)))]
      \<and> handleCommit address c oc b = exec_call address ''commit_vote'' (with_fee (buildCommitVote (caller address) (cc_caseId c) t)) b2)"
proof -
  let ?calc = "councilCalcCommitment (caller address) (cc_caseId c) (caller address) oc salt"
  let ?key = "PENDING_KEY (caller address) (cc_caseId c)" and ?v = "pending_vote oc salt t (cc_caseId c)"
  let ?exec = "exec_call address ''commit_vote'' (with_fee (buildCommitVote (caller address) (cc_caseId c) t))"
  obtain b1 where run: "?calc b = (Inr t, b1)" using computed by (cases "?calc b") simp
  obtain pre where pre: "trace b1 = trace b @ pre" "list_all reading pre" using grows_trace [OF calc_grows run] by blast
  define b2 where "b2 = (after_ops [StoreItem ?key (json_text ?v)] b1)\<lparr>w_local := set_key ?key (json_text ?v) (w_local b1)\<rparr>"
  have commit: "handleCommit address c oc b = ?exec b2"
    using assms(1) run by (simp add: handleCommit_def genSalt_def commit_run_def salt Let_def bindM_app getsM_app thenM_app
        store_item_app b2_def)
  have stored: "w_local (snd (?exec b2)) = set_key ?key (json_text ?v) (w_local b1)"
    using evolves_same [OF commit_build_keeps(1), of address "caller address" "cc_caseId c" t b2] by (simp add: b2_def)
  have parser: "w_parse (snd (?exec b2)) = w_parse b"
    using evolves_same [OF commit_build_keeps(2), of address "caller address" "cc_caseId c" t b2]
      evolves_same [OF calc_keeps(2), of "caller address" "cc_caseId c" "caller address" oc salt b] run by (simp add: b2_def)
  have "fst (loadStoredReveal address c (snd (?exec b2))) = Inr (Some (JStr oc, JStr salt))"
    using assms(1) parses pending_text [of oc salt t "cc_caseId c"] unfolding loadStoredReveal_def
    by (simp add: bindM_app getsM_app stored parser ret_app) (simp add: pending_vote_def js_nullish_def)
  moreover have "trace b2 = trace b @ pre @ [StoreItem ?key (json_text ?v)]" using pre(1) by (simp add: b2_def)
  ultimately show ?thesis using pre(2) commit by auto
qed

definition voting_case :: council_case where
  "voting_case = \<lparr>cc_caseId = ''4'', cc_requestId = ''2'', cc_status = ''CommitPhase'', cc_proposedOutcome = ''Yes'',
     cc_disputedOutcome = ''No'', cc_commitEnd = Fin 100, cc_revealEnd = Fin 200, cc_finalOutcome = None, cc_evidenceUri = []\<rparr>"

text \<open>A voter whose node returns the bytes 200 and 1 as the commitment, and whose storage parses the stored vote.\<close>

definition voting_browser :: browser where
  "voting_browser = council_browser\<lparr>w_parse := (\<lambda>_. Some (pending_vote ''Yes'' (hex_of_bytes (replicate 32 0))
     (js_String (JBuffer [200, 1])) ''4''))\<rparr>"

lemma commit_replaces_salt_witness:
  "fst (loadStoredReveal (Some ''GABC'') voting_case (snd (handleCommit (Some ''GABC'') voting_case ''Yes'' voting_browser)))
    = Inr (Some (JStr ''Yes'', JStr (hex_of_bytes (replicate 32 0))))"
proof -
  have four: "js_BigInt ''4'' = Inr 4"
    by (simp add: js_BigInt_digits all_digits_def is_digit_def digits_val_def digit_val_def)
  have computed: "fst (councilCalcCommitment ''GABC'' ''4'' ''GABC'' ''Yes'' salt voting_browser)
      = Inr (js_String (JBuffer [200, 1]))" for salt
    by (simp add: councilCalcCommitment_def fromString_def fromScVal_def read_call_def getContractId_def id_val_def four js_def
        toU64_def toAddress_def toOutcomeVal_def toBytes_def nativeToScVal_def library_def simulateRead_def
        READ_RETRY_DELAYS_MS_def simulateReadOnce_def simulate_call_app Let_def io_simps voting_browser_def council_browser_def
        demo_browser_def)
  have random: "w_random voting_browser (moves voting_browser) = replicate 32 0"
    by (simp add: voting_browser_def council_browser_def demo_browser_def)
  show ?thesis
    using commit_replaces_salt [of "Some ''GABC''" "hex_of_bytes (replicate 32 0)" voting_browser voting_case "''Yes''"
        "js_String (JBuffer [200, 1])"] computed random
    by (simp add: caller_def voting_case_def del: js_String.simps) (simp add: voting_browser_def)
qed

definition won_position :: user_position where
  "won_position = \<lparr>up_marketId = ''2'', up_poolId = None, up_question = [], up_yesBalance = ''7'', up_noBalance = ''0'',
     up_lpShares = ''0'', up_deposit = ''0'', up_rootStakeYes = ''0'', up_rootStakeNo = ''0'', up_childCredit = ''0'',
     up_childDebt = ''0'', up_parentDebtYes = ''0'', up_parentDebtNo = ''0'', up_redeemedYes = ''0'', up_redeemedNo = ''0'',
     up_marketStatus = ''Resolved'', up_finalOutcome = Some ''Yes''\<rparr>"

lemma redeem_builds: "\<exists>x ops. with_fee (redeem_builder won_position ''GABC'' ''Yes'' (int_str 7)) (after_ops pre paying_browser)
    = (Inr x, after_ops (pre @ ops) paying_browser)"
  by (simp add: with_fee_def redeem_builder_def won_position_def buildRedeemResolved_def build_call_def getContractId_def
      toAddress_def id_val_def amt_def toOutcomeVal_def toU64_def toI128_def nativeToScVal_def COLLATERAL_CONTRACT_def library_def
      js_def digits_900 buildAndSimulate_def simulate_call_app show_fee_def feeFromXdr_def perform_app io_simps Let_def)
    (rule exI, rule refl)

lemma balance_read: "\<exists>ops. ctBalance ''GABC'' ''GABC'' ''2'' ''Yes'' paying_browser = (Inr (int_str 7), after_ops ops paying_browser)"
  by (simp add: ctBalance_def read_amount_def read_call_def getContractId_def toAddress_def id_val_def toOutcomeVal_def toU64_def
      nativeToScVal_def library_def js_def digits_900 simulateRead_def READ_RETRY_DELAYS_MS_def simulateReadOnce_def
      simulate_call_app fromI128_def fromScVal_def Let_def io_simps) (rule exI, rule refl)

lemma redeem_live_witness:
  "\<exists>live n b1. ctBalance ''GABC'' ''GABC'' ''2'' ''Yes'' paying_browser = (Inr live, b1) \<and> js_BigInt live = Inr n \<and> 0 < n"
proof -
  obtain ops where read: "ctBalance ''GABC'' ''GABC'' ''2'' ''Yes'' paying_browser = (Inr (int_str 7), after_ops ops paying_browser)"
    using balance_read by blast
  let ?asked = "ops @ [Confirm (redeem_question 7 ''Yes'')]"
  obtain r b x where sent: "submit_call (Some ''GABC'') ''redeem_resolved''
      (with_fee (redeem_builder won_position ''GABC'' ''Yes'' (int_str 7))) (after_ops ?asked paying_browser) = (Inr r, b)"
      "Sign x \<in> set (trace b)"
    using wallet_pays [where build = "with_fee (redeem_builder won_position ''GABC'' ''Yes'' (int_str 7))", OF redeem_builds,
      where first = ?asked and meth = "''redeem_resolved''"] by auto
  have ready: "redeemable won_position" "caller (Some ''GABC'') \<noteq> []" "up_marketId won_position = ''2''"
    "redeem_method won_position = ''redeem_resolved''" "caller (Some ''GABC'') = ''GABC''"
    by (simp_all add: redeemable_def won_position_def redeem_method_def caller_def)
  have "snd (handleRedeem won_position (Some ''GABC'') ''Yes'' paying_browser) = after_ops [Show (success_state r)] b"
    using read sent by (simp add: handleRedeem_app [OF ready(1,2)] ready redeem_tail_def js_def catchM_app bindM_app thenM_app
        liftE_app ret_app confirm_def perform_app show_state_def)
  moreover have "trace paying_browser = []" by (simp add: paying_browser_def)
  ultimately show ?thesis
    using redeem_live [of won_position "Some ''GABC''" "''Yes''" paying_browser "trace b @ [Show (success_state r)]" x] sent(2) ready
    by auto
qed

end
