(* ===== verification/Web_Wallet.thy ===== *)
theory Web_Wallet imports Web_Panel_Laws begin

text \<open>
  The wallet context (\<open>dike-web/lib/contexts/wallet.tsx\<close>, over \<open>lib/stellar/wallet.ts\<close>): connecting,
  restoring and disconnecting, the permissions that arrive for the connected address, and the gate of the
  protected sections (\<open>components/auth/SectionGate.tsx\<close>).  The signing guard is in Web_Execute.
\<close>

section \<open>The wallet kit\<close>

text \<open>The kit is initialised once, in a window only.\<close>

definition initWalletKit :: "unit web" where
  "initWalletKit = bindM (getsM (\<lambda>b. w_kitReady b \<or> \<not> w_window b)) (\<lambda>skip. if skip then ret () else
     thenM (perform InitKit w_initKit) (modifyM (\<lambda>b. b\<lparr>w_kitReady := True\<rparr>)))"

definition kitConnect :: "string web" where
  "kitConnect = thenM initWalletKit (perform Connect w_kitConnect)"

definition kitGetAddress :: "string web" where
  "kitGetAddress = perform AskAddress w_kitAddress"

definition kitDisconnect :: "unit web" where
  "kitDisconnect = perform Disconnect w_kitDisconnect"

definition session_set :: "string \<Rightarrow> unit web" where
  "session_set a = thenM (perform (SessionSet a) (\<lambda>_ _. Inr ())) (modifyM (\<lambda>b. b\<lparr>w_session := Some a\<rparr>))"

definition session_remove :: "unit web" where
  "session_remove = thenM (perform SessionRemove (\<lambda>_ _. Inr ())) (modifyM (\<lambda>b. b\<lparr>w_session := None\<rparr>))"

section \<open>The context\<close>

text \<open>
  The state of the context and the promises under way, in the order they were started.  Each is a point at which
  \<open>connect\<close> or the restoration waits: \<open>RestoreInit\<close> for the kit, \<open>RestoreAsk\<close> for the address and the network
  together, \<open>ConnectModal\<close> for the address picked in the modal, \<open>ConnectNetwork\<close> for the network of the picked wallet,
  \<open>ConnectLeave\<close> for the disconnection from a wallet on another network.
\<close>

datatype wallet_task = RestoreInit string | RestoreAsk string | ConnectModal | ConnectNetwork string | ConnectLeave

record wallet =
  wl_address :: "string option"
  wl_connecting :: bool
  wl_networkError :: "string option"
  wl_permissions :: "wallet_permissions option"
  wl_asking :: "string option"
  wl_tasks :: "wallet_task list"

definition no_wallet :: wallet where
  "no_wallet = \<lparr>wl_address = None, wl_connecting = False, wl_networkError = None, wl_permissions = None,
     wl_asking = None, wl_tasks = []\<rparr>"

text \<open>The effect that asks for permissions runs when the address changes; it cancels the request before it.\<close>

definition set_address :: "string option \<Rightarrow> wallet \<Rightarrow> wallet" where
  "set_address a w = (if a = wl_address w then w else w\<lparr>wl_address := a, wl_asking := truthy_address a\<rparr>)"

definition permissionsLoading :: "wallet \<Rightarrow> bool" where
  "permissionsLoading w \<longleftrightarrow> or_else (wl_address w) [] \<noteq> []
     \<and> (case wl_permissions w of None \<Rightarrow> True | Some p \<Rightarrow> wl_address w \<noteq> Some (wp_address p))"

section \<open>Connecting and restoring\<close>

text \<open>A piece of the code between two waits: it talks to the wallet and the session, and ends with what it does to
  the state of the context.\<close>

type_synonym wallet_piece = "(wallet \<Rightarrow> wallet) web"

definition add_task :: "wallet_task \<Rightarrow> wallet \<Rightarrow> wallet" where
  "add_task t w = w\<lparr>wl_tasks := wl_tasks w @ [t]\<rparr>"

definition wrong_network :: "string web" where
  "wrong_network = getsM (\<lambda>b. ''Wrong wallet network. Switch to '' @ w_label b @ ''.'')"

definition error_message :: "web_error \<Rightarrow> string" where
  "error_message e = (case e of JsError x \<Rightarrow> exn_message x | SponsorshipApiError _ m _ _ \<Rightarrow> m
     | ServiceUnavailableError m \<Rightarrow> m | Thrown v \<Rightarrow> js_String v)"

definition connect_failed :: "web_error \<Rightarrow> wallet_piece" where
  "connect_failed e = (let msg = error_message e in
     ret (\<lambda>w. (if has_substring ''closed the modal'' msg then w else w\<lparr>wl_networkError := Some msg\<rparr>)\<lparr>wl_connecting := False\<rparr>))"

definition connect_start :: wallet_piece where
  "connect_start = catchM (thenM assertValidConfiguration (ret (add_task ConnectModal))) connect_failed"

definition connect_picked :: wallet_piece where
  "connect_picked = catchM (bindM kitConnect (\<lambda>addr. ret (add_task (ConnectNetwork addr)))) connect_failed"

definition connect_checked :: "string \<Rightarrow> wallet_piece" where
  "connect_checked addr = catchM
     (bindM (catchM kitGetNetwork (\<lambda>_. raise (''Could not determine wallet network. '' @
       ''Connection blocked until the wallet reports its active network.''))) (\<lambda>walletNet.
     bindM (getsM w_passphrase) (\<lambda>passphrase.
     if walletNet \<noteq> passphrase then ret (add_task ConnectLeave)
     else thenM (session_set addr) (ret (\<lambda>w. (set_address (Some addr) w)\<lparr>wl_connecting := False\<rparr>)))))
     connect_failed"

definition connect_left :: wallet_piece where
  "connect_left = thenM (catchM kitDisconnect (\<lambda>_. ret ())) (bindM wrong_network (\<lambda>m.
     ret (\<lambda>w. w\<lparr>wl_networkError := Some m, wl_connecting := False\<rparr>)))"

text \<open>The restoration: it starts on mount when the session keeps an address.  A failure of the kit's initialisation is
  not handled, a failure of one of the two questions removes the address from the session.\<close>

definition restore_start :: wallet_piece where
  "restore_start = bindM (getsM (\<lambda>b. if w_window b then w_session b else None)) (\<lambda>stored.
     ret (if or_else stored [] = [] then id else add_task (RestoreInit (or_else stored []))))"

definition restore_ready :: "string \<Rightarrow> wallet_piece" where
  "restore_ready stored = thenM initWalletKit (ret (add_task (RestoreAsk stored)))"

definition restore_answered :: "string \<Rightarrow> wallet_piece" where
  "restore_answered stored = catchM
     (bindM kitGetAddress (\<lambda>addr. bindM kitGetNetwork (\<lambda>walletNetwork. bindM (getsM w_passphrase) (\<lambda>passphrase.
       if walletNetwork \<noteq> passphrase
         then bindM wrong_network (\<lambda>m. thenM session_remove (ret (\<lambda>w. w\<lparr>wl_networkError := Some m\<rparr>)))
       else if addr = stored then ret (set_address (Some addr)) else thenM session_remove (ret id)))))
     (\<lambda>_. thenM session_remove (ret id))"

fun resume_task :: "wallet_task \<Rightarrow> wallet_piece" where
  "resume_task (RestoreInit stored) = restore_ready stored"
| "resume_task (RestoreAsk stored) = restore_answered stored"
| "resume_task ConnectModal = connect_picked"
| "resume_task (ConnectNetwork addr) = connect_checked addr"
| "resume_task ConnectLeave = connect_left"

section \<open>The steps of the context\<close>

text \<open>The page mounts, the user clicks, permissions arrive, or the wallet answers what the \<open>n\<close>-th promise under way waits
  for; all in any order.\<close>

datatype wallet_event = Mount | ConnectClick | DisconnectClick | PermissionsArrive | Resume nat

text \<open>What a piece leaves: a rejection nobody handles leaves the state alone.\<close>

definition outcome_or :: "'a \<Rightarrow> web_error + 'a \<Rightarrow> 'a" where
  "outcome_or d r = (case r of Inl e \<Rightarrow> d | Inr a \<Rightarrow> a)"

definition run_piece :: "wallet_piece \<Rightarrow> wallet \<times> browser \<Rightarrow> wallet \<times> browser" where
  "run_piece p s = (case s of (w, b) \<Rightarrow> (case p b of (r, b') \<Rightarrow> (outcome_or id r w, b')))"

fun wallet_step :: "wallet_event \<Rightarrow> wallet \<times> browser \<Rightarrow> wallet \<times> browser" where
  "wallet_step Mount (w, b) = run_piece restore_start (w, b)"
| "wallet_step ConnectClick (w, b) = run_piece connect_start (w\<lparr>wl_connecting := True, wl_networkError := None\<rparr>, b)"
| "wallet_step DisconnectClick (w, b) = (case catchM kitDisconnect (\<lambda>_. ret ()) b of (_, b1) \<Rightarrow>
     (case session_remove b1 of (_, b') \<Rightarrow> ((set_address None w)\<lparr>wl_permissions := None\<rparr>, b')))"
| "wallet_step PermissionsArrive (w, b) = (case wl_asking w of None \<Rightarrow> (w, b)
   | Some a \<Rightarrow> (case fetchWalletPermissions a b of
       (Inr p, b') \<Rightarrow> (w\<lparr>wl_permissions := Some p, wl_asking := None\<rparr>, b')
     | (Inl e, b') \<Rightarrow> (w\<lparr>wl_permissions := None, wl_asking := None\<rparr>, b')))"
| "wallet_step (Resume n) (w, b) = (if n < length (wl_tasks w)
     then run_piece (resume_task (wl_tasks w ! n)) (w\<lparr>wl_tasks := drop_at n (wl_tasks w)\<rparr>, b) else (w, b))"

definition wallet_run :: "wallet_event list \<Rightarrow> wallet \<times> browser \<Rightarrow> wallet \<times> browser" where
  "wallet_run evs s = fold wallet_step evs s"

section \<open>The gate of a section\<close>

datatype permission = CanCreate | CanResolve | CanCouncil | CanAdmin

fun granted :: "permission \<Rightarrow> wallet_permissions \<Rightarrow> bool" where
  "granted CanCreate p = wp_canCreate p"
| "granted CanResolve p = wp_canResolve p"
| "granted CanCouncil p = wp_canCouncil p"
| "granted CanAdmin p = wp_canAdmin p"

datatype gate = AskConnect | Verifying | Restricted | Opened

definition section_gate :: "permission \<Rightarrow> wallet \<Rightarrow> gate" where
  "section_gate k w = (if or_else (wl_address w) [] = [] then AskConnect
     else if permissionsLoading w then Verifying
     else (case wl_permissions w of None \<Rightarrow> Restricted | Some p \<Rightarrow> if granted k p then Opened else Restricted))"

section \<open>A connected address\<close>

lemma session_ops [simp]: "session_set a b = (Inr (), (after_ops [SessionSet a] b)\<lparr>w_session := Some a\<rparr>)"
  "session_remove b = (Inr (), (after_ops [SessionRemove] b)\<lparr>w_session := None\<rparr>)"
  by (simp_all add: session_set_def session_remove_def perform_app io_simps)

text \<open>The parts of the browser that no step changes.\<close>

definition wallet_oracles :: "browser \<Rightarrow> (nat \<Rightarrow> web_error + string) \<times> string \<times> (nat \<Rightarrow> web_error + string)" where
  "wallet_oracles b = (w_walletNetwork b, w_passphrase b, w_kitConnect b)"

interpretation oracles_kept: untouched wallet_oracles
  by unfold_locales (simp add: wallet_oracles_def)

lemma session_keeps: "evolves (same wallet_oracles) (session_set a)" "evolves (same wallet_oracles) session_remove"
  by (simp_all add: evolves_def same_def wallet_oracles_def)

lemma permissions_keep: "evolves (same wallet_oracles) (fetchWalletPermissions a)"
  "evolves (same w_session) (fetchWalletPermissions a)"
proof -
  have s: "evolves (same w_session) (perform op f)" for op and f :: "browser \<Rightarrow> nat \<Rightarrow> web_error + http_response"
    by (simp add: evolves_def same_def perform_app)
  show "evolves (same wallet_oracles) (fetchWalletPermissions a)" "evolves (same w_session) (fetchWalletPermissions a)"
    unfolding fetchWalletPermissions_def apiGet_def unavailable_def response_json_def raise_def fetch_def
    by (auto intro!: same.evolves_rules oracles_kept.perform_keeps s split: option.split)
qed

lemma kit_keeps: "evolves (same wallet_oracles) initWalletKit"
  unfolding initWalletKit_def
  by (intro same.evolves_rules same.modifyM_evolves oracles_kept.perform_keeps) (simp add: same_def wallet_oracles_def)

lemmas piece_defs = connect_start_def connect_picked_def connect_checked_def connect_left_def connect_failed_def
  restore_start_def restore_ready_def restore_answered_def assertValidConfiguration_def kitConnect_def
  kitGetNetwork_def kitGetAddress_def kitDisconnect_def wrong_network_def raise_def Let_def

lemma pieces_keep: "evolves (same wallet_oracles) restore_start" "evolves (same wallet_oracles) connect_start"
  "evolves (same wallet_oracles) (resume_task t)"
proof -
  note keep = same.evolves_rules oracles_kept.perform_keeps session_keeps kit_keeps
  show "evolves (same wallet_oracles) restore_start" "evolves (same wallet_oracles) connect_start"
    unfolding piece_defs by (auto intro!: keep)
  show "evolves (same wallet_oracles) (resume_task t)"
    by (cases t) (auto simp: piece_defs intro!: keep)
qed

lemma run_piece_browser: "snd (run_piece p (w, b)) = snd (p b)"
  by (simp add: run_piece_def split: prod.split)

lemma step_oracles: "wallet_oracles (snd (wallet_step ev s)) = wallet_oracles (snd s)"
proof (cases s)
  case (Pair w b)
  show ?thesis
  proof (cases ev)
    case DisconnectClick
    then show ?thesis using Pair
      by (simp add: kitDisconnect_def perform_app catchM_app ret_app wallet_oracles_def split: sum.split)
  next
    case PermissionsArrive
    then show ?thesis using evolves_same [OF permissions_keep(1), of _ b] Pair
      by (auto split: option.split prod.split sum.split) (metis snd_conv)+
  qed (use Pair evolves_same [OF pieces_keep(1), of b] evolves_same [OF pieces_keep(2), of b]
      evolves_same [OF pieces_keep(3), of _ b] in \<open>simp_all add: run_piece_browser\<close>)
qed

lemma wallet_run_snoc [simp]: "wallet_run (evs @ [ev]) s = wallet_step ev (wallet_run evs s)"
  by (simp add: wallet_run_def)

lemma wallet_run_Cons [simp]: "wallet_run [] s = s" "wallet_run (ev # evs) s = wallet_run evs (wallet_step ev s)"
  by (simp_all add: wallet_run_def)

text \<open>The promise an event answers.\<close>

definition answered :: "wallet_event \<Rightarrow> wallet \<times> browser \<Rightarrow> wallet_task option" where
  "answered ev s = (case ev of Resume n \<Rightarrow> if n < length (wl_tasks (fst s)) then Some (wl_tasks (fst s) ! n) else None
     | _ \<Rightarrow> None)"

text \<open>An event that connects an address: the wallet now reports the application's network, for an address picked in the
  modal, or together with the address that the restoration found in the session.\<close>

definition connects :: "string \<Rightarrow> wallet_event \<Rightarrow> wallet \<times> browser \<Rightarrow> bool" where
  "connects a ev s \<longleftrightarrow> (let b = snd s in
     answered ev s = Some (ConnectNetwork a) \<and> w_walletNetwork b (moves b) = Inr (w_passphrase b) \<or>
     answered ev s = Some (RestoreAsk a) \<and> w_kitAddress b (moves b) = Inr a \<and>
       w_walletNetwork b (Suc (moves b)) = Inr (w_passphrase b))"

text \<open>A restoration that is answered when the context is connected already, or when the session no longer keeps the
  address it started with.\<close>

definition late_restore :: "wallet_event \<Rightarrow> wallet \<times> browser \<Rightarrow> bool" where
  "late_restore ev s \<longleftrightarrow> (\<exists>stored. answered ev s = Some (RestoreAsk stored) \<and>
     (wl_address (fst s) \<noteq> None \<or> w_session (snd s) \<noteq> Some stored))"

lemma address_simps [simp]: "wl_address (set_address a w) = a" "wl_address (add_task t w) = wl_address w"
  by (simp_all add: set_address_def add_task_def)

lemma outcome_or_simps [simp]: "outcome_or d (Inl e) = d" "outcome_or d (Inr a) = a"
  by (simp_all add: outcome_or_def)

lemmas piece_run = piece_defs run_piece_def initWalletKit_def perform_app io_simps

text \<open>The pieces that neither connect nor touch the session.\<close>

lemma plain_pieces:
  "wl_address (fst (run_piece restore_start (w, b))) = wl_address w" "w_session (snd (run_piece restore_start (w, b))) = w_session b"
  "wl_address (fst (run_piece connect_start (w, b))) = wl_address w" "w_session (snd (run_piece connect_start (w, b))) = w_session b"
  "wl_address (fst (run_piece (restore_ready x) (w, b))) = wl_address w" "w_session (snd (run_piece (restore_ready x) (w, b))) = w_session b"
  "wl_address (fst (run_piece connect_picked (w, b))) = wl_address w" "w_session (snd (run_piece connect_picked (w, b))) = w_session b"
  "wl_address (fst (run_piece connect_left (w, b))) = wl_address w" "w_session (snd (run_piece connect_left (w, b))) = w_session b"
  by (auto simp: piece_run split: sum.splits)

lemma checked_piece:
  "wl_address (fst (run_piece (connect_checked x) (w, b))) = wl_address w \<and> w_session (snd (run_piece (connect_checked x) (w, b))) = w_session b
   \<or> w_walletNetwork b (moves b) = Inr (w_passphrase b) \<and> wl_address (fst (run_piece (connect_checked x) (w, b))) = Some x
     \<and> w_session (snd (run_piece (connect_checked x) (w, b))) = Some x"
  by (auto simp: piece_run split: sum.splits)

lemma answered_piece:
  "wl_address (fst (run_piece (restore_answered x) (w, b))) = wl_address w \<and> w_session (snd (run_piece (restore_answered x) (w, b))) = None
   \<or> w_kitAddress b (moves b) = Inr x \<and> w_walletNetwork b (Suc (moves b)) = Inr (w_passphrase b)
     \<and> wl_address (fst (run_piece (restore_answered x) (w, b))) = Some x
     \<and> w_session (snd (run_piece (restore_answered x) (w, b))) = w_session b"
  by (auto simp: piece_run split: sum.splits)

lemma permissions_step:
  "wl_address (fst (wallet_step PermissionsArrive s)) = wl_address (fst s)"
  "w_session (snd (wallet_step PermissionsArrive s)) = w_session (snd s)"
  using evolves_same [OF permissions_keep(2), of _ "snd s"]
  by (cases s; auto split: option.split prod.split sum.split; metis snd_conv)+

lemma disconnect_step: "wl_address (fst (wallet_step DisconnectClick s)) = None"
  by (cases s) (simp add: kitDisconnect_def perform_app catchM_app ret_app set_address_def split: sum.split)

text \<open>What a step can do to the address and to the session that goes with it.\<close>

lemma step_address:
  assumes "wl_address (fst (wallet_step ev s)) = Some a"
  shows "(wl_address (fst s) = Some a \<or> connects a ev s) \<and>
    (w_session (snd (wallet_step ev s)) = Some a \<or> late_restore ev s \<or>
      wl_address (fst s) = Some a \<and> w_session (snd (wallet_step ev s)) = w_session (snd s))"
proof -
  obtain w b where s: "s = (w, b)" by (cases s)
  show ?thesis
  proof (cases "answered ev s")
    case None
    then show ?thesis using assms s disconnect_step [of s] permissions_step [of s]
      by (cases ev) (auto simp: plain_pieces answered_def split: if_splits)
  next
    case (Some t)
    then obtain n where n: "ev = Resume n" "n < length (wl_tasks w)" "t = wl_tasks w ! n"
      using s by (cases ev) (auto simp: answered_def split: if_splits)
    let ?w = "w\<lparr>wl_tasks := drop_at n (wl_tasks w)\<rparr>"
    have step: "wallet_step ev (w, b) = run_piece (resume_task t) (?w, b)" using n by simp
    show ?thesis
    proof (cases t)
      case (RestoreAsk x)
      then show ?thesis using assms answered_piece [of x ?w b] Some s
        by (auto simp: step connects_def late_restore_def)
    next
      case (ConnectNetwork x)
      then show ?thesis using assms checked_piece [of x ?w b] Some s
        by (auto simp: step connects_def)
    qed (use assms s plain_pieces in \<open>simp_all add: step\<close>)
  qed
qed

text \<open>C19: an address the application shows as connected was connected by one answer of the wallet: that answer reported
  the application's network, and \<open>connect\<close> was waiting for it with this address, or the answer came together with the
  address a restoration had found in the session, and was the same.  It is also the address the session keeps, unless a
  restoration was answered late: after a connection, or after the session had changed.  This holds for clicks, mounts and
  answers in any order.\<close>

lemma wallet_connection:
  assumes "wl_address (fst (wallet_run evs (no_wallet, b))) = Some a"
  shows "happened wallet_step (connects a) (no_wallet, b) evs \<and>
    (w_session (snd (wallet_run evs (no_wallet, b))) = Some a \<or> happened wallet_step late_restore (no_wallet, b) evs)"
  using assms
proof (induction evs rule: rev_induct)
  case Nil
  then show ?case by (simp add: no_wallet_def)
next
  case (snoc ev evs)
  let ?s = "wallet_run evs (no_wallet, b)"
  have step: "wl_address (fst (wallet_step ev ?s)) = Some a" using snoc.prems by simp
  have fold: "?s = fold wallet_step evs (no_wallet, b)" by (simp add: wallet_run_def)
  have now: "P ev ?s \<Longrightarrow> happened wallet_step P (no_wallet, b) (evs @ [ev])" for P
    unfolding fold by (rule happened_now)
  show ?case using step_address [OF step] snoc.IH now [of "connects a"] now [of late_restore] happened_old by fastforce
qed

text \<open>What a late restoration does.  When the context is connected meanwhile, a restoration that fails takes the newer
  connection's address out of the session: it stays connected, and a reload forgets it.  When the user has disconnected
  meanwhile, a restoration that succeeds connects again, and the session does not know.\<close>

lemma late_restore_forgets:
  assumes "answered ev s = Some (RestoreAsk stored)" "wl_address (fst s) = Some a"
    "\<And>t. w_kitAddress (snd s) t \<noteq> Inr stored"
  shows "wl_address (fst (wallet_step ev s)) = Some a \<and> w_session (snd (wallet_step ev s)) = None"
proof -
  obtain w b where s: "s = (w, b)" by (cases s)
  obtain n where n: "ev = Resume n" "n < length (wl_tasks w)" "wl_tasks w ! n = RestoreAsk stored"
    using assms(1) s by (cases ev) (auto simp: answered_def split: if_splits)
  show ?thesis
    using answered_piece [of stored "w\<lparr>wl_tasks := drop_at n (wl_tasks w)\<rparr>" b] assms(2,3) n s by simp
qed

lemma restore_after_disconnect:
  assumes "wl_tasks w = [RestoreAsk a]"
    "\<And>t. w_kitAddress b t = Inr a" "\<And>t. w_walletNetwork b t = Inr (w_passphrase b)"
  shows "wl_address (fst (wallet_run [DisconnectClick, Resume 0] (w, b))) = Some a \<and>
    w_session (snd (wallet_run [DisconnectClick, Resume 0] (w, b))) = None"
  using assms by (auto simp: piece_run catchM_app ret_app set_address_def split: sum.splits)

section \<open>Permissions that do not arrive\<close>

text \<open>Nothing is asked for any more, and nothing is known, for the connected address \<open>a\<close>; the wallet knows only it, and
  no restoration is under way.\<close>

definition own_task :: "string \<Rightarrow> wallet_task \<Rightarrow> bool" where
  "own_task a t \<longleftrightarrow> t = ConnectModal \<or> t = ConnectNetwork a \<or> t = ConnectLeave"

definition left_waiting :: "string \<Rightarrow> wallet \<times> browser \<Rightarrow> bool" where
  "left_waiting a s \<longleftrightarrow> wl_address (fst s) = Some a \<and> wl_permissions (fst s) = None \<and> wl_asking (fst s) = None
     \<and> list_all (own_task a) (wl_tasks (fst s)) \<and> (\<forall>t x. w_kitConnect (snd s) t = Inr x \<longrightarrow> x = a)"

text \<open>What a piece may do to a wallet that is left waiting.\<close>

definition harmless :: "string \<Rightarrow> (wallet \<Rightarrow> wallet) \<Rightarrow> bool" where
  "harmless a f \<longleftrightarrow> (\<forall>w. wl_address w = Some a \<and> wl_permissions w = None \<and> wl_asking w = None \<and> list_all (own_task a) (wl_tasks w) \<longrightarrow>
     wl_address (f w) = Some a \<and> wl_permissions (f w) = None \<and> wl_asking (f w) = None \<and> list_all (own_task a) (wl_tasks (f w)))"

lemma harmless_pieces:
  assumes "\<And>t x. w_kitConnect b t = Inr x \<Longrightarrow> x = a"
  shows "harmless a (outcome_or id (fst (connect_start b)))" "harmless a (outcome_or id (fst (connect_picked b)))"
    "harmless a (outcome_or id (fst (connect_checked a b)))" "harmless a (outcome_or id (fst (connect_left b)))"
  using assms
  by (auto simp: piece_run harmless_def add_task_def own_task_def set_address_def split: sum.splits)

lemma left_waiting_piece:
  assumes "harmless a (outcome_or id (fst (p b)))" "left_waiting a (w, b)" "wallet_oracles (snd (p b)) = wallet_oracles b"
  shows "left_waiting a (run_piece p (w, b))"
  using assms by (auto simp: left_waiting_def harmless_def run_piece_def wallet_oracles_def split: prod.split)

lemma left_waiting_step:
  assumes "left_waiting a s" "ev \<notin> {Mount, DisconnectClick}"
  shows "left_waiting a (wallet_step ev s)"
proof -
  obtain w b where s: "s = (w, b)" by (cases s)
  have kit: "x = a" if "w_kitConnect b t = Inr x" for t x using assms(1) s that by (auto simp: left_waiting_def)
  have pieces: "harmless a (outcome_or id (fst (connect_start b)))" "harmless a (outcome_or id (fst (connect_picked b)))"
    "harmless a (outcome_or id (fst (connect_checked a b)))" "harmless a (outcome_or id (fst (connect_left b)))"
    using harmless_pieces [of b a] kit by blast+
  show ?thesis
  proof (cases ev)
    case ConnectClick
    have "left_waiting a (w\<lparr>wl_connecting := True, wl_networkError := None\<rparr>, b)"
      using assms(1) s by (simp add: left_waiting_def)
    then show ?thesis
      using left_waiting_piece [where p = connect_start] pieces(1) evolves_same [OF pieces_keep(2)] ConnectClick s by simp
  next
    case PermissionsArrive
    then show ?thesis using assms(1) s by (simp add: left_waiting_def)
  next
    case (Resume n)
    show ?thesis
    proof (cases "n < length (wl_tasks w)")
      case True
      have own: "own_task a (wl_tasks w ! n)" using assms(1) s True by (simp add: left_waiting_def list_all_length)
      have "list_all (own_task a) (drop_at n (wl_tasks w))"
        using assms(1) s set_drop_at [of n "wl_tasks w"] by (auto simp: left_waiting_def list_all_iff)
      then have rest: "left_waiting a (w\<lparr>wl_tasks := drop_at n (wl_tasks w)\<rparr>, b)"
        using assms(1) s by (simp add: left_waiting_def)
      have "harmless a (outcome_or id (fst (resume_task (wl_tasks w ! n) b)))"
        using own pieces by (auto simp: own_task_def)
      then show ?thesis
        using left_waiting_piece [where p = "resume_task (wl_tasks w ! n)"] rest evolves_same [OF pieces_keep(3)] Resume True s by simp
    qed (use assms(1) s Resume in simp)
  qed (use assms(2) in simp_all)
qed

text \<open>C38: when the permissions of the connected address cannot be read once, every protected section shows that
  access is being verified for as long as the user stays connected with that address: nothing asks again, not
  even connecting anew, and no error is shown.  Any clicks on connect and any answers may follow; of the promises under
  way none is a restoration or concerns another address.\<close>

lemma permissions_never_retried:
  assumes asked: "wl_address w = Some a" "a \<noteq> []" "wl_asking w = Some a" and failed: "fst (fetchWalletPermissions a b) = Inl e"
    and kit: "\<And>t x. w_kitConnect b t = Inr x \<Longrightarrow> x = a" and tasks: "list_all (own_task a) (wl_tasks w)"
    and evs: "Mount \<notin> set evs" "DisconnectClick \<notin> set evs"
  shows "section_gate k (fst (wallet_run (PermissionsArrive # evs) (w, b))) = Verifying"
proof -
  obtain b' where run: "fetchWalletPermissions a b = (Inl e, b')" using failed by (cases "fetchWalletPermissions a b") simp
  have "w_kitConnect b' = w_kitConnect b"
    using evolves_same [OF permissions_keep(1), of a b] run by (simp add: wallet_oracles_def)
  then have start: "left_waiting a (wallet_step PermissionsArrive (w, b))"
    using asked run kit tasks by (auto simp: left_waiting_def)
  have "left_waiting a (wallet_run es s)" if "left_waiting a s" "Mount \<notin> set es" "DisconnectClick \<notin> set es" for es s
    using that
  proof (induction es arbitrary: s)
    case (Cons ev es)
    have "left_waiting a (wallet_step ev s)" by (rule left_waiting_step) (use Cons.prems in auto)
    then show ?case using Cons by simp
  qed simp
  from this [OF start evs] have "left_waiting a (wallet_run (PermissionsArrive # evs) (w, b))" by simp
  then show ?thesis using asked(2) by (simp add: left_waiting_def section_gate_def permissionsLoading_def)
qed

section \<open>A concrete wallet\<close>

text \<open>The services answer every request with an error.\<close>

definition refusing_browser :: browser where
  "refusing_browser = (demo_browser JNull)\<lparr>w_fetch := (\<lambda>_ _. Inr \<lparr>h_ok = False, h_status = 500, h_json = None\<rparr>)\<rparr>"

lemma permissions_never_retried_witness:
  "section_gate CanAdmin (fst (wallet_run [PermissionsArrive, ConnectClick, Resume 0, Resume 0, PermissionsArrive]
     (no_wallet\<lparr>wl_address := Some ''GABC'', wl_asking := Some ''GABC''\<rparr>, refusing_browser))) = Verifying"
proof -
  have "\<exists>e. fst (fetchWalletPermissions ''GABC'' refusing_browser) = Inl e"
    by (simp add: fetchWalletPermissions_def apiGet_def fetch_def unavailable_def raise_def perform_app io_simps
        refusing_browser_def demo_browser_def)
  then obtain e where "fst (fetchWalletPermissions ''GABC'' refusing_browser) = Inl e" by blast
  moreover have "x = ''GABC''" if "w_kitConnect refusing_browser t = Inr x" for t x
    using that by (simp add: refusing_browser_def demo_browser_def)
  ultimately show ?thesis
    by (intro permissions_never_retried [where a = "''GABC''"]) (simp_all add: no_wallet_def)
qed

text \<open>A click, the address from the modal, the network: connected.\<close>

lemma demo_connects:
  "wl_address (fst (wallet_run [Mount, ConnectClick, Resume 0, Resume 0] (no_wallet, demo_browser JNull))) = Some ''GABC''"
  by (simp add: piece_run no_wallet_def add_task_def drop_at_def set_address_def demo_browser_def after_ops_def)

lemma wallet_connection_witness:
  "happened wallet_step (connects ''GABC'') (no_wallet, demo_browser JNull) [Mount, ConnectClick, Resume 0, Resume 0]"
  using wallet_connection [OF demo_connects] by blast

end
