(* ===== verification/Web_Create.thy ===== *)
theory Web_Create imports Web_Wallet begin

text \<open>
  The page that creates a market (\<open>dike-web/app/(app)/create-predic/page.tsx\<close>): its form, the validation before
  a submission and the call it sends.  The calendar, which writes the text of the expiry, is in Web_Calendar.
\<close>

section \<open>The form\<close>

definition OPENING_PRICE_BPS :: js_num where
  "OPENING_PRICE_BPS = Fin 5000"

record create_form =
  fm_question :: string
  fm_rulesUri :: string
  fm_category :: string
  fm_expiry :: string
  fm_collateral :: string
  fm_bondAmount :: string
  fm_disputeWindowHours :: string
  fm_initialLiquidity :: string

definition blank_form :: "string \<Rightarrow> create_form" where
  "blank_form collateral = \<lparr>fm_question = [], fm_rulesUri = [], fm_category = [], fm_expiry = [],
     fm_collateral = collateral, fm_bondAmount = ''10'', fm_disputeWindowHours = ''48'', fm_initialLiquidity = ''100''\<rparr>"

fun js_floor :: "js_num \<Rightarrow> js_num" where
  "js_floor (Fin q) = Fin (of_int \<lfloor>q\<rfloor>)"
| "js_floor n = n"

text \<open>\<open>Math.floor(ms / 1000)\<close>\<close>

definition unix_seconds :: "js_num \<Rightarrow> js_num" where
  "unix_seconds ms = js_floor (js_div ms (Fin 1000))"

definition not_positive :: "string \<Rightarrow> bool" where
  "not_positive s \<longleftrightarrow> js_le (js_Number_of_string s) (Fin 0)"

definition validate :: "(string \<Rightarrow> url option) \<Rightarrow> browser \<Rightarrow> create_form \<Rightarrow> (string \<times> string) option" where
  "validate parse b f =
    (if js_trim (fm_question f) = [] then Some (''question'', ''Question is required'')
     else case getReferenceUrlError parse (fm_rulesUri f) ''Rules URL'' of Some m \<Rightarrow> Some (''rulesUri'', m)
     | None \<Rightarrow>
       if fm_category f = [] then Some (''category'', ''Category is required'')
       else if fm_expiry f = [] then Some (''expiry'', ''Expiry is required'')
       else if js_le (unix_seconds (w_date b (fm_expiry f))) (unix_seconds (num_of_int (w_now b (moves b))))
         then Some (''expiry'', ''Expiry must be in the future'')
       else if js_trim (fm_collateral f) = [] then Some (''collateral'', ''Collateral address is required'')
       else case w_addressScVal b (js_trim (fm_collateral f)) of
         Inl e \<Rightarrow> Some (''collateral'', ''Collateral address must be a valid Stellar address'')
       | Inr v \<Rightarrow>
         if not_positive (fm_bondAmount f) then Some (''bondAmount'', ''Bond amount must be positive'')
         else if not_positive (fm_disputeWindowHours f) then Some (''disputeWindowHours'', ''Dispute window must be positive'')
         else if not_positive (fm_initialLiquidity f) then Some (''initialLiquidity'', ''Initial liquidity must be positive'')
         else None)"

section \<open>Creating\<close>

definition sha256Hex :: "string \<Rightarrow> string web" where
  "sha256Hex v = getsM (\<lambda>b. hex_of_bytes (w_sha256 b (js_trim v)))"

text \<open>The parameters of the call; the collateral is sent as it was typed.\<close>

definition create_params :: "create_form \<Rightarrow> create_market_params web" where
  "create_params f = bindM (getsM (\<lambda>b. unix_seconds (w_date b (fm_expiry f)))) (\<lambda>expiryTs.
     bindM (sha256Hex (js_trim (fm_question f))) (\<lambda>questionHash. bindM (sha256Hex (js_trim (fm_rulesUri f))) (\<lambda>rulesHash.
     bindM (js (parseUsdc (fm_bondAmount f))) (\<lambda>bond.
     ret \<lparr>cm_question = js_trim (fm_question f), cm_questionHash = questionHash, cm_rulesUri = js_trim (fm_rulesUri f),
       cm_rulesHash = rulesHash, cm_category = fm_category f, cm_expiry = expiryTs, cm_collateral = fm_collateral f,
       cm_bondAmount = int_str bond, cm_disputeWindow = js_mul (js_Number_of_string (fm_disputeWindowHours f)) (Fin 3600),
       cm_feeConfig = None\<rparr>))))"

definition building :: tx_state where
  "building = \<lparr>ts_status = ''building'', ts_hash = JNull, ts_error = None\<rparr>"

definition create_run :: "string \<Rightarrow> create_form \<Rightarrow> executed web" where
  "create_run address f = thenM (show_state building) (bindM (create_params f) (\<lambda>params.
     bindM (js (parseUsdc (fm_initialLiquidity f))) (\<lambda>liquidity.
     submit_call (Some address) ''create_market'' (buildCreateMarket address params (int_str liquidity) OPENING_PRICE_BPS))))"

text \<open>What a click leaves: nothing, an error at a field, the created market's hash with the form blank again, or the
  error shown with the form as it was.\<close>

datatype create_outcome = Ignored | FieldError string string | Created_market jsval | Create_failed

definition handleCreate :: "(string \<Rightarrow> url option) \<Rightarrow> string option \<Rightarrow> create_form \<Rightarrow> (create_outcome \<times> create_form) web" where
  "handleCreate parse address f = (if caller address = [] then ret (Ignored, f) else
     bindM (getsM (\<lambda>b. validate parse b f)) (\<lambda>err. case err of
       Some (fld, m) \<Rightarrow> ret (FieldError fld m, f)
     | None \<Rightarrow> catchM (bindM (create_run (caller address) f) (\<lambda>r. thenM (show_state idle)
           (bindM COLLATERAL_CONTRACT (\<lambda>c. ret (Created_market (ex_hash r), blank_form c))))) (\<lambda>e.
         bindM (getsM (\<lambda>b. parseDikeError b e)) (\<lambda>m. thenM (show_state (failed_with m)) (ret (Create_failed, f))))))"

text \<open>The fee of a creation, shown when it can be read.\<close>

definition creation_fee :: "string option \<Rightarrow> string option web" where
  "creation_fee address = (if caller address = [] then ret None else
     catchM (bindM (feeManagerGetConfig (caller address)) (\<lambda>cfg. ret (Some (creationFee cfg)))) (\<lambda>_. ret None))"

section \<open>What the validation lets through\<close>

lemma tiny_bond_passes: "\<not> not_positive ''0.00000001''"
  by code_simp

lemma exponent_passes: "\<not> not_positive ''1e3''"
  by code_simp

lemma tiny_bond_zero: "parseUsdc ''0.00000001'' = Inr 0"
  by code_simp

lemma exponent_no_amount: "\<exists>e. parseUsdc ''1e3'' = Inl e"
proof -
  have "isl (parseUsdc ''1e3'')" by code_simp
  then show ?thesis by (auto simp: isl_def)
qed

lemma validate_bond:
  assumes "validate parse b f = None" "\<not> not_positive s"
  shows "validate parse b (f\<lparr>fm_bondAmount := s\<rparr>) = None"
  using assms by (simp add: validate_def split: if_splits option.splits sum.splits)

text \<open>The validation compares numbers where the call reads amounts: a form that passes also passes with a bond of
  0.00000001, which is sent as a bond of zero, and with a bond of 1e3, which always fails after it was shown as
  building and before anything is requested.\<close>

lemma create_bond_gap:
  assumes "validate parse b f = None" "caller address \<noteq> []"
  shows "validate parse b (f\<lparr>fm_bondAmount := ''0.00000001''\<rparr>) = None
    \<and> (\<exists>p. create_params (f\<lparr>fm_bondAmount := ''0.00000001''\<rparr>) b = (Inr p, b) \<and> cm_bondAmount p = int_str 0)
    \<and> (\<exists>m. handleCreate parse address (f\<lparr>fm_bondAmount := ''1e3''\<rparr>) b =
        (Inr (Create_failed, f\<lparr>fm_bondAmount := ''1e3''\<rparr>), after_ops [Show building, Show (failed_with m)] b))"
proof -
  obtain e where e: "parseUsdc ''1e3'' = Inl e" using exponent_no_amount by blast
  have "create_params (f\<lparr>fm_bondAmount := ''1e3''\<rparr>) b' = (Inl (JsError e), b')" for b'
    using e by (simp add: create_params_def sha256Hex_def js_def io_simps)
  then have "create_run a (f\<lparr>fm_bondAmount := ''1e3''\<rparr>) b = (Inl (JsError e), after_ops [Show building] b)" for a
    by (simp add: create_run_def show_state_def perform_app io_simps)
  then show ?thesis
    using assms validate_bond [OF assms(1) tiny_bond_passes] validate_bond [OF assms(1) exponent_passes]
    by (simp add: handleCreate_def create_params_def sha256Hex_def js_def show_state_def perform_app io_simps tiny_bond_zero)
      (rule exI, rule refl)
qed

text \<open>A complete form on a page whose clock stands at the epoch.\<close>

definition filled_form :: create_form where
  "filled_form = (blank_form ''USDC'')\<lparr>fm_question := ''Q'', fm_rulesUri := ''https://dike.xyz'', fm_category := ''General'',
     fm_expiry := ''1970-01-02T00:00''\<rparr>"

definition dated_browser :: browser where
  "dated_browser = (demo_browser JNull)\<lparr>w_date := (\<lambda>_. Fin 2000)\<rparr>"

lemma round_positive: "\<not> not_positive ''10''" "\<not> not_positive ''48''" "\<not> not_positive ''100''"
proof -
  have "js_Number_of_string s = Fin (of_nat (digits_val s))" if "all_digits s" "digits_val s \<le> 2 ^ 53" for s
    using that num_of_int_exact [of "int (digits_val s)"] by (simp add: Number_digits)
  then have positive: "\<not> not_positive s" if "all_digits s" "digits_val s \<le> 2 ^ 53" "0 < digits_val s" for s
    using that by (simp add: not_positive_def js_le_def js_num_eq_def)
  show "\<not> not_positive ''10''" "\<not> not_positive ''48''" "\<not> not_positive ''100''"
    by (rule positive; simp add: all_digits_def is_digit_def digits_val_def digit_val_def)+
qed

lemma filled_validates: "validate (demo_url ''dike.xyz'') dated_browser filled_form = None"
proof -
  have "unix_seconds (Fin 2000) = Fin 2" "unix_seconds (num_of_int 0) = Fin 0"
    using fround_of_int [of 2] fround_of_int [of 0] num_of_int_exact [of 0] by (simp_all add: unix_seconds_def)
  then have "\<not> js_le (unix_seconds (Fin 2000)) (unix_seconds (num_of_int 0))" by (simp add: js_le_def js_num_eq_def)
  then show ?thesis using round_positive
    by (simp add: validate_def filled_form_def blank_form_def dated_browser_def demo_browser_def getReferenceUrlError_def
        demo_url_def js_trim_no_space is_space_def RESERVED_HOSTS_def ends_with_def starts_with_def isPrivateIpv4_def lower_char_def)
qed

lemma create_bond_gap_witness:
  "\<exists>p. create_params (filled_form\<lparr>fm_bondAmount := ''0.00000001''\<rparr>) dated_browser = (Inr p, dated_browser)
    \<and> cm_bondAmount p = int_str 0"
  using create_bond_gap [OF filled_validates, of "Some ''GABC''"] by (simp add: caller_def)

end
