(* ===== verification/Web_Calendar.thy ===== *)
theory Web_Calendar imports Web_Create begin

text \<open>
  The calendar of the page that creates a market (\<open>dike-web/app/(app)/create-predic/page.tsx\<close>): a day and a time in the
  time zone of the host, kept as the text of the expiry.
\<close>

section \<open>Dates of the host\<close>

text \<open>The host's time zone: the offset of local time at an instant, and the instant of a local time, in milliseconds.
  Offsets are whole minutes.\<close>

record host_zone =
  tz_offset :: "int \<Rightarrow> int"
  tz_utc :: "int \<Rightarrow> int"

definition local_time :: "host_zone \<Rightarrow> int \<Rightarrow> int" where
  "local_time z t = t + tz_offset z t"

text \<open>A date is its time value, none for an invalid date.\<close>

definition time_clip :: "int \<Rightarrow> int option" where
  "time_clip t = (if \<bar>t\<bar> \<le> 8640000000000000 then Some t else None)"

definition whole :: "js_num \<Rightarrow> int option" where
  "whole n = (case n of Fin q \<Rightarrow> Some (if q < 0 then - \<lfloor>- q\<rfloor> else \<lfloor>q\<rfloor>) | _ \<Rightarrow> None)"

text \<open>The local time of a day's midnight, and of an hour and a minute of it.\<close>

definition midnight :: "host_zone \<Rightarrow> int \<Rightarrow> int" where
  "midnight z t = local_time z t div 86400000 * 86400000"

definition setHours :: "host_zone \<Rightarrow> js_num \<Rightarrow> js_num \<Rightarrow> int option \<Rightarrow> int option" where
  "setHours z hours minutes date = (case (date, whole hours, whole minutes) of
     (Some t, Some h, Some m) \<Rightarrow> time_clip (tz_utc z (midnight z t + h * 3600000 + m * 60000))
   | _ \<Rightarrow> None)"

section \<open>The expiry text\<close>

definition parseExpiryValue :: "(string \<Rightarrow> int option) \<Rightarrow> string \<Rightarrow> int option option" where
  "parseExpiryValue date_of v = (if v \<noteq> [] then Some (date_of v) else None)"

text \<open>\<open>time.split(":")\<close>\<close>

fun colon_parts :: "string \<Rightarrow> string list" where
  "colon_parts [] = [[]]"
| "colon_parts (c # cs) = (if c = CHR '':'' then [] # colon_parts cs
     else (case colon_parts cs of [] \<Rightarrow> [[c]] | p # ps \<Rightarrow> (c # p) # ps))"

definition part_or :: "nat \<Rightarrow> string \<Rightarrow> string list \<Rightarrow> string" where
  "part_or i d ps = (if i < length ps then ps ! i else d)"

definition toExpiryValue :: "host_zone \<Rightarrow> int option option \<Rightarrow> string \<Rightarrow> exn + string" where
  "toExpiryValue z date time = (case date of None \<Rightarrow> Inr []
   | Some d \<Rightarrow> (let parts = colon_parts time in
       case setHours z (js_Number_of_string (part_or 0 ''23'' parts)) (js_Number_of_string (part_or 1 ''59'' parts)) d of
         None \<Rightarrow> Inl (RangeError ''Invalid time value'')
       | Some u \<Rightarrow> (case time_clip (local_time z u) of None \<Rightarrow> Inl (RangeError ''Invalid time value'')
           | Some v \<Rightarrow> Inr (take 16 (toISOString v)))))"

definition currentTime :: "string \<Rightarrow> string" where
  "currentTime v = (if v \<noteq> [] then take 5 (drop 11 v) else ''23:59'')"

text \<open>A click on a day (on the chosen day it clears the choice), and a change of the time.\<close>

definition pick_day :: "host_zone \<Rightarrow> string \<Rightarrow> int option option \<Rightarrow> exn + string" where
  "pick_day z v date = toExpiryValue z date (currentTime v)"

definition pick_time :: "host_zone \<Rightarrow> (string \<Rightarrow> int option) \<Rightarrow> int \<Rightarrow> string \<Rightarrow> string \<Rightarrow> exn + string" where
  "pick_time z date_of now v time = toExpiryValue z (Some (case parseExpiryValue date_of v of Some d \<Rightarrow> d | None \<Rightarrow> Some now)) time"

definition day_disabled :: "host_zone \<Rightarrow> int \<Rightarrow> int \<Rightarrow> bool" where
  "day_disabled z now date = (case setHours z (Fin 0) (Fin 0) (Some now) of None \<Rightarrow> False | Some t \<Rightarrow> date < t)"

section \<open>The text keeps day and time\<close>

text \<open>The calendar months and days have at most two digits.\<close>

lemma civil_bounds:
  fixes doe q1 q2 q3 yoe q4 q5 doy mp :: int
  assumes "0 \<le> doe" "doe < 146097" "1460 * q1 \<le> doe" "doe < 1460 * q1 + 1460" "36524 * q2 \<le> doe" "doe < 36524 * q2 + 36524"
    "146096 * q3 \<le> doe" "doe < 146096 * q3 + 146096" "365 * yoe \<le> doe - q1 + q2 - q3" "doe - q1 + q2 - q3 < 365 * yoe + 365"
    "4 * q4 \<le> yoe" "yoe < 4 * q4 + 4" "100 * q5 \<le> yoe" "yoe < 100 * q5 + 100"
    and doy: "doy = doe - (365 * yoe + q4 - q5)" "153 * mp \<le> 5 * doy + 2" "5 * doy + 2 < 153 * mp + 153"
  shows "- 2 \<le> mp \<and> mp \<le> 90"
proof -
  have "- 8 \<le> doy" "doy \<le> 600" using assms(1-14) unfolding doy(1) by linarith+
  then show ?thesis using doy(2,3) by linarith
qed

lemma quotient_bounds: "0 < b \<Longrightarrow> b * (a div b) \<le> a \<and> a < b * (a div b) + b" for a b :: int
  by (metis add.commute add_less_cancel_left mult_div_mod_eq pos_mod_bound pos_mod_sign zle_iff_zadd add_le_same_cancel1 le_add_same_cancel1)

lemma civil_day:
  assumes "civil n = (y, m, d)"
  shows "0 \<le> m \<and> m \<le> 93 \<and> 1 \<le> d \<and> d \<le> 31"
proof -
  define doe where "doe = (n + 719468) mod 146097"
  define yoe where "yoe = (doe - doe div 1460 + doe div 36524 - doe div 146096) div 365"
  define doy where "doy = doe - (365 * yoe + yoe div 4 - yoe div 100)"
  define mp where "mp = (5 * doy + 2) div 153"
  define k where "k = (153 * mp + 2) div 5"
  note q = quotient_bounds
  define r where "r = doe - doe div 1460 + doe div 36524 - doe div 146096"
  have q: "b * (a div b) \<le> a" "a < b * (a div b) + b" if "0 < b" for a b :: int
    using quotient_bounds [OF that] by blast+
  have mp: "- 2 \<le> mp \<and> mp \<le> 90"
  proof (rule civil_bounds [of doe "doe div 1460" "doe div 36524" "doe div 146096" yoe "yoe div 4" "yoe div 100" doy mp])
    show "0 \<le> doe" "doe < 146097" unfolding doe_def by (rule pos_mod_sign, simp, rule pos_mod_bound, simp)
    show "365 * yoe \<le> doe - doe div 1460 + doe div 36524 - doe div 146096"
      "doe - doe div 1460 + doe div 36524 - doe div 146096 < 365 * yoe + 365"
      unfolding yoe_def r_def [symmetric] by (rule q; simp only: zero_less_numeral)+
    show "153 * mp \<le> 5 * doy + 2" "5 * doy + 2 < 153 * mp + 153"
      unfolding mp_def by (rule q; simp only: zero_less_numeral)+
    show "doy = doe - (365 * yoe + yoe div 4 - yoe div 100)" by (rule doy_def)
  qed (rule q; simp only: zero_less_numeral)+
  have "civil n = (yoe + (n + 719468) div 146097 * 400 + (if (if mp < 10 then mp + 3 else mp - 9) \<le> 2 then 1 else 0),
      if mp < 10 then mp + 3 else mp - 9, doy - k + 1)"
    unfolding civil_def Let_def k_def mp_def doy_def yoe_def doe_def by (rule refl)
  then have parts: "m = (if mp < 10 then mp + 3 else mp - 9)" "d = doy - k + 1"
    using assms by (simp_all only: prod.inject)
  have near: "153 * mp \<le> 5 * doy + 2" "5 * doy + 2 < 153 * mp + 153" "5 * k \<le> 153 * mp + 2" "153 * mp + 2 < 5 * k + 5"
    unfolding mp_def k_def by (rule q; simp only: zero_less_numeral)+
  have "1 \<le> doy - k + 1 \<and> doy - k + 1 \<le> 31" using near by linarith
  moreover have "0 \<le> (if mp < 10 then mp + 3 else mp - 9)" "(if mp < 10 then mp + 3 else mp - 9) \<le> 93" using mp by simp_all
  ultimately show ?thesis unfolding parts by blast
qed

lemma nat_str_length: "n < 10 ^ k \<Longrightarrow> 0 < k \<Longrightarrow> length (nat_str n) \<le> k"
proof (induction n arbitrary: k rule: nat_str.induct)
  case (1 n)
  then obtain k' where k: "k = Suc k'" by (cases k) auto
  show ?case
  proof (cases "n < 10")
    case False
    then have "n div 10 < 10 ^ k'" "0 < k'" using 1(2) k by (auto intro: gr0I)
    from 1(1) [OF False this] False k show ?thesis by (subst nat_str.simps) simp
  qed (use k in \<open>subst nat_str.simps, simp\<close>)
qed

lemma pad_length: "0 \<le> i \<Longrightarrow> i < 10 ^ k \<Longrightarrow> 0 < k \<Longrightarrow> length (pad_left k (int_str i)) = k"
  using nat_str_length [of "nat i" k] by (simp add: pad_left_def int_str_def nat_less_iff)

lemma pad_digits:
  assumes "0 \<le> i"
  shows "all_digits (pad_left k (int_str i))" "digits_val (pad_left k (int_str i)) = nat i"
proof -
  have "is_digit CHR ''0''" by (simp add: is_digit_def)
  then show "all_digits (pad_left k (int_str i))" "digits_val (pad_left k (int_str i)) = nat i"
    using assms nat_str_digits [of "nat i"]
    by (auto simp: pad_left_def int_str_def digits_val_append all_digits_def list_all_iff)
qed

lemma pad_number:
  assumes "0 \<le> i" "i < 100"
  shows "js_Number_of_string (pad_left 2 (int_str i)) = Fin (of_int i)"
proof -
  have "num_of_int (int (nat i)) = Fin (of_int i)" using assms num_of_int_exact [of i] by simp
  then show ?thesis using pad_digits [OF assms(1), of 2] Number_digits [of "pad_left 2 (int_str i)"] assms by simp
qed

definition clock_text :: "int \<Rightarrow> int \<Rightarrow> string" where
  "clock_text h m = pad_left 2 (int_str h) @ '':'' @ pad_left 2 (int_str m)"

lemma colon_free: "list_all is_digit s \<Longrightarrow> colon_parts (s @ CHR '':'' # cs) = s # colon_parts cs"
  "list_all is_digit s \<Longrightarrow> colon_parts s = [s]"
  by (induction s) (auto simp: is_digit_def)

lemma clock_parts: "0 \<le> h \<Longrightarrow> 0 \<le> m \<Longrightarrow> colon_parts (clock_text h m) = [pad_left 2 (int_str h), pad_left 2 (int_str m)]"
  using pad_digits [of h 2] pad_digits [of m 2] by (simp add: clock_text_def colon_free all_digits_def)

text \<open>The text of a date in a year of four digits: its day in ten characters, then the time of the day.\<close>

definition four_digit_year :: "int \<Rightarrow> bool" where
  "four_digit_year d \<longleftrightarrow> 0 \<le> fst (civil (d div 86400000)) \<and> fst (civil (d div 86400000)) \<le> 9999"

definition day_text :: "int \<Rightarrow> string" where
  "day_text day = (case civil day of (y, m, d) \<Rightarrow> iso_year y @ ''-'' @ pad_left 2 (int_str m) @ ''-'' @ pad_left 2 (int_str d))"

lemma day_text_length: "four_digit_year d \<Longrightarrow> length (day_text (d div 86400000)) = 10"
proof (cases "civil (d div 86400000)")
  case (fields y m e)
  assume "four_digit_year d"
  then have "0 \<le> y" "y \<le> 9999" using fields by (simp_all add: four_digit_year_def)
  then show ?thesis
    using fields civil_day [OF fields] pad_length [of y 4] pad_length [of m 2] pad_length [of e 2]
    by (simp add: day_text_def iso_year_def)
qed

lemma iso_text: "toISOString d = day_text (d div 86400000) @ ''T'' @
    pad_left 2 (int_str (d mod 86400000 div 3600000)) @ '':'' @ pad_left 2 (int_str (d mod 86400000 div 60000 mod 60)) @ '':'' @
    pad_left 2 (int_str (d mod 86400000 div 1000 mod 60)) @ ''.'' @ pad_left 3 (int_str (d mod 86400000 mod 1000)) @ ''Z''"
  by (cases "civil (d div 86400000)") (simp add: toISOString_def day_text_def Let_def)

lemma time_of_day:
  fixes h m day :: int
  assumes "0 \<le> h" "h < 24" "0 \<le> m" "m < 60"
  defines "d \<equiv> day * 86400000 + h * 3600000 + m * 60000"
  shows "d div 86400000 = day" "d mod 86400000 div 3600000 = h" "d mod 86400000 div 60000 mod 60 = m"
proof -
  have small: "0 \<le> h * 3600000 + m * 60000" "h * 3600000 + m * 60000 < 86400000" using assms(1-4) by simp_all
  have d: "d = (h * 3600000 + m * 60000) + day * 86400000" by (simp add: d_def)
  have rest: "d mod 86400000 = h * 3600000 + m * 60000" "d div 86400000 = day"
    unfolding d mod_mult_self1 using small by (simp_all only: mod_pos_pos_trivial div_pos_pos_trivial div_mult_self1)
  show "d div 86400000 = day" by (rule rest)
  have "(m * 60000 + h * 3600000) div 3600000 = h + m * 60000 div 3600000" by simp
  moreover have "m * 60000 div 3600000 = 0" using assms(3,4) by (intro div_pos_pos_trivial) simp_all
  ultimately show "d mod 86400000 div 3600000 = h" unfolding rest by (simp only: add.commute)
  have "(h * 3600000 + m * 60000) = (m + h * 60) * 60000" by simp
  then have "(h * 3600000 + m * 60000) div 60000 = m + h * 60" by (simp only: nonzero_mult_div_cancel_right)
  then show "d mod 86400000 div 60000 mod 60 = m" unfolding rest
    using assms(3,4) by (simp only: mod_mult_self1 mod_pos_pos_trivial)
qed

lemma expiry_text:
  assumes "0 \<le> h" "h < 24" "0 \<le> m" "m < 60" "four_digit_year d" "d = day * 86400000 + h * 3600000 + m * 60000"
  shows "take 16 (toISOString d) = day_text day @ ''T'' @ clock_text h m \<and> length (day_text day) = 10"
proof -
  note parts = time_of_day [OF assms(1-4), of day, folded assms(6)]
  have "length (pad_left 2 (int_str h)) = 2" "length (pad_left 2 (int_str m)) = 2"
    using assms pad_length [of h 2] pad_length [of m 2] by simp_all
  then show ?thesis using day_text_length [OF assms(5)] unfolding iso_text parts
    by (simp add: clock_text_def)
qed

lemma whole_of_int [simp]: "whole (Fin (of_int i)) = Some i"
  by (cases "i < 0") (simp_all add: whole_def)

text \<open>The picker keeps what was picked.  For a valid date and an hour and minute of its local day that exist there (the
  host's conversion of that local time to an instant is undone by the conversion back) in a year of four digits, the expiry
  text is the date's local day followed by that time, so the time field then shows the same time, and choosing another
  day with that text keeps the time.\<close>

lemma picker_keeps:
  assumes "0 \<le> h" "h < 24" "0 \<le> m" "m < 60"
    and "d = midnight z t + h * 3600000 + m * 60000" "local_time z (tz_utc z d) = d" "four_digit_year d"
    and "time_clip d \<noteq> None" "time_clip (tz_utc z d) \<noteq> None"
  shows "\<exists>v. toExpiryValue z (Some (Some t)) (clock_text h m) = Inr v
    \<and> v = day_text (local_time z t div 86400000) @ ''T'' @ clock_text h m \<and> currentTime v = clock_text h m
    \<and> pick_day z v date = toExpiryValue z date (clock_text h m)"
proof -
  have d: "d = local_time z t div 86400000 * 86400000 + h * 3600000 + m * 60000" using assms(5) by (simp add: midnight_def)
  note shown = expiry_text [OF assms(1-4,7) d]
  have clip: "time_clip d = Some d" "time_clip (tz_utc z d) = Some (tz_utc z d)"
    using assms(8,9) by (simp_all add: time_clip_def split: if_splits)
  have "toExpiryValue z (Some (Some t)) (clock_text h m) = Inr (take 16 (toISOString d))"
    using assms(1-4) clip assms(6) unfolding assms(5)
    by (simp add: toExpiryValue_def clock_parts part_or_def pad_number setHours_def)
  moreover have "currentTime (take 16 (toISOString d)) = clock_text h m"
    using shown pad_length [of h 2] pad_length [of m 2] assms(1-4) by (simp add: currentTime_def clock_text_def)
  ultimately show ?thesis using shown by (simp add: pick_day_def)
qed

definition hour_zone :: host_zone where
  "hour_zone = \<lparr>tz_offset = (\<lambda>_. 3600000), tz_utc = (\<lambda>d. d - 3600000)\<rparr>"

lemma picker_keeps_witness:
  "toExpiryValue hour_zone (Some (Some 0)) (clock_text 7 5) = Inr ''1970-01-01T07:05''"
proof -
  have "four_digit_year 25500000" "day_text 0 @ ''T'' @ clock_text 7 5 = ''1970-01-01T07:05''" by code_simp+
  then show ?thesis
    using picker_keeps [of 7 5 25500000 hour_zone 0]
    by (simp add: hour_zone_def midnight_def local_time_def time_clip_def)
qed

text \<open>A cleared time field is not refused: the text of the expiry becomes 59 minutes after midnight.\<close>

lemma cleared_time: "toExpiryValue z (Some d) [] = toExpiryValue z (Some d) (clock_text 0 59)"
proof -
  have "js_Number_of_string [] = js_Number_of_string (pad_left 2 (int_str 0))" "pad_left 2 (int_str 59) = ''59''" by code_simp+
  then show ?thesis by (simp add: toExpiryValue_def clock_parts part_or_def)
qed

end
