(* ===== verification/Web_Dashboard.thy ===== *)
theory Web_Dashboard imports Web_Panels begin

text \<open>
  The portfolio page (\<open>dike-web/app/(app)/dashboard/page.tsx\<close>, with \<open>features/portfolio/PositionCard.tsx\<close>) and the
  position panel of a market (\<open>features/trading/UserPositionPanel.tsx\<close>) as machines over their React state.  Both read
  for the connected address while the address may change; an answer arrives in one step, in which its reads are
  made.
\<close>

section \<open>Errors of a page\<close>

text \<open>\<open>e instanceof ServiceUnavailableError ? busy : e instanceof Error ? e.message : fallback\<close>\<close>

definition page_error :: "string \<Rightarrow> string \<Rightarrow> web_error \<Rightarrow> string" where
  "page_error busy fallback e = (case e of ServiceUnavailableError _ \<Rightarrow> busy | Thrown _ \<Rightarrow> fallback
     | JsError x \<Rightarrow> exn_message x | SponsorshipApiError _ m _ _ \<Rightarrow> m)"

definition portfolio_error :: "web_error \<Rightarrow> string" where
  "portfolio_error = page_error ''Portfolio data is temporarily unavailable. Please try again.'' ''Failed to load portfolio''"

section \<open>Cards\<close>

definition positive_amount :: "string \<Rightarrow> exn + bool" where
  "positive_amount s = (case js_BigInt s of Inl e \<Rightarrow> Inl e | Inr n \<Rightarrow> Inr (0 < n))"

text \<open>Whether a card offers the redemption; a card whose amounts are no integers does not render.\<close>

definition card_redeemable :: "user_position \<Rightarrow> bool" where
  "card_redeemable p \<longleftrightarrow> (case (positive_amount (up_yesBalance p), positive_amount (up_noBalance p)) of
     (Inr hasYes, Inr hasNo) \<Rightarrow> redeemable p \<and> (hasYes \<or> hasNo) | _ \<Rightarrow> False)"

text \<open>The amounts a card lists: each that is positive, under its label.\<close>

definition card_amounts :: "user_position \<Rightarrow> (string \<times> string) list" where
  "card_amounts p = [(''YES tokens'', up_yesBalance p), (''NO tokens'', up_noBalance p), (''LP shares'', up_lpShares p),
     (''Deposit'', up_deposit p), (''YES root stake'', up_rootStakeYes p), (''NO root stake'', up_rootStakeNo p),
     (''Child debt'', up_childDebt p), (''YES parent debt'', up_parentDebtYes p), (''NO parent debt'', up_parentDebtNo p),
     (''YES redeemed'', up_redeemedYes p), (''NO redeemed'', up_redeemedNo p)]"

definition card_stats :: "user_position \<Rightarrow> (string \<times> string) list" where
  "card_stats p = concat (map (\<lambda>(label, s). case js_BigInt s of Inl e \<Rightarrow> []
     | Inr n \<Rightarrow> if 0 < n then [(label, formatUsdc n)] else []) (card_amounts p))"

definition card_encumbered :: "user_position \<Rightarrow> bool" where
  "card_encumbered p \<longleftrightarrow> list_ex (\<lambda>s. positive_amount s = Inr True) [up_childDebt p, up_parentDebtYes p, up_parentDebtNo p]"

section \<open>The portfolio page\<close>

record dashboard =
  dd_address :: "string option"
  dd_portfolioAddress :: "string option"
  dd_positions :: "user_position list"
  dd_error :: "string option"
  dd_selected :: "user_position option"
  dd_asking :: "string option"
  dd_timer :: "string option"
  dd_refreshes :: "string list"
  dd_redeeming :: "(user_position \<times> string \<times> string) list"

record dash_world =
  dw_page :: dashboard
  dw_browser :: browser

definition dash_loading :: "dashboard \<Rightarrow> bool" where
  "dash_loading s \<longleftrightarrow> or_else (dd_address s) [] \<noteq> [] \<and> dd_portfolioAddress s \<noteq> dd_address s"

text \<open>The cards on the page.\<close>

definition shown_positions :: "dashboard \<Rightarrow> user_position list" where
  "shown_positions s = (if or_else (dd_address s) [] = [] \<or> dash_loading s then [] else dd_positions s)"

definition load_portfolio :: "string \<Rightarrow> string \<Rightarrow> user_position list web" where
  "load_portfolio network address = bindM (fetchPortfolio network address) (hydratePortfolioPositions address)"

text \<open>What the answer for an address leaves, in the effect as in \<open>refreshPortfolio\<close>.\<close>

definition portfolio_loaded :: "string \<Rightarrow> web_error + user_position list \<Rightarrow> dashboard \<Rightarrow> dashboard" where
  "portfolio_loaded a r s = (case r of
     Inr ps \<Rightarrow> s\<lparr>dd_positions := ps, dd_error := None, dd_portfolioAddress := Some a\<rparr>
   | Inl e \<Rightarrow> s\<lparr>dd_positions := [], dd_error := Some (portfolio_error e), dd_portfolioAddress := Some a\<rparr>)"

text \<open>A pushed update of the portfolio of the connected address, when no refresh is pending; an update without the
  text of an address makes the handler throw, which the subscription ignores.\<close>

definition own_update :: "dashboard \<Rightarrow> jsval \<Rightarrow> bool" where
  "own_update s u \<longleftrightarrow> or_else (dd_address s) [] \<noteq> [] \<and> js_field u ''type'' = JStr ''portfolio''
     \<and> (case js_field u ''address'' of JStr x \<Rightarrow> map upper_char x = map upper_char (or_else (dd_address s) []) | _ \<Rightarrow> False)
     \<and> dd_timer s = None"

datatype dash_event = DashWallet "string option" | PortfolioArrives | DashPushed string | DashTimer | RefreshArrives nat
  | PickPosition nat | CloseDialog | ClickRedeem string | RedeemEnds nat

fun dash_effect :: "string \<Rightarrow> dash_event \<Rightarrow> dash_world \<Rightarrow> dash_world" where
  "dash_effect net (DashWallet a) w = (let s = dw_page w in if a = dd_address s then w
     else w\<lparr>dw_page := s\<lparr>dd_address := a, dd_asking := truthy_address a\<rparr>\<rparr>)"
| "dash_effect net PortfolioArrives w = (let s = dw_page w in case dd_asking s of None \<Rightarrow> w
   | Some a \<Rightarrow> (case load_portfolio net a (dw_browser w) of
       (r, b) \<Rightarrow> \<lparr>dw_page = portfolio_loaded a r (s\<lparr>dd_asking := None\<rparr>), dw_browser = b\<rparr>))"
| "dash_effect net (DashPushed data) w = (let s = dw_page w in case pushed (w_parse (dw_browser w)) net data of None \<Rightarrow> w
   | Some u \<Rightarrow> if own_update s u then w\<lparr>dw_page := s\<lparr>dd_timer := dd_address s\<rparr>\<rparr> else w)"
| "dash_effect net DashTimer w = (let s = dw_page w in case dd_timer s of None \<Rightarrow> w
   | Some a \<Rightarrow> w\<lparr>dw_page := s\<lparr>dd_timer := None, dd_refreshes := dd_refreshes s @ [a]\<rparr>\<rparr>)"
| "dash_effect net (RefreshArrives n) w = (let s = dw_page w in if n < length (dd_refreshes s) then
     (let a = dd_refreshes s ! n in case load_portfolio net a (dw_browser w) of
       (r, b) \<Rightarrow> \<lparr>dw_page = portfolio_loaded a r (s\<lparr>dd_refreshes := drop_at n (dd_refreshes s)\<rparr>), dw_browser = b\<rparr>)
     else w)"
| "dash_effect net (PickPosition n) w = (let s = dw_page w; ps = shown_positions s in
     if n < length ps \<and> card_redeemable (ps ! n) then w\<lparr>dw_page := s\<lparr>dd_selected := Some (ps ! n)\<rparr>\<rparr> else w)"
| "dash_effect net CloseDialog w = w\<lparr>dw_page := (dw_page w)\<lparr>dd_selected := None\<rparr>\<rparr>"
| "dash_effect net (ClickRedeem oc) w = (let s = dw_page w in case (dd_selected s, truthy_address (dd_address s)) of
     (Some p, Some a) \<Rightarrow> w\<lparr>dw_page := s\<lparr>dd_redeeming := dd_redeeming s @ [(p, a, oc)]\<rparr>\<rparr>
   | _ \<Rightarrow> w)"
| "dash_effect net (RedeemEnds n) w = (let s = dw_page w in if n < length (dd_redeeming s) then
     (let (p, a, oc) = dd_redeeming s ! n; s' = s\<lparr>dd_redeeming := drop_at n (dd_redeeming s)\<rparr> in
      case handleRedeem p (Some a) oc (dw_browser w) of
        (Inr (Some _), b) \<Rightarrow> \<lparr>dw_page = s'\<lparr>dd_selected := None, dd_refreshes := dd_refreshes s' @ [a]\<rparr>, dw_browser = b\<rparr>
      | (_, b) \<Rightarrow> \<lparr>dw_page = s', dw_browser = b\<rparr>)
     else w)"

definition dash_run :: "string \<Rightarrow> dash_event list \<Rightarrow> dash_world \<Rightarrow> dash_world" where
  "dash_run net evs w = fold (dash_effect net) evs w"

definition dash_mounted :: "string option \<Rightarrow> browser \<Rightarrow> dash_world" where
  "dash_mounted address b = \<lparr>dw_page = \<lparr>dd_address = address, dd_portfolioAddress = None, dd_positions = [], dd_error = None,
     dd_selected = None, dd_asking = truthy_address address, dd_timer = None, dd_refreshes = [], dd_redeeming = []\<rparr>,
     dw_browser = b\<rparr>"

section \<open>Whose positions are shown\<close>

text \<open>The event is an answer for the portfolio of \<open>a\<close>, whose reads returned \<open>ps\<close>.\<close>

definition loads :: "string \<Rightarrow> string \<Rightarrow> user_position list \<Rightarrow> dash_event \<Rightarrow> dash_world \<Rightarrow> bool" where
  "loads net a ps ev w \<longleftrightarrow> fst (load_portfolio net a (dw_browser w)) = Inr ps \<and> (case ev of
     PortfolioArrives \<Rightarrow> dd_asking (dw_page w) = Some a
   | RefreshArrives n \<Rightarrow> n < length (dd_refreshes (dw_page w)) \<and> dd_refreshes (dw_page w) ! n = a
   | _ \<Rightarrow> False)"

definition dash_inv :: "string \<Rightarrow> dash_world \<Rightarrow> dash_event list \<Rightarrow> dashboard \<Rightarrow> bool" where
  "dash_inv net w0 evs s \<longleftrightarrow> (dd_positions s = [] \<or>
     (\<exists>a. dd_portfolioAddress s = Some a \<and> happened (dash_effect net) (loads net a (dd_positions s)) w0 evs))"

lemma dash_run_snoc [simp]: "dash_run net (evs @ [ev]) w = dash_effect net ev (dash_run net evs w)"
  by (simp add: dash_run_def)

lemma dash_inv_same:
  assumes "dash_inv net w0 evs s" "dd_positions s' = dd_positions s" "dd_portfolioAddress s' = dd_portfolioAddress s"
  shows "dash_inv net w0 (evs @ [ev]) s'"
  using assms happened_old [of "dash_effect net" _ w0 evs ev] by (auto simp: dash_inv_def)

lemma dash_inv_loaded:
  assumes "\<And>ps. r = Inr ps \<Longrightarrow> loads net a ps ev (dash_run net evs start)"
  shows "dash_inv net start (evs @ [ev]) (portfolio_loaded a r s)"
proof (cases r)
  case (Inr ps)
  then show ?thesis using happened_now [of "loads net a ps" ev "dash_effect net" evs start] assms
    by (auto simp: dash_inv_def portfolio_loaded_def dash_run_def)
qed (simp add: dash_inv_def portfolio_loaded_def)

lemma dash_run_inv: "dash_inv net (dash_mounted address b) evs (dw_page (dash_run net evs (dash_mounted address b)))"
proof (induction evs rule: rev_induct)
  case Nil
  show ?case by (simp add: dash_run_def dash_inv_def dash_mounted_def)
next
  case (snoc ev evs)
  let ?start = "dash_mounted address b"
  let ?w = "dash_run net evs ?start"
  note kept = dash_inv_same [OF snoc.IH, where ev = ev]
  show ?case
  proof (cases ev)
    case PortfolioArrives
    show ?thesis
    proof (cases "dd_asking (dw_page ?w)")
      case (Some a)
      obtain r b' where "load_portfolio net a (dw_browser ?w) = (r, b')" by fastforce
      then show ?thesis using dash_inv_loaded [where ev = ev and r = r and start = ?start] PortfolioArrives Some
        by (simp add: loads_def)
    qed (use PortfolioArrives kept in simp)
  next
    case (RefreshArrives n)
    show ?thesis
    proof (cases "n < length (dd_refreshes (dw_page ?w))")
      case True
      obtain r b' where "load_portfolio net (dd_refreshes (dw_page ?w) ! n) (dw_browser ?w) = (r, b')" by fastforce
      then show ?thesis using dash_inv_loaded [where ev = ev and r = r and start = ?start] RefreshArrives True
        by (simp add: loads_def Let_def)
    qed (use RefreshArrives kept in simp)
  qed (use kept in \<open>auto simp: Let_def split: option.split prod.split sum.split\<close>)
qed

text \<open>C15: Whatever the user, the wallet, pushed updates and late answers do, the cards on the portfolio page are
  the positions that reads for the connected address returned, never those of another address.\<close>

lemma dashboard_own_positions:
  assumes "shown_positions (dw_page (dash_run net evs (dash_mounted address b))) = ps" "ps \<noteq> []"
  shows "\<exists>a. dd_address (dw_page (dash_run net evs (dash_mounted address b))) = Some a \<and> a \<noteq> []
    \<and> happened (dash_effect net) (loads net a ps) (dash_mounted address b) evs"
proof -
  let ?s = "dw_page (dash_run net evs (dash_mounted address b))"
  have "dd_positions ?s = ps" "or_else (dd_address ?s) [] \<noteq> []" "dd_portfolioAddress ?s = dd_address ?s"
    using assms by (auto simp: shown_positions_def dash_loading_def split: if_splits)
  then show ?thesis using dash_run_inv [of net address b evs] assms(2)
    by (cases "dd_address ?s") (auto simp: dash_inv_def)
qed

section \<open>A refresh that comes late\<close>

text \<open>The page waits for the connected address, and nothing is under way that could load it.\<close>

definition left_loading :: "dashboard \<Rightarrow> bool" where
  "left_loading s \<longleftrightarrow> dash_loading s \<and> dd_asking s = None \<and> dd_timer s = None \<and> dd_refreshes s = [] \<and> dd_redeeming s = []"

fun unasked :: "dash_event \<Rightarrow> bool" where
  "unasked (DashWallet _) = False"
| "unasked (DashPushed _) = False"
| "unasked (ClickRedeem _) = False"
| "unasked _ = True"

lemma left_loading_step:
  assumes "left_loading (dw_page w)" "unasked ev"
  shows "left_loading (dw_page (dash_effect net ev w))"
  using assms by (cases ev) (auto simp: left_loading_def dash_loading_def shown_positions_def Let_def)

lemma left_loading_run:
  assumes "left_loading (dw_page w)" "list_all unasked evs"
  shows "left_loading (dw_page (dash_run net evs w))"
  using assms
proof (induction evs rule: rev_induct)
  case (snoc ev evs)
  then show ?case using left_loading_step [of "dash_run net evs w" ev net] by simp
qed (simp add: dash_run_def)

text \<open>A refresh that was started for an earlier address and answers last leaves the page loading: until the wallet
  changes, an update of the portfolio is pushed or a redemption ends, nothing is shown any more.\<close>

lemma dashboard_left_loading:
  assumes "dd_address s = Some a" "a \<noteq> []" "dd_refreshes s = [old]" "old \<noteq> a" "dd_asking s = None" "dd_timer s = None"
    "dd_redeeming s = []" "list_all unasked evs"
  shows "shown_positions (dw_page (dash_run net (RefreshArrives 0 # evs) \<lparr>dw_page = s, dw_browser = b\<rparr>)) = []"
proof -
  obtain r b' where "load_portfolio net old b = (r, b')" by fastforce
  then have "left_loading (dw_page (dash_effect net (RefreshArrives 0) \<lparr>dw_page = s, dw_browser = b\<rparr>))"
    using assms by (cases r) (auto simp: left_loading_def dash_loading_def portfolio_loaded_def drop_at_def)
  from left_loading_run [OF this assms(8), of net]
  have "left_loading (dw_page (dash_run net (RefreshArrives 0 # evs) \<lparr>dw_page = s, dw_browser = b\<rparr>))"
    by (simp add: dash_run_def)
  then show ?thesis by (simp add: left_loading_def shown_positions_def)
qed

section \<open>The position panel of a market\<close>

record position_data =
  pd_yesBalance :: string
  pd_noBalance :: string
  pd_lpShares :: string
  pd_rootStakeYes :: string
  pd_rootStakeNo :: string
  pd_deposit :: string

text \<open>\<open>String(row?.key ?? "0")\<close> for the first row that satisfies \<open>f\<close>.\<close>

definition first_text :: "(jsval \<Rightarrow> bool) \<Rightarrow> string \<Rightarrow> jsval list \<Rightarrow> string" where
  "first_text f k rows = js_String (js_coalesce (optional (or_else (find f rows) JUndefined) k) (JStr ''0''))"

definition load_position :: "string \<Rightarrow> string option \<Rightarrow> string \<Rightarrow> position_data web" where
  "load_position marketId poolId address = bindM (fetchRawPortfolio address) (\<lambda>portfolio.
     let own = (\<lambda>r. js_String (js_field r ''market_id'') = marketId); vault = first_text own in
     bindM (bindM (prop_of portfolio ''vaultState'') js_array) (\<lambda>vaults.
     bindM (bindM (prop_of portfolio ''positions'') js_array) (\<lambda>positions.
     bindM (if or_else poolId [] = [] then ret [] else bindM (prop_of portfolio ''lpPositions'') js_array) (\<lambda>lps.
     ret \<lparr>pd_yesBalance = position_text positions marketId ''Yes'', pd_noBalance = position_text positions marketId ''No'',
       pd_lpShares = first_text (\<lambda>p. js_String (js_field p ''pool_id'') = or_else poolId []) ''shares'' lps,
       pd_rootStakeYes = vault ''root_stake_yes'' vaults, pd_rootStakeNo = vault ''root_stake_no'' vaults,
       pd_deposit = vault ''user_deposit'' vaults\<rparr>))))"

record position_panel =
  pp_address :: "string option"
  pp_position :: "position_data option"
  pp_hasFetchError :: bool
  pp_asking :: "string option"

definition has_position :: "position_data \<Rightarrow> bool" where
  "has_position p \<longleftrightarrow> pd_yesBalance p \<noteq> ''0'' \<or> pd_noBalance p \<noteq> ''0'' \<or> pd_lpShares p \<noteq> ''0'' \<or> pd_rootStakeYes p \<noteq> ''0''
     \<or> pd_rootStakeNo p \<noteq> ''0'' \<or> pd_deposit p \<noteq> ''0''"

text \<open>What the panel shows: nothing, only that the position could not be read, or a position, with or without the
  offer to retry.\<close>

datatype panel_view = NoPanel | ReadFailed | Showing position_data bool

definition panel_view_of :: "position_panel \<Rightarrow> panel_view" where
  "panel_view_of s = (if or_else (pp_address s) [] = [] then NoPanel
     else case pp_position s of
       Some p \<Rightarrow> if has_position p then Showing p (pp_hasFetchError s) else if pp_hasFetchError s then ReadFailed else NoPanel
     | None \<Rightarrow> if pp_hasFetchError s then ReadFailed else NoPanel)"

text \<open>The labels and amounts of the chips, for each amount that is not the text \<open>0\<close>.\<close>

definition panel_chips :: "position_data \<Rightarrow> (string \<times> string) list" where
  "panel_chips p = filter (\<lambda>(label, s). s \<noteq> ''0'') [(''YES'', pd_yesBalance p), (''NO'', pd_noBalance p), (''LP'', pd_lpShares p),
     (''YES STAKE'', pd_rootStakeYes p), (''NO STAKE'', pd_rootStakeNo p), (''DEPOSIT'', pd_deposit p)]"

datatype panel_event = PanelWallet "string option" | PositionArrives | RetryRead

fun panel_step :: "string \<Rightarrow> string option \<Rightarrow> panel_event \<Rightarrow> position_panel \<times> browser \<Rightarrow> position_panel \<times> browser" where
  "panel_step m pool (PanelWallet a) (s, b) = (if a = pp_address s then (s, b)
     else (s\<lparr>pp_address := a, pp_asking := truthy_address a\<rparr>, b))"
| "panel_step m pool PositionArrives (s, b) = (case pp_asking s of None \<Rightarrow> (s, b)
   | Some a \<Rightarrow> (case load_position m pool a b of
       (Inr p, b') \<Rightarrow> (s\<lparr>pp_position := Some p, pp_hasFetchError := False, pp_asking := None\<rparr>, b')
     | (Inl e, b') \<Rightarrow> (s\<lparr>pp_hasFetchError := True, pp_asking := None\<rparr>, b')))"
| "panel_step m pool RetryRead (s, b) = (if pp_hasFetchError s \<and> panel_view_of s \<noteq> NoPanel
     then (s\<lparr>pp_asking := truthy_address (pp_address s)\<rparr>, b) else (s, b))"

definition panel_run :: "string \<Rightarrow> string option \<Rightarrow> panel_event list \<Rightarrow> position_panel \<times> browser \<Rightarrow> position_panel \<times> browser" where
  "panel_run m pool evs s = fold (panel_step m pool) evs s"

text \<open>No answer of the run is a successful read.\<close>

definition no_read :: "string \<Rightarrow> string option \<Rightarrow> panel_event list \<Rightarrow> position_panel \<times> browser \<Rightarrow> bool" where
  "no_read m pool evs s \<longleftrightarrow> \<not> happened (panel_step m pool) (\<lambda>ev (s, b). ev = PositionArrives \<and>
     (\<exists>a p. pp_asking s = Some a \<and> fst (load_position m pool a b) = Inr p)) s evs"

lemma unread_step:
  assumes "\<not> (ev = PositionArrives \<and> (\<exists>a p. pp_asking (fst s) = Some a \<and> fst (load_position m pool a (snd s)) = Inr p))"
  shows "pp_position (fst (panel_step m pool ev s)) = pp_position (fst s)"
  using assms by (cases s; cases ev) (auto split: option.split prod.split sum.split)

lemma unread_run: "no_read m pool evs s \<Longrightarrow> pp_position (fst (panel_run m pool evs s)) = pp_position (fst s)"
proof (induction evs rule: rev_induct)
  case (snoc ev evs)
  have "no_read m pool evs s" using snoc.prems happened_old by (fastforce simp: no_read_def)
  moreover have "\<not> (ev = PositionArrives \<and> (\<exists>a p. pp_asking (fst (panel_run m pool evs s)) = Some a
      \<and> fst (load_position m pool a (snd (panel_run m pool evs s))) = Inr p))"
    using snoc.prems happened_now [of _ ev "panel_step m pool" evs s]
    by (fastforce simp: no_read_def panel_run_def split_beta)
  ultimately show ?case using snoc.IH unread_step by (simp add: panel_run_def)
qed (simp add: panel_run_def)

text \<open>A position that was read for one address stays on the panel when another address connects, for as long as no
  read succeeds for the new one.\<close>

lemma panel_keeps_position:
  assumes "pp_position (fst s) = Some p" "has_position p" "no_read m pool evs s"
    and "pp_address (fst (panel_run m pool evs s)) = Some a" "a \<noteq> []"
  shows "\<exists>retry. panel_view_of (fst (panel_run m pool evs s)) = Showing p retry"
  using unread_run [OF assms(3)] assms by (simp add: panel_view_of_def)

section \<open>A concrete portfolio\<close>

text \<open>Services that know one position, on a page whose other reads fail.\<close>

definition holding_browser :: browser where
  "holding_browser = (demo_browser JNull)\<lparr>w_fetch := (\<lambda>_ _. Inr \<lparr>h_ok = True, h_status = 200, h_json = Some (JObj
     [(''items'', JArr []), (''positions'', JArr [JObj [(''market_id'', JStr ''7''), (''outcome'', JStr ''Yes''),
       (''balance'', JStr ''5'')]]), (''lpPositions'', JArr []), (''vaultState'', JArr [])])\<rparr>)\<rparr>"

definition never_fails :: "'a web \<Rightarrow> bool" where
  "never_fails m \<longleftrightarrow> (\<forall>b. \<exists>x b'. m b = (Inr x, b'))"

lemma never_fails_ret: "never_fails (ret x)"
  by (simp add: never_fails_def ret_def)

lemma never_fails_shown: "never_fails (or_shown m s)"
  unfolding never_fails_def
proof
  fix b
  show "\<exists>x b'. or_shown m s b = (Inr x, b')"
    by (cases "m b"; cases "fst (m b)") (simp_all add: or_shown_def catchM_app ret_app)
qed

lemma never_fails_bind:
  assumes "never_fails k" "\<And>x. never_fails (f x)"
  shows "never_fails (bindM k f)"
  unfolding never_fails_def
proof
  fix b
  obtain x b1 where "k b = (Inr x, b1)" using assms(1) unfolding never_fails_def by blast
  moreover obtain y b2 where "f x b1 = (Inr y, b2)" using assms(2) unfolding never_fails_def by blast
  ultimately show "\<exists>y b2. bindM k f b = (Inr y, b2)" by (simp add: bindM_app)
qed

lemmas never_fails_rules = never_fails_bind never_fails_shown never_fails_ret

lemma hydrate_never_fails: "never_fails (hydrate a p)"
  unfolding hydrate_def Let_def by (intro never_fails_rules) (simp add: never_fails_rules)

lemma holding_loads: "\<exists>p b. load_portfolio ''testnet'' ''GABC'' holding_browser = (Inr [p], b)"
proof -
  obtain p b where "fetchPortfolio ''testnet'' ''GABC'' holding_browser = (Inr [p], b)"
    by (simp add: fetchPortfolio_def fetchRawPortfolio_def fetchMarkets_def apiGet_def fetch_def response_json_def prop_of_def
        js_prop_def js_def js_array_def perform_app io_simps holding_browser_def demo_browser_def normalizePortfolio_def
        assertObservedNetwork_def portfolio_markets_def js_set_def str_field_def toStringValue_def js_field_def
        js_nullish_def)
  moreover obtain p' b' where "hydrate ''GABC'' p b = (Inr p', b')" using hydrate_never_fails by (meson never_fails_def)
  ultimately show ?thesis by (simp add: load_portfolio_def hydratePortfolioPositions_def io_simps)
qed

lemma dashboard_own_positions_witness:
  "\<exists>p. shown_positions (dw_page (dash_run ''testnet'' [PortfolioArrives] (dash_mounted (Some ''GABC'') holding_browser))) = [p]
    \<and> happened (dash_effect ''testnet'') (loads ''testnet'' ''GABC'' [p]) (dash_mounted (Some ''GABC'') holding_browser) [PortfolioArrives]"
proof -
  let ?page = "dw_page (dash_run ''testnet'' [PortfolioArrives] (dash_mounted (Some ''GABC'') holding_browser))"
  obtain p b where "load_portfolio ''testnet'' ''GABC'' holding_browser = (Inr [p], b)" using holding_loads by blast
  then have "?page = portfolio_loaded ''GABC'' (Inr [p]) ((dw_page (dash_mounted (Some ''GABC'') holding_browser))\<lparr>dd_asking := None\<rparr>)"
    by (simp add: dash_run_def dash_mounted_def truthy_address_def)
  then have shown: "shown_positions ?page = [p]" "dd_address ?page = Some ''GABC''"
    by (simp_all add: shown_positions_def dash_loading_def portfolio_loaded_def dash_mounted_def)
  then show ?thesis using dashboard_own_positions [OF shown(1)] by auto
qed

end
