(* ===== verification/Web_Pages.thy ===== *)
theory Web_Pages imports Web_Dashboard begin

text \<open>
  What the pages of the application show of the data they read: a market (\<open>dike-web/app/(app)/markets/[marketId]/page.tsx\<close>),
  the lists of markets, of pending resolutions and of council cases (\<open>predictions\<close>, \<open>resolve\<close>, \<open>council\<close>), the
  administration (\<open>admin\<close>) and the statistics (\<open>stats\<close>), with the filters, cards and displays they are made of.  The
  layout, the dates as texts and the colours are left out.
\<close>

section \<open>A market\<close>

datatype detail_page = MarketBusy | WrongNetwork string | MarketNotFound
  | MarketShown market_data "resolution_request option"

text \<open>A failed read of the resolution counts as no request.\<close>

definition load_market_page :: "string \<Rightarrow> string \<Rightarrow> detail_page web" where
  "load_market_page network marketId = catchM (bindM (fetchMarket network marketId) (\<lambda>market.
     bindM (catchM (fetchMarketResolution marketId) (\<lambda>_. ret (marketId, None))) (\<lambda>(_, request).
     ret (MarketShown market request)))) (\<lambda>e. ret (case e of ServiceUnavailableError _ \<Rightarrow> MarketBusy
       | JsError (NetworkMismatchError m) \<Rightarrow> WrongNetwork m | _ \<Rightarrow> MarketNotFound))"

definition market_expired :: "market_data \<Rightarrow> bool" where
  "market_expired m \<longleftrightarrow> md_status m = ''Live'' \<and> \<not> md_tradeable m"

text \<open>The trading column: the forms on a pool, the closing of an expired market, the note that there is no pool, or
  nothing.\<close>

datatype column_view = TradingForms string | AwaitingClosure | NoPoolNote string | EmptyColumn

definition trading_column :: "market_data \<Rightarrow> column_view" where
  "trading_column m = (case md_poolId m of
     Some pool \<Rightarrow> if md_tradeable m then TradingForms pool
       else if md_status m = ''Live'' \<and> market_expired m then AwaitingClosure else EmptyColumn
   | None \<Rightarrow> if md_status m = ''Live'' \<and> market_expired m then AwaitingClosure else NoPoolNote (md_status m))"

definition RESOLUTION_STATUSES :: "string list" where
  "RESOLUTION_STATUSES = [''TradingClosed'', ''ResolutionRequested'', ''Proposed'', ''Disputed'']"

definition resolution_shown :: "market_data \<Rightarrow> bool" where
  "resolution_shown m \<longleftrightarrow> md_status m \<in> set RESOLUTION_STATUSES"

text \<open>The YES and the NO price of the probability bar, in percent.\<close>

definition bar_percents :: "market_data \<Rightarrow> exn + js_num \<times> js_num" where
  "bar_percents m = (case impliedYesBps (md_yesReserve m) (md_noReserve m) of Inl e \<Rightarrow> Inl e
   | Inr bps \<Rightarrow> (let yes = js_div bps (Fin 100) in Inr (yes, js_add (Fin 100) (js_neg yes))))"

definition has_reserves :: "market_data \<Rightarrow> bool" where
  "has_reserves m \<longleftrightarrow> md_yesReserve m \<noteq> ''0'' \<or> md_noReserve m \<noteq> ''0''"

text \<open>The link to the rules, or the warning that they are no safe link.\<close>

datatype rules_view = RulesLink string | RulesWarning | NoRules

definition rules_note :: "(string \<Rightarrow> url option) \<Rightarrow> market_data \<Rightarrow> rules_view" where
  "rules_note parse m = (let uri = mc_rulesUri (md_config m) in case safeReferenceUrl parse (Some uri) of
     Some u \<Rightarrow> if u \<noteq> [] then RulesLink u else if uri \<noteq> [] then RulesWarning else NoRules
   | None \<Rightarrow> if uri \<noteq> [] then RulesWarning else NoRules)"

section \<open>Cards\<close>

text \<open>The prices a market card shows, in hundredths of a cent, only while the market can be traded.\<close>

definition card_prices :: "market_data \<Rightarrow> exn + (js_num \<times> js_num) option" where
  "card_prices m = (case impliedYesBps (md_yesReserve m) (md_noReserve m) of Inl e \<Rightarrow> Inl e
   | Inr bps \<Rightarrow> Inr (if md_tradeable m then Some (bps, js_add (Fin 10000) (js_neg bps)) else None))"

definition evidence_link :: "(string \<Rightarrow> url option) \<Rightarrow> council_case \<Rightarrow> string option" where
  "evidence_link parse c = safeReferenceUrl parse (Some (cc_evidenceUri c))"

section \<open>Lists\<close>

text \<open>A page of rows: an error (an empty error text is none), a note that there is nothing, or the rows.\<close>

datatype 'a list_view = ListError string | NothingListed | Listed "'a list"

definition listing :: "(web_error \<Rightarrow> string) \<Rightarrow> 'a list web \<Rightarrow> ('a list \<Rightarrow> 'a list) \<Rightarrow> 'a list_view web" where
  "listing err load pick = bindM (catchM (bindM load (\<lambda>xs. ret (Inr (pick xs)))) (\<lambda>e. ret (Inl (err e)))) (\<lambda>r. ret (case r of
     Inl m \<Rightarrow> if m \<noteq> [] then ListError m else NothingListed
   | Inr xs \<Rightarrow> if xs = [] then NothingListed else Listed xs))"

definition market_matches :: "string \<Rightarrow> string \<Rightarrow> market_data \<Rightarrow> bool" where
  "market_matches statusFilter categoryFilter m \<longleftrightarrow> (statusFilter = [] \<or> md_status m = statusFilter)
     \<and> (categoryFilter = [] \<or> map lower_char (mc_category (md_config m)) = map lower_char categoryFilter)"

definition market_list :: "string \<Rightarrow> string \<Rightarrow> string \<Rightarrow> market_data list_view web" where
  "market_list network statusFilter categoryFilter = listing
     (page_error ''The markets service is currently unavailable. Please try again later.'' ''Failed to load markets'')
     (fetchMarkets network) (filter (market_matches statusFilter categoryFilter))"

definition resolution_list :: "string \<Rightarrow> market_data list_view web" where
  "resolution_list network = listing
     (page_error ''Resolution data is temporarily unavailable. Please try again.'' ''Failed to load markets'')
     (fetchMarkets network) (filter (\<lambda>m. md_status m \<in> set RESOLUTION_STATUSES))"

text \<open>The request beside a market of the workbench, none when it cannot be read.\<close>

definition workbench_request :: "market_data \<Rightarrow> resolution_request option web" where
  "workbench_request m = bindM (catchM (fetchMarketResolution (md_marketId m)) (\<lambda>_. ret (md_marketId m, None)))
     (\<lambda>(_, request). ret request)"

definition council_list :: "council_case list_view web" where
  "council_list = listing (page_error ''Council data is temporarily unavailable. Please try again.'' ''Failed to load cases'')
     fetchCouncilCases (\<lambda>cs. cs)"

section \<open>Filters\<close>

text \<open>\<open>URLSearchParams\<close>: the pairs of a query in order; \<open>set\<close> replaces the first pair of a name and removes the others.\<close>

fun params_set :: "string \<Rightarrow> string \<Rightarrow> (string \<times> string) list \<Rightarrow> (string \<times> string) list" where
  "params_set k v [] = [(k, v)]"
| "params_set k v (p # ps) = (if fst p = k then (k, v) # filter (\<lambda>q. fst q \<noteq> k) ps else p # params_set k v ps)"

definition params_delete :: "string \<Rightarrow> (string \<times> string) list \<Rightarrow> (string \<times> string) list" where
  "params_delete k ps = filter (\<lambda>q. fst q \<noteq> k) ps"

definition params_get :: "string \<Rightarrow> (string \<times> string) list \<Rightarrow> string" where
  "params_get k ps = or_else (map_of ps k) []"

definition set_param :: "string \<Rightarrow> string \<Rightarrow> (string \<times> string) list \<Rightarrow> (string \<times> string) list" where
  "set_param k v ps = (if v \<noteq> [] then params_set k v ps else params_delete k ps)"

definition setFilter :: "string \<Rightarrow> (string \<times> string) list \<Rightarrow> (string \<times> string) list" where
  "setFilter status ps = set_param ''status'' status ps"

definition setCategory :: "string \<Rightarrow> (string \<times> string) list \<Rightarrow> (string \<times> string) list" where
  "setCategory category ps = set_param ''category'' category ps"

definition filter_statuses :: "string list" where
  "filter_statuses = [''Live'', ''Proposed'', ''Disputed'', ''CouncilVoting'', ''Resolved'', ''Cancelled'']"

definition MARKET_CATEGORIES :: "string list" where
  "MARKET_CATEGORIES = [''Politics'', ''Sports'', ''Crypto'', ''Business'', ''General'']"

lemma map_of_filter_other: "k \<noteq> k' \<Longrightarrow> map_of (filter (\<lambda>q. fst q \<noteq> k) ps) k' = map_of ps k'"
  by (induction ps) auto

lemma map_of_filter_gone: "map_of (filter (\<lambda>q. fst q \<noteq> k) ps) k = None"
  by (induction ps) auto

lemma map_of_params_set: "map_of (params_set k v ps) k' = (if k' = k then Some v else map_of ps k')"
  by (induction ps) (auto simp: map_of_filter_other)

lemma params_get_set: "params_get k' (set_param k v ps) = (if k' = k then v else params_get k' ps)"
  by (auto simp: params_get_def set_param_def map_of_params_set params_delete_def map_of_filter_other map_of_filter_gone)

section \<open>Administration and statistics\<close>

definition admin_error :: "web_error \<Rightarrow> string" where
  "admin_error e = (let refused = (case e of JsError x \<Rightarrow> has_substring ''API error 401'' (exn_message x)
       | SponsorshipApiError _ m _ _ \<Rightarrow> has_substring ''API error 401'' m | _ \<Rightarrow> False) in
     if refused then ''Admin reads are now protected behind a server-side admin API key and are not exposed through the public web session.''
     else page_error ''Governance data is temporarily unavailable. Please try again.'' ''Failed to load admin state'' e)"

definition load_admin_data :: "(string + admin_state \<times> timelock_action list) web" where
  "load_admin_data = catchM (bindM fetchGovernanceState (\<lambda>state. bindM fetchTimelockActions (\<lambda>actions.
     ret (Inr (state, actions))))) (\<lambda>e. ret (Inl (admin_error e)))"

definition executed_actions :: "timelock_action list \<Rightarrow> timelock_action list" where
  "executed_actions actions = filter ta_executed actions"

definition cancelled_actions :: "timelock_action list \<Rightarrow> timelock_action list" where
  "cancelled_actions actions = filter ta_cancelled actions"

definition load_stats :: "jsval option web" where
  "load_stats = catchM (bindM fetchProtocolStats (\<lambda>s. ret (Some s))) (\<lambda>_. ret None)"

definition formatTopic :: "string \<Rightarrow> string" where
  "formatTopic topic = map (\<lambda>c. if c = CHR ''_'' then CHR '' '' else c) topic"

text \<open>\<open>s.slice(-n)\<close> for a positive \<open>n\<close>\<close>

definition slice_end :: "nat \<Rightarrow> string \<Rightarrow> string" where
  "slice_end n s = drop (length s - n) s"

definition truncateHash :: "string \<Rightarrow> string" where
  "truncateHash hash = (if length hash \<le> 18 then hash else take 10 hash @ ellipsis @ slice_end 8 hash)"

section \<open>Status displays\<close>

definition STATUS_LABELS :: "(string \<times> string) list" where
  "STATUS_LABELS = [(''idle'', []), (''building'', ''Building transaction'' @ ellipsis), (''simulating'', ''Simulating'' @ ellipsis),
     (''awaiting-signature'', ''Waiting for wallet signature'' @ ellipsis),
     (''sponsoring'', ''Submitting through Dike fee sponsor'' @ ellipsis), (''submitting'', ''Submitting to network'' @ ellipsis),
     (''pending'', ''Pending confirmation'' @ ellipsis), (''success'', ''Transaction confirmed.''), (''failed'', ''Transaction failed.'')]"

record tx_view =
  tx_label :: string
  tx_loading :: bool
  tx_link :: "string option"
  tx_error :: "string option"

text \<open>The display of a transaction: nothing while idle, else its label, the link of its hash and its error text.\<close>

definition tx_display :: "string \<Rightarrow> tx_state \<Rightarrow> tx_view option" where
  "tx_display explorerNetwork t = (if ts_status t = ''idle'' then None else Some
     \<lparr>tx_label = or_else (map_of STATUS_LABELS (ts_status t)) (ts_status t),
      tx_loading = (ts_status t \<notin> {''idle'', ''success'', ''failed''}),
      tx_link = (if js_truthy (ts_hash t) then Some (''https://stellar.expert/explorer/'' @ explorerNetwork @ ''/tx/'' @ js_String (ts_hash t))
        else None),
      tx_error = (if or_else (ts_error t) [] = [] then None else ts_error t)\<rparr>)"

definition network_messages :: "string list \<Rightarrow> string option \<Rightarrow> string list" where
  "network_messages errors networkError = errors @ (if or_else networkError [] = [] then [] else [the networkError])"

text \<open>The label of the wallet button.\<close>

definition wallet_label :: "string option \<Rightarrow> bool \<Rightarrow> string" where
  "wallet_label address connecting = (if caller address \<noteq> [] then take 4 (caller address) @ ellipsis @ slice_end 4 (caller address)
     else if connecting then ''connecting'' @ ellipsis else ''connect wallet'')"

end
