(* ===== verification/Read_Queries.thy ===== *)
theory Read_Queries imports Repository begin

text \<open>
  The queries of \<open>db/repositories/state-repository.ts\<close> that serve the read API: market lists and
  details, portfolios, resolutions, council cases, governance, timelock actions and statistics.
  A query answers with the rows as the driver hands them to the program: an object per row whose
  values follow the column types of the SQL migrations (a \<open>BIGINT\<close> is text, an \<open>INTEGER\<close> a
  number, a \<open>BOOLEAN\<close> a boolean, \<open>JSONB\<close> is parsed).  Serial numbers and the bookkeeping columns
  \<open>created_at\<close> and \<open>updated_at\<close> are left out of the rows.  Where the SQL leaves the order of rows
  open, they come in the order of insertion.
\<close>

section \<open>Columns\<close>

datatype col_type = ColText | ColBigint | ColInteger | ColBool | ColJson | ColTime

abbreviation col :: "col_type \<Rightarrow> string list \<Rightarrow> (string \<times> col_type) list" where
  "col ct names \<equiv> map (\<lambda>c. (c, ct)) names"

definition market_cols :: "(string \<times> col_type) list" where
  "market_cols = col ColText [''network''] @ col ColBigint [''market_id''] @
     col ColText [''question'', ''question_hash'', ''rules_uri'', ''rules_hash'', ''creator'', ''category'',
       ''collateral''] @ col ColBigint [''yes_token_id'', ''no_token_id'', ''expiry''] @ col ColText [''status''] @
     col ColBool [''has_final_outcome''] @ col ColText [''final_outcome''] @ col ColBigint [''pool_id''] @
     col ColText [''bond_amount''] @ col ColBigint [''dispute_window''] @ col ColBool [''has_request''] @
     col ColBigint [''request_id'', ''created_at_unix''] @ col ColJson [''fee_config_json''] @
     col ColBigint [''last_reconciled_ledger''] @ col ColTime [''reconciled_at'']"

definition pool_cols :: "(string \<times> col_type) list" where
  "pool_cols = col ColText [''network''] @ col ColBigint [''pool_id'', ''market_id''] @
     col ColText [''yes_reserve'', ''no_reserve'', ''total_lp_shares'', ''accumulated_lp_fees'',
       ''accumulated_protocol_fees'', ''accumulated_cod_fees''] @ col ColBool [''live''] @
     col ColBigint [''last_reconciled_ledger''] @ col ColTime [''reconciled_at''] @ col ColText [''fee_per_share_scaled'']"

definition trade_cols :: "(string \<times> col_type) list" where
  "trade_cols = col ColText [''event_id'', ''network''] @ col ColBigint [''market_id'', ''pool_id''] @
     col ColText [''trader'', ''side'', ''direction'', ''amount_in'', ''amount_out'', ''fee''] @
     col ColBigint [''ledger''] @ col ColText [''tx_hash'']"

definition liquidity_cols :: "(string \<times> col_type) list" where
  "liquidity_cols = col ColText [''event_id'', ''network''] @ col ColBigint [''market_id'', ''pool_id''] @
     col ColText [''lp'', ''kind'', ''amount'', ''shares'', ''yes_out'', ''no_out''] @
     col ColBigint [''ledger''] @ col ColText [''tx_hash'']"

definition lp_position_cols :: "(string \<times> col_type) list" where
  "lp_position_cols = col ColText [''network''] @ col ColBigint [''pool_id''] @ col ColText [''owner'', ''shares''] @
     col ColBigint [''last_reconciled_ledger''] @ col ColTime [''reconciled_at''] @
     col ColText [''fee_checkpoint'', ''claimable_fees'', ''fees_claimed'']"

definition user_position_cols :: "(string \<times> col_type) list" where
  "user_position_cols = col ColText [''network''] @ col ColBigint [''market_id''] @
     col ColText [''owner'', ''outcome'', ''balance''] @ col ColBigint [''last_reconciled_ledger''] @
     col ColTime [''reconciled_at'']"

definition vault_cols :: "(string \<times> col_type) list" where
  "vault_cols = col ColText [''network''] @ col ColBigint [''market_id''] @
     col ColText [''total_deposited'', ''collateral_backing'', ''amm_collateral'', ''child_collateral_issued'',
       ''child_collateral_repaid'', ''child_collateral_defaulted'', ''redeemed'', ''protocol_fees'', ''lp_fees'',
       ''cod_fees'', ''proposal_bonds'', ''dispute_bonds'', ''refundable''] @
     col ColBigint [''last_reconciled_ledger''] @ col ColTime [''reconciled_at'']"

definition user_vault_cols :: "(string \<times> col_type) list" where
  "user_vault_cols = col ColText [''network''] @ col ColBigint [''market_id''] @
     col ColText [''owner'', ''user_deposit'', ''root_stake_yes'', ''root_stake_no'', ''child_used_total'',
       ''child_used_yes'', ''child_used_no'', ''child_debt'', ''parent_debt_yes'', ''parent_debt_no'',
       ''redeemed_yes'', ''redeemed_no'', ''redeemed_invalid''] @
     col ColBigint [''last_reconciled_ledger''] @ col ColTime [''reconciled_at'']"

definition request_cols :: "(string \<times> col_type) list" where
  "request_cols = col ColText [''network''] @ col ColBigint [''request_id'', ''market_id''] @
     col ColText [''status''] @ col ColBigint [''requested_at''] @ col ColText [''bond_amount''] @
     col ColBigint [''dispute_window''] @ col ColBool [''has_proposal''] @
     col ColText [''proposer'', ''proposed_outcome'', ''proposal_evidence_uri''] @ col ColBigint [''proposed_at''] @
     col ColBool [''has_dispute''] @ col ColText [''disputer'', ''disputed_outcome'', ''dispute_evidence_uri''] @
     col ColBigint [''disputed_at''] @ col ColBool [''has_final_outcome''] @ col ColText [''final_outcome''] @
     col ColBigint [''last_reconciled_ledger''] @ col ColTime [''reconciled_at'']"

definition case_cols :: "(string \<times> col_type) list" where
  "case_cols = col ColText [''network''] @ col ColBigint [''case_id'', ''request_id'', ''market_id''] @
     col ColText [''status'', ''proposer'', ''proposer_outcome'', ''disputer'', ''disputer_outcome''] @
     col ColBigint [''voting_start'', ''commit_end'', ''reveal_end''] @ col ColBool [''has_final_outcome''] @
     col ColText [''final_outcome''] @
     col ColInteger [''yes_votes'', ''no_votes'', ''invalid_votes'', ''total_valid_votes''] @
     col ColBigint [''last_reconciled_ledger''] @ col ColTime [''reconciled_at''] @ col ColText [''reward_pool'']"

definition table_columns :: "string \<Rightarrow> (string \<times> col_type) list" where
  "table_columns t = or_else (map_of [
     (''markets'', market_cols), (''pools'', pool_cols), (''trades'', trade_cols),
     (''liquidity_events'', liquidity_cols), (''lp_positions'', lp_position_cols),
     (''user_positions'', user_position_cols), (''vault_snapshots'', vault_cols),
     (''user_vault_state'', user_vault_cols), (''resolution_requests'', request_cols),
     (''council_cases'', case_cols),
     (''governance_config'', col ColText [''network'', ''treasury'', ''timelock''] @
        col ColJson [''fee_config_json''] @ col ColText [''pause_authority'']),
     (''governance_lists'', col ColText [''network'', ''kind'', ''address''] @ col ColBool [''approved'']),
     (''governance_modules'', col ColText [''network'', ''role'', ''module_address'']),
     (''timelock_actions'', col ColText [''network''] @ col ColBigint [''action_id''] @
        col ColText [''kind'', ''target'', ''payload_hash''] @ col ColBigint [''execute_after'', ''expires_at''] @
        col ColBool [''executed'', ''cancelled''] @ col ColBigint [''last_reconciled_ledger''] @
        col ColTime [''reconciled_at''] @ col ColJson [''payload_json''])] t) []"

section \<open>Rows as objects\<close>

text \<open>What the driver's type parsers make of \<open>JSONB\<close> and \<open>TIMESTAMPTZ\<close> texts, and the insertion
  time the server recorded for a raw event.\<close>

record pg_driver =
  parse_json :: "string \<Rightarrow> jsval"
  parse_time :: "string \<Rightarrow> jsval"
  inserted_at :: "stored_event \<Rightarrow> int"

fun pg_value :: "pg_driver \<Rightarrow> col_type \<Rightarrow> string option \<Rightarrow> jsval" where
  "pg_value dr ct None = JNull"
| "pg_value dr ColText (Some s) = JStr s"
| "pg_value dr ColBigint (Some s) = JStr s"
| "pg_value dr ColInteger (Some s) = JNum (js_Number_of_string s)"
| "pg_value dr ColBool (Some s) = JBool (s = ''true'' \<or> s = ''t'')"
| "pg_value dr ColJson (Some s) = parse_json dr s"
| "pg_value dr ColTime (Some s) = parse_time dr s"

definition object_of :: "pg_driver \<Rightarrow> (string \<times> col_type) list \<Rightarrow> row \<Rightarrow> (string \<times> jsval) list" where
  "object_of dr cols r = map (\<lambda>(c, ct). (c, pg_value dr ct (r c))) cols"

definition row_object :: "pg_driver \<Rightarrow> string \<Rightarrow> row \<Rightarrow> jsval" where
  "row_object dr t r = JObj (object_of dr (table_columns t) r)"

text \<open>\<open>result.rows[0] ?? null\<close>\<close>

definition first_row :: "jsval list \<Rightarrow> jsval" where
  "first_row rows = js_coalesce (js_at rows 0) JNull"

definition select_rows :: "pg_driver \<Rightarrow> string \<Rightarrow> (db \<Rightarrow> row list) \<Rightarrow> jsval list task" where
  "select_rows dr t q = db_select (\<lambda>d. map (row_object dr t) (q d))"

section \<open>Markets with their pools\<close>

text \<open>\<open>FROM markets m LEFT JOIN pools p ON p.network = m.network AND p.pool_id = m.pool_id\<close>: a
  comparison with \<open>NULL\<close> joins nothing, and the pool's key is the join's condition.\<close>

definition pool_of :: "db \<Rightarrow> row \<Rightarrow> row option" where
  "pool_of d m = (if m ''pool_id'' = None then None
     else find (\<lambda>p. p ''network'' = m ''network'' \<and> p ''pool_id'' = m ''pool_id'') (table_rows ''pools'' d))"

definition pool_text :: "string \<Rightarrow> row option \<Rightarrow> string option" where
  "pool_text c p = (case p of None \<Rightarrow> None | Some r \<Rightarrow> r c)"

definition market_object :: "pg_driver \<Rightarrow> row \<times> row option \<Rightarrow> jsval" where
  "market_object dr mp = JObj (object_of dr (table_columns ''markets'') (fst mp) @
     [(''yes_reserve'', pg_value dr ColText (pool_text ''yes_reserve'' (snd mp))),
      (''no_reserve'', pg_value dr ColText (pool_text ''no_reserve'' (snd mp))),
      (''total_lp_shares'', pg_value dr ColText (pool_text ''total_lp_shares'' (snd mp))),
      (''pool_live'', pg_value dr ColBool (pool_text ''live'' (snd mp)))])"

text \<open>An unqualified column of a condition names the one joined table that has it.\<close>

definition resolve_column :: "string list \<Rightarrow> string \<Rightarrow> exn + string" where
  "resolve_column ts c = (case filter (\<lambda>t. c \<in> set (map fst (table_columns t))) ts of
     [] \<Rightarrow> Inl (Error (''column \"'' @ c @ ''\" does not exist''))
   | [t] \<Rightarrow> Inr t
   | _ \<Rightarrow> Inl (Error (''column reference \"'' @ c @ ''\" is ambiguous'')))"

datatype sql_condition = Equals string string | LessThan string js_num

fun condition_column :: "sql_condition \<Rightarrow> string" where
  "condition_column (Equals c v) = c"
| "condition_column (LessThan c n) = c"

definition joined_text :: "string \<Rightarrow> row \<times> row option \<Rightarrow> string \<Rightarrow> string option" where
  "joined_text t mp c = (if t = ''markets'' then fst mp c else pool_text c (snd mp))"

definition holds_in :: "row \<times> row option \<Rightarrow> sql_condition \<Rightarrow> string \<Rightarrow> bool" where
  "holds_in mp cond t = (case cond of
     Equals c v \<Rightarrow> joined_text t mp c = Some v
   | LessThan c n \<Rightarrow> (case joined_text t mp c of None \<Rightarrow> False
       | Some s \<Rightarrow> js_lt (js_Number_of_string s) n))"

primrec resolve_all :: "sql_condition list \<Rightarrow> exn + (sql_condition \<times> string) list" where
  "resolve_all [] = Inr []"
| "resolve_all (c # cs) = (case resolve_column [''markets'', ''pools''] (condition_column c) of
     Inl e \<Rightarrow> Inl e
   | Inr t \<Rightarrow> (case resolve_all cs of Inl e \<Rightarrow> Inl e | Inr rs \<Rightarrow> Inr ((c, t) # rs)))"

definition opt_text :: "string option \<Rightarrow> string \<Rightarrow> sql_condition list" where
  "opt_text v c = (case v of None \<Rightarrow> [] | Some s \<Rightarrow> if s = [] then [] else [Equals c s])"

definition market_conditions :: "js_num option \<Rightarrow> string option \<Rightarrow> string option \<Rightarrow> string option \<Rightarrow> sql_condition list" where
  "market_conditions cursor status creator collateral =
     opt_text status ''status'' @ opt_text creator ''creator'' @ opt_text collateral ''collateral'' @
     (case cursor of None \<Rightarrow> [] | Some n \<Rightarrow> if num_truthy n then [LessThan ''market_id'' n] else [])"

definition limit_rows :: "js_num \<Rightarrow> 'a list \<Rightarrow> exn + 'a list" where
  "limit_rows n rows = (case js_BigInt_of_num n of
     Inl e \<Rightarrow> Inl (Error ''invalid input syntax for type bigint'')
   | Inr k \<Rightarrow> if k < 0 then Inl (Error ''LIMIT must not be negative'') else Inr (take (nat k) rows))"

definition market_page :: "js_num \<Rightarrow> (sql_condition \<times> string) list \<Rightarrow> db \<Rightarrow> exn + (row \<times> row option) list" where
  "market_page limit conds d = limit_rows limit
     (filter (\<lambda>mp. list_all (\<lambda>(c, t). holds_in mp c t) conds)
       (map (\<lambda>m. (m, pool_of d m)) (order_desc ''market_id'' (table_rows ''markets'' d))))"

definition listMarkets :: "pg_driver \<Rightarrow> js_num \<Rightarrow> js_num option \<Rightarrow> string option \<Rightarrow> string option \<Rightarrow>
    string option \<Rightarrow> jsval list task" where
  "listMarkets dr limit cursor status creator collateral = db_query (\<lambda>w d.
     case resolve_all (market_conditions cursor status creator collateral) of
       Inl e \<Rightarrow> Inl e
     | Inr conds \<Rightarrow> (case market_page limit conds d of Inl e \<Rightarrow> Inl e
         | Inr page \<Rightarrow> Inr (map (market_object dr) page, d)))"

section \<open>Details\<close>

abbreviation of_market :: "string \<Rightarrow> js_num \<Rightarrow> (string \<times> string) list" where
  "of_market network marketId \<equiv> [(''network'', network), (''market_id'', num_to_string marketId)]"

definition own_rows :: "(string \<times> string) list \<Rightarrow> row list \<Rightarrow> row list" where
  "own_rows conds rows = filter (\<lambda>r. list_all (\<lambda>(c, v). r c = Some v) conds) rows"

definition market_rows :: "string \<Rightarrow> js_num \<Rightarrow> db \<Rightarrow> (row \<times> row option) list" where
  "market_rows network marketId d =
     map (\<lambda>m. (m, pool_of d m)) (rows_where ''markets'' (of_market network marketId) d)"

record market_detail =
  md_market :: jsval
  md_vault :: jsval
  md_resolution :: jsval
  md_council :: jsval
  md_trades :: "jsval list"
  md_liquidity :: "jsval list"

definition getMarketDetail :: "pg_driver \<Rightarrow> string \<Rightarrow> js_num \<Rightarrow> market_detail task" where
  "getMarketDetail dr network marketId =
    (let own = of_market network marketId in
     bindM (db_select (\<lambda>d. map (market_object dr) (market_rows network marketId d))) (\<lambda>market.
     bindM (select_rows dr ''vault_snapshots'' (rows_where ''vault_snapshots'' own)) (\<lambda>vault.
     bindM (select_rows dr ''resolution_requests'' (\<lambda>d. if rows_where ''markets'' own d = [] then []
       else rows_where ''resolution_requests'' own d)) (\<lambda>resolution.
     bindM (select_rows dr ''council_cases'' (\<lambda>d.
       take 1 (order_desc ''case_id'' (rows_where ''council_cases'' own d)))) (\<lambda>council.
     bindM (select_rows dr ''trades'' (\<lambda>d. take 25 (order_desc ''ledger'' (own_rows own (trades d))))) (\<lambda>tr.
     bindM (select_rows dr ''liquidity_events'' (\<lambda>d.
       take 25 (order_desc ''ledger'' (own_rows own (liquidity_events d))))) (\<lambda>liquidity.
     ret \<lparr>md_market = first_row market, md_vault = first_row vault, md_resolution = first_row resolution,
       md_council = first_row council, md_trades = tr, md_liquidity = liquidity\<rparr>)))))))"

record portfolio_rows =
  pf_positions :: "jsval list"
  pf_lpPositions :: "jsval list"
  pf_vaultState :: "jsval list"

definition getPortfolio :: "pg_driver \<Rightarrow> string \<Rightarrow> string \<Rightarrow> portfolio_rows task" where
  "getPortfolio dr network address =
    (let own = [(''network'', network), (''owner'', address)] in
     bindM (select_rows dr ''user_positions'' (\<lambda>d. order_desc ''market_id'' (rows_where ''user_positions'' own d))) (\<lambda>ps.
     bindM (select_rows dr ''lp_positions'' (\<lambda>d. order_desc ''pool_id'' (rows_where ''lp_positions'' own d))) (\<lambda>lps.
     bindM (select_rows dr ''user_vault_state'' (\<lambda>d. order_desc ''market_id'' (rows_where ''user_vault_state'' own d))) (\<lambda>vs.
     ret \<lparr>pf_positions = ps, pf_lpPositions = lps, pf_vaultState = vs\<rparr>))))"

record resolution_rows =
  rs_market :: jsval
  rs_request :: jsval
  rs_councilCase :: jsval

definition getResolution :: "pg_driver \<Rightarrow> string \<Rightarrow> js_num \<Rightarrow> resolution_rows task" where
  "getResolution dr network marketId =
    (let own = of_market network marketId in
     bindM (select_rows dr ''markets'' (rows_where ''markets'' own)) (\<lambda>market.
     bindM (select_rows dr ''resolution_requests'' (\<lambda>d.
       take 1 (order_desc ''request_id'' (rows_where ''resolution_requests'' own d)))) (\<lambda>request.
     bindM (select_rows dr ''council_cases'' (\<lambda>d.
       take 1 (order_desc ''case_id'' (rows_where ''council_cases'' own d)))) (\<lambda>caseResult.
     ret \<lparr>rs_market = first_row market, rs_request = first_row request,
       rs_councilCase = first_row caseResult\<rparr>))))"

definition getCouncilCases :: "pg_driver \<Rightarrow> string \<Rightarrow> string option \<Rightarrow> jsval list task" where
  "getCouncilCases dr network status = select_rows dr ''council_cases'' (\<lambda>d.
     order_desc ''case_id'' (rows_where ''council_cases'' ((''network'', network) #
       (case status of None \<Rightarrow> [] | Some s \<Rightarrow> if s = [] then [] else [(''status'', s)])) d))"

section \<open>Governance\<close>

record governance_rows =
  gv_config :: jsval
  gv_lists :: "jsval list"
  gv_modules :: "jsval list"

definition col_text :: "string \<Rightarrow> row \<Rightarrow> string" where
  "col_text c r = or_else (r c) []"

definition getAdminGovernance :: "pg_driver \<Rightarrow> string \<Rightarrow> governance_rows task" where
  "getAdminGovernance dr network =
    (let own = [(''network'', network)] in
     bindM (select_rows dr ''governance_config'' (rows_where ''governance_config'' own)) (\<lambda>config.
     bindM (select_rows dr ''governance_lists'' (\<lambda>d.
       sort_key (col_text ''kind'') (sort_key (col_text ''address'') (rows_where ''governance_lists'' own d)))) (\<lambda>gls.
     bindM (select_rows dr ''governance_modules'' (\<lambda>d.
       sort_key (col_text ''role'') (rows_where ''governance_modules'' own d))) (\<lambda>gms.
     ret \<lparr>gv_config = first_row config, gv_lists = gls, gv_modules = gms\<rparr>))))"

definition getTimelockActions :: "pg_driver \<Rightarrow> string \<Rightarrow> jsval list task" where
  "getTimelockActions dr network = select_rows dr ''timelock_actions'' (\<lambda>d.
     order_desc ''action_id'' (rows_where ''timelock_actions'' [(''network'', network)] d))"

section \<open>Statistics\<close>

text \<open>The addresses that took part: a \<open>UNION\<close> of columns, without \<open>NULL\<close> and empty ones.\<close>

definition participant_columns :: "(string \<times> string) list" where
  "participant_columns = [(''user_positions'', ''owner''), (''lp_positions'', ''owner''),
     (''user_vault_state'', ''owner''), (''resolution_requests'', ''proposer''),
     (''resolution_requests'', ''disputer''), (''council_cases'', ''proposer''),
     (''council_cases'', ''disputer''), (''council_votes'', ''voter'')]"

definition participants :: "string \<Rightarrow> db \<Rightarrow> string list" where
  "participants network d = (let own = [(''network'', network)];
     texts = (\<lambda>c rows. map (col_text c) rows) in
     filter (\<lambda>a. a \<noteq> []) (remdups (texts ''creator'' (rows_where ''markets'' own d) @
       texts ''trader'' (own_rows own (trades d)) @ texts ''lp'' (own_rows own (liquidity_events d)) @
       concat (map (\<lambda>(t, c). texts c (rows_where t own d)) participant_columns))))"

record transaction_stats =
  ts_hash :: string
  ts_ledger :: string
  ts_topics :: "string list"
  ts_eventCount :: js_num
  ts_createdAt :: string

definition min_of :: "('a \<Rightarrow> int) \<Rightarrow> 'a list \<Rightarrow> int" where
  "min_of f xs = fold (\<lambda>x m. min (f x) m) (tl xs) (f (hd xs))"

definition group_stats :: "pg_driver \<Rightarrow> string \<Rightarrow> stored_event list \<Rightarrow> transaction_stats" where
  "group_stats dr hash es = \<lparr>ts_hash = hash, ts_ledger = int_str (min_of s_ledger es),
     ts_topics = sort (remdups (map s_topic es)),
     ts_eventCount = js_Number_of_string (nat_str (length es)),
     ts_createdAt = toISOString (min_of (inserted_at dr) es)\<rparr>"

text \<open>\<open>GROUP BY tx_hash ORDER BY MIN(ledger) DESC, tx_hash DESC\<close>\<close>

definition hash_groups :: "stored_event list \<Rightarrow> (string \<times> stored_event list) list" where
  "hash_groups es = rev (sort_key (\<lambda>g. min_of s_ledger (snd g))
     (map (\<lambda>h. (h, filter (\<lambda>e. s_txHash e = h) es)) (sort (remdups (map s_txHash es)))))"

record stats =
  st_connectedWallets :: js_num
  st_indexedWallets :: js_num
  st_transactionCount :: int
  st_transactions :: "transaction_stats list"

definition getStats :: "pg_driver \<Rightarrow> string \<Rightarrow> stats task" where
  "getStats dr network =
    bindM (db_select (\<lambda>d. nat_str (length (participants network d)))) (\<lambda>count.
    bindM (db_select (\<lambda>d. hash_groups (filter (\<lambda>e. s_network e = network) (raw_events d)))) (\<lambda>groups.
    let indexedWallets = js_Number_of_string count in
    ret \<lparr>st_connectedWallets = js_add indexedWallets (Fin 80), st_indexedWallets = indexedWallets,
      st_transactionCount = int (length groups),
      st_transactions = map (\<lambda>(h, es). group_stats dr h es) groups\<rparr>))"

end
