(* ===== verification/Read_Api.thy ===== *)
theory Read_Api
  imports Read_Queries Request_Validation Domain Contract_Client Indexer_Worker Scheduled_Jobs Sponsor_Service
begin

text \<open>
  \<open>api/server.ts\<close> and \<open>observability/health.ts\<close>: the construction of the services, the admin-key
  guard that runs before every handler, the handlers of the read API, the health report and the
  update stream, and the application with all its routes, those of the sponsor included.  A request
  is its route, its path parameter, its parsed query and body, its address and its \<open>x-api-key\<close>
  header; a handler of the read API ends with a status code and a JSON value or with the exception
  the server framework turns into an error reply.  Routing, CORS, the rate limit and the HTTP
  connection are the framework's.
\<close>

section \<open>Replies\<close>

datatype api_reply = Reply int jsval

definition sendJson :: "jsval \<Rightarrow> api_reply task" where
  "sendJson body = liftE (case stringify_normalized body of
     Some j \<Rightarrow> Inr (Reply 200 j)
   | None \<Rightarrow> Inl (SyntaxError ''\"undefined\" is not valid JSON''))"

definition normalizeAddress :: "jsval \<Rightarrow> string" where
  "normalizeAddress v = (case v of JStr s \<Rightarrow> map js_toUpper (js_trim s) | _ \<Rightarrow> [])"

definition matchesAdminKey :: "string option \<Rightarrow> string option \<Rightarrow> bool" where
  "matchesAdminKey expected headerValue = (case (expected, headerValue) of
     (Some e, Some h) \<Rightarrow> e \<noteq> [] \<and> h \<noteq> [] \<and> h = e
   | _ \<Rightarrow> False)"

section \<open>Services\<close>

text \<open>\<open>redis.ping()\<close> answers like everything outside the program, by the number of operations so far.\<close>

record services =
  sv_env :: env
  sv_manifest :: manifest
  sv_sponsorship :: service_options
  sv_driver :: pg_driver
  sv_redisPing :: "nat \<Rightarrow> exn + unit"

text \<open>What the process is started with: the syntax of URLs, the environment, the parsed manifest
  file, the Stellar library, the database driver and Redis.\<close>

record process =
  pr_is_url :: "string \<Rightarrow> bool"
  pr_cwd :: string
  pr_environment :: "string \<Rightarrow> string option"
  pr_manifest :: "env \<Rightarrow> exn + manifest"
  pr_sdk :: sdk
  pr_driver :: pg_driver
  pr_redisPing :: "nat \<Rightarrow> exn + unit"

definition createServices :: "process \<Rightarrow> services task" where
  "createServices p =
    bindM (liftE (loadEnv (pr_is_url p) (pr_cwd p) (pr_environment p))) (\<lambda>cfg.
    bindM (liftE (pr_manifest p cfg)) (\<lambda>file.
    bindM (liftE (loadManifest cfg file)) (\<lambda>m.
    bindM (case createFeeSponsorshipService (pr_sdk p) cfg m of
        Inl e \<Rightarrow> throw (Error ''invalid encoded string'') | Inr opts \<Rightarrow> ret opts) (\<lambda>opts.
    thenM (bootstrapManifest m (STELLAR_RPC_URL cfg) (STELLAR_NETWORK_PASSPHRASE cfg))
      (ret \<lparr>sv_env = cfg, sv_manifest = m, sv_sponsorship = opts, sv_driver = pr_driver p,
         sv_redisPing = pr_redisPing p\<rparr>)))))"

definition on_ready :: "services \<Rightarrow> unit task" where
  "on_ready srv = thenM (indexer_start (sv_manifest srv) (sv_env srv))
     (jobs_start (sv_manifest srv) (m_network (sv_manifest srv)))"

text \<open>Closing the pool and the Redis connection are arguments.\<close>

definition on_close :: "unit task \<Rightarrow> unit task \<Rightarrow> unit task" where
  "on_close db_end redis_quit = thenM indexer_stop (thenM jobs_stop (thenM db_end redis_quit))"

section \<open>Health\<close>

text \<open>\<open>Promise.allSettled\<close>: the outcome of each part is a value.\<close>

definition settled :: "'a task \<Rightarrow> (exn + 'a) task" where
  "settled m = (\<lambda>w. case m w of (r, w') \<Rightarrow> (Inr r, w'))"

definition or_null :: "string option \<Rightarrow> jsval" where
  "or_null v = (case v of None \<Rightarrow> JNull | Some s \<Rightarrow> JStr s)"

definition status_json :: "service_status \<Rightarrow> jsval" where
  "status_json s = JObj [(''enabled'', JBool (ss_enabled s)), (''available'', JBool (ss_available s)),
     (''network'', JStr (network_text (ss_network s))), (''sponsorAddress'', or_null (ss_sponsorAddress s)),
     (''limits'', JObj [(''baseFeeStroops'', JStr (baseFeeStroops (ss_limits s))),
        (''maxTotalFeeStroops'', JStr (maxTotalFeeStroops (ss_limits s))),
        (''maxResourceFeeStroops'', JStr (maxResourceFeeStroops (ss_limits s)))]),
     (''reason'', or_null (ss_reason s))]"

definition succeeded :: "exn + 'a \<Rightarrow> bool" where
  "succeeded r = (case r of Inl e \<Rightarrow> False | Inr a \<Rightarrow> True)"

definition ok_text :: "bool \<Rightarrow> jsval" where
  "ok_text b = JStr (if b then ''ok'' else ''error'')"

definition collectHealth :: "services \<Rightarrow> jsval task" where
  "collectHealth srv =
    bindM (settled getHealth) (\<lambda>rpcResult.
    bindM (settled getLatestLedger) (\<lambda>latestLedgerResult.
    bindM (settled ping) (\<lambda>dbResult.
    bindM (settled (ask (\<lambda>w t. sv_redisPing srv t))) (\<lambda>redisResult.
    bindM (getsM metrics) (\<lambda>ms.
    let serviceOk = succeeded rpcResult \<and> succeeded latestLedgerResult \<and> succeeded dbResult \<and> succeeded redisResult in
    ret (JObj [(''service'', JStr (if serviceOk then ''ok'' else ''degraded'')),
      (''db'', ok_text (succeeded dbResult)), (''redis'', ok_text (succeeded redisResult)),
      (''rpc'', (case rpcResult of Inr s \<Rightarrow> JStr s | Inl e \<Rightarrow> JStr ''error'')),
      (''latestLedger'', (case latestLedgerResult of Inr n \<Rightarrow> jint n | Inl e \<Rightarrow> JNull)),
      (''sponsorship'', status_json (Sponsor_Service.status (sv_sponsorship srv))),
      (''metrics'', snapshot ms)]))))))"

section \<open>Markets\<close>

definition now_seconds :: "js_num task" where
  "now_seconds = ask (\<lambda>w t. Inr (Fin (of_int (clock w t div 1000))))"

definition text_of :: "jsval \<Rightarrow> string option" where
  "text_of v = (case v of JStr s \<Rightarrow> Some s | _ \<Rightarrow> None)"

text \<open>A status text outside the declared ones takes the same branches as an absent status.\<close>

definition status_of :: "jsval \<Rightarrow> market_status option" where
  "status_of v = (case text_of v of None \<Rightarrow> None | Some s \<Rightarrow> status_of_text s)"

text \<open>\<open>v ? Number(v) : null\<close>\<close>

definition truthy_number :: "jsval \<Rightarrow> js_num option" where
  "truthy_number v = (if js_truthy v then Some (js_Number v) else None)"

definition num_or_null :: "js_num option \<Rightarrow> jsval" where
  "num_or_null v = (case v of None \<Rightarrow> JNull | Some n \<Rightarrow> JNum n)"

definition prices_json :: "prices \<Rightarrow> jsval" where
  "prices_json p = JObj [(''yesPrice'', num_or_null (yesPrice p)), (''noPrice'', num_or_null (noPrice p))]"

definition entries_of :: "jsval \<Rightarrow> (string \<times> jsval) list" where
  "entries_of v = (case v of JObj kvs \<Rightarrow> kvs | _ \<Rightarrow> [])"

definition market_view :: "js_num \<Rightarrow> jsval \<Rightarrow> jsval" where
  "market_view now row = JObj (spread (entries_of row)
     [(''prices'', prices_json (derivePrices (text_of (js_field row ''yes_reserve'')) (text_of (js_field row ''no_reserve'')))),
      (''tradeable'', JBool (deriveTradeability (status_of (js_field row ''status''))
         (truthy_number (js_field row ''expiry'')) now None))])"

definition get_markets :: "services \<Rightarrow> jsval \<Rightarrow> api_reply task" where
  "get_markets srv query =
    bindM (liftE (parseMarketListQuery query)) (\<lambda>q.
    bindM (listMarkets (sv_driver srv) (q_limit q) (q_cursor q) (q_status q) (q_creator q) (q_collateral q)) (\<lambda>rows.
    bindM now_seconds (\<lambda>now.
    let items = map (market_view now) rows in
    sendJson (JObj [(''items'', JArr items),
      (''nextCursor'', if items = [] then JNull else js_coalesce (js_field (last items) ''market_id'') JNull)]))))"

definition get_market :: "services \<Rightarrow> string \<Rightarrow> api_reply task" where
  "get_market srv param =
    bindM (liftE (parseMarketId (JStr param))) (\<lambda>marketId.
    bindM (getMarketDetail (sv_driver srv) (m_network (sv_manifest srv)) marketId) (\<lambda>detail.
    bindM now_seconds (\<lambda>now.
    sendJson (JObj [
      (''market'', if js_nullish (md_market detail) then JNull else market_view now (md_market detail)),
      (''vault'', md_vault detail), (''resolution'', md_resolution detail), (''council'', md_council detail),
      (''trades'', JArr (md_trades detail)), (''liquidity'', JArr (md_liquidity detail))]))))"

definition get_resolution :: "services \<Rightarrow> string \<Rightarrow> api_reply task" where
  "get_resolution srv param =
    bindM (liftE (parseMarketId (JStr param))) (\<lambda>marketId.
    bindM (getResolution (sv_driver srv) (m_network (sv_manifest srv)) marketId) (\<lambda>rs.
    bindM now_seconds (\<lambda>now.
    sendJson (JObj [(''market'', rs_market rs), (''request'', rs_request rs), (''councilCase'', rs_councilCase rs),
      (''nextActions'', JArr (map JStr (deriveResolutionNextActions
         (status_of (js_field (rs_market rs) ''status'')) (truthy_number (js_field (rs_market rs) ''expiry'')) now
         (Some (js_truthy (js_field (rs_request rs) ''has_dispute'')))
         (truthy_number (js_field (rs_request rs) ''proposed_at''))
         (truthy_number (js_field (rs_request rs) ''dispute_window'')))))]))))"

section \<open>Portfolios, authorisation and administration\<close>

definition get_portfolio :: "services \<Rightarrow> string \<Rightarrow> api_reply task" where
  "get_portfolio srv param =
    bindM (liftE (parseAddress (JStr param) ''address'')) (\<lambda>address.
    bindM (getPortfolio (sv_driver srv) (m_network (sv_manifest srv)) address) (\<lambda>p.
    sendJson (JObj [(''positions'', JArr (pf_positions p)), (''lpPositions'', JArr (pf_lpPositions p)),
      (''vaultState'', JArr (pf_vaultState p))])))"

definition approved_addresses :: "string \<Rightarrow> jsval list \<Rightarrow> string list" where
  "approved_addresses kind entries = map (\<lambda>entry. normalizeAddress (js_field entry ''address''))
     (filter (\<lambda>entry. js_field entry ''approved'' = JBool True \<and> js_field entry ''kind'' = JStr kind) entries)"

definition admin_addresses :: "manifest \<Rightarrow> jsval \<Rightarrow> string list" where
  "admin_addresses m config = filter (\<lambda>a. a \<noteq> []) (map normalizeAddress
     [JStr (m_admin m), JStr (m_governance_authority m), js_field config ''timelock'',
      js_field config ''pause_authority''])"

definition authz_json :: "manifest \<Rightarrow> string \<Rightarrow> governance_rows \<Rightarrow> jsval" where
  "authz_json m address g =
    (let isApprovedCreator = address \<in> set (approved_addresses ''creator'' (gv_lists g));
         isCouncilMember = address \<in> set (approved_addresses ''member'' (gv_lists g));
         isAdmin = address \<in> set (admin_addresses m (js_coalesce (gv_config g) (JObj []))) in
     JObj [(''address'', JStr address), (''canCreate'', JBool isApprovedCreator),
       (''canResolve'', JBool (address \<noteq> [])), (''canCouncil'', JBool isCouncilMember),
       (''canAdmin'', JBool isAdmin), (''isApprovedCreator'', JBool isApprovedCreator),
       (''isCouncilMember'', JBool isCouncilMember), (''isAdmin'', JBool isAdmin)])"

definition get_authz :: "services \<Rightarrow> string \<Rightarrow> api_reply task" where
  "get_authz srv param = (let address = normalizeAddress (JStr param) in
     bindM (getAdminGovernance (sv_driver srv) (m_network (sv_manifest srv))) (\<lambda>g.
     sendJson (authz_json (sv_manifest srv) address g)))"

definition get_council_cases :: "services \<Rightarrow> jsval \<Rightarrow> api_reply task" where
  "get_council_cases srv query =
    bindM (liftE (parseCouncilCaseStatus (js_field query ''status''))) (\<lambda>st.
    bindM (getCouncilCases (sv_driver srv) (m_network (sv_manifest srv)) st) (\<lambda>rows.
    sendJson (JArr rows)))"

definition get_governance :: "services \<Rightarrow> api_reply task" where
  "get_governance srv =
    bindM (getAdminGovernance (sv_driver srv) (m_network (sv_manifest srv))) (\<lambda>g.
    sendJson (JObj [(''config'', gv_config g), (''lists'', JArr (gv_lists g)), (''modules'', JArr (gv_modules g))]))"

definition get_timelock :: "services \<Rightarrow> api_reply task" where
  "get_timelock srv =
    bindM (getTimelockActions (sv_driver srv) (m_network (sv_manifest srv))) (\<lambda>rows. sendJson (JArr rows))"

definition stats_json :: "stats \<Rightarrow> jsval" where
  "stats_json s = JObj [(''connectedWallets'', JNum (st_connectedWallets s)),
     (''indexedWallets'', JNum (st_indexedWallets s)), (''transactionCount'', jint (st_transactionCount s)),
     (''transactions'', JArr (map (\<lambda>t. JObj [(''hash'', JStr (ts_hash t)), (''ledger'', JStr (ts_ledger t)),
        (''topics'', JArr (map JStr (ts_topics t))), (''eventCount'', JNum (ts_eventCount t)),
        (''createdAt'', JStr (ts_createdAt t))]) (st_transactions s)))]"

definition get_stats :: "services \<Rightarrow> api_reply task" where
  "get_stats srv = bindM (getStats (sv_driver srv) (m_network (sv_manifest srv))) (\<lambda>s. sendJson (stats_json s))"

definition get_health :: "services \<Rightarrow> api_reply task" where
  "get_health srv = bindM (collectHealth srv) sendJson"

definition get_metrics :: "api_reply task" where
  "get_metrics = bindM (getsM metrics) (\<lambda>ms. sendJson (snapshot ms))"

section \<open>Requests\<close>

datatype api_key_header = NoKey | OneKey string | ManyKeys "string list"

datatype api_route = HealthRoute | MetricsRoute | StatsRoute | MarketsRoute | MarketRoute | PortfolioRoute
  | AuthzRoute | ResolutionRoute | CouncilRoute | GovernanceRoute | TimelockRoute

fun route_url :: "api_route \<Rightarrow> string" where
  "route_url HealthRoute = ''/health''"
| "route_url MetricsRoute = ''/metrics''"
| "route_url StatsRoute = ''/admin/stats''"
| "route_url MarketsRoute = ''/markets''"
| "route_url MarketRoute = ''/markets/:id''"
| "route_url PortfolioRoute = ''/users/:address/portfolio''"
| "route_url AuthzRoute = ''/authz/:address''"
| "route_url ResolutionRoute = ''/markets/:id/resolution''"
| "route_url CouncilRoute = ''/council/cases''"
| "route_url GovernanceRoute = ''/admin/governance''"
| "route_url TimelockRoute = ''/admin/timelock''"

definition normalizedKey :: "api_key_header \<Rightarrow> string option" where
  "normalizedKey h = (case h of NoKey \<Rightarrow> None | OneKey k \<Rightarrow> Some k
     | ManyKeys ks \<Rightarrow> (case ks of [] \<Rightarrow> None | k # _ \<Rightarrow> Some k))"

definition needsAdminAuth :: "string \<Rightarrow> bool" where
  "needsAdminAuth url \<longleftrightarrow> url = ''/metrics'' \<or> url = ''/admin/stats'' \<or> url = ''/admin/governance'' \<or>
     url = ''/admin/timelock''"

text \<open>The hook that runs before every handler: nothing when the request goes on.\<close>

definition preHandler :: "services \<Rightarrow> string \<Rightarrow> api_key_header \<Rightarrow> api_reply option" where
  "preHandler srv url key = (if \<not> needsAdminAuth url then None
     else if \<not> matchesAdminKey (ADMIN_API_KEY (sv_env srv)) (normalizedKey key)
       then Some (Reply 401 (JObj [(''error'', JStr ''admin api key required'')]))
     else None)"

fun serve :: "services \<Rightarrow> api_route \<Rightarrow> string \<Rightarrow> jsval \<Rightarrow> api_reply task" where
  "serve srv HealthRoute param query = get_health srv"
| "serve srv MetricsRoute param query = get_metrics"
| "serve srv StatsRoute param query = get_stats srv"
| "serve srv MarketsRoute param query = get_markets srv query"
| "serve srv MarketRoute param query = get_market srv param"
| "serve srv PortfolioRoute param query = get_portfolio srv param"
| "serve srv AuthzRoute param query = get_authz srv param"
| "serve srv ResolutionRoute param query = get_resolution srv param"
| "serve srv CouncilRoute param query = get_council_cases srv query"
| "serve srv GovernanceRoute param query = get_governance srv"
| "serve srv TimelockRoute param query = get_timelock srv"

section \<open>The update stream\<close>

text \<open>One open connection: the frames written to it, its subscription to the bus and its heartbeat
  timer.  After it closes the timer is cleared and the bus no longer calls it.\<close>

record stream =
  written :: "string list"
  subscribed :: bool
  heartbeat :: bool

datatype stream_event = Published state_update | HeartbeatDue | Closed

definition update_network :: "state_update \<Rightarrow> string" where
  "update_network u = (case u of MarketUpdate n m \<Rightarrow> n | PortfolioUpdate n a \<Rightarrow> n | GovernanceUpdate n \<Rightarrow> n
     | CouncilCaseUpdate n c \<Rightarrow> n | TimelockActionUpdate n a \<Rightarrow> n)"

definition update_json :: "state_update \<Rightarrow> jsval" where
  "update_json u = (case u of
     MarketUpdate n m \<Rightarrow> JObj [(''type'', JStr ''market''), (''network'', JStr n), (''marketId'', JNum m)]
   | PortfolioUpdate n a \<Rightarrow> JObj [(''type'', JStr ''portfolio''), (''network'', JStr n), (''address'', JStr a)]
   | GovernanceUpdate n \<Rightarrow> JObj [(''type'', JStr ''governance''), (''network'', JStr n)]
   | CouncilCaseUpdate n c \<Rightarrow> JObj [(''type'', JStr ''council_case''), (''network'', JStr n), (''caseId'', JNum c)]
   | TimelockActionUpdate n a \<Rightarrow> JObj [(''type'', JStr ''timelock_action''), (''network'', JStr n), (''actionId'', JNum a)])"

definition newline :: string where
  "newline = [char_of (10 :: nat)]"

definition update_frame :: "state_update \<Rightarrow> string" where
  "update_frame u = ''event: update'' @ newline @ ''data: '' @ json_text (update_json u) @ newline @ newline"

definition open_stream :: stream where
  "open_stream = \<lparr>written = [''retry: 2000'' @ newline @ newline], subscribed = True, heartbeat = True\<rparr>"

definition stream_step :: "string \<Rightarrow> stream_event \<Rightarrow> stream \<Rightarrow> stream" where
  "stream_step network ev s = (case ev of
     Published u \<Rightarrow> if \<not> subscribed s then s
       else if update_network u \<noteq> network then s
       else s\<lparr>written := written s @ [update_frame u]\<rparr>
   | HeartbeatDue \<Rightarrow> if heartbeat s then s\<lparr>written := written s @ ['': ping'' @ newline @ newline]\<rparr> else s
   | Closed \<Rightarrow> s\<lparr>heartbeat := False, subscribed := False\<rparr>)"

definition run_stream :: "string \<Rightarrow> stream_event list \<Rightarrow> stream" where
  "run_stream network evs = fold (stream_step network) evs open_stream"

section \<open>The whole application\<close>

text \<open>Every route the application registers: the reads, the update stream, and the two routes of the sponsor.\<close>

datatype app_route = ReadRoute api_route | StreamRoute | SponsorshipStatus | SponsorshipSubmit

fun app_url :: "app_route \<Rightarrow> string" where
  "app_url (ReadRoute rt) = route_url rt"
| "app_url StreamRoute = ''/stream''"
| "app_url SponsorshipStatus = ''/sponsorship/status''"
| "app_url SponsorshipSubmit = ''/sponsorship/transactions''"

record request =
  rq_route :: app_route
  rq_param :: string
  rq_query :: jsval
  rq_key :: api_key_header
  rq_body :: jsval
  rq_ip :: string

text \<open>What the handlers of one process share: the services' world, the sponsor's Redis and what it sent, and the open
  streams.  The metrics are one store, which both worlds show.\<close>

record app =
  ap_world :: world
  ap_sponsor :: sworld
  ap_streams :: "stream list"

datatype app_reply = ReadReply api_reply | FrameworkError exn | Streaming | SponsorReply http_reply

definition submit_route :: "sdk \<Rightarrow> services \<Rightarrow> jsval \<Rightarrow> string \<Rightarrow> app \<Rightarrow> app_reply option \<times> app" where
  "submit_route lib srv body ip st =
    (case post_sponsorship_transactions lib (sv_sponsorship srv) body ip
        ((ap_sponsor st)\<lparr>sw_metrics := metrics (ap_world st)\<rparr>) of
       (reply, s) \<Rightarrow> (map_option SponsorReply reply,
          st\<lparr>ap_sponsor := s, ap_world := (ap_world st)\<lparr>metrics := sw_metrics s\<rparr>\<rparr>))"

text \<open>One request: the hook, then the handler of its route.\<close>

definition handle :: "sdk \<Rightarrow> services \<Rightarrow> request \<Rightarrow> app \<Rightarrow> app_reply option \<times> app" where
  "handle lib srv r st = (case preHandler srv (app_url (rq_route r)) (rq_key r) of
     Some reply \<Rightarrow> (Some (ReadReply reply), st)
   | None \<Rightarrow> (case rq_route r of
       ReadRoute rt \<Rightarrow> (case serve srv rt (rq_param r) (rq_query r) (ap_world st) of
           (Inr reply, w) \<Rightarrow> (Some (ReadReply reply), st\<lparr>ap_world := w\<rparr>)
         | (Inl e, w) \<Rightarrow> (Some (FrameworkError e), st\<lparr>ap_world := w\<rparr>))
     | StreamRoute \<Rightarrow> (Some Streaming, st\<lparr>ap_streams := ap_streams st @ [open_stream]\<rparr>)
     | SponsorshipStatus \<Rightarrow> (Some (SponsorReply (get_sponsorship_status (sv_sponsorship srv))), st)
     | SponsorshipSubmit \<Rightarrow> submit_route lib srv (rq_body r) (rq_ip r) st))"

end
