(* ===== verification/Read_Laws.thy ===== *)
theory Read_Laws imports Read_Api begin

text \<open>
  What the read API promises: it changes nothing, administration paths need the key, a page of
  markets is the right one (and a page after a cursor always fails), permissions and statistics are
  exactly what the tables say, the health report is always produced, and an update stream carries
  its network's updates in order until it closes.
\<close>

section \<open>Reading only\<close>

definition kept_state :: "world \<Rightarrow> db \<times> metrics \<times> state_update list \<times> bool \<times> bool \<times> bool \<times> bool" where
  "kept_state w = (db w, metrics w, bus w, indexer_running w, indexer_timer w, jobs_running w, jobs_timer w)"

lemma kept_state_tick [simp]: "kept_state (w\<lparr>tick := n\<rparr>) = kept_state w"
  by (simp add: kept_state_def)

lemma kept_state_query: "kept_state (w\<lparr>tick := n, db := db w\<rparr>) = kept_state w"
  by (simp add: kept_state_def)

lemma db_select_reads: "evolves (same kept_state) (db_select f)"
  by (rule db_select_same) simp

lemma ask_reads: "evolves (same kept_state) (ask f)"
  by (rule ask_same) simp

lemma listMarkets_reads: "evolves (same kept_state) (listMarkets dr limit cursor st cr co)"
  unfolding listMarkets_def
  by (rule db_query_same) (auto simp: kept_state_query split: sum.splits)

lemma settled_reads: "evolves (same kept_state) m \<Longrightarrow> evolves (same kept_state) (settled m)"
  unfolding settled_def evolves_def by (metis (no_types, lifting) case_prod_beta snd_conv)

lemmas reads = same.evolves_rules db_select_reads ask_reads listMarkets_reads settled_reads

lemma sendJson_reads: "evolves (same kept_state) (sendJson v)"
  unfolding sendJson_def by (rule same.liftE_evolves)

lemma serve_reads: "evolves (same kept_state) (serve srv rt param query)"
  by (cases rt; simp; unfold get_health_def collectHealth_def get_metrics_def get_stats_def get_markets_def
      get_market_def get_portfolio_def get_authz_def get_resolution_def get_council_cases_def get_governance_def
      get_timelock_def getStats_def getMarketDetail_def getPortfolio_def getResolution_def getCouncilCases_def
      getAdminGovernance_def getTimelockActions_def select_rows_def now_seconds_def getHealth_def
      getLatestLedger_def ping_def Let_def; intro reads sendJson_reads)

lemma protected_routes: "needsAdminAuth (app_url rt) \<longleftrightarrow>
    rt \<in> ReadRoute ` {MetricsRoute, StatsRoute, GovernanceRoute, TimelockRoute}"
proof (cases rt)
  case (ReadRoute r)
  then show ?thesis by (cases r) (auto simp: needsAdminAuth_def)
qed (auto simp: needsAdminAuth_def)

lemma handle_read:
  assumes "rq_route r = ReadRoute rt"
  shows "kept_state (ap_world (snd (handle lib srv r st))) = kept_state (ap_world st) \<and>
    ap_sponsor (snd (handle lib srv r st)) = ap_sponsor st \<and> ap_streams (snd (handle lib srv r st)) = ap_streams st"
  using evolves_same [OF serve_reads, of srv rt "rq_param r" "rq_query r" "ap_world st"] assms
  by (auto simp: handle_def split: option.splits prod.splits sum.splits)

text \<open>C22: what a request to the application can change, for every route it registers.  Unless it submits a
  transaction to the sponsor, it leaves the database, the metrics, the bus, the state of the indexer and the jobs and
  all that the sponsor keeps alone, and only the stream route opens a stream.  A submission changes nothing but the
  metrics outside the sponsor.  A request to a protected route (metrics, statistics, governance and the timelock) whose
  key is not the configured, non-empty one is answered 401 without a single query or call.\<close>

lemma api_reads_guarded:
  fixes st :: app
  shows "(rq_route r \<noteq> SponsorshipSubmit \<longrightarrow>
      kept_state (ap_world (snd (handle lib srv r st))) = kept_state (ap_world st) \<and>
      ap_sponsor (snd (handle lib srv r st)) = ap_sponsor st \<and>
      ap_streams (snd (handle lib srv r st)) = ap_streams st @ (if rq_route r = StreamRoute then [open_stream] else [])) \<and>
    (rq_route r = SponsorshipSubmit \<longrightarrow>
      (\<exists>ms. ap_world (snd (handle lib srv r st)) = (ap_world st)\<lparr>metrics := ms\<rparr>) \<and>
      ap_streams (snd (handle lib srv r st)) = ap_streams st) \<and>
    (rq_route r \<in> ReadRoute ` {MetricsRoute, StatsRoute, GovernanceRoute, TimelockRoute} \<and>
        \<not> (\<exists>k. k \<noteq> [] \<and> ADMIN_API_KEY (sv_env srv) = Some k \<and> normalizedKey (rq_key r) = Some k) \<longrightarrow>
      handle lib srv r st = (Some (ReadReply (Reply 401 (JObj [(''error'', JStr ''admin api key required'')]))), st))"
proof (intro conjI impI)
  assume "rq_route r \<noteq> SponsorshipSubmit"
  then have "kept_state (ap_world (snd (handle lib srv r st))) = kept_state (ap_world st) \<and>
      ap_sponsor (snd (handle lib srv r st)) = ap_sponsor st \<and>
      ap_streams (snd (handle lib srv r st)) = ap_streams st @ (if rq_route r = StreamRoute then [open_stream] else [])"
    using handle_read [of r _ lib srv st]
    by (cases "rq_route r") (auto simp: handle_def preHandler_def needsAdminAuth_def)
  then show "kept_state (ap_world (snd (handle lib srv r st))) = kept_state (ap_world st)"
    "ap_sponsor (snd (handle lib srv r st)) = ap_sponsor st"
    "ap_streams (snd (handle lib srv r st)) = ap_streams st @ (if rq_route r = StreamRoute then [open_stream] else [])"
    by simp_all
next
  assume "rq_route r = SponsorshipSubmit"
  then show "\<exists>ms. ap_world (snd (handle lib srv r st)) = (ap_world st)\<lparr>metrics := ms\<rparr>"
    "ap_streams (snd (handle lib srv r st)) = ap_streams st"
    by (auto simp: handle_def preHandler_def needsAdminAuth_def submit_route_def split: prod.split)
next
  assume "rq_route r \<in> ReadRoute ` {MetricsRoute, StatsRoute, GovernanceRoute, TimelockRoute} \<and>
    \<not> (\<exists>k. k \<noteq> [] \<and> ADMIN_API_KEY (sv_env srv) = Some k \<and> normalizedKey (rq_key r) = Some k)"
  then show "handle lib srv r st = (Some (ReadReply (Reply 401 (JObj [(''error'', JStr ''admin api key required'')]))), st)"
    using protected_routes by (auto simp: handle_def preHandler_def matchesAdminKey_def split: option.splits)
qed

section \<open>Pages of markets\<close>

lemma resolve_status: "resolve_column [''markets'', ''pools''] ''status'' = Inr ''markets''"
  "resolve_column [''markets'', ''pools''] ''creator'' = Inr ''markets''"
  "resolve_column [''markets'', ''pools''] ''collateral'' = Inr ''markets''"
  "resolve_column [''markets'', ''pools''] ''market_id'' =
     Inl (Error (''column reference \"'' @ ''market_id'' @ ''\" is ambiguous''))"
  by (simp_all add: resolve_column_def table_columns_def market_cols_def pool_cols_def)

definition matches_filter :: "string option \<Rightarrow> string \<Rightarrow> row \<Rightarrow> bool" where
  "matches_filter v c m \<longleftrightarrow> (\<forall>s. v = Some s \<and> s \<noteq> [] \<longrightarrow> m c = Some s)"

definition in_filters :: "string option \<Rightarrow> string option \<Rightarrow> string option \<Rightarrow> row \<Rightarrow> bool" where
  "in_filters st cr co m \<longleftrightarrow> matches_filter st ''status'' m \<and> matches_filter cr ''creator'' m \<and>
     matches_filter co ''collateral'' m"

lemma resolve_all_append: "resolve_all (cs @ ds) = (case resolve_all cs of Inl e \<Rightarrow> Inl e
   | Inr rs \<Rightarrow> (case resolve_all ds of Inl e \<Rightarrow> Inl e | Inr qs \<Rightarrow> Inr (rs @ qs)))"
  by (induction cs) (auto split: sum.splits)

lemma resolve_opt_text:
  assumes "resolve_column [''markets'', ''pools''] c = Inr ''markets''"
  shows "\<exists>rs. resolve_all (opt_text v c) = Inr rs \<and>
    (\<forall>m p. list_all (\<lambda>(cond, t). holds_in (m, p) cond t) rs \<longleftrightarrow> matches_filter v c m)"
  using assms by (auto simp: opt_text_def matches_filter_def holds_in_def joined_text_def split: option.splits)

lemma resolve_filters:
  "\<exists>rs. resolve_all (opt_text st ''status'' @ opt_text cr ''creator'' @ opt_text co ''collateral'') = Inr rs \<and>
    (\<forall>m p. list_all (\<lambda>(cond, t). holds_in (m, p) cond t) rs \<longleftrightarrow> in_filters st cr co m)"
  using resolve_opt_text [OF resolve_status(1), of st] resolve_opt_text [OF resolve_status(2), of cr]
    resolve_opt_text [OF resolve_status(3), of co]
  by (auto simp: resolve_all_append in_filters_def)

lemma listMarkets_cursor:
  assumes "num_truthy n"
  shows "\<exists>e. listMarkets dr limit (Some n) st cr co w = (Inl e, w\<lparr>tick := Suc (tick w)\<rparr>) \<and>
    (db_fault_at w (tick w) = NoFault \<longrightarrow>
       e = Error (''column reference \"'' @ ''market_id'' @ ''\" is ambiguous''))"
  using resolve_filters [of st cr co] assms
  by (auto simp: listMarkets_def market_conditions_def resolve_all_append resolve_status db_query_def Let_def
      append_assoc [symmetric] simp del: append_assoc split: db_fault.splits)

lemma take_sorted_desc:
  assumes "sorted_wrt (\<lambda>a b. f b \<le> (f a :: int)) xs" "x \<in> set xs"
  shows "x \<in> set (take k xs) \<or> length (take k xs) = k \<and> (\<forall>y \<in> set (take k xs). f x \<le> f y)"
proof (cases "x \<in> set (take k xs)")
  case False
  have "set xs = set (take k xs) \<union> set (drop k xs)"
    by (metis append_take_drop_id set_append)
  then have x: "x \<in> set (drop k xs)" using assms(2) False by blast
  have "sorted_wrt (\<lambda>a b. f b \<le> f a) (take k xs @ drop k xs)" using assms(1) by simp
  then have "\<forall>y \<in> set (take k xs). f x \<le> f y" using x unfolding sorted_wrt_append by blast
  moreover have "length (take k xs) = k" using x by (cases "k \<le> length xs") auto
  ultimately show ?thesis by blast
qed simp

lemma order_desc_sorted: "sorted_wrt (\<lambda>a b. int_col c b \<le> int_col c a) (order_desc c rows)"
  unfolding order_desc_def sorted_wrt_rev
  using sorted_sort_key [of "int_col c" rows] by (simp add: sorted_map)

lemma set_order_desc [simp]: "set (order_desc c rows) = set rows"
  by (simp add: order_desc_def)

text \<open>C25: a page of markets is the requested number of markets with the highest identifiers among
  those that pass every filter, newest first, each joined with its pool; a market that passes and is
  missing is older than a full page.\<close>

lemma listMarkets_page:
  assumes "listMarkets dr (Fin (of_int k)) cursor st cr co w = (Inr items, w')"
  shows "\<exists>ms. items = map (\<lambda>m. market_object dr (m, pool_of (db w) m)) ms \<and> int (length ms) \<le> k \<and>
    sorted_wrt (\<lambda>a b. int_col ''market_id'' b \<le> int_col ''market_id'' a) ms \<and>
    set ms \<subseteq> {m \<in> set (table_rows ''markets'' (db w)). in_filters st cr co m} \<and>
    (\<forall>m \<in> set (table_rows ''markets'' (db w)). in_filters st cr co m \<longrightarrow>
       m \<in> set ms \<or> int (length ms) = k \<and> (\<forall>y \<in> set ms. int_col ''market_id'' m \<le> int_col ''market_id'' y))"
proof -
  let ?rows = "table_rows ''markets'' (db w)" and ?sorted = "\<lambda>ms. sorted_wrt (\<lambda>a b. int_col ''market_id'' b \<le> int_col ''market_id'' a) ms"
  have cursor: "market_conditions cursor st cr co =
      opt_text st ''status'' @ opt_text cr ''creator'' @ opt_text co ''collateral''"
    using assms listMarkets_cursor [of _ dr "Fin (of_int k)" st cr co w]
    by (fastforce simp: market_conditions_def split: option.splits)
  obtain rs where rs: "resolve_all (market_conditions cursor st cr co) = Inr rs"
    and eval: "\<And>m p. list_all (\<lambda>(c, t). holds_in (m, p) c t) rs \<longleftrightarrow> in_filters st cr co m"
    using resolve_filters [of st cr co] by (auto simp: cursor)
  define ms where "ms = filter (in_filters st cr co) (order_desc ''market_id'' ?rows)"
  have page: "filter (\<lambda>mp. list_all (\<lambda>(c, t). holds_in mp c t) rs)
      (map (\<lambda>m. (m, pool_of (db w) m)) (order_desc ''market_id'' ?rows)) = map (\<lambda>m. (m, pool_of (db w) m)) ms"
    by (simp add: ms_def filter_map comp_def eval)
  have items: "0 \<le> k \<and> items = map (\<lambda>m. market_object dr (m, pool_of (db w) m)) (take (nat k) ms)"
    using assms by (auto simp: listMarkets_def db_query_def Let_def rs market_page_def limit_rows_def page take_map
        comp_def split: db_fault.splits if_splits)
  have "?sorted ms" unfolding ms_def by (intro sorted_wrt_filter order_desc_sorted)
  then have "\<forall>m \<in> set ms. m \<in> set (take (nat k) ms) \<or> length (take (nat k) ms) = nat k \<and>
      (\<forall>y \<in> set (take (nat k) ms). int_col ''market_id'' m \<le> int_col ''market_id'' y)"
    by (intro ballI take_sorted_desc)
  moreover have "?sorted (take (nat k) ms)" using \<open>?sorted ms\<close> by (rule sorted_wrt_take)
  moreover have "set ms = {m \<in> set ?rows. in_filters st cr co m}" by (auto simp: ms_def)
  moreover have "set (take (nat k) ms) \<subseteq> set ms" by (rule set_take_subset)
  ultimately show ?thesis
    using items by (intro exI [of _ "take (nat k) ms"] conjI) auto
qed

section \<open>Cursors, health and the stream\<close>

text \<open>Every market list with a cursor other than zero fails, whatever the tables hold: the SQL
  names \<open>market_id\<close> without its table, and both joined tables have that column.\<close>

lemma cursor_pages_fail:
  assumes "js_field (JObj kvs) ''cursor'' = JStr s" "all_digits s" "digits_val s \<noteq> 0"
  shows "\<exists>e. fst (get_markets srv (JObj kvs) w) = Inl e"
proof (cases "parseMarketListQuery (JObj kvs)")
  case (Inr q)
  then have "integerValue (JStr s) ''cursor'' 0 None None = Inr (q_cursor q)"
    using assms(1) by (auto simp: parseMarketListQuery_def Let_def split: sum.splits)
  then obtain n where q: "q_cursor q = Some n" and n: "n = js_Number_of_string s" "js_isSafeInteger n"
    using assms(2) by (auto simp: integerValue_def queryScalar_def Let_def all_digits_def split: if_splits)
  have "num_truthy n"
    using n assms(2,3) safe_num_of_int [of "int (digits_val s)"] num_of_int_safe [of "int (digits_val s)"]
    by (simp add: num_truthy_def Number_digits)
  then show ?thesis
    using listMarkets_cursor [of n "sv_driver srv" "q_limit q" "q_status q" "q_creator q" "q_collateral q" w]
    by (auto simp: get_markets_def io_simps Inr q)
qed (simp add: get_markets_def io_simps)

text \<open>C28: the health report is always produced, and says \<open>ok\<close> exactly when the node, the ledger,
  the database and Redis all answered.\<close>

lemma health_total:
  "\<exists>j. fst (collectHealth srv w) = Inr j \<and>
    (js_field j ''service'' = JStr ''ok'' \<longleftrightarrow>
       (\<exists>s. rpc_health w (tick w) = Inr s) \<and> (\<exists>n. rpc_ledger w (tick w + 1) = Inr n) \<and>
       db_fault_at w (tick w + 2) = NoFault \<and> sv_redisPing srv (tick w + 3) = Inr ())"
  by (auto simp: numeral_3_eq_3 collectHealth_def settled_def getHealth_def getLatestLedger_def ping_def db_select_def db_query_def
      ask_def io_simps Let_def succeeded_def split: sum.splits db_fault.splits)

definition stream_frames :: "string \<Rightarrow> stream_event \<Rightarrow> string list" where
  "stream_frames network ev = (case ev of
     Published u \<Rightarrow> if update_network u = network then [update_frame u] else []
   | HeartbeatDue \<Rightarrow> ['': ping'' @ newline @ newline] | Closed \<Rightarrow> [])"

lemma stream_step_simps [simp]:
  "subscribed s \<Longrightarrow> stream_step network (Published u) s =
     (if update_network u = network then s\<lparr>written := written s @ [update_frame u]\<rparr> else s)"
  "heartbeat s \<Longrightarrow> stream_step network HeartbeatDue s = s\<lparr>written := written s @ ['': ping'' @ newline @ newline]\<rparr>"
  "stream_step network Closed s = s\<lparr>heartbeat := False, subscribed := False\<rparr>"
  by (simp_all add: stream_step_def)

lemma closed_stream: "\<not> subscribed s \<Longrightarrow> \<not> heartbeat s \<Longrightarrow> written (fold (stream_step network) evs s) = written s"
  by (induction evs arbitrary: s) (auto simp: stream_step_def split: stream_event.splits)

lemma stream_from:
  "subscribed s \<Longrightarrow> heartbeat s \<Longrightarrow> written (fold (stream_step network) evs s) =
     written s @ concat (map (stream_frames network) (takeWhile (\<lambda>ev. ev \<noteq> Closed) evs))"
proof (induction evs arbitrary: s)
  case (Cons ev evs)
  then show ?case
    by (cases ev) (auto simp: stream_frames_def closed_stream)
qed simp

text \<open>C27: a stream carries, after its retry hint, the updates of its own network and its
  heartbeats, each once and in order, until it closes, and nothing after that.\<close>

lemma stream_delivery:
  "written (run_stream network evs) = (''retry: 2000'' @ newline @ newline) #
     concat (map (stream_frames network) (takeWhile (\<lambda>ev. ev \<noteq> Closed) evs))"
  by (simp add: run_stream_def stream_from open_stream_def)

section \<open>Permissions\<close>

definition approved_row :: "string \<Rightarrow> string \<Rightarrow> string \<Rightarrow> row \<Rightarrow> bool" where
  "approved_row network kind address r \<longleftrightarrow> r ''network'' = Some network \<and> r ''kind'' = Some kind \<and>
     (r ''approved'' = Some ''true'' \<or> r ''approved'' = Some ''t'') \<and>
     map js_toUpper (js_trim (or_else (r ''address'') [])) = address"

lemma list_row_fields [simp]:
  "js_field (row_object dr ''governance_lists'' r) ''kind'' = pg_value dr ColText (r ''kind'')"
  "js_field (row_object dr ''governance_lists'' r) ''address'' = pg_value dr ColText (r ''address'')"
  "js_field (row_object dr ''governance_lists'' r) ''approved'' = pg_value dr ColBool (r ''approved'')"
  by (simp_all add: row_object_def object_of_def table_columns_def)

lemma config_row_fields [simp]:
  "js_field (row_object dr ''governance_config'' r) ''timelock'' = pg_value dr ColText (r ''timelock'')"
  "js_field (row_object dr ''governance_config'' r) ''pause_authority'' = pg_value dr ColText (r ''pause_authority'')"
  by (simp_all add: row_object_def object_of_def table_columns_def)

lemma pg_text_eq [simp]: "pg_value dr ColText v = JStr s \<longleftrightarrow> v = Some s"
  "pg_value dr ColBool v = JBool True \<longleftrightarrow> v = Some ''true'' \<or> v = Some ''t''"
  by (cases v; auto)+

lemma normalize_text: "normalizeAddress (pg_value dr ColText v) = map js_toUpper (js_trim (or_else v []))"
  by (cases v) (simp_all add: normalizeAddress_def js_trim_def)

lemma listed_rows: "set (approved_addresses kind (map (row_object dr ''governance_lists'') rows)) =
    {map js_toUpper (js_trim (or_else (r ''address'') [])) |r. r \<in> set rows \<and>
       (r ''approved'' = Some ''true'' \<or> r ''approved'' = Some ''t'') \<and> r ''kind'' = Some kind}"
  by (auto simp: approved_addresses_def normalize_text filter_map comp_def image_def)

lemma rows_where_iff: "r \<in> set (rows_where t conds d) \<longleftrightarrow>
    r \<in> set (table_rows t d) \<and> (\<forall>(c, v) \<in> set conds. r c = Some v)"
  by (auto simp: rows_where_def list_all_iff)

lemma select_rows_Inr:
  "select_rows dr t q w = (Inr xs, w') \<Longrightarrow> xs = map (row_object dr t) (q (db w)) \<and> db w' = db w"
  by (auto simp: select_rows_def db_select_def dest!: db_query_Inr)

lemma governance_result:
  assumes "getAdminGovernance dr network w = (Inr g, w')"
  shows "g = \<lparr>gv_config = first_row (map (row_object dr ''governance_config'')
        (rows_where ''governance_config'' [(''network'', network)] (db w))),
      gv_lists = map (row_object dr ''governance_lists'') (sort_key (col_text ''kind'') (sort_key (col_text ''address'')
        (rows_where ''governance_lists'' [(''network'', network)] (db w)))),
      gv_modules = map (row_object dr ''governance_modules'') (sort_key (col_text ''role'')
        (rows_where ''governance_modules'' [(''network'', network)] (db w)))\<rparr>"
  using assms unfolding getAdminGovernance_def Let_def
  by (auto simp: bindM_eq_Inr ret_app dest!: select_rows_Inr)

lemma authz_listed:
  assumes "getAdminGovernance dr network w = (Inr g, w')"
  shows "address \<in> set (approved_addresses kind (gv_lists g)) \<longleftrightarrow>
    (\<exists>r \<in> set (table_rows ''governance_lists'' (db w)). approved_row network kind address r)"
  unfolding governance_result [OF assms]
  by (auto simp: listed_rows rows_where_iff approved_row_def)

lemma authz_admin:
  assumes "getAdminGovernance dr network w = (Inr g, w')"
  shows "address \<in> set (admin_addresses m (js_coalesce (gv_config g) (JObj []))) \<longleftrightarrow> address \<noteq> [] \<and>
      (address \<in> {normalizeAddress (JStr (m_admin m)), normalizeAddress (JStr (m_governance_authority m))} \<or>
       (\<exists>r rs c. rows_where ''governance_config'' [(''network'', network)] (db w) = r # rs \<and>
          c \<in> {''timelock'', ''pause_authority''} \<and> map js_toUpper (js_trim (col_text c r)) = address))"
proof (cases "rows_where ''governance_config'' [(''network'', network)] (db w)")
  case Nil
  then show ?thesis
    unfolding governance_result [OF assms]
    by (auto simp: admin_addresses_def first_row_def js_at_def normalizeAddress_def)
next
  case (Cons r rs)
  have "js_coalesce (gv_config g) (JObj []) = row_object dr ''governance_config'' r"
    unfolding governance_result [OF assms] by (simp add: Cons first_row_def js_at_def row_object_def)
  then show ?thesis
    by (auto simp: Cons admin_addresses_def normalize_text col_text_def)
qed

lemma sendJson_Inr: "sendJson v w = (Inr r, w') \<longleftrightarrow> w' = w \<and> (\<exists>j. stringify_normalized v = Some j \<and> r = Reply 200 j)"
  by (auto simp: sendJson_def liftE_app split: option.splits)

lemma authz_plain: "stringify_normalized (authz_json m address g) = Some (authz_json m address g)"
  by (simp add: stringify_normalized_def jsonReplacer_def authz_json_def to_json_method_def Let_def)

text \<open>C23: the permissions reported for an address are what the governance tables and the manifest
  say: creator and council rights exactly for an approved entry of that kind, administration exactly
  for the four configured addresses, and resolving for every non-empty address.\<close>

lemma authz_exact:
  assumes "get_authz srv param w = (Inr (Reply code j), w')"
  defines "m \<equiv> sv_manifest srv" and "address \<equiv> map js_toUpper (js_trim param)"
  defines "approved_as \<equiv> \<lambda>kind. \<exists>r \<in> set (table_rows ''governance_lists'' (db w)). approved_row (m_network m) kind address r"
  shows "js_field j ''canCreate'' = JBool (approved_as ''creator'') \<and>
    js_field j ''canCouncil'' = JBool (approved_as ''member'') \<and>
    js_field j ''canResolve'' = JBool (address \<noteq> []) \<and>
    (js_field j ''canAdmin'' = JBool True \<longleftrightarrow> address \<noteq> [] \<and>
      (address \<in> {normalizeAddress (JStr (m_admin m)), normalizeAddress (JStr (m_governance_authority m))} \<or>
       (\<exists>r rs c. rows_where ''governance_config'' [(''network'', m_network m)] (db w) = r # rs \<and>
          c \<in> {''timelock'', ''pause_authority''} \<and> map js_toUpper (js_trim (col_text c r)) = address)))"
proof -
  obtain g where g: "getAdminGovernance (sv_driver srv) (m_network m) w = (Inr g, w')"
    and j: "j = authz_json m address g"
    using assms(1) unfolding get_authz_def m_def address_def
    by (auto simp: normalizeAddress_def Let_def bindM_eq_Inr sendJson_Inr authz_plain)
  show ?thesis
    unfolding j authz_json_def approved_as_def
    by (simp add: Let_def authz_listed [OF g] authz_admin [OF g, of address m])
qed

section \<open>Statistics\<close>

lemma min_of_Min: "xs \<noteq> [] \<Longrightarrow> min_of f xs = Min (f ` set xs)"
proof (induction xs)
  case (Cons x xs)
  have "fold (\<lambda>x m. min (f x) m) xs a = Min (insert a (f ` set xs))" for a
  proof (induction xs arbitrary: a)
    case (Cons y ys)
    then show ?case
      by (cases "ys = []") (simp_all add: min.left_commute min.commute)
  qed simp
  then show ?case by (simp add: min_of_def)
qed simp

lemma hash_groups_hashes: "distinct (map fst (hash_groups es))" "set (map fst (hash_groups es)) = s_txHash ` set es"
proof -
  let ?hs = "sort (remdups (map s_txHash es))" and ?f = "\<lambda>h. (h, filter (\<lambda>e. s_txHash e = h) es)"
  have inj: "inj_on fst (set (map ?f ?hs))" by (auto simp: inj_on_def)
  have "distinct (hash_groups es)"
    unfolding hash_groups_def by (simp add: distinct_map inj_on_def)
  then show "distinct (map fst (hash_groups es))"
    using inj by (simp add: distinct_map hash_groups_def)
  show "set (map fst (hash_groups es)) = s_txHash ` set es"
    by (simp add: hash_groups_def image_image)
qed

lemma hash_groups_group: "(h, g) \<in> set (hash_groups es) \<Longrightarrow> g = filter (\<lambda>e. s_txHash e = h) es \<and> g \<noteq> []"
  by (auto simp: hash_groups_def filter_empty_conv)

lemma hash_groups_sorted:
  "sorted_wrt (\<lambda>a b. min_of s_ledger (snd b) \<le> min_of s_ledger (snd a)) (hash_groups es)"
  unfolding hash_groups_def sorted_wrt_rev
  using sorted_sort_key [of "\<lambda>g. min_of s_ledger (snd g)"] by (simp add: sorted_map)

definition participates :: "string \<Rightarrow> db \<Rightarrow> string \<Rightarrow> bool" where
  "participates network d a \<longleftrightarrow> a \<noteq> [] \<and>
     ((\<exists>r \<in> set (table_rows ''markets'' d). r ''network'' = Some network \<and> r ''creator'' = Some a) \<or>
      (\<exists>r \<in> set (trades d). r ''network'' = Some network \<and> r ''trader'' = Some a) \<or>
      (\<exists>r \<in> set (liquidity_events d). r ''network'' = Some network \<and> r ''lp'' = Some a) \<or>
      (\<exists>(t, c) \<in> set participant_columns. \<exists>r \<in> set (table_rows t d). r ''network'' = Some network \<and> r c = Some a))"

lemma col_text_eq: "a \<noteq> [] \<Longrightarrow> a = col_text c r \<longleftrightarrow> r c = Some a"
  by (cases "r c") (auto simp: col_text_def)

lemma set_participants: "set (participants network d) = Collect (participates network d)"
proof (rule set_eqI)
  fix a
  have own: "r \<in> set (own_rows [(''network'', network)] rows) \<longleftrightarrow> r \<in> set rows \<and> r ''network'' = Some network"
    for r rows by (auto simp: own_rows_def)
  have texts: "a \<noteq> [] \<Longrightarrow> a \<in> col_text c ` R \<longleftrightarrow> (\<exists>r \<in> R. r c = Some a)" for c R
    using col_text_eq by blast
  show "a \<in> set (participants network d) \<longleftrightarrow> a \<in> Collect (participates network d)"
  proof (cases "a = []")
    case False
    then show ?thesis
      unfolding participants_def participates_def Let_def
      by (simp add: texts own rows_where_iff conj_assoc split_beta Bex_def)
  qed (simp add: participants_def participates_def Let_def)
qed

text \<open>The statistics count every participating address once, report eighty more connected
  wallets than that, and list every transaction with stored events exactly once with its first
  ledger and its number of events.\<close>

lemma stats_complete:
  assumes "getStats dr network w = (Inr s, w')"
  defines "own \<equiv> filter (\<lambda>e. s_network e = network) (raw_events (db w))"
  shows "st_indexedWallets s = num_of_int (int (card (Collect (participates network (db w))))) \<and>
    st_connectedWallets s = js_add (st_indexedWallets s) (Fin 80) \<and>
    distinct (map ts_hash (st_transactions s)) \<and> set (map ts_hash (st_transactions s)) = s_txHash ` set own \<and>
    (\<forall>t \<in> set (st_transactions s). let es = filter (\<lambda>e. s_txHash e = ts_hash t) own in
       ts_ledger t = int_str (Min (s_ledger ` set es)) \<and> ts_eventCount t = num_of_int (int (length es)))"
proof -
  let ?stats = "\<lambda>(h, es). group_stats dr h es"
  have s: "s = \<lparr>st_connectedWallets = js_add (js_Number_of_string (nat_str (length (participants network (db w))))) (Fin 80),
      st_indexedWallets = js_Number_of_string (nat_str (length (participants network (db w)))),
      st_transactionCount = int (length (hash_groups own)), st_transactions = map ?stats (hash_groups own)\<rparr>"
    using assms(1) unfolding getStats_def own_def Let_def
    by (auto simp: bindM_eq_Inr ret_app db_select_def dest!: db_query_Inr)
  have "distinct (participants network (db w))" by (simp add: participants_def Let_def)
  then have "length (participants network (db w)) = card (Collect (participates network (db w)))"
    by (simp add: distinct_card [symmetric] set_participants)
  moreover have "map ts_hash (map ?stats gs) = map fst gs" for gs
    by (auto simp: group_stats_def)
  then have "distinct (map ts_hash (map ?stats (hash_groups own)))"
    "set (map ts_hash (map ?stats (hash_groups own))) = s_txHash ` set own"
    using hash_groups_hashes [of own] by metis+
  moreover have "ts_ledger t = int_str (Min (s_ledger ` set (filter (\<lambda>e. s_txHash e = ts_hash t) own))) \<and>
      ts_eventCount t = num_of_int (int (length (filter (\<lambda>e. s_txHash e = ts_hash t) own)))"
    if "t \<in> set (map ?stats (hash_groups own))" for t
    using that by (auto simp: group_stats_def min_of_Min Number_digits dest!: hash_groups_group)
  ultimately show ?thesis
    by (simp only: s stats.simps Let_def Number_digits all_digits_nat_str digits_val_nat_str) blast
qed

section \<open>A concrete server\<close>

definition sample_options :: service_options where
  "sample_options = \<lparr>so_enabled = False, so_network = testnet, so_passphrase = ''pass'', so_manifest = sample_manifest,
     so_feePolicy = \<lparr>baseFeeStroops = ''1'', maxTotalFeeStroops = ''2'', maxResourceFeeStroops = ''1''\<rparr>,
     so_signer = disabledSigner,
     so_quota = \<lparr>maxPerMinute = Fin 1, maxPerIpMinute = Fin 1, dailyBudgetStroops = ''1'', ttlSeconds = Fin 1\<rparr>,
     so_replayTtl = Fin 1, so_lockTtl = Fin 1, so_submitter = \<lparr>timeoutSeconds = Fin 1, pollIntervalMs = None\<rparr>\<rparr>"

definition sample_driver :: pg_driver where
  "sample_driver = \<lparr>parse_json = (\<lambda>_. JObj []), parse_time = (\<lambda>_. JDate 0), inserted_at = (\<lambda>_. 0)\<rparr>"

definition sample_server :: services where
  "sample_server = \<lparr>sv_env = sample_config\<lparr>ADMIN_API_KEY := Some ''key''\<rparr>, sv_manifest = sample_manifest,
     sv_sponsorship = sample_options, sv_driver = sample_driver, sv_redisPing = (\<lambda>_. Inr ())\<rparr>"

definition sample_row :: "(string \<times> string) list \<Rightarrow> row" where
  "sample_row cols = map_of cols"

definition sample_tables :: "string \<Rightarrow> table" where
  "sample_tables = (\<lambda>_. [])(''markets'' := [([Some ''testnet'', Some ''4''],
       sample_row [(''network'', ''testnet''), (''market_id'', ''4''), (''status'', ''Live''), (''creator'', ''GA'')]),
      ([Some ''testnet'', Some ''9''],
       sample_row [(''network'', ''testnet''), (''market_id'', ''9''), (''status'', ''Paused''), (''creator'', ''GA'')])],
     ''governance_lists'' := [([Some ''testnet'', Some ''creator'', Some ''GA''],
       sample_row [(''network'', ''testnet''), (''kind'', ''creator''), (''address'', ''GA''), (''approved'', ''true'')])])"

definition sample_store :: world where
  "sample_store = quiet_world\<lparr>db := empty_db\<lparr>tables := sample_tables\<rparr>\<rparr>"

lemma api_reads_guarded_witness:
  "\<forall>lib st. handle lib sample_server \<lparr>rq_route = ReadRoute StatsRoute, rq_param = [], rq_query = JObj [],
       rq_key = OneKey ''guess'', rq_body = JUndefined, rq_ip = ''::1''\<rparr> st =
     (Some (ReadReply (Reply 401 (JObj [(''error'', JStr ''admin api key required'')]))), st)"
proof (intro allI)
  fix lib and st :: app
  show "handle lib sample_server \<lparr>rq_route = ReadRoute StatsRoute, rq_param = [], rq_query = JObj [],
       rq_key = OneKey ''guess'', rq_body = JUndefined, rq_ip = ''::1''\<rparr> st =
     (Some (ReadReply (Reply 401 (JObj [(''error'', JStr ''admin api key required'')]))), st)"
    using api_reads_guarded [of "\<lparr>rq_route = ReadRoute StatsRoute, rq_param = [], rq_query = JObj [],
       rq_key = OneKey ''guess'', rq_body = JUndefined, rq_ip = ''::1''\<rparr>" lib sample_server st]
    by (simp add: sample_server_def normalizedKey_def)
qed

lemma cursor_pages_fail_witness:
  "\<exists>e. fst (get_markets sample_server (JObj [(''cursor'', JStr ''9'')]) sample_store) = Inl e"
  by (rule cursor_pages_fail [of _ "''9''"]) (simp, code_simp, code_simp)

lemma sample_market_page:
  "listMarkets sample_driver (Fin (of_int 1)) None (Some ''Live'') None None sample_store =
     (Inr [market_object sample_driver (snd (sample_tables ''markets'' ! 0), None)], sample_store\<lparr>tick := 1\<rparr>)"
  by (simp add: listMarkets_def db_query_def sample_store_def quiet_defs Let_def market_conditions_def opt_text_def
     resolve_status market_page_def limit_rows_def js_BigInt_of_num_def sample_tables_def table_rows_def
     order_desc_def sample_row_def holds_in_def joined_text_def pool_of_def)

lemma listMarkets_page_witness:
  "\<exists>ms. [market_object sample_driver (snd (sample_tables ''markets'' ! 0), None)] =
     map (\<lambda>m. market_object sample_driver (m, pool_of (db sample_store) m)) ms \<and> int (length ms) \<le> 1"
  using listMarkets_page [OF sample_market_page] by metis

lemma sample_authz:
  "\<exists>j w'. get_authz sample_server ''ga'' sample_store = (Inr (Reply 200 j), w')"
proof -
  have "\<exists>g w'. getAdminGovernance sample_driver ''testnet'' sample_store = (Inr g, w')"
    by (simp add: getAdminGovernance_def select_rows_def db_select_def db_query_def io_simps sample_store_def quiet_defs Let_def)
  then show ?thesis
    by (auto simp: get_authz_def io_simps Let_def sample_server_def sample_manifest_def sendJson_def authz_plain)
qed

lemma authz_exact_witness:
  "\<exists>j w'. get_authz sample_server ''ga'' sample_store = (Inr (Reply 200 j), w') \<and>
     js_field j ''canCreate'' = JBool True \<and> js_field j ''canCouncil'' = JBool False"
proof -
  obtain j w' where r: "get_authz sample_server ''ga'' sample_store = (Inr (Reply 200 j), w')"
    using sample_authz by blast
  have "map js_toUpper (js_trim ''ga'') = ''GA''" "map js_toUpper (js_trim ''GA'') = ''GA''" by code_simp+
  then show ?thesis
    using authz_exact [OF r] r
    by (simp add: sample_server_def sample_manifest_def sample_store_def sample_tables_def table_rows_def
        approved_row_def sample_row_def)
qed

definition sample_events :: world where
  "sample_events = quiet_world\<lparr>db := empty_db\<lparr>raw_events := [\<lparr>s_network = ''testnet'', s_eventId = ''e'',
     s_contractId = ''C'', s_ledger = 5, s_txHash = ''h'', s_topic = ''t'', s_topicValues = JNull, s_payload = JNull\<rparr>]\<rparr>\<rparr>"

lemma stats_complete_witness:
  "\<exists>s w'. getStats sample_driver ''testnet'' sample_events = (Inr s, w') \<and> ts_hash ` set (st_transactions s) = {''h''}"
proof -
  obtain s w' where r: "getStats sample_driver ''testnet'' sample_events = (Inr s, w')"
    by (simp add: getStats_def db_select_def db_query_def io_simps sample_events_def quiet_defs Let_def)
  show ?thesis
    using stats_complete [OF r] r by (simp add: sample_events_def)
qed

end
