(* ===== verification/Web_Market_Page.thy ===== *)
theory Web_Market_Page imports Web_Pages Read_Laws begin

text \<open>
  Application and services together: what the page of a market offers and which position it shows once the services have
  answered for it, traced back to the rows of the database.
\<close>

section \<open>The JSON of a row\<close>

definition wire :: "jsval \<Rightarrow> jsval option" where
  "wire v = json_plain (normalizeContractValue v)"

definition wired :: "(string \<times> jsval) list \<Rightarrow> (string \<times> jsval) list" where
  "wired kvs = concat (map (\<lambda>(k, v). case wire v of None \<Rightarrow> [] | Some x \<Rightarrow> [(k, x)]) kvs)"

lemma wired_simps [simp]: "wired [] = []"
  "wired ((k, v) # kvs) = (case wire v of None \<Rightarrow> [] | Some x \<Rightarrow> [(k, x)]) @ wired kvs"
  by (simp_all add: wired_def)

lemma wire_obj [simp]: "wire (JObj kvs) = Some (JObj (wired kvs))"
  by (induction kvs) (auto simp: wire_def split: option.split)

lemma wire_simps [simp]: "wire (JArr vs) = Some (JArr (map (\<lambda>v. or_else (wire v) JNull) vs))"
  "wire (JStr s) = Some (JStr s)" "wire JNull = Some JNull" "wire (JBool b) = Some (JBool b)"
  by (simp_all add: wire_def comp_def or_else_def)

lemma wired_keys: "fst ` set (wired kvs) \<subseteq> fst ` set kvs"
proof (induction kvs)
  case (Cons kv kvs)
  then show ?case by (cases kv; cases "wire (snd kv)") auto
qed simp

lemma distinct_wired: "distinct (map fst kvs) \<Longrightarrow> distinct (map fst (wired kvs))"
proof (induction kvs)
  case (Cons kv kvs)
  have "fst kv \<notin> fst ` set (wired kvs)" using wired_keys [of kvs] Cons.prems by auto
  then show ?case using Cons by (cases kv; cases "wire (snd kv)") auto
qed simp

lemma map_of_wired:
  assumes "distinct (map fst kvs)"
  shows "map_of (wired kvs) k = (case map_of kvs k of None \<Rightarrow> None | Some v \<Rightarrow> wire v)"
  using assms
proof (induction kvs)
  case (Cons kv kvs)
  have gone: "map_of (wired kvs) (fst kv) = None"
    using wired_keys [of kvs] Cons.prems by (auto simp: map_of_eq_None_iff)
  then show ?case using Cons by (cases kv) (auto split: option.split)
qed simp

lemma stringify_obj: "stringify_normalized (JObj kvs) = Some (JObj (wired kvs))"
  using wire_obj [of kvs] by (simp add: stringify_normalized_def jsonReplacer_def to_json_method_def wire_def)

lemma object_of_keys: "map fst (object_of dr cols r) = map fst cols"
  by (induction cols) (auto simp: object_of_def)

section \<open>The answer for a market\<close>

lemma detail_result:
  assumes "getMarketDetail dr network n w = (Inr d, w')"
  shows "md_market d = first_row (map (market_object dr) (market_rows network n (db w)))
    \<and> md_liquidity d = map (row_object dr ''liquidity_events'')
        (take 25 (order_desc ''ledger'' (own_rows (of_market network n) (liquidity_events (db w)))))
    \<and> clock w' = clock w"
  using assms unfolding getMarketDetail_def Let_def
  by (auto simp: bindM_eq_Inr ret_app select_rows_def db_select_def dest!: db_query_Inr)

text \<open>The columns of a market the page goes by, and the pool of its newest liquidity event.\<close>

definition row_open :: "row \<Rightarrow> js_num \<Rightarrow> bool" where
  "row_open r now \<longleftrightarrow> r ''status'' = Some ''Live'' \<and> (case r ''expiry'' of None \<Rightarrow> False
     | Some e \<Rightarrow> e \<noteq> [] \<and> num_truthy (js_Number_of_string e) \<and> js_lt now (js_Number_of_string e))"

definition newest_liquidity :: "string \<Rightarrow> js_num \<Rightarrow> db \<Rightarrow> row option" where
  "newest_liquidity network n d = (case order_desc ''ledger'' (own_rows (of_market network n) (liquidity_events d)) of
     [] \<Rightarrow> None | e # _ \<Rightarrow> Some e)"

definition row_pool :: "row \<Rightarrow> row option \<Rightarrow> string option" where
  "row_pool r newest = (case (case newest of None \<Rightarrow> r | Some e \<Rightarrow> e) ''pool_id'' of None \<Rightarrow> None
     | Some p \<Rightarrow> if p \<in> {[], ''0''} then None else Some p)"

definition status_shown :: "string option \<Rightarrow> string" where
  "status_shown s = (if or_else s [] \<in> set MARKET_STATUSES then the s else ''Created'')"

definition column_for :: "row \<Rightarrow> row option \<Rightarrow> js_num \<Rightarrow> column_view" where
  "column_for r newest now = (let pool = row_pool r newest; live = r ''status'' = Some ''Live'' in
     if row_open r now then (case pool of Some p \<Rightarrow> TradingForms p | None \<Rightarrow> NoPoolNote ''Live'')
     else if live then AwaitingClosure
     else (case pool of Some _ \<Rightarrow> EmptyColumn | None \<Rightarrow> NoPoolNote (status_shown (r ''status''))))"

section \<open>From the rows to the page\<close>

lemma js_field_wired:
  assumes "distinct (map fst kvs)"
  shows "js_field (JObj (wired kvs)) k = or_else (case map_of kvs k of None \<Rightarrow> None | Some v \<Rightarrow> wire v) JUndefined"
  using map_of_wired [OF assms, of k] by (simp add: js_field_def or_else_def split: option.split)

lemma merged_field:
  assumes "distinct (map fst kvs)" "distinct (map fst over)"
  shows "js_field (JObj (spread (wired kvs) (wired over))) k =
    (case (case map_of over k of None \<Rightarrow> None | Some v \<Rightarrow> wire v) of Some x \<Rightarrow> x
     | None \<Rightarrow> js_field (JObj (wired kvs)) k)"
proof -
  have "map_of (rev (wired over)) = map_of (wired over)" using distinct_wired [OF assms(2)]
    by (simp add: map_of_inject_set flip: rev_map)
  then show ?thesis
    using map_of_wired [OF assms(2), of k] by (simp add: js_field_def map_of_spread map_add_def split: option.split)
qed

text \<open>A market as the services send it, and as the page merges it with the newest liquidity event.\<close>

definition market_entries :: "pg_driver \<Rightarrow> row \<times> row option \<Rightarrow> js_num \<Rightarrow> (string \<times> jsval) list" where
  "market_entries dr mp now = entries_of (market_view now (market_object dr mp))"

definition liquidity_entries :: "pg_driver \<Rightarrow> row option \<Rightarrow> (string \<times> jsval) list" where
  "liquidity_entries dr newest = (case newest of None \<Rightarrow> [] | Some e \<Rightarrow> object_of dr (table_columns ''liquidity_events'') e)"

lemma market_keys: "distinct (map fst (market_entries dr mp now))"
proof -
  have "distinct (map fst (object_of dr (table_columns ''markets'') (fst mp)) @ [''yes_reserve'', ''no_reserve'', ''total_lp_shares'', ''pool_live''])"
    unfolding object_of_keys by code_simp
  then have "distinct (map fst (entries_of (market_object dr mp)))" by (simp add: market_object_def entries_of_def)
  then show ?thesis by (simp add: market_entries_def market_view_def entries_of_def spread_def distinct_set_key)
qed

lemma liquidity_keys: "distinct (map fst (liquidity_entries dr newest))"
proof -
  have "distinct (map fst (table_columns ''liquidity_events''))" by code_simp
  then show ?thesis by (simp add: liquidity_entries_def object_of_keys split: option.split)
qed

lemma pg_wire [simp]: "wire (pg_value dr ColText v) = Some (pg_value dr ColText v)"
  "wire (pg_value dr ColBigint v) = Some (pg_value dr ColBigint v)"
  by (cases v; simp)+

lemma market_entry_values:
  "map_of (market_entries dr (r, p) now) ''status'' = Some (pg_value dr ColText (r ''status''))"
  "map_of (market_entries dr (r, p) now) ''pool_id'' = Some (pg_value dr ColBigint (r ''pool_id''))"
  "map_of (market_entries dr (r, p) now) ''tradeable'' = Some (JBool (row_open r now))"
proof -
  have f: "js_field (market_object dr (r, p)) ''status'' = pg_value dr ColText (r ''status'')"
    "js_field (market_object dr (r, p)) ''expiry'' = pg_value dr ColBigint (r ''expiry'')"
    by (simp_all add: market_object_def object_of_def table_columns_def market_cols_def js_field_def)
  have "deriveTradeability (status_of (pg_value dr ColText (r ''status''))) (truthy_number (pg_value dr ColBigint (r ''expiry''))) now None
      = row_open r now"
    by (cases "r ''status''"; cases "r ''expiry''")
      (auto simp: deriveTradeability_def row_open_def status_of_def text_of_def truthy_number_def status_of_text_Some)
  then show "map_of (market_entries dr (r, p) now) ''tradeable'' = Some (JBool (row_open r now))"
    by (simp add: market_entries_def market_view_def entries_of_def spread_def f)
  show "map_of (market_entries dr (r, p) now) ''status'' = Some (pg_value dr ColText (r ''status''))"
    "map_of (market_entries dr (r, p) now) ''pool_id'' = Some (pg_value dr ColBigint (r ''pool_id''))"
    by (simp_all add: market_entries_def market_view_def entries_of_def spread_def market_object_def object_of_def
        table_columns_def market_cols_def)
qed

lemma liquidity_entry_values:
  "map_of (liquidity_entries dr newest) ''status'' = None" "map_of (liquidity_entries dr newest) ''tradeable'' = None"
  "map_of (liquidity_entries dr newest) ''pool_id'' = (case newest of None \<Rightarrow> None | Some e \<Rightarrow> Some (pg_value dr ColBigint (e ''pool_id'')))"
  by (simp_all add: liquidity_entries_def object_of_def table_columns_def liquidity_cols_def split: option.split)

text \<open>The trading column of a market that was merged so.\<close>

lemma merged_column:
  assumes "normalizeMarketData net (JObj (spread (wired (market_entries dr (r, p) now)) (wired (liquidity_entries dr newest)))) = Inr m"
  shows "trading_column m = column_for r newest now"
proof -
  define res where "res = JObj (spread (wired (market_entries dr (r, p) now)) (wired (liquidity_entries dr newest)))"
  note fields = merged_field [OF market_keys liquidity_keys] js_field_wired [OF market_keys] market_entry_values
    liquidity_entry_values
  have status: "js_field res ''status'' = pg_value dr ColText (r ''status'')"
    unfolding res_def fields by (simp add: or_else_def)
  have open_: "js_field res ''tradeable'' = JBool (row_open r now)"
    unfolding res_def fields by (simp add: or_else_def)
  have pool: "js_field res ''pool_id'' = pg_value dr ColBigint ((case newest of None \<Rightarrow> r | Some e \<Rightarrow> e) ''pool_id'')"
    unfolding res_def fields by (simp add: or_else_def split: option.split)
  have shown: "toMarketStatus (pg_value dr ColText (r ''status'')) = status_shown (r ''status'')"
    by (cases "r ''status''") (auto simp: toMarketStatus_def status_shown_def toStringValue_def js_nullish_def MARKET_STATUSES_def or_else_def)
  have live: "status_shown s = ''Live'' \<longleftrightarrow> s = Some ''Live''" for s
    by (cases s) (auto simp: status_shown_def MARKET_STATUSES_def or_else_def)
  have md: "md_tradeable m = row_open r now" "md_status m = status_shown (r ''status'')" "md_poolId m = row_pool r newest"
    using assms [folded res_def] by (auto simp: normalizeMarketData_def Let_def status open_ pool shown toBooleanValue_def row_pool_def
        toStringValue_def js_coalesce_def js_nullish_def split: sum.splits option.splits)
  have "row_open r now \<Longrightarrow> r ''status'' = Some ''Live''" by (simp add: row_open_def)
  then show ?thesis
    by (auto simp: trading_column_def market_expired_def column_for_def Let_def md live split: option.split)
qed

lemma market_reply:
  assumes "get_market srv i store = (Inr (Reply code j), w')" "parseMarketId (JStr i) = Inr n"
    and "rows_where ''markets'' (of_market (m_network (sv_manifest srv)) n) (db store) = r # rs"
  obtains t kvs where "code = 200" "j = JObj kvs" "''market'' \<in> fst ` set kvs"
    "js_field j ''market'' = JObj (wired (market_entries (sv_driver srv) (r, pool_of (db store) r) (Fin (of_int (clock store t div 1000)))))"
    "js_field j ''liquidity'' = JArr (map (\<lambda>e. JObj (wired (object_of (sv_driver srv) (table_columns ''liquidity_events'') e)))
      (take 25 (order_desc ''ledger'' (own_rows (of_market (m_network (sv_manifest srv)) n) (liquidity_events (db store))))))"
proof -
  let ?net = "m_network (sv_manifest srv)" and ?dr = "sv_driver srv"
  obtain d w1 now where d: "getMarketDetail ?dr ?net n store = (Inr d, w1)" and now: "now_seconds w1 = (Inr now, w')"
    and j: "stringify_normalized (JObj [
      (''market'', if js_nullish (md_market d) then JNull else market_view now (md_market d)),
      (''vault'', md_vault d), (''resolution'', md_resolution d), (''council'', md_council d),
      (''trades'', JArr (md_trades d)), (''liquidity'', JArr (md_liquidity d))]) = Some j" "code = 200"
    using assms(1,2) unfolding get_market_def by (auto simp: bindM_eq_Inr liftE_app sendJson_Inr)
  note result = detail_result [OF d]
  have "md_market d = market_object ?dr (r, pool_of (db store) r)"
    using result assms(3) by (simp add: market_rows_def first_row_def js_at_def market_object_def)
  then have view: "(if js_nullish (md_market d) then JNull else market_view now (md_market d)) =
      JObj (market_entries ?dr (r, pool_of (db store) r) now)"
    by (simp add: market_object_def js_nullish_def market_entries_def market_view_def entries_of_def)
  have at: "now = Fin (of_int (clock store (tick w1) div 1000))"
    using now result by (simp add: now_seconds_def ask_def)
  let ?all = "[(''market'', JObj (market_entries ?dr (r, pool_of (db store) r) now)),
      (''vault'', md_vault d), (''resolution'', md_resolution d), (''council'', md_council d),
      (''trades'', JArr (md_trades d)), (''liquidity'', JArr (md_liquidity d))]"
  have js: "j = JObj (wired ?all)" using j(1) unfolding view stringify_obj by simp
  have keys: "distinct (map fst ?all)" by simp
  have "js_field j ''market'' = JObj (wired (market_entries ?dr (r, pool_of (db store) r) now))"
    unfolding js js_field_wired [OF keys] by (simp add: or_else_def)
  moreover have "js_field j ''liquidity'' = JArr (map (\<lambda>e. JObj (wired (object_of ?dr (table_columns ''liquidity_events'') e)))
      (take 25 (order_desc ''ledger'' (own_rows (of_market ?net n) (liquidity_events (db store))))))"
    unfolding js js_field_wired [OF keys] using result by (simp add: or_else_def row_object_def)
  ultimately show thesis using that [OF j(2) js] unfolding at by simp
qed

text \<open>A browser whose next request is answered by the services from the state \<open>store\<close>.\<close>

definition market_answered :: "services \<Rightarrow> string \<Rightarrow> world \<Rightarrow> browser \<Rightarrow> bool" where
  "market_answered srv i store b = (case fst (get_market srv i store) of
     Inr (Reply code j) \<Rightarrow> w_fetch b (moves b) (HttpGet (w_services b @ ''/markets/'' @ i)) =
        Inr \<lparr>h_ok = (code = 200), h_status = code, h_json = Some j\<rparr>
   | _ \<Rightarrow> False)"

lemma fetched_market:
  assumes "market_answered srv i store b" "parseMarketId (JStr i) = Inr n"
    and "rows_where ''markets'' (of_market (m_network (sv_manifest srv)) n) (db store) = r # rs"
  obtains t where "fst (fetchMarket net i b) = (case normalizeMarketData net (JObj (spread
      (wired (market_entries (sv_driver srv) (r, pool_of (db store) r) (Fin (of_int (clock store t div 1000)))))
      (wired (liquidity_entries (sv_driver srv) (newest_liquidity (m_network (sv_manifest srv)) n (db store)))))) of
    Inl e \<Rightarrow> Inl (JsError e) | Inr m \<Rightarrow> Inr m)"
proof -
  let ?dr = "sv_driver srv" and ?newest = "newest_liquidity (m_network (sv_manifest srv)) n (db store)"
  obtain code j w' where reply: "get_market srv i store = (Inr (Reply code j), w')"
    and got: "w_fetch b (moves b) (HttpGet (w_services b @ ''/markets/'' @ i)) = Inr \<lparr>h_ok = (code = 200), h_status = code, h_json = Some j\<rparr>"
    using assms(1) by (auto simp: market_answered_def split: sum.splits api_reply.splits) (metis eq_fst_iff)
  obtain t kvs where parts: "code = 200" "j = JObj kvs" "''market'' \<in> fst ` set kvs"
    and market: "js_field j ''market'' = JObj (wired (market_entries ?dr (r, pool_of (db store) r) (Fin (of_int (clock store t div 1000)))))"
    and liquidity: "js_field j ''liquidity'' = JArr (map (\<lambda>e. JObj (wired (object_of ?dr (table_columns ''liquidity_events'') e)))
      (take 25 (order_desc ''ledger'' (own_rows (of_market (m_network (sv_manifest srv)) n) (liquidity_events (db store))))))"
    using market_reply [OF reply assms(2,3)] .
  have pool: "(case js_field j ''liquidity'' of JArr (p # ps) \<Rightarrow> p | _ \<Rightarrow> JObj []) = JObj (wired (liquidity_entries ?dr ?newest))"
    unfolding liquidity newest_liquidity_def liquidity_entries_def
    by (cases "order_desc ''ledger'' (own_rows (of_market (m_network (sv_manifest srv)) n) (liquidity_events (db store)))") simp_all
  have "js_in ''market'' j = ret True" using parts by (simp add: js_in_def)
  then show thesis using that [of t] got parts(1) pool market
    by (simp add: fetchMarket_def apiGet_def fetch_def response_json_def perform_app io_simps Let_def js_def
        spread_entries_def split: sum.splits)
qed

lemma page_shows: "fst (load_market_page net i b) = Inr (MarketShown m q) \<Longrightarrow> fst (fetchMarket net i b) = Inr m"
  by (auto simp: load_market_page_def catchM_def bindM_def ret_def split: sum.splits prod.splits web_error.splits exn.splits)

lemma page_shows_market: "fst (fetchMarket net i b) = Inr m \<Longrightarrow> \<exists>q. fst (load_market_page net i b) = Inr (MarketShown m q)"
  by (cases "fetchMarket net i b") (auto simp: load_market_page_def catchM_def bindM_def ret_def split: sum.splits prod.splits)

text \<open>C16: What the page of a market offers is what the rows of the database call for. When the services answer the
  request of the page from their database and the page shows the market, its trading column has the forms exactly when the
  market's row is Live with an expiry still ahead of the services' clock and a pool is known, the closing of the market
  when the row is Live and expired, and else the note that there is no pool or nothing; the pool is the one of the newest
  liquidity event, or the row's own when there is no such event.\<close>

lemma market_page_offers:
  assumes "market_answered srv i store b" "parseMarketId (JStr i) = Inr n"
    and "rows_where ''markets'' (of_market (m_network (sv_manifest srv)) n) (db store) = r # rs"
    and "fst (load_market_page net i b) = Inr (MarketShown m q)"
  shows "\<exists>t. trading_column m = column_for r (newest_liquidity (m_network (sv_manifest srv)) n (db store))
    (Fin (of_int (clock store t div 1000)))"
proof -
  note shown = page_shows [OF assms(4)]
  obtain t where "fst (fetchMarket net i b) = (case normalizeMarketData net (JObj (spread
      (wired (market_entries (sv_driver srv) (r, pool_of (db store) r) (Fin (of_int (clock store t div 1000)))))
      (wired (liquidity_entries (sv_driver srv) (newest_liquidity (m_network (sv_manifest srv)) n (db store)))))) of
    Inl e \<Rightarrow> Inl (JsError e) | Inr m \<Rightarrow> Inr m)"
    using fetched_market [OF assms(1-3), of net] .
  then have "normalizeMarketData net (JObj (spread
      (wired (market_entries (sv_driver srv) (r, pool_of (db store) r) (Fin (of_int (clock store t div 1000)))))
      (wired (liquidity_entries (sv_driver srv) (newest_liquidity (m_network (sv_manifest srv)) n (db store)))))) = Inr m"
    using shown by (simp split: sum.splits)
  from merged_column [OF this] show ?thesis by blast
qed

section \<open>The position beside a market\<close>

text \<open>A browser whose next request, for the portfolio of \<open>a\<close>, is answered by the services from the state \<open>store\<close>.\<close>

definition portfolio_answered :: "services \<Rightarrow> string \<Rightarrow> world \<Rightarrow> browser \<Rightarrow> bool" where
  "portfolio_answered srv a store b = (case fst (get_portfolio srv a store) of
     Inr (Reply code j) \<Rightarrow> w_fetch b (moves b) (HttpGet (w_services b @ ''/users/'' @ a @ ''/portfolio'')) =
        Inr \<lparr>h_ok = (code = 200), h_status = code, h_json = Some j\<rparr>
   | _ \<Rightarrow> False)"

text \<open>The amount in the first row that satisfies \<open>f\<close>, zero when there is none, and the position the rows of an owner give.\<close>

definition row_amount :: "(row \<Rightarrow> bool) \<Rightarrow> string \<Rightarrow> row list \<Rightarrow> string" where
  "row_amount f k rows = (case find f rows of None \<Rightarrow> ''0'' | Some r \<Rightarrow> or_else (r k) ''0'')"

definition own_table :: "string \<Rightarrow> string \<Rightarrow> string \<Rightarrow> string \<Rightarrow> db \<Rightarrow> row list" where
  "own_table network owner t key d = order_desc key (rows_where t [(''network'', network), (''owner'', owner)] d)"

definition position_in :: "string \<Rightarrow> string \<Rightarrow> string \<Rightarrow> string option \<Rightarrow> db \<Rightarrow> position_data" where
  "position_in network owner m pool d = (let
     positions = own_table network owner ''user_positions'' ''market_id'' d;
     vaults = own_table network owner ''user_vault_state'' ''market_id'' d;
     lps = own_table network owner ''lp_positions'' ''pool_id'' d;
     of_m = (\<lambda>r. or_else (r ''market_id'') ''null'' = m) in
     \<lparr>pd_yesBalance = row_amount (\<lambda>r. of_m r \<and> r ''outcome'' = Some ''Yes'') ''balance'' positions,
      pd_noBalance = row_amount (\<lambda>r. of_m r \<and> r ''outcome'' = Some ''No'') ''balance'' positions,
      pd_lpShares = (if or_else pool [] = [] then ''0''
        else row_amount (\<lambda>r. or_else (r ''pool_id'') ''null'' = or_else pool []) ''shares'' lps),
      pd_rootStakeYes = row_amount of_m ''root_stake_yes'' vaults, pd_rootStakeNo = row_amount of_m ''root_stake_no'' vaults,
      pd_deposit = row_amount of_m ''user_deposit'' vaults\<rparr>)"

definition sent_row :: "pg_driver \<Rightarrow> string \<Rightarrow> row \<Rightarrow> jsval" where
  "sent_row dr t r = JObj (wired (object_of dr (table_columns t) r))"

lemma find_map_first: "find f (map g xs) = map_option g (find (\<lambda>x. f (g x)) xs)"
  by (induction xs) auto

lemma map_of_object: "map_of (object_of dr cols r) c = map_option (\<lambda>ct. pg_value dr ct (r c)) (map_of cols c)"
  by (induction cols) (auto simp: object_of_def)

lemma sent_field:
  assumes "distinct (map fst (table_columns t))" "map_of (table_columns t) c = Some ct" "ct \<in> {ColText, ColBigint}"
  shows "js_field (sent_row dr t r) c = pg_value dr ct (r c)"
proof -
  have "distinct (map fst (object_of dr (table_columns t) r))" using assms(1) by (simp add: object_of_keys)
  from js_field_wired [OF this, of c] show ?thesis
    using assms(2,3) by (auto simp: sent_row_def map_of_object or_else_def)
qed

lemma value_text: "ct \<in> {ColText, ColBigint} \<Longrightarrow> js_String (pg_value dr ct v) = or_else v ''null''"
  "ct \<in> {ColText, ColBigint} \<Longrightarrow> pg_value dr ct v = JStr s \<longleftrightarrow> v = Some s"
  "ct \<in> {ColText, ColBigint} \<Longrightarrow> js_String (js_coalesce (pg_value dr ct v) (JStr ''0'')) = or_else v ''0''"
  by (cases v; auto simp: or_else_def js_coalesce_def js_nullish_def)+

lemma sent_text:
  assumes "\<And>r. f (sent_row dr t r) = g r" "\<And>r. js_String (js_coalesce (js_field (sent_row dr t r) k) (JStr ''0'')) = or_else (r k) ''0''"
  shows "first_text f k (map (sent_row dr t) rows) = row_amount g k rows"
proof -
  have row: "optional (sent_row dr t r) k = js_field (sent_row dr t r) k" for r
    by (simp add: sent_row_def js_nullish_def optional_def)
  show ?thesis
  proof (cases "find g rows")
    case None
    then show ?thesis using assms(1)
      by (simp add: first_text_def row_amount_def find_map_first or_else_def js_coalesce_def js_nullish_def optional_def)
  next
    case (Some r)
    then show ?thesis using assms
      by (simp add: first_text_def row_amount_def find_map_first row or_else_def [of "Some _"])
  qed
qed

lemma portfolio_tables:
  "distinct (map fst (table_columns ''user_positions''))" "distinct (map fst (table_columns ''user_vault_state''))"
  "distinct (map fst (table_columns ''lp_positions''))"
  "map_of (table_columns ''user_positions'') ''market_id'' = Some ColBigint"
  "map_of (table_columns ''user_positions'') ''outcome'' = Some ColText"
  "map_of (table_columns ''user_positions'') ''balance'' = Some ColText"
  "map_of (table_columns ''user_vault_state'') ''market_id'' = Some ColBigint"
  "map_of (table_columns ''user_vault_state'') ''root_stake_yes'' = Some ColText"
  "map_of (table_columns ''user_vault_state'') ''root_stake_no'' = Some ColText"
  "map_of (table_columns ''user_vault_state'') ''user_deposit'' = Some ColText"
  "map_of (table_columns ''lp_positions'') ''pool_id'' = Some ColBigint"
  "map_of (table_columns ''lp_positions'') ''shares'' = Some ColText"
  by code_simp+

lemmas sent_fields = sent_field [OF portfolio_tables(1,4)] sent_field [OF portfolio_tables(1,5)]
  sent_field [OF portfolio_tables(1,6)] sent_field [OF portfolio_tables(2,7)] sent_field [OF portfolio_tables(2,8)]
  sent_field [OF portfolio_tables(2,9)] sent_field [OF portfolio_tables(2,10)] sent_field [OF portfolio_tables(3,11)]
  sent_field [OF portfolio_tables(3,12)]

lemma sent_positions:
  "position_text (map (sent_row dr ''user_positions'') rows) m oc =
     row_amount (\<lambda>r. or_else (r ''market_id'') ''null'' = m \<and> r ''outcome'' = Some oc) ''balance'' rows"
proof -
  have "position_text vs m oc = first_text (\<lambda>p. js_String (js_field p ''market_id'') = m \<and> js_field p ''outcome'' = JStr oc) ''balance'' vs" for vs
    by (simp add: position_text_def first_text_def)
  then show ?thesis by (simp only:) (rule sent_text; simp add: sent_fields value_text)
qed

lemma portfolio_reply:
  assumes "get_portfolio srv a store = (Inr (Reply code j), w')" "parseAddress (JStr a) ''address'' = Inr owner"
  defines "dr \<equiv> sv_driver srv" and "network \<equiv> m_network (sv_manifest srv)"
  shows "code = 200" "js_field j ''positions'' = JArr (map (sent_row dr ''user_positions'')
      (own_table network owner ''user_positions'' ''market_id'' (db store)))"
    "js_field j ''vaultState'' = JArr (map (sent_row dr ''user_vault_state'')
      (own_table network owner ''user_vault_state'' ''market_id'' (db store)))"
    "js_field j ''lpPositions'' = JArr (map (sent_row dr ''lp_positions'')
      (own_table network owner ''lp_positions'' ''pool_id'' (db store)))" "\<not> js_nullish j"
proof -
  obtain p w1 where p: "getPortfolio dr network owner store = (Inr p, w1)"
    and j: "stringify_normalized (JObj [(''positions'', JArr (pf_positions p)), (''lpPositions'', JArr (pf_lpPositions p)),
      (''vaultState'', JArr (pf_vaultState p))]) = Some j" "code = 200"
    using assms(1,2) unfolding get_portfolio_def dr_def network_def by (auto simp: bindM_eq_Inr liftE_app sendJson_Inr)
  have rows: "pf_positions p = map (row_object dr ''user_positions'') (own_table network owner ''user_positions'' ''market_id'' (db store))"
    "pf_lpPositions p = map (row_object dr ''lp_positions'') (own_table network owner ''lp_positions'' ''pool_id'' (db store))"
    "pf_vaultState p = map (row_object dr ''user_vault_state'') (own_table network owner ''user_vault_state'' ''market_id'' (db store))"
    using p unfolding getPortfolio_def Let_def own_table_def
    by (auto simp: bindM_eq_Inr ret_app select_rows_def db_select_def dest!: db_query_Inr)
  let ?all = "[(''positions'', JArr (pf_positions p)), (''lpPositions'', JArr (pf_lpPositions p)), (''vaultState'', JArr (pf_vaultState p))]"
  have js: "j = JObj (wired ?all)" using j(1) unfolding stringify_obj by simp
  have keys: "distinct (map fst ?all)" by simp
  have sent: "or_else (wire (row_object dr t r)) JNull = sent_row dr t r" for t r
    by (simp add: row_object_def sent_row_def or_else_def)
  show "code = 200" by (rule j(2))
  show "\<not> js_nullish j" unfolding js by (simp add: js_nullish_def)
  show "js_field j ''positions'' = JArr (map (sent_row dr ''user_positions'') (own_table network owner ''user_positions'' ''market_id'' (db store)))"
    "js_field j ''vaultState'' = JArr (map (sent_row dr ''user_vault_state'') (own_table network owner ''user_vault_state'' ''market_id'' (db store)))"
    "js_field j ''lpPositions'' = JArr (map (sent_row dr ''lp_positions'') (own_table network owner ''lp_positions'' ''pool_id'' (db store)))"
    unfolding js js_field_wired [OF keys] using sent by (simp_all add: rows or_else_def [of "Some _"] comp_def)
qed

text \<open>C17: The position panel of a market shows what the database holds for the connected address.  When the services
  answer the read of the panel from their database, the balances of both outcomes, the stakes and the deposit are those of
  the rows of that owner and market (and the shares those of the owner's row for the pool), zero where there is no row
  or no amount; in particular the read does not fail.\<close>

lemma panel_shows_rows:
  assumes "portfolio_answered srv a store b" "parseAddress (JStr a) ''address'' = Inr owner"
  shows "fst (load_position m pool a b) = Inr (position_in (m_network (sv_manifest srv)) owner m pool (db store))"
proof -
  let ?dr = "sv_driver srv" and ?own = "own_table (m_network (sv_manifest srv)) owner"
  obtain code j w' where reply: "get_portfolio srv a store = (Inr (Reply code j), w')"
    and got: "w_fetch b (moves b) (HttpGet (w_services b @ ''/users/'' @ a @ ''/portfolio'')) =
      Inr \<lparr>h_ok = (code = 200), h_status = code, h_json = Some j\<rparr>"
    using assms(1) by (auto simp: portfolio_answered_def split: sum.splits api_reply.splits) (metis eq_fst_iff)
  note parts = portfolio_reply [OF reply assms(2)]
  have vault: "first_text (\<lambda>r. js_String (js_field r ''market_id'') = m) k (map (sent_row ?dr ''user_vault_state'') rows) =
      row_amount (\<lambda>r. or_else (r ''market_id'') ''null'' = m) k rows"
    if "k \<in> {''root_stake_yes'', ''root_stake_no'', ''user_deposit''}" for k rows
    using that by (intro sent_text) (auto simp: sent_fields value_text)
  have shares: "first_text (\<lambda>r. js_String (js_field r ''pool_id'') = q) ''shares'' (map (sent_row ?dr ''lp_positions'') rows) =
      row_amount (\<lambda>r. or_else (r ''pool_id'') ''null'' = q) ''shares'' rows" for q rows
    by (rule sent_text) (simp_all add: sent_fields value_text)
  have none: "first_text f k [] = ''0''" for f k
    by (simp add: first_text_def or_else_def optional_def js_coalesce_def js_nullish_def)
  show ?thesis using got parts
    by (simp add: load_position_def fetchRawPortfolio_def apiGet_def fetch_def response_json_def prop_of_def js_prop_def js_def
        js_array_def perform_app io_simps Let_def vault shares none sent_positions position_in_def)
qed

section \<open>A concrete market\<close>

definition open_row :: row where
  "open_row = sample_row [(''network'', ''testnet''), (''market_id'', ''4''), (''status'', ''Live''), (''expiry'', ''50''),
     (''pool_id'', ''7'')]"

definition open_store :: world where
  "open_store = quiet_world\<lparr>db := empty_db\<lparr>tables := (\<lambda>_. [])(''markets'' := [([Some ''testnet'', Some ''4''], open_row)])\<rparr>\<rparr>"

definition market_browser :: browser where
  "market_browser = (demo_browser JNull)\<lparr>w_fetch := (\<lambda>_ _. case fst (get_market sample_server ''4'' open_store) of
     Inr (Reply code j) \<Rightarrow> Inr \<lparr>h_ok = (code = 200), h_status = code, h_json = Some j\<rparr>
   | Inl e \<Rightarrow> Inl (JsError (Error ''unreachable'')))\<rparr>"

lemma market_number: "num_to_string (Fin 4) = ''4''"
proof -
  have "nat_str 4 = ''4''" by code_simp
  then show ?thesis using num_to_string_of_int [of 4] by (simp add: max_safe_def int_str_def)
qed

lemma open_market: "parseMarketId (JStr ''4'') = Inr (Fin 4)"
  by code_simp

lemma open_rows: "rows_where ''markets'' (of_market ''testnet'' (Fin 4)) (db open_store) = [open_row]"
  by (simp add: rows_where_def open_store_def table_rows_def open_row_def sample_row_def market_number)

lemma open_answered: "market_answered sample_server ''4'' open_store market_browser"
proof -
  have "\<exists>d w'. getMarketDetail sample_driver ''testnet'' (Fin 4) open_store = (Inr d, w')"
    by (simp add: getMarketDetail_def select_rows_def db_select_def db_query_def io_simps open_store_def quiet_defs Let_def)
  then have "\<exists>j w'. get_market sample_server ''4'' open_store = (Inr (Reply 200 j), w')"
    by (auto simp: get_market_def open_market bindM_def liftE_app Let_def sample_server_def sample_manifest_def sendJson_def
        stringify_obj now_seconds_def ask_def simp del: wired_simps)
  then show ?thesis by (auto simp: market_answered_def market_browser_def)
qed

lemma open_fetched: "\<exists>m. fst (fetchMarket ''testnet'' ''4'' market_browser) = Inr m"
proof -
  have rows: "rows_where ''markets'' (of_market (m_network (sv_manifest sample_server)) (Fin 4)) (db open_store) = [open_row]"
    by (simp add: open_rows sample_server_def sample_manifest_def)
  obtain t where got: "fst (fetchMarket ''testnet'' ''4'' market_browser) = (case normalizeMarketData ''testnet'' (JObj (spread
      (wired (market_entries (sv_driver sample_server) (open_row, pool_of (db open_store) open_row) (Fin (of_int (clock open_store t div 1000)))))
      (wired (liquidity_entries (sv_driver sample_server) (newest_liquidity (m_network (sv_manifest sample_server)) (Fin 4) (db open_store)))))) of
    Inl e \<Rightarrow> Inl (JsError e) | Inr m \<Rightarrow> Inr m)"
    using fetched_market [OF open_answered open_market rows, of "''testnet''"] .
  have none: "newest_liquidity (m_network (sv_manifest sample_server)) (Fin 4) (db open_store) = None"
    by (simp add: newest_liquidity_def own_rows_def order_desc_def open_store_def quiet_defs)
  have network: "map_of (market_entries dr (open_row, p) now) ''network'' = Some (JStr ''testnet'')" for dr p now
    by (simp add: market_entries_def market_view_def entries_of_def spread_def market_object_def object_of_def
        table_columns_def market_cols_def open_row_def sample_row_def)
  have "js_field (JObj (spread (wired (market_entries dr (open_row, p) now)) (wired (liquidity_entries dr None)))) ''network'' = JStr ''testnet''" for dr p now
    unfolding merged_field [OF market_keys liquidity_keys] js_field_wired [OF market_keys] network
    by (simp add: liquidity_entries_def or_else_def)
  then show ?thesis unfolding got none
    by (simp add: normalizeMarketData_def assertObservedNetwork_def Let_def)
qed

lemma market_page_offers_witness:
  "\<exists>m q. fst (load_market_page ''testnet'' ''4'' market_browser) = Inr (MarketShown m q) \<and> trading_column m = TradingForms ''7''"
proof -
  have rows: "rows_where ''markets'' (of_market (m_network (sv_manifest sample_server)) (Fin 4)) (db open_store) = [open_row]"
    by (simp add: open_rows sample_server_def sample_manifest_def)
  have none: "newest_liquidity (m_network (sv_manifest sample_server)) (Fin 4) (db open_store) = None"
    by (simp add: newest_liquidity_def own_rows_def order_desc_def open_store_def quiet_defs)
  have fifty: "js_Number_of_string ''50'' = Fin 50" by code_simp
  have "clock open_store t = 0" for t by (simp add: open_store_def quiet_defs)
  then have column: "column_for open_row None (Fin (of_int (clock open_store t div 1000))) = TradingForms ''7''" for t
    by (simp add: column_for_def row_open_def row_pool_def open_row_def sample_row_def fifty num_truthy_def)
  obtain m q where "fst (load_market_page ''testnet'' ''4'' market_browser) = Inr (MarketShown m q)"
    using open_fetched page_shows_market by blast
  then show ?thesis
    using market_page_offers [OF open_answered open_market rows] column unfolding none by metis
qed

section \<open>A concrete holder\<close>

definition holder :: string where
  "holder = replicate 56 CHR ''G''"

definition holder_store :: world where
  "holder_store = quiet_world\<lparr>db := empty_db\<lparr>tables := (\<lambda>_. [])(''user_positions'' :=
     [([Some ''testnet'', Some ''4'', Some holder, Some ''Yes''], sample_row [(''network'', ''testnet''), (''market_id'', ''4''),
       (''owner'', holder), (''outcome'', ''Yes''), (''balance'', ''500'')])])\<rparr>\<rparr>"

definition holder_browser :: browser where
  "holder_browser = (demo_browser JNull)\<lparr>w_fetch := (\<lambda>_ _. case fst (get_portfolio sample_server holder holder_store) of
     Inr (Reply code j) \<Rightarrow> Inr \<lparr>h_ok = (code = 200), h_status = code, h_json = Some j\<rparr>
   | Inl e \<Rightarrow> Inl (JsError (Error ''unreachable'')))\<rparr>"

lemma holder_address: "parseAddress (JStr holder) ''address'' = Inr holder"
proof -
  have "stellar_address holder" by (simp add: stellar_address_def holder_def list_all_iff is_address_char_def Let_def)
  then show ?thesis by (simp add: parseAddress_def stellar_address_upper)
qed

lemma holder_answered: "portfolio_answered sample_server holder holder_store holder_browser"
proof -
  have "\<exists>p w'. getPortfolio sample_driver ''testnet'' holder holder_store = (Inr p, w')"
    by (simp add: getPortfolio_def select_rows_def db_select_def db_query_def io_simps holder_store_def quiet_defs Let_def)
  then have "\<exists>j w'. get_portfolio sample_server holder holder_store = (Inr (Reply 200 j), w')"
    by (auto simp: get_portfolio_def holder_address bindM_def liftE_app Let_def sample_server_def sample_manifest_def
        sendJson_def stringify_obj simp del: wired_simps)
  then show ?thesis by (auto simp: portfolio_answered_def holder_browser_def)
qed

lemma panel_shows_rows_witness:
  "fst (load_position ''4'' (Some ''7'') holder holder_browser) = Inr \<lparr>pd_yesBalance = ''500'', pd_noBalance = ''0'',
     pd_lpShares = ''0'', pd_rootStakeYes = ''0'', pd_rootStakeNo = ''0'', pd_deposit = ''0''\<rparr>"
  unfolding panel_shows_rows [OF holder_answered holder_address]
  by (simp add: position_in_def own_table_def row_amount_def rows_where_def holder_store_def table_rows_def sample_row_def
      order_desc_def sample_server_def sample_manifest_def Let_def)

end
