(* ===== verification/Web_Gate.thy ===== *)
theory Web_Gate imports Web_Wallet Read_Laws begin

text \<open>
  Application and services together: what the gate of a protected section shows once the services have answered
  the question for the permissions of the connected address, and where the key of the administration goes.
\<close>

section \<open>Permissions across the interface\<close>

lemma upper_char_id: "stellar_address s \<Longrightarrow> map upper_char s = s"
  by (intro map_idI) (auto simp: stellar_address_def list_all_iff is_address_char_def upper_char_def Let_def)

lemma unreserved_upper: "is_address_char c \<Longrightarrow> unreserved c"
  by (auto simp: is_address_char_def unreserved_def is_digit_def Let_def)

lemma encode_address:
  assumes "stellar_address a"
  shows "encodeURIComponent a = a"
proof -
  have "list_all unreserved a" using assms by (auto simp: stellar_address_def list_all_iff unreserved_upper)
  then show ?thesis by (induction a) (simp_all add: encodeURIComponent_def encode_char_def Let_def)
qed

lemma authz_normalized:
  assumes "stellar_address a"
  shows "normalizeWalletPermissions (authz_json m a g) = (let creator = a \<in> set (approved_addresses ''creator'' (gv_lists g));
      member = a \<in> set (approved_addresses ''member'' (gv_lists g));
      admin = a \<in> set (admin_addresses m (js_coalesce (gv_config g) (JObj []))) in
    \<lparr>wp_address = a, wp_canCreate = creator, wp_canResolve = True, wp_canCouncil = member, wp_canAdmin = admin,
     wp_isApprovedCreator = creator, wp_isCouncilMember = member, wp_isAdmin = admin\<rparr>)"
proof -
  have "a \<noteq> []" using assms by (auto simp: stellar_address_def)
  then show ?thesis
    using upper_char_id [OF assms]
    by (simp add: normalizeWalletPermissions_def authz_json_def Let_def toBooleanValue_def str_field_def toStringValue_def)
qed

text \<open>A browser whose next request is answered by the services from the state \<open>w\<close>.\<close>

definition answered_by :: "services \<Rightarrow> string \<Rightarrow> world \<Rightarrow> browser \<Rightarrow> bool" where
  "answered_by srv a w b = (case fst (get_authz srv (encodeURIComponent a) w) of
     Inr (Reply code j) \<Rightarrow> w_fetch b (moves b) (HttpGet (w_services b @ ''/authz/'' @ encodeURIComponent a)) =
        Inr \<lparr>h_ok = (code = 200), h_status = code, h_json = Some j\<rparr>
   | _ \<Rightarrow> False)"

text \<open>The right a section asks for, as the governance tables and the manifest of the services state it.\<close>

definition entitled :: "services \<Rightarrow> world \<Rightarrow> string \<Rightarrow> permission \<Rightarrow> bool" where
  "entitled srv w a k = (let m = sv_manifest srv;
      listed = (\<lambda>kind. list_ex (approved_row (m_network m) kind a) (table_rows ''governance_lists'' (db w))) in
    case k of CanCreate \<Rightarrow> listed ''creator'' | CanCouncil \<Rightarrow> listed ''member'' | CanResolve \<Rightarrow> True
    | CanAdmin \<Rightarrow> a \<in> {normalizeAddress (JStr (m_admin m)), normalizeAddress (JStr (m_governance_authority m))} \<or>
        (case rows_where ''governance_config'' [(''network'', m_network m)] (db w) of [] \<Rightarrow> False
         | r # _ \<Rightarrow> list_ex (\<lambda>c. map js_toUpper (js_trim (col_text c r)) = a) [''timelock'', ''pause_authority'']))"

text \<open>C24: once the services have answered for the connected address, a section opens exactly for the rights that
  the governance tables and the manifest give the address, and stays closed otherwise; every connected address
  may open the sections for resolving.\<close>

lemma gate_follows_governance:
  assumes address: "stellar_address a" "wl_address w = Some a" "wl_asking w = Some a"
    and answered: "answered_by srv a store b"
  shows "section_gate k (fst (wallet_step PermissionsArrive (w, b))) =
    (if entitled srv store a k then Opened else Restricted)"
proof -
  let ?m = "sv_manifest srv"
  obtain g store' where g: "getAdminGovernance (sv_driver srv) (m_network ?m) store = (Inr g, store')"
    and got: "w_fetch b (moves b) (HttpGet (w_services b @ ''/authz/'' @ a)) =
      Inr \<lparr>h_ok = True, h_status = 200, h_json = Some (authz_json ?m a g)\<rparr>"
    using answered stellar_address_upper [OF address(1)] encode_address [OF address(1)]
    by (auto simp: answered_by_def get_authz_def normalizeAddress_def Let_def io_simps sendJson_def authz_plain
        split: sum.splits prod.splits)
  have "a \<noteq> []" using address(1) by (auto simp: stellar_address_def)
  then have gate: "section_gate k (fst (wallet_step PermissionsArrive (w, b))) =
      (if granted k (normalizeWalletPermissions (authz_json ?m a g)) then Opened else Restricted)"
    using got address encode_address [OF address(1)] authz_normalized [OF address(1), of ?m g]
    by (simp add: fetchWalletPermissions_def apiGet_def fetch_def response_json_def perform_app io_simps
        section_gate_def permissionsLoading_def Let_def)
  have "granted k (normalizeWalletPermissions (authz_json ?m a g)) = entitled srv store a k"
    using \<open>a \<noteq> []\<close>
    by (cases k) (auto simp: authz_normalized [OF address(1)] Let_def entitled_def authz_listed [OF g] list_ex_iff
        authz_admin [OF g, of a ?m] split: list.splits)
  then show ?thesis using gate by simp
qed

section \<open>The links of the navigation\<close>

text \<open>The links of \<open>components/app-shell/AppNav.tsx\<close>: a protected section is linked once its permission is granted.\<close>

definition NAV_LINKS :: "(string \<times> string \<times> permission option) list" where
  "NAV_LINKS = [(''/predictions'', ''Markets'', None), (''/review'', ''Review'', None), (''/dashboard'', ''Portfolio'', None),
     (''/create-predic'', ''Create'', None), (''/resolve'', ''Resolve'', Some CanResolve),
     (''/council'', ''Council'', Some CanCouncil), (''/admin'', ''Admin'', Some CanAdmin)]"

definition visibleLinks :: "wallet \<Rightarrow> (string \<times> string \<times> permission option) list" where
  "visibleLinks w = filter (\<lambda>(_, _, needed). case needed of None \<Rightarrow> True
     | Some k \<Rightarrow> (case wl_permissions w of None \<Rightarrow> False | Some p \<Rightarrow> granted k p)) NAV_LINKS"

text \<open>The gate of a linked section never turns a loaded wallet away, and an open section is linked.\<close>

lemma linked_section:
  assumes "(href, label, Some k) \<in> set NAV_LINKS"
  shows "section_gate k w = Opened \<Longrightarrow> (href, label, Some k) \<in> set (visibleLinks w)"
    "(href, label, Some k) \<in> set (visibleLinks w) \<Longrightarrow> section_gate k w \<noteq> Restricted"
  using assms by (auto simp: visibleLinks_def section_gate_def split: if_splits option.splits)

section \<open>A concrete answer\<close>

definition member_address :: string where
  "member_address = replicate 56 CHR ''G''"

definition member_store :: world where
  "member_store = sample_store\<lparr>db := empty_db\<lparr>tables := (\<lambda>_. [])(''governance_lists'' :=
     [([Some ''testnet'', Some ''member'', Some member_address], sample_row [(''network'', ''testnet''),
       (''kind'', ''member''), (''address'', member_address), (''approved'', ''true'')])])\<rparr>\<rparr>"

definition answered_browser :: browser where
  "answered_browser = (demo_browser JNull)\<lparr>w_fetch := (\<lambda>_ _. case fst (get_authz sample_server member_address member_store) of
     Inr (Reply code j) \<Rightarrow> Inr \<lparr>h_ok = (code = 200), h_status = code, h_json = Some j\<rparr>
   | Inl e \<Rightarrow> Inl (JsError (Error ''unreachable'')))\<rparr>"

lemma member_stellar: "stellar_address member_address"
  by (simp add: stellar_address_def member_address_def list_all_iff is_address_char_def Let_def)

lemma member_answered: "\<exists>j w'. get_authz sample_server member_address member_store = (Inr (Reply 200 j), w')"
proof -
  have "\<exists>g w'. getAdminGovernance sample_driver ''testnet'' member_store = (Inr g, w')"
    by (simp add: getAdminGovernance_def select_rows_def db_select_def db_query_def io_simps member_store_def
        sample_store_def quiet_defs Let_def)
  then show ?thesis
    by (auto simp: get_authz_def io_simps Let_def sample_server_def sample_manifest_def sendJson_def authz_plain)
qed

lemma gate_follows_governance_witness:
  "section_gate CanCouncil (fst (wallet_step PermissionsArrive
     (no_wallet\<lparr>wl_address := Some member_address, wl_asking := Some member_address\<rparr>, answered_browser))) = Opened
  \<and> section_gate CanCreate (fst (wallet_step PermissionsArrive
     (no_wallet\<lparr>wl_address := Some member_address, wl_asking := Some member_address\<rparr>, answered_browser))) = Restricted"
proof -
  have "answered_by sample_server member_address member_store answered_browser"
    using member_answered by (auto simp: answered_by_def encode_address [OF member_stellar] answered_browser_def)
  note gate = gate_follows_governance [OF member_stellar _ _ this,
    of "no_wallet\<lparr>wl_address := Some member_address, wl_asking := Some member_address\<rparr>"]
  have "entitled sample_server member_store member_address CanCouncil" "\<not> entitled sample_server member_store member_address CanCreate"
    using stellar_address_upper [OF member_stellar]
    by (simp_all add: entitled_def Let_def member_store_def sample_server_def sample_manifest_def approved_row_def
        sample_row_def table_rows_def)
  then show ?thesis using gate by simp
qed

end
