(* ===== verification/Web_Menus.thy ===== *)
theory Web_Menus imports Main begin

text \<open>
  The menus of the two navigation bars (\<open>dike-web/components/app-shell/AppNav.tsx\<close>,
  \<open>dike-web/components/LandingNavbar.tsx\<close>) as machines: where the user presses, and the two events of a press.
\<close>

section \<open>The menus\<close>

text \<open>A spot of the page: the button of the mobile menu, a link in it, the button of the dropdown, a link in it, or
  anything else.\<close>

datatype spot = MenuButton | MenuLink | DropButton | DropLink | Elsewhere

record menus =
  mn_dropdown :: bool
  mn_mobile :: bool

text \<open>\<open>handleClickOutside\<close>, listening while a menu is open.\<close>

definition pressed_landing :: "spot \<Rightarrow> menus \<Rightarrow> menus" where
  "pressed_landing s m = (if mn_dropdown m \<or> mn_mobile m then
     m\<lparr>mn_dropdown := (mn_dropdown m \<and> s \<in> {DropButton, DropLink}), mn_mobile := (mn_mobile m \<and> s = MenuLink)\<rparr> else m)"

fun clicked_landing :: "spot \<Rightarrow> menus \<Rightarrow> menus" where
  "clicked_landing MenuButton m = m\<lparr>mn_mobile := \<not> mn_mobile m\<rparr>"
| "clicked_landing MenuLink m = m\<lparr>mn_mobile := False\<rparr>"
| "clicked_landing DropButton m = m\<lparr>mn_dropdown := \<not> mn_dropdown m\<rparr>"
| "clicked_landing DropLink m = m\<lparr>mn_dropdown := False\<rparr>"
| "clicked_landing Elsewhere m = m"

definition pressed_app :: "spot \<Rightarrow> bool \<Rightarrow> bool" where
  "pressed_app s opened \<longleftrightarrow> opened \<and> s = MenuLink"

fun clicked_app :: "spot \<Rightarrow> bool \<Rightarrow> bool" where
  "clicked_app MenuButton opened = (\<not> opened)"
| "clicked_app MenuLink opened = False"
| "clicked_app s opened = opened"

text \<open>A press of the mouse is seen first by the document, then by the element; a key only by the element.\<close>

datatype gesture = Mouse spot | Key spot

fun landing_step :: "gesture \<Rightarrow> menus \<Rightarrow> menus" where
  "landing_step (Mouse s) m = clicked_landing s (pressed_landing s m)"
| "landing_step (Key s) m = clicked_landing s m"

fun app_step :: "gesture \<Rightarrow> bool \<Rightarrow> bool" where
  "app_step (Mouse s) opened = clicked_app s (pressed_app s opened)"
| "app_step (Key s) opened = clicked_app s opened"

section \<open>Opening and closing\<close>

text \<open>The button cannot close its menu with the mouse: the document closes it first, and the click opens it again.\<close>

lemma menu_button_reopens:
  "mn_mobile (fold landing_step (gs @ [Mouse MenuButton]) m)" "fold app_step (gs @ [Mouse MenuButton]) opened"
  by (simp_all add: pressed_landing_def pressed_app_def)

text \<open>The button of the dropdown, which lies inside what the document spares, does close it; and at most one menu is
  open whatever is pressed with the mouse.\<close>

lemma dropdown_toggles: "mn_dropdown (landing_step (Mouse DropButton) m) \<longleftrightarrow> \<not> mn_dropdown m"
  by (simp add: pressed_landing_def)

lemma one_menu_open: "\<not> (mn_dropdown (fold landing_step (map Mouse ss) \<lparr>mn_dropdown = False, mn_mobile = False\<rparr>)
    \<and> mn_mobile (fold landing_step (map Mouse ss) \<lparr>mn_dropdown = False, mn_mobile = False\<rparr>))"
proof (induction ss rule: rev_induct)
  case (snoc s ss)
  then show ?case by (cases s) (auto simp: pressed_landing_def)
qed simp

end
