(* ===== verification/Pg_Session.thy ===== *)
theory Pg_Session imports World "HOL-Library.List_Lexorder" "HOL-Library.Char_ord" begin

text \<open>
  One client of the PostgreSQL pool: what its session sees, the transaction it is in, the advisory
  lock it holds, and the connection faults it meets.  On it, the transaction wrapper
  \<open>withTransaction\<close> of \<open>db/repositories/state-repository.ts\<close> with its atomicity.

  A failed statement aborts the open transaction: later statements are refused until it ends, and
  \<open>COMMIT\<close> then rolls back without an error.  A request to the server may be lost, or take effect
  without its answer arriving.
\<close>

section \<open>Sessions\<close>

datatype 's tx = Idle | Open 's | Aborted 's

record 's session =
  visible :: 's
  transaction :: "'s tx"
  requests :: nat
  fault_at :: "nat \<Rightarrow> db_fault"
  locks :: nat
  releases :: nat

type_synonym ('s, 'a) client = "(exn, 's session, 'a) io"

text \<open>What other sessions see.\<close>

definition tx_start :: "'s session \<Rightarrow> 's option" where
  "tx_start s = (case transaction s of Idle \<Rightarrow> None | Open v \<Rightarrow> Some v | Aborted v \<Rightarrow> Some v)"

definition committed :: "'s session \<Rightarrow> 's" where
  "committed s = or_else (tx_start s) (visible s)"

definition requested :: "'s session \<Rightarrow> 's session" where
  "requested s = s\<lparr>requests := Suc (requests s)\<rparr>"

definition abort_tx :: "'s session \<Rightarrow> 's session" where
  "abort_tx s = (case transaction s of Open v \<Rightarrow> s\<lparr>transaction := Aborted v, visible := v\<rparr> | _ \<Rightarrow> s)"

definition statement :: "('s \<Rightarrow> exn + 'a \<times> 's) \<Rightarrow> ('s, 'a) client" where
  "statement f = (\<lambda>s. let s' = requested s in
     case fault_at s (requests s) of Lost m \<Rightarrow> (Inl (Error m), s')
     | flt \<Rightarrow> (case transaction s of
         Aborted v \<Rightarrow> (Inl (Error ''current transaction is aborted, commands ignored until end of transaction block''), s')
       | _ \<Rightarrow> (case f (visible s) of Inl e \<Rightarrow> (Inl e, abort_tx s')
           | Inr (a, v) \<Rightarrow> (case flt of Unacknowledged m \<Rightarrow> Inl (Error m) | _ \<Rightarrow> Inr a, s'\<lparr>visible := v\<rparr>))))"

text \<open>Requests that act on the session itself: transaction control, advisory locks, connecting.\<close>

definition control :: "('s session \<Rightarrow> 's session) \<Rightarrow> ('s, unit) client" where
  "control f = (\<lambda>s. let s' = requested s in
     case fault_at s (requests s) of Lost m \<Rightarrow> (Inl (Error m), s')
     | Unacknowledged m \<Rightarrow> (Inl (Error m), f s')
     | NoFault \<Rightarrow> (Inr (), f s'))"

definition begin_tx :: "('s, unit) client" where
  "begin_tx = control (\<lambda>s. case transaction s of Idle \<Rightarrow> s\<lparr>transaction := Open (visible s)\<rparr> | _ \<Rightarrow> s)"

definition commit_tx :: "('s, unit) client" where
  "commit_tx = control (\<lambda>s. case transaction s of Aborted v \<Rightarrow> s\<lparr>transaction := Idle, visible := v\<rparr>
     | _ \<Rightarrow> s\<lparr>transaction := Idle\<rparr>)"

definition rollback_tx :: "('s, unit) client" where
  "rollback_tx = control (\<lambda>s. case tx_start s of None \<Rightarrow> s | Some v \<Rightarrow> s\<lparr>transaction := Idle, visible := v\<rparr>)"

definition connect_client :: "('s, unit) client" where
  "connect_client = control (\<lambda>s. s)"

definition release_client :: "('s, unit) client" where
  "release_client = modifyM (\<lambda>s. s\<lparr>releases := Suc (releases s)\<rparr>)"

text \<open>\<open>try { m } finally { k }\<close>: an error of the finalizer replaces the outcome.\<close>

definition finallyM :: "('e, 'w, 'a) io \<Rightarrow> ('e, 'w, unit) io \<Rightarrow> ('e, 'w, 'a) io" where
  "finallyM m k = (\<lambda>w. case m w of (r, w1) \<Rightarrow>
     (case k w1 of (Inl e, w2) \<Rightarrow> (Inl e, w2) | (Inr u, w2) \<Rightarrow> (r, w2)))"

section \<open>Transactions\<close>

text \<open>Run, commit, and on any error roll back and pass the error on.\<close>

definition or_rollback :: "('s, 'a) client \<Rightarrow> ('s, 'a) client" where
  "or_rollback m = catchM m (\<lambda>e. thenM rollback_tx (throw e))"

definition committing :: "('s, 'a) client \<Rightarrow> ('s, 'a) client" where
  "committing m = bindM m (\<lambda>r. thenM commit_tx (ret r))"

definition withTransaction :: "('s, 'a) client \<Rightarrow> ('s, 'a) client" where
  "withTransaction handler = thenM connect_client
     (finallyM (or_rollback (thenM begin_tx (committing handler))) release_client)"

text \<open>A program that runs statements only stays in the transaction it was started in.\<close>

lemma statement_confined: "evolves (same tx_start) (statement f)"
  by (rule evolvesI) (auto simp: statement_def same_def tx_start_def requested_def abort_tx_def Let_def
      split: db_fault.splits tx.splits sum.splits)

lemma requested_simps [simp]: "visible (requested s) = visible s" "transaction (requested s) = transaction s"
  "requests (requested s) = Suc (requests s)" "fault_at (requested s) = fault_at s" "locks (requested s) = locks s"
  "releases (requested s) = releases s" "tx_start (requested s) = tx_start s" "committed (requested s) = committed s"
  by (simp_all add: requested_def tx_start_def committed_def)

lemma rollback_committed: "committed (snd (rollback_tx s)) = committed s"
  by (auto simp: rollback_tx_def control_def committed_def tx_start_def Let_def split: db_fault.splits tx.splits)

lemma commit_committed:
  "commit_tx s = (r, s') \<Longrightarrow> committed s' = committed s \<or>
    (committed s' = visible s \<and> (r = Inr () \<or> (\<exists>m. fault_at s (requests s) = Unacknowledged m)))"
  by (auto simp: commit_tx_def control_def committed_def tx_start_def Let_def split: db_fault.splits tx.splits)

lemma commit_Inr:
  "commit_tx s = (Inr u, s') \<Longrightarrow> transaction s' = Idle \<and>
    visible s' = (case transaction s of Aborted v \<Rightarrow> v | _ \<Rightarrow> visible s)"
  by (auto simp: commit_tx_def control_def Let_def split: db_fault.splits tx.splits)

lemma or_rollback_result:
  "or_rollback m s = (r, s') \<Longrightarrow> (\<exists>a. r = Inr a \<and> m s = (Inr a, s')) \<or>
    (\<exists>e e' s1. r = Inl e' \<and> m s = (Inl e, s1) \<and> committed s' = committed s1)"
proof -
  assume m: "or_rollback m s = (r, s')"
  obtain r1 s1 where r1: "m s = (r1, s1)" by fastforce
  obtain r2 s2 where r2: "rollback_tx s1 = (r2, s2)" by fastforce
  show ?thesis
    using m r1 r2 rollback_committed [of s1]
    by (cases r1; cases r2) (auto simp: or_rollback_def io_simps)
qed

lemma committing_open:
  assumes "evolves (same tx_start) m" "transaction s = Open v" "committing m s = (r, s')"
  shows "case r of
     Inr a \<Rightarrow> \<exists>s1. m s = (Inr a, s1) \<and> transaction s' = Idle \<and>
       visible s' = (case transaction s1 of Aborted v \<Rightarrow> v | _ \<Rightarrow> visible s1)
   | Inl e \<Rightarrow> committed s' = v \<or> (\<exists>a s1 f. m s = (Inr a, s1) \<and> committed s' = visible s1 \<and>
       fault_at s1 (requests s1) = Unacknowledged f)"
proof -
  obtain r1 s1 where m: "m s = (r1, s1)" by fastforce
  have start: "committed s1 = v"
    using evolves_same [OF assms(1), of s] m assms(2) by (simp add: committed_def tx_start_def)
  show ?thesis
  proof (cases r1)
    case (Inr a)
    obtain r2 s2 where c: "commit_tx s1 = (r2, s2)" by fastforce
    then show ?thesis
      using assms(3) m Inr start commit_committed [OF c] commit_Inr [of s1 "()" s2]
      by (cases r2) (auto simp: committing_def io_simps)
  qed (use assms(3) m start in \<open>auto simp: committing_def io_simps\<close>)
qed

text \<open>The possible ends of a transaction started from \<open>v\<close> whose body runs from \<open>s0\<close>.\<close>

definition atomic_end :: "('s, 'a) client \<Rightarrow> 's session \<Rightarrow> 's \<Rightarrow> (exn + 'a) \<Rightarrow> 's session \<Rightarrow> bool" where
  "atomic_end body s0 v r s' = (case r of
     Inr a \<Rightarrow> \<exists>s1. body s0 = (Inr a, s1) \<and> transaction s' = Idle \<and>
       visible s' = (case transaction s1 of Aborted u \<Rightarrow> u | _ \<Rightarrow> visible s1)
   | Inl e \<Rightarrow> committed s' = v \<or> (\<exists>a s1 f. body s0 = (Inr a, s1) \<and> committed s' = visible s1 \<and>
       fault_at s1 (requests s1) = Unacknowledged f))"

lemma atomic_end_rollback:
  assumes "atomic_end body s0 v r1 s1" "r1 = Inl e" "rollback_tx s1 = (r2, s2)"
  shows "atomic_end body s0 v (Inl e2) s2"
  using assms rollback_committed [of s1] by (simp add: atomic_end_def)

lemma committing_atomic:
  assumes "evolves (same tx_start) body" "transaction s0 = Open v"
    and "or_rollback (committing body) s0 = (r, s')"
  shows "atomic_end body s0 v r s'"
proof -
  obtain r1 s1 where r1: "committing body s0 = (r1, s1)" by fastforce
  have "atomic_end body s0 v r1 s1"
    using committing_open [OF assms(1,2) r1] by (simp add: atomic_end_def)
  then show ?thesis
    using or_rollback_result [OF assms(3)] r1 by (auto simp: atomic_end_def split: sum.splits)
qed

lemma begin_tx_cases:
  assumes "transaction s = Idle" "begin_tx s = (r, s1)"
  shows "r = Inr () \<and> s1 = (requested s)\<lparr>transaction := Open (visible s)\<rparr> \<or> (\<exists>e. r = Inl e \<and> committed s1 = visible s)"
  using assms by (auto simp: begin_tx_def control_def committed_def tx_start_def Let_def split: db_fault.splits)

lemma begin_atomic:
  assumes "evolves (same tx_start) body" "transaction s = Idle"
    and "or_rollback (thenM begin_tx (committing body)) s = (r, s')"
  shows "atomic_end body ((requested s)\<lparr>transaction := Open (visible s)\<rparr>) (visible s) r s'"
proof -
  obtain r1 s1 where b: "begin_tx s = (r1, s1)" by fastforce
  show ?thesis
  proof (cases r1)
    case (Inl e)
    then have "committed s1 = visible s" using begin_tx_cases [OF assms(2) b] by auto
    then show ?thesis
      using assms(3) b Inl rollback_committed [of s1]
      by (auto simp: or_rollback_def io_simps atomic_end_def split: prod.splits sum.splits)
  next
    case (Inr u)
    then have "or_rollback (committing body) s1 = (r, s')"
      using assms(3) b by (simp add: or_rollback_def io_simps)
    moreover have "s1 = (requested s)\<lparr>transaction := Open (visible s)\<rparr>"
      using begin_tx_cases [OF assms(2) b] Inr by auto
    ultimately show ?thesis
      using committing_atomic [OF assms(1), of s1 "visible s" r s'] by simp
  qed
qed

text \<open>The client goes back to the pool once.\<close>

lemma control_releases: "(\<And>s. releases (f s) = releases s) \<Longrightarrow> evolves (same releases) (control f)"
  by (rule evolvesI) (auto simp: control_def same_def Let_def split: db_fault.splits)

lemma statement_releases: "evolves (same releases) (statement f)"
  by (rule evolvesI) (auto simp: statement_def same_def abort_tx_def Let_def split: db_fault.splits tx.splits sum.splits)

lemma tx_releases: "evolves (same releases) begin_tx" "evolves (same releases) commit_tx" "evolves (same releases) rollback_tx"
  unfolding begin_tx_def commit_tx_def rollback_tx_def
  by (rule control_releases; simp split: tx.splits option.splits)+

lemma or_rollback_releases: "evolves (same releases) m \<Longrightarrow> evolves (same releases) (or_rollback m)"
  unfolding or_rollback_def by (intro same.evolves_rules tx_releases)

lemma committing_releases: "evolves (same releases) m \<Longrightarrow> evolves (same releases) (committing m)"
  unfolding committing_def by (intro same.evolves_rules tx_releases)

lemma finally_release:
  "finallyM m release_client s = (r, s') \<longleftrightarrow> (\<exists>s1. m s = (r, s1) \<and> s' = s1\<lparr>releases := Suc (releases s1)\<rparr>)"
  by (auto simp: finallyM_def release_client_def io_simps split: prod.splits)

lemma committed_released [simp]: "committed (s\<lparr>releases := n\<rparr>) = committed s"
  by (simp add: committed_def tx_start_def)

text \<open>A transaction either reports success and leaves exactly what its handler's statements made
  visible (nothing, when one of them had failed and the handler went on), or reports an error and
  leaves what was there before, except that a \<open>COMMIT\<close> whose acknowledgement was lost took effect;
  a client that was obtained goes back to the pool exactly once.\<close>

lemma withTransaction_atomic:
  assumes "evolves (same tx_start) handler" "evolves (same releases) handler" "transaction s = Idle"
    and "withTransaction handler s = (r, s')"
  shows "atomic_end handler ((requested (requested s))\<lparr>transaction := Open (visible s)\<rparr>) (visible s) r s' \<and>
    releases s' = releases s + (if fault_at s (requests s) = NoFault then 1 else 0)"
proof (cases "fault_at s (requests s)")
  case NoFault
  then have c: "connect_client s = (Inr (), requested s)" by (simp add: connect_client_def control_def)
  then obtain s1 where m: "or_rollback (thenM begin_tx (committing handler)) (requested s) = (r, s1)"
    and s': "s' = s1\<lparr>releases := Suc (releases s1)\<rparr>"
    using assms(4) by (auto simp: withTransaction_def thenM_app finally_release)
  have "releases s1 = releases s"
    using evolves_same [OF or_rollback_releases [OF same.thenM_evolves [OF tx_releases(1) committing_releases [OF assms(2)]]],
        of "requested s"] m by simp
  moreover have "atomic_end handler ((requested (requested s))\<lparr>transaction := Open (visible s)\<rparr>) (visible s) r s1"
    using begin_atomic [OF assms(1) _ m] assms(3) by simp
  ultimately show ?thesis
    using NoFault by (auto simp: s' atomic_end_def split: sum.splits)
qed (use assms(3,4) in \<open>auto simp: withTransaction_def connect_client_def control_def thenM_app atomic_end_def
      committed_def tx_start_def\<close>)

lemma withTransaction_atomic_witness:
  "\<exists>s'. withTransaction (statement (\<lambda>v. Inr ((), v + 1))) \<lparr>visible = 1 :: int, transaction = Idle, requests = 0,
     fault_at = (\<lambda>n. if n = 3 then Unacknowledged ''gone'' else NoFault), locks = 0, releases = 0\<rparr> =
     (Inl (Error ''gone''), s') \<and> releases s' = 1"
proof -
  let ?s = "\<lparr>visible = 1 :: int, transaction = Idle, requests = 0,
     fault_at = (\<lambda>n. if n = 3 then Unacknowledged ''gone'' else NoFault), locks = 0, releases = 0\<rparr>"
  obtain r s' where run: "withTransaction (statement (\<lambda>v. Inr ((), v + 1))) ?s = (r, s')" by fastforce
  then have "r = Inl (Error ''gone'')"
    by (simp add: withTransaction_def connect_client_def begin_tx_def commit_tx_def rollback_tx_def or_rollback_def
      committing_def release_client_def control_def statement_def requested_def finallyM_def io_simps tx_start_def Let_def)
  then show ?thesis
    using withTransaction_atomic [OF statement_confined statement_releases _ run] run by simp
qed

end
