(* ===== verification/Migrations.thy ===== *)
theory Migrations imports Pg_Session begin

text \<open>
  \<open>db/migrations.ts\<close>: the SQL migrations under the advisory lock.  The database is the table of
  recorded names and a schema of any type; the effect of a file's SQL text on the schema, the
  directory listing and the file contents are parameters.
\<close>

section \<open>Running migrations\<close>

record 'd catalog =
  names :: "string list option"
  schema :: 'd

record 'd migration_source =
  listing :: "exn + string list"
  contents :: "string \<Rightarrow> exn + string"
  execute_sql :: "string \<Rightarrow> 'd \<Rightarrow> exn + 'd"

type_synonym 'd migrating = "(exn, 'd catalog session, unit) io"

definition advisory_lock :: "'d migrating" where
  "advisory_lock = control (\<lambda>s. s\<lparr>locks := Suc (locks s)\<rparr>)"

definition unlock :: "'d migrating" where
  "unlock = control (\<lambda>s. s\<lparr>locks := locks s - 1\<rparr>)"

definition create_names :: "'d migrating" where
  "create_names = statement (\<lambda>c. Inr ((), c\<lparr>names := Some (or_else (names c) [])\<rparr>))"

definition is_applied :: "string \<Rightarrow> (exn, 'd catalog session, bool) io" where
  "is_applied file = statement (\<lambda>c. Inr (file \<in> set (or_else (names c) []), c))"

definition run_sql :: "'d migration_source \<Rightarrow> string \<Rightarrow> 'd migrating" where
  "run_sql src sql = statement (\<lambda>c. case execute_sql src sql (schema c) of
     Inl e \<Rightarrow> Inl e | Inr d \<Rightarrow> Inr ((), c\<lparr>schema := d\<rparr>))"

text \<open>\<open>INSERT ... ON CONFLICT (name) DO NOTHING\<close>\<close>

definition record_name :: "string \<Rightarrow> 'd migrating" where
  "record_name file = statement (\<lambda>c. Inr ((), c\<lparr>names := Some (let ns = or_else (names c) [] in
     if file \<in> set ns then ns else ns @ [file])\<rparr>))"

definition apply_file :: "'d migration_source \<Rightarrow> string \<Rightarrow> 'd migrating" where
  "apply_file src file = bindM (is_applied file) (\<lambda>applied.
     if applied then ret ()
     else bindM (liftE (contents src file)) (\<lambda>sql.
       thenM begin_tx (or_rollback (committing (thenM (run_sql src sql) (record_name file))))))"

definition ends_with :: "string \<Rightarrow> string \<Rightarrow> bool" where
  "ends_with suffix s \<longleftrightarrow> length suffix \<le> length s \<and> drop (length s - length suffix) s = suffix"

definition migration_files :: "string list \<Rightarrow> string list" where
  "migration_files files = sort (filter (ends_with ''.sql'') files)"

definition migrate :: "'d migration_source \<Rightarrow> 'd migrating" where
  "migrate src = thenM create_names (bindM (liftE (listing src)) (\<lambda>files. forM (migration_files files) (apply_file src)))"

definition runMigrations :: "'d migration_source \<Rightarrow> 'd migrating" where
  "runMigrations src = thenM connect_client
     (finallyM (thenM advisory_lock (finallyM (migrate src) unlock)) release_client)"

section \<open>What a database went through\<close>

text \<open>The schema the recorded files build, each run once in the order of recording.\<close>

primrec replayed :: "'d migration_source \<Rightarrow> 'd \<Rightarrow> string list \<Rightarrow> 'd option" where
  "replayed src d [] = Some d"
| "replayed src d (f # fs) = (case contents src f of Inl e \<Rightarrow> None
     | Inr sql \<Rightarrow> (case execute_sql src sql d of Inl e \<Rightarrow> None | Inr d' \<Rightarrow> replayed src d' fs))"

definition faithful :: "'d migration_source \<Rightarrow> 'd \<Rightarrow> 'd catalog \<Rightarrow> bool" where
  "faithful src d0 c \<longleftrightarrow> distinct (or_else (names c) []) \<and> replayed src d0 (or_else (names c) []) = Some (schema c)"

lemma replayed_snoc: "replayed src d0 fs = Some d \<Longrightarrow> contents src f = Inr sql \<Longrightarrow> execute_sql src sql d = Inr d' \<Longrightarrow>
    replayed src d0 (fs @ [f]) = Some d'"
  by (induction fs arbitrary: d0) (auto split: sum.splits)

lemma statement_idle:
  assumes "transaction s = Idle" "statement f s = (r, s')"
  shows "transaction s' = Idle \<and> (visible s' = visible s \<or> (\<exists>a. f (visible s) = Inr (a, visible s'))) \<and>
    (\<forall>a. r = Inr a \<longrightarrow> f (visible s) = Inr (a, visible s'))"
  using assms by (auto simp: statement_def abort_tx_def Let_def split: db_fault.splits sum.splits prod.splits)

lemma statement_Inr:
  "statement f s = (Inr a, s') \<Longrightarrow> f (visible s) = Inr (a, visible s') \<and> transaction s' = transaction s \<and>
     (\<forall>v. transaction s \<noteq> Aborted v)"
  by (auto simp: statement_def Let_def split: db_fault.splits sum.splits prod.splits tx.splits)

lemma body_result:
  assumes "thenM (run_sql src sql) (record_name file) s = (Inr u, s1)" "transaction s = Open v" "visible s = v"
    "faithful src d0 v" "file \<notin> set (or_else (names v) [])" "contents src file = Inr sql"
  shows "transaction s1 = Open v \<and> faithful src d0 (visible s1) \<and>
    or_else (names (visible s1)) [] = or_else (names v) [] @ [file]"
proof -
  obtain s2 where q: "run_sql src sql s = (Inr (), s2)" and n: "record_name file s2 = (Inr (), s1)"
    using assms(1) by (auto simp: thenM_eq_Inr)
  obtain d where d: "execute_sql src sql (schema v) = Inr d" and v2: "visible s2 = v\<lparr>schema := d\<rparr>"
    and t2: "transaction s2 = Open v"
    using statement_Inr [OF q [unfolded run_sql_def]] assms(2,3) by (auto split: sum.splits)
  have "visible s1 = v\<lparr>schema := d, names := Some (or_else (names v) [] @ [file])\<rparr>" "transaction s1 = Open v"
    using statement_Inr [OF n [unfolded record_name_def]] v2 t2 assms(5) by (auto simp: Let_def)
  then show ?thesis
    using assms(4-6) d by (simp add: faithful_def replayed_snoc)
qed

lemma body_confined: "evolves (same tx_start) (thenM (run_sql src sql) (record_name file))"
  unfolding run_sql_def record_name_def by (intro same.evolves_rules statement_confined)

definition keeps_record :: "'d migration_source \<Rightarrow> 'd \<Rightarrow> 'd catalog \<Rightarrow> 'd catalog \<Rightarrow> bool" where
  "keeps_record src d0 c c' \<longleftrightarrow> faithful src d0 c' \<and> set (or_else (names c) []) \<subseteq> set (or_else (names c') [])"

lemma committed_idle: "transaction s = Idle \<Longrightarrow> committed s = visible s"
  by (simp add: committed_def tx_start_def)

text \<open>One file: whatever fails, what is committed stays faithful, and a success records the file.\<close>

lemma apply_new_file:
  assumes "transaction s = Idle" "faithful src d0 (visible s)" "file \<notin> set (or_else (names (visible s)) [])"
    "contents src file = Inr sql"
    "thenM begin_tx (or_rollback (committing (thenM (run_sql src sql) (record_name file)))) s = (r, s')"
  shows "keeps_record src d0 (visible s) (committed s') \<and>
    (r = Inr () \<longrightarrow> transaction s' = Idle \<and> file \<in> set (or_else (names (visible s')) []))"
proof -
  let ?body = "thenM (run_sql src sql) (record_name file)"
  let ?s2 = "(requested s)\<lparr>transaction := Open (visible s)\<rparr>"
  have body: "?body ?s2 = (Inr u, s1) \<Longrightarrow> transaction s1 = Open (visible s) \<and>
      keeps_record src d0 (visible s) (visible s1) \<and> file \<in> set (or_else (names (visible s1)) [])" for u s1
    using body_result [where s = ?s2 and v = "visible s"] assms(2-4) by (auto simp: keeps_record_def)
  obtain r2 s2 where b: "begin_tx s = (r2, s2)" by fastforce
  have begun: "r2 = Inr () \<and> s2 = ?s2 \<or> (\<exists>e. r2 = Inl e \<and> committed s2 = visible s)"
    by (rule begin_tx_cases [OF assms(1) b])
  show ?thesis
  proof (cases r2)
    case Inl
    then show ?thesis using begun b assms(2,5) by (auto simp: thenM_app keeps_record_def)
  next
    case Inr
    then have "or_rollback (committing ?body) ?s2 = (r, s')" using begun b assms(5) by (simp add: thenM_app)
    then have "atomic_end ?body ?s2 (visible s) r s'"
      by (intro committing_atomic body_confined) simp_all
    then show ?thesis
      using body assms(2) by (fastforce simp: atomic_end_def keeps_record_def committed_idle split: sum.splits)
  qed
qed

lemma apply_file_faithful:
  assumes "transaction s = Idle" "faithful src d0 (visible s)" "apply_file src file s = (r, s')"
  shows "keeps_record src d0 (visible s) (committed s') \<and>
    (r = Inr () \<longrightarrow> transaction s' = Idle \<and> file \<in> set (or_else (names (visible s')) []))"
proof -
  obtain r1 s1 where q: "is_applied file s = (r1, s1)" by fastforce
  have idle: "transaction s1 = Idle" and same: "visible s1 = visible s"
    and ans: "\<And>b. r1 = Inr b \<Longrightarrow> b \<longleftrightarrow> file \<in> set (or_else (names (visible s)) [])"
    using statement_idle [OF assms(1) q [unfolded is_applied_def]] by auto
  have kept: "keeps_record src d0 (visible s) (committed s1)"
    using assms(2) by (simp add: committed_idle [OF idle] same keeps_record_def)
  consider (new) sql where "contents src file = Inr sql" "r1 = Inr False"
    | e where "r = Inl e" "s' = s1" | "r = Inr ()" "s' = s1" "r1 = Inr True"
    using assms(3) q by (cases r1; cases "contents src file") (auto simp: apply_file_def bindM_app liftE_app ret_app
        split: if_splits)
  then show ?thesis
  proof cases
    case (new sql)
    then have "thenM begin_tx (or_rollback (committing (thenM (run_sql src sql) (record_name file)))) s1 = (r, s')"
      using assms(3) q by (simp add: apply_file_def bindM_app liftE_app)
    moreover have "file \<notin> set (or_else (names (visible s)) [])" using ans [of False] new by simp
    ultimately show ?thesis
      using apply_new_file [where s = s1, OF idle] same new assms(2) by auto
  qed (use kept ans idle same in auto)
qed

text \<open>All files.\<close>

lemma keeps_record_trans: "keeps_record src d0 c c' \<Longrightarrow> keeps_record src d0 c' c'' \<Longrightarrow> keeps_record src d0 c c''"
  by (auto simp: keeps_record_def)

lemma apply_files_faithful:
  "transaction s = Idle \<Longrightarrow> faithful src d0 (visible s) \<Longrightarrow> forM files (apply_file src) s = (r, s') \<Longrightarrow>
    keeps_record src d0 (visible s) (committed s') \<and>
    (r = Inr () \<longrightarrow> transaction s' = Idle \<and> set files \<subseteq> set (or_else (names (visible s')) []))"
proof (induction files arbitrary: s)
  case Nil
  then show ?case by (auto simp: ret_app keeps_record_def committed_idle)
next
  case (Cons f files)
  obtain r1 s1 where f: "apply_file src f s = (r1, s1)" by fastforce
  note one = apply_file_faithful [OF Cons.prems(1,2) f]
  show ?case
  proof (cases r1)
    case (Inl e)
    then have "r = Inl e" "s' = s1" using Cons.prems(3) f by (auto simp: thenM_app)
    then show ?thesis using one Inl by simp
  next
    case (Inr u)
    then have run: "forM files (apply_file src) s1 = (r, s')" using Cons.prems(3) f by (simp add: thenM_app)
    have s1: "transaction s1 = Idle" "committed s1 = visible s1" "faithful src d0 (visible s1)"
      using one Inr by (auto simp: keeps_record_def committed_idle)
    note rest = Cons.IH [OF s1(1,3) run]
    have "keeps_record src d0 (visible s) (committed s')"
      using one rest s1(2) by (auto intro: keeps_record_trans)
    moreover have "f \<in> set (or_else (names (visible s')) [])" if "r = Inr ()"
      using rest one Inr that s1(2) by (auto simp: keeps_record_def committed_idle)
    ultimately show ?thesis using rest by auto
  qed
qed

lemma finally_control:
  assumes "finallyM m (control f) s = (r, s')" "\<And>s. committed (f s) = committed s" "\<And>s. transaction (f s) = transaction s"
    "\<And>s. visible (f s) = visible s"
  shows "\<exists>r1 s1. m s = (r1, s1) \<and> committed s' = committed s1 \<and> transaction s' = transaction s1 \<and>
    visible s' = visible s1 \<and> (r = Inr a \<longrightarrow> r1 = Inr a)"
  using assms by (auto simp: finallyM_def control_def Let_def split: prod.splits db_fault.splits)

lemma lock_committed [simp]: "committed (s\<lparr>locks := n\<rparr>) = committed s"
  by (simp add: committed_def tx_start_def)

lemma migrate_faithful:
  assumes "transaction s = Idle" "faithful src d0 (visible s)" "migrate src s = (r, s')"
  shows "keeps_record src d0 (visible s) (committed s') \<and> (r = Inr () \<longrightarrow> transaction s' = Idle \<and>
    (\<exists>files. listing src = Inr files \<and> set (migration_files files) \<subseteq> set (or_else (names (visible s')) [])))"
proof -
  obtain r1 s1 where c: "create_names s = (r1, s1)" by fastforce
  have idle: "transaction s1 = Idle" and same: "or_else (names (visible s1)) [] = or_else (names (visible s)) []"
    "schema (visible s1) = schema (visible s)"
    using statement_idle [OF assms(1) c [unfolded create_names_def]] by (auto simp: eq_commute [of _ "visible s1"])
  then have f1: "faithful src d0 (visible s1)" using assms(2) by (simp add: faithful_def)
  have kept: "keeps_record src d0 (visible s) (visible s1)" using f1 same by (simp add: keeps_record_def)
  show ?thesis
  proof (cases "\<exists>files. r1 = Inr () \<and> listing src = Inr files")
    case True
    then obtain files where files: "listing src = Inr files" "r1 = Inr ()" by blast
    then have "forM (migration_files files) (apply_file src) s1 = (r, s')"
      using assms(3) c by (simp add: migrate_def thenM_app bindM_app liftE_app)
    then show ?thesis
      using apply_files_faithful [OF idle f1] kept files(1) by (blast intro: keeps_record_trans)
  next
    case False
    then have "s' = s1 \<and> r \<noteq> Inr ()"
      using assms(3) c by (cases r1; cases "listing src") (auto simp: migrate_def thenM_app bindM_app liftE_app)
    then show ?thesis using kept idle by (simp add: committed_idle)
  qed
qed

text \<open>The whole run.\<close>

lemma control_committed:
  assumes "control f s = (r, s')" "\<And>s. committed (f s) = committed s" "\<And>s. transaction (f s) = transaction s"
    "\<And>s. visible (f s) = visible s"
  shows "committed s' = committed s \<and> transaction s' = transaction s \<and> visible s' = visible s"
  using assms by (auto simp: control_def Let_def split: db_fault.splits)

lemma run_parts:
  assumes "runMigrations src s = (r, s')"
  shows "(r \<noteq> Inr () \<and> committed s' = committed s) \<or>
    (\<exists>s1 r2 s2. committed s1 = committed s \<and> transaction s1 = transaction s \<and> visible s1 = visible s \<and>
       migrate src s1 = (r2, s2) \<and> committed s' = committed s2 \<and> transaction s' = transaction s2 \<and>
       visible s' = visible s2 \<and> (r = Inr () \<longrightarrow> r2 = Inr ()))"
proof -
  obtain r0 s0 where c: "connect_client s = (r0, s0)" by fastforce
  have s0: "committed s0 = committed s" "transaction s0 = transaction s" "visible s0 = visible s"
    using control_committed [OF c [unfolded connect_client_def]] by simp_all
  show ?thesis
  proof (cases r0)
    case (Inr u)
    then obtain s3 where m: "thenM advisory_lock (finallyM (migrate src) unlock) s0 = (r, s3)"
      and s': "s' = s3\<lparr>releases := Suc (releases s3)\<rparr>"
      using assms c by (auto simp: runMigrations_def thenM_app finally_release)
    obtain r1 s1 where l: "advisory_lock s0 = (r1, s1)" by fastforce
    have s1: "committed s1 = committed s0" "transaction s1 = transaction s0" "visible s1 = visible s0"
      using control_committed [OF l [unfolded advisory_lock_def]] by simp_all
    show ?thesis
    proof (cases r1)
      case (Inr u)
      then have f: "finallyM (migrate src) unlock s1 = (r, s3)" using m l by (simp add: thenM_app)
      show ?thesis
        using finally_control [OF f [unfolded unlock_def], of "()"] s0 s1 by (auto simp: s')
    qed (use m l s0 s1 s' in \<open>auto simp: thenM_app\<close>)
  qed (use assms c s0 in \<open>auto simp: runMigrations_def thenM_app\<close>)
qed

lemma run_keeps_record:
  assumes "transaction s = Idle" "faithful src d0 (visible s)" "runMigrations src s = (r, s')"
  shows "keeps_record src d0 (visible s) (committed s') \<and> (r = Inr () \<longrightarrow> transaction s' = Idle \<and>
    (\<exists>files. listing src = Inr files \<and> set (migration_files files) \<subseteq> set (or_else (names (visible s')) [])))"
  using run_parts [OF assms(3)]
proof (elim disjE exE conjE)
  assume "r \<noteq> Inr ()" "committed s' = committed s"
  then show ?thesis using assms(1,2) by (simp add: committed_idle keeps_record_def)
next
  fix s1 r2 s2
  assume *: "transaction s1 = transaction s" "visible s1 = visible s" "migrate src s1 = (r2, s2)"
    "committed s' = committed s2" "transaction s' = transaction s2" "visible s' = visible s2" "r = Inr () \<longrightarrow> r2 = Inr ()"
  then show ?thesis using migrate_faithful [of s1 src d0 r2 s2] assms(1,2) by simp
qed

lemma recorded_files_skipped:
  assumes "transaction s = Idle" "set files \<subseteq> set (or_else (names (visible s)) [])"
    "forM files (apply_file src) s = (r, s')"
  shows "transaction s' = Idle \<and> visible s' = visible s"
  using assms
proof (induction files arbitrary: s)
  case (Cons f files)
  obtain r1 s1 where q: "is_applied f s = (r1, s1)" by fastforce
  have s1: "transaction s1 = Idle" "visible s1 = visible s" "\<And>b. r1 = Inr b \<Longrightarrow> b"
    using statement_idle [OF Cons.prems(1) q [unfolded is_applied_def]] Cons.prems(2) by auto
  then have "apply_file src f s = (map_sum id (\<lambda>_. ()) r1, s1)"
    using q by (cases r1) (auto simp: apply_file_def bindM_app ret_app)
  then show ?case
    using Cons.IH [OF s1(1)] Cons.prems(2,3) s1 by (cases r1) (auto simp: thenM_app)
qed (simp add: ret_app)

lemma migrate_again:
  assumes "transaction s = Idle" "listing src = Inr files"
    "set (migration_files files) \<subseteq> set (or_else (names (visible s)) [])" "migrate src s = (r, s')"
  shows "transaction s' = Idle \<and> or_else (names (visible s')) [] = or_else (names (visible s)) [] \<and>
    schema (visible s') = schema (visible s)"
proof -
  obtain r1 s1 where c: "create_names s = (r1, s1)" by fastforce
  have s1: "transaction s1 = Idle" "or_else (names (visible s1)) [] = or_else (names (visible s)) []"
    "schema (visible s1) = schema (visible s)"
    using statement_idle [OF assms(1) c [unfolded create_names_def]] by (auto simp: eq_commute [of _ "visible s1"])
  show ?thesis
  proof (cases r1)
    case (Inr u)
    then have "forM (migration_files files) (apply_file src) s1 = (r, s')"
      using assms(2,4) c by (simp add: migrate_def thenM_app bindM_app liftE_app)
    then show ?thesis using recorded_files_skipped [OF s1(1)] assms(3) s1 by simp
  qed (use assms(4) c s1 in \<open>auto simp: migrate_def thenM_app\<close>)
qed

text \<open>The lock and the client.\<close>

definition held :: "'s session \<Rightarrow> nat \<times> nat \<times> (nat \<Rightarrow> db_fault)" where
  "held s = (locks s, releases s, fault_at s)"

lemma statement_held: "evolves (same held) (statement f)"
  by (rule evolvesI) (auto simp: statement_def same_def held_def abort_tx_def Let_def
      split: db_fault.splits tx.splits sum.splits)

lemma control_held: "(\<And>s. held (f s) = held s) \<Longrightarrow> evolves (same held) (control f)"
  by (rule evolvesI) (auto simp: control_def same_def held_def Let_def split: db_fault.splits)

lemma tx_held: "evolves (same held) begin_tx" "evolves (same held) commit_tx" "evolves (same held) rollback_tx"
  unfolding begin_tx_def commit_tx_def rollback_tx_def
  by (rule control_held; simp add: held_def split: tx.splits option.splits)+

lemma migrate_held: "evolves (same held) (migrate src)"
  unfolding migrate_def create_names_def apply_file_def is_applied_def or_rollback_def committing_def
    run_sql_def record_name_def
  by (intro same.evolves_rules statement_held tx_held)

lemma run_unlocks:
  assumes "\<And>n. fault_at s n = NoFault"
  shows "locks (snd (runMigrations src s)) = locks s \<and> releases (snd (runMigrations src s)) = Suc (releases s)"
proof -
  let ?s1 = "(requested (requested s))\<lparr>locks := Suc (locks s)\<rparr>"
  obtain r2 s2 where m: "migrate src ?s1 = (r2, s2)" by fastforce
  have "locks s2 = Suc (locks s)" "releases s2 = releases s" "\<And>n. fault_at s2 n = NoFault"
    using evolves_same [OF migrate_held, of src ?s1] m assms by (simp_all add: held_def)
  then show ?thesis
    using m assms by (simp add: runMigrations_def connect_client_def advisory_lock_def unlock_def control_def
        thenM_app finallyM_def release_client_def modifyM_app Let_def)
qed

text \<open>C26: whatever fails (a request, a file, its SQL), the committed schema is exactly what the recorded
  migrations build, each run once in the order of recording, and no record is lost; a run that
  reports success has recorded every migration file and ended its transactions, and running again
  changes nothing.\<close>

lemma migrations_once:
  assumes "transaction s = Idle" "faithful src d0 (visible s)" "runMigrations src s = (r, s')"
  shows "faithful src d0 (committed s') \<and>
    set (or_else (names (visible s)) []) \<subseteq> set (or_else (names (committed s')) []) \<and>
    (r = Inr () \<longrightarrow> transaction s' = Idle \<and>
      (\<exists>files. listing src = Inr files \<and> set (migration_files files) \<subseteq> set (or_else (names (committed s')) [])) \<and>
      (\<forall>r2 s2. runMigrations src s' = (r2, s2) \<longrightarrow>
         schema (committed s2) = schema (committed s') \<and>
         or_else (names (committed s2)) [] = or_else (names (committed s')) []))"
proof -
  have "schema (committed s2) = schema (committed s') \<and> or_else (names (committed s2)) [] = or_else (names (committed s')) []"
    if again: "runMigrations src s' = (r2, s2)" and "r = Inr ()" for r2 s2
  proof -
    obtain files where idle: "transaction s' = Idle" and files: "listing src = Inr files"
      "set (migration_files files) \<subseteq> set (or_else (names (visible s')) [])"
      using run_keeps_record [OF assms] \<open>r = Inr ()\<close> by blast
    show ?thesis
      using run_parts [OF again]
    proof (elim disjE exE conjE)
      fix s1 r3 s3
      assume *: "transaction s1 = transaction s'" "visible s1 = visible s'" "migrate src s1 = (r3, s3)"
        "committed s2 = committed s3"
      have "transaction s1 = Idle" "set (migration_files files) \<subseteq> set (or_else (names (visible s1)) [])"
        using * idle files(2) by simp_all
      from migrate_again [OF this(1) files(1) this(2) *(3)] * idle show ?thesis
        by (simp add: committed_idle)
    qed simp
  qed
  moreover note run_keeps_record [OF assms]
  ultimately show ?thesis
    unfolding keeps_record_def by (metis committed_idle)
qed

text \<open>A database that has applied the first of two files, whose second one fails to parse.\<close>

definition sample_migrations :: "string list migration_source" where
  "sample_migrations = \<lparr>listing = Inr [''2.sql'', ''notes.txt'', ''1.sql''],
     contents = (\<lambda>f. Inr f),
     execute_sql = (\<lambda>sql d. if sql = ''2.sql'' then Inl (Error ''syntax error'') else Inr (d @ [sql]))\<rparr>"

definition sample_session :: "string list catalog session" where
  "sample_session = \<lparr>visible = \<lparr>names = None, schema = []\<rparr>, transaction = Idle, requests = 0,
     fault_at = (\<lambda>_. NoFault), locks = 0, releases = 0\<rparr>"

lemma sample_files: "migration_files [''2.sql'', ''notes.txt'', ''1.sql''] = [''1.sql'', ''2.sql'']"
  by code_simp

lemma migrations_once_witness:
  "\<exists>r s'. runMigrations sample_migrations sample_session = (r, s') \<and>
     faithful sample_migrations [] (committed s') \<and> ''1.sql'' \<in> set (or_else (names (committed s')) [])"
proof -
  obtain r s' where run: "runMigrations sample_migrations sample_session = (r, s')" by fastforce
  have "faithful sample_migrations [] (visible sample_session)"
    by (simp add: faithful_def sample_session_def)
  moreover have "names (committed s') = Some [''1.sql'']"
    using run by (auto simp: runMigrations_def migrate_def sample_files sample_session_def sample_migrations_def
      connect_client_def advisory_lock_def unlock_def create_names_def apply_file_def is_applied_def run_sql_def
      record_name_def begin_tx_def commit_tx_def rollback_tx_def or_rollback_def committing_def release_client_def
      control_def statement_def requested_def abort_tx_def finallyM_def io_simps committed_def tx_start_def Let_def)
  ultimately show ?thesis
    using migrations_once [OF _ _ run, of "[]"] run by (simp add: sample_session_def)
qed

end
