(* ===== verification/Spec2Isabelle.thy ===== *)
theory Spec2Isabelle
  imports Request_Validation Repository_Laws Indexer_Refinement Scheduled_Jobs Sponsor_Safety Sponsor_Sessions Web_Calendar Web_Market_Page Web_Gate Web_Menus Migrations
begin

text \<open>
  The Dike prediction market: its services and the logic of its web application.

  \<^bold>\<open>The program.\<close>  \<open>dike-services\<close> is a Node process over PostgreSQL, Redis and a Soroban RPC node.  An
  indexer polls the events of eleven contracts, stores them, and dispatches each to reconciliations that copy
  contract state into tables; scheduled jobs repeat the reconciliations for everything known; a read API serves
  the tables; a fee sponsor wraps users' signed transactions into fee bumps it pays for.  \<open>dike-web\<close> is a Next.js
  application that builds and simulates contract calls in the browser, has the wallet sign them, and submits them
  directly or through the sponsor.  The contracts themselves (\<open>dike-contracts\<close>, Rust) are outside this
  development; what they answer is arbitrary in it.

  \<^bold>\<open>How programs are modelled.\<close>  An \<open>async\<close> function is a function of an explicit world to an error or value and
  the new world (\<open>io\<close> in Prelude); \<open>await\<close>, \<open>try/catch\<close>, \<open>for\<close> and guards are its combinators.  There are three
  worlds: \<open>world\<close> (World: database, metrics, bus, flags of the services), the sponsor's world over Redis and the node
  (Sponsor_Store), and \<open>browser\<close> (Web_Transaction: the trace of what the application did).  Everything outside the
  program (database faults, RPC and contract answers, clocks, the Stellar library, wallets, HTTP answers, the URL
  parser) is a field of its world or an argument: a function of the number of external operations performed so far
  and of the request, so that answers may change from call to call in any way.  Theorems hold for all of them.
  JavaScript numbers are \<open>js_num\<close> (rationals rounded to 53 bits, infinities, NaN), BigInts are \<open>int\<close>, dynamic values
  are \<open>jsval\<close>, exceptions are the \<open>Inl\<close> side of a sum.

  \<^bold>\<open>Theories and sources.\<close>  Services, under \<open>src/dike-services/src\<close>:
  \<^item> Prelude: effects, \<open>evolves\<close> and the locale \<open>frame\<close> (a program built from the combinators stays inside any
    reflexive and transitive relation its primitives respect), association lists read as objects.
  \<^item> JS_Numbers, JS_Values: numbers, their texts and conversions; dynamic values, \<open>String\<close>, \<open>Number\<close>, JSON.
  \<^item> Domain (\<open>domain/\<close>): statuses, outcomes, prices, next actions.  Codecs (\<open>contracts/codecs.ts\<close>).
    Request_Validation (\<open>api/request-validation.ts\<close>).  Config (\<open>config/\<close>).  Metrics (\<open>observability/metrics.ts\<close>).
  \<^item> World, Repository, Repository_Laws (\<open>db/repositories/state-repository.ts\<close>): one definition per statement;
    the laws are stated as the locales \<open>checkpoint_store\<close> and \<open>event_log\<close> and discharged for the SQL.
    Read_Queries holds its read statements; Pg_Session one client session with the transaction wrapper, and
    Migrations the migration run over it (\<open>db/migrations.ts\<close>).
  \<^item> Contract_Client (\<open>contracts/client.ts\<close>), Reconciliation (\<open>jobs/reconciliation.ts\<close>, with the locale \<open>table_blind\<close>:
    reconciliations touch summary tables only), Dispatcher (\<open>indexer/dispatcher.ts\<close>, with \<open>dispatch_frame\<close>),
    Event_Source (\<open>indexer/event-source.ts\<close>), Indexer_Worker and Indexer_Safety (\<open>indexer/worker.ts\<close>),
    Indexer_Refinement (its abstract machine), Scheduled_Jobs (\<open>jobs/scheduled.ts\<close>).
  \<^item> Read_Api (\<open>api/server.ts\<close>, \<open>observability/health.ts\<close>): the guard, every handler, the update stream, the health
    report, and one request to the application with all its routes; Read_Laws: what they answer.
  \<^item> Sponsor_Policy (\<open>sponsorship/types, allowlist, fees, request\<close>), Sponsor_Validator (\<open>validator, signature,
    fee-bump, signer\<close>), Sponsor_Store (\<open>quota, replay\<close> with their Lua scripts), Sponsor_Service (\<open>submitter, service,
    factory\<close>, \<open>api/sponsorship-routes\<close>), Sponsor_Safety (the guarantees of one request), Sponsor_Sessions (any number
    of requests that take turns after every Redis command: the lock as mutual exclusion, and how it fails once a lock
    expires).

  Web application, under \<open>src/dike-web\<close>:
  \<^item> Web_Amounts (\<open>lib/stellar/scval.ts\<close>: amounts, prices, slippage), Web_Transaction (\<open>lib/stellar/transaction.ts\<close>,
    encoders), Web_Execute (\<open>lib/api/sponsorship.ts\<close>, \<open>lib/stellar/execute.ts\<close>, the signing guard of
    \<open>lib/contexts/wallet.tsx\<close>), Web_Clients (\<open>lib/contracts/clients.ts\<close>: every builder and read), Web_Data
    (\<open>lib/api/normalizers.ts\<close>, \<open>lib/portfolio/live.ts\<close>, \<open>lib/stellar/config.ts\<close>, reference links, the public proxy).

  \<^item> Web_Api (\<open>lib/api/*.ts\<close>, \<open>lib/hooks/useLiveUpdates.ts\<close>): the reads of the services.  Web_Trade and
    Web_Child_Trade (\<open>features/trading/TradeForm.tsx\<close>, \<open>ChildTradeForm.tsx\<close>): the forms as machines over their React
    state, driven by inputs, timers and answers in any order; answers are kept under keys (the locale \<open>keyed\<close>, interpreted
    for the three kinds of keys).  Web_Panels and Web_Panel_Laws (the panels for liquidity, redemption, resolution,
    council votes, closing, fees and the timelock; the locale \<open>untouched\<close> for the parts of the browser a run leaves
    alone).  Web_Wallet (\<open>lib/contexts/wallet.tsx\<close>, \<open>components/auth/SectionGate.tsx\<close>), Web_Gate (the gate together with
    the services that answer it, and the links of \<open>components/app-shell/AppNav.tsx\<close>), Web_Create and Web_Calendar
    (\<open>app/(app)/create-predic/page.tsx\<close>: the form, and the picker of its expiry over an arbitrary time zone).
  \<^item> Web_Dashboard (\<open>app/(app)/dashboard/page.tsx\<close>, \<open>features/portfolio/PositionCard.tsx\<close>,
    \<open>features/trading/UserPositionPanel.tsx\<close>): the portfolio page and the position panel as machines over their state.
    Web_Pages (the pages \<open>markets/[marketId]\<close>, \<open>predictions\<close>, \<open>resolve\<close>, \<open>council\<close>, \<open>admin\<close> and \<open>stats\<close> of
    \<open>app/(app)\<close>, with their cards, filters and displays): what each reads and decides to show.  Web_Market_Page
    follows a market and the position of a user from the rows of the database through the answers of the services to the
    page.  Web_Menus (the menus of \<open>components/app-shell/AppNav.tsx\<close> and \<open>components/LandingNavbar.tsx\<close>).

  \<^bold>\<open>What the theorems show.\<close>
  \<^item> Indexing, under what is documented of \<open>getEvents\<close> (\<open>serves\<close> in Event_Source: the end of a window is exclusive, one
    call scans a limited number of ledgers, the window is within it) and every database and RPC fault: after any number of
    ticks each event between the base ledger and a checkpoint is stored, but for events of the ledgers at which a
    checkpoint stood; a complete poll returns exactly the events of a range that starts after the checkpoint and reaches
    the ledger before the new one, or the new one when pages were full; the ticks refine an abstract index that says the
    same.  Under no assumption: dispatching an event twice adds nothing; a tick never throws and respects the lease.
  \<^item> Storage: upserts write one row, only whitelisted columns, and are idempotent; fee claims add up once each.
  \<^item> Reads: no request but a submission to the sponsor changes anything, a submission changes only metrics outside the
    sponsor, and administration needs the key; pages, permissions and the health report are
    exact; a stream delivers its network's updates in order; migrations are applied once each.
  \<^item> Sponsoring: at most one fee bump per request, only after every check, the lock and the quota; a request
    that runs while another holds a live lock leaves it and sends nothing; interleaved sessions exclude each other while
    none outlives its lock; recorded successes are replayed; the reserve script is all-or-nothing; polling ends.
  \<^item> Inputs and configuration: accepted parameters, environments, requests and transactions are within their bounds.
  \<^item> Web: one submission per execution, of what was signed and in the mode the services report; the wallet signs only
    after its checks; every builder's call is on the sponsor's list; amounts survive formatting.
  \<^item> Forms: an order is placed only on a quote that was read for exactly its inputs, a sale and a credit purchase only
    within what was read for them, whatever arrives when; a redemption is signed only for a freshly read and confirmed
    amount; a connected wallet reported the application's network, and the session keeps its address unless a restoration
    was answered late; a section opens exactly for the rights the governance
    tables give; the resolution panel is compared with the services' next actions at every status and time.
  \<^item> Pages: the portfolio page shows only positions that were read for the connected address, in whatever order answers,
    pushed updates and redemptions come; the trading column of a market page is what the market's row, its expiry on the
    services' clock and its pool call for, and the position beside it what the database holds for the user; the calendar keeps the picked day and time.
  \<^item> Divergences: the events of the last ledger of a window are passed over (Indexer_Safety); prices of services and application are mirrored; the council commitment is lost in its text form; a
    failed submission overwrites what was recorded; a second page of markets fails; permissions that cannot be read once
    are never asked again; a late refresh for an earlier address leaves the portfolio loading; a late restoration of the
    wallet forgets a newer connection; an encoded slash passes the protection of the public proxy (Web_Data).

  \<^bold>\<open>Bounds and fuel.\<close>  Event paging reads at most 100 pages, as the code does.  The confirmation loop of the sponsor
  runs on fuel computed from its deadline; \<open>submit_returns\<close> shows that the fuel is enough whenever the deadline is
  finite, since each round sleeps at least a millisecond.  The application's loops (60 polls, two retries) are
  recursion on the attempts that are left.

  \<^bold>\<open>Simplifications.\<close>  \<open>Promise.all\<close> runs its parts in order.  One process of each kind runs; the interleaving of several
  is modelled where the code depends on it (leases, locks, another session's faults, the sessions of Sponsor_Sessions).  Texts are sequences of 8-bit
  characters.  There is no negative zero.  \<open>created_at\<close> and \<open>updated_at\<close> are left out.  Column types and defaults
  of the migrations are the parameters \<open>schema_ok\<close> and \<open>col_default\<close>.  Redis and the process read one clock.  A replay record
  is stored as a value instead of its JSON text.  Log lines are left out.  Serial numbers
  of rows are left out.  A form renders after every event; an answer arrives in one step, in which its reads are
  made (a wallet answers each wait of \<open>connect\<close> and of the restoration on its own, in any order); transitions are awaited.

  \<^bold>\<open>Not modelled.\<close>  The layout of the React components, pages and cards, the landing page and the interface components
  without state, the forwarding of the event stream (\<open>app/api/stream\<close>), the generated contract bindings, the Rust contracts, the SQL texts of the migrations, pool construction, the logger,
  process wiring, and Fastify's routing, CORS and rate limit: they are user interface, generated code, code in
  another language or pure input and output.
\<close>

end
